(* ===== verification/Go_Prelude.thy ===== *)
theory Go_Prelude
  imports
    Main
    "HOL-Library.AList"
    "HOL-Library.Char_ord"
    "HOL-Library.List_Lexorder"
begin

text \<open>
  What every component shares: the parts of Go's language and standard library that the
  plugin uses, as executable definitions.
  Strings are byte lists (HOL's \<open>char\<close> is a byte), compared bytewise as Go compares them
  (the lexicographic order of \<open>List_Lexorder\<close>).  A Go map is an association list; the order
  of the list is the iteration order, and the properties say where it does not matter.
  Times are nanoseconds since the Unix epoch.  A pointer that may be nil is an \<open>option\<close>.
\<close>

named_theorems gomap_simps \<open>lookups in updated, deleted and filtered maps\<close>
named_theorems trim_simps \<open>facts on the trimming functions of package strings\<close>

section \<open>Maps\<close>

type_synonym ('k, 'v) gomap = "('k \<times> 'v) list"

abbreviation mget :: "('k, 'v) gomap \<Rightarrow> 'k \<Rightarrow> 'v option" where
  "mget m k \<equiv> map_of m k"

abbreviation mput :: "'k \<Rightarrow> 'v \<Rightarrow> ('k, 'v) gomap \<Rightarrow> ('k, 'v) gomap" where
  "mput k v m \<equiv> AList.update k v m"

abbreviation mdel :: "'k \<Rightarrow> ('k, 'v) gomap \<Rightarrow> ('k, 'v) gomap" where
  "mdel k m \<equiv> AList.delete k m"

definition mhas :: "('k, 'v) gomap \<Rightarrow> 'k \<Rightarrow> bool" where
  "mhas m k = (mget m k \<noteq> None)"

text \<open>Reading a missing key gives the zero value of the element type.\<close>

definition mgetz :: "'v \<Rightarrow> ('k, 'v) gomap \<Rightarrow> 'k \<Rightarrow> 'v" where
  "mgetz z m k = (case mget m k of None \<Rightarrow> z | Some v \<Rightarrow> v)"

abbreviation mbool :: "('k, bool) gomap \<Rightarrow> 'k \<Rightarrow> bool" where
  "mbool m k \<equiv> mgetz False m k"

abbreviation mstr :: "('k, string) gomap \<Rightarrow> 'k \<Rightarrow> string" where
  "mstr m k \<equiv> mgetz [] m k"

definition mkeys :: "('k, 'v) gomap \<Rightarrow> 'k list" where
  "mkeys m = map fst m"

text \<open>Every Go map has each key once.\<close>

definition mwf :: "('k, 'v) gomap \<Rightarrow> bool" where
  "mwf m = distinct (map fst m)"

definition mmapv :: "('v \<Rightarrow> 'w) \<Rightarrow> ('k, 'v) gomap \<Rightarrow> ('k, 'w) gomap" where
  "mmapv f m = map (\<lambda>(k, v). (k, f v)) m"

definition mfilterk :: "('k \<Rightarrow> bool) \<Rightarrow> ('k, 'v) gomap \<Rightarrow> ('k, 'v) gomap" where
  "mfilterk P m = filter (\<lambda>p. P (fst p)) m"

lemma mget_mput [simp, gomap_simps]: "mget (mput k v m) j = (if j = k then Some v else mget m j)"
  by (simp add: update_conv')

lemma mget_mdel [simp, gomap_simps]: "mget (mdel k m) j = (if j = k then None else mget m j)"
  by (simp add: delete_conv')

lemma mhas_mput [simp, gomap_simps]: "mhas (mput k v m) j = (j = k \<or> mhas m j)"
  by (simp add: mhas_def)

lemma mhas_mdel [simp, gomap_simps]: "mhas (mdel k m) j = (j \<noteq> k \<and> mhas m j)"
  by (simp add: mhas_def)

lemma mhas_iff: "mhas m k = (k \<in> set (mkeys m))"
  by (simp add: mhas_def mkeys_def map_of_eq_None_iff)

lemma mgetz_mput [simp, gomap_simps]: "mgetz z (mput k v m) j = (if j = k then v else mgetz z m j)"
  by (simp add: mgetz_def)

lemma mgetz_mdel [simp, gomap_simps]: "mgetz z (mdel k m) j = (if j = k then z else mgetz z m j)"
  by (simp add: mgetz_def)

lemma mget_mmapv [simp, gomap_simps]: "mget (mmapv f m) k = map_option f (mget m k)"
  by (induction m) (auto simp: mmapv_def)

lemma mget_mfilterk [simp, gomap_simps]:
  "mget (mfilterk P m) k = (if P k then mget m k else None)"
  by (induction m) (auto simp: mfilterk_def)

lemma mhas_mfilterk [simp, gomap_simps]: "mhas (mfilterk P m) k = (P k \<and> mhas m k)"
  by (simp add: mhas_def)

lemma mgetz_mfilterk [simp, gomap_simps]:
  "mgetz z (mfilterk P m) k = (if P k then mgetz z m k else z)"
  by (simp add: mgetz_def)

lemma mgetz_Nil [simp]: "mgetz z [] k = z"
  by (simp add: mgetz_def)

lemma mhas_Nil [simp]: "\<not> mhas [] k"
  by (simp add: mhas_def)

lemma mwf_Nil [simp]: "mwf []"
  by (simp add: mwf_def)

lemma mwf_mput [simp]: "mwf m \<Longrightarrow> mwf (mput k v m)"
  by (simp add: mwf_def distinct_update)

lemma mwf_mdel [simp]: "mwf m \<Longrightarrow> mwf (mdel k m)"
  by (simp add: mwf_def distinct_delete)

lemma mkeys_mmapv [simp]: "mkeys (mmapv f m) = mkeys m"
  by (induction m) (auto simp: mkeys_def mmapv_def)

lemma mwf_mmapv [simp]: "mwf (mmapv f m) = mwf m"
  using mkeys_mmapv [of f m] by (simp add: mkeys_def mwf_def)

lemma mwf_mfilterk [simp]: "mwf m \<Longrightarrow> mwf (mfilterk P m)"
  by (induction m) (auto simp: mwf_def mfilterk_def)

lemma set_mput: "x \<in> set (mput k v m) \<Longrightarrow> x = (k, v) \<or> x \<in> set m"
  by (induction m) (auto split: if_splits)

lemma set_mdel: "x \<in> set (mdel k m) \<Longrightarrow> x \<in> set m \<and> fst x \<noteq> k"
  by (auto simp: AList.delete_eq)

lemma mget_Some_in: "mget m k = Some v \<Longrightarrow> (k, v) \<in> set m"
  by (rule map_of_SomeD)

lemma mwf_in_mget: "mwf m \<Longrightarrow> (k, v) \<in> set m \<Longrightarrow> mget m k = Some v"
  by (simp add: mwf_def)

section \<open>Strings\<close>

text \<open>The byte sequences that \<open>unicode.IsSpace\<close> accepts, in UTF-8.\<close>

definition space_units :: "string list" where
  "space_units =
     [[CHR 0x20], [CHR 0x09], [CHR 0x0A], [CHR 0x0B], [CHR 0x0C], [CHR 0x0D],
      [CHR 0xC2, CHR 0x85], [CHR 0xC2, CHR 0xA0], [CHR 0xE1, CHR 0x9A, CHR 0x80],
      [CHR 0xE2, CHR 0x80, CHR 0x80], [CHR 0xE2, CHR 0x80, CHR 0x81],
      [CHR 0xE2, CHR 0x80, CHR 0x82], [CHR 0xE2, CHR 0x80, CHR 0x83],
      [CHR 0xE2, CHR 0x80, CHR 0x84], [CHR 0xE2, CHR 0x80, CHR 0x85],
      [CHR 0xE2, CHR 0x80, CHR 0x86], [CHR 0xE2, CHR 0x80, CHR 0x87],
      [CHR 0xE2, CHR 0x80, CHR 0x88], [CHR 0xE2, CHR 0x80, CHR 0x89],
      [CHR 0xE2, CHR 0x80, CHR 0x8A], [CHR 0xE2, CHR 0x80, CHR 0xA8],
      [CHR 0xE2, CHR 0x80, CHR 0xA9], [CHR 0xE2, CHR 0x80, CHR 0xAF],
      [CHR 0xE2, CHR 0x81, CHR 0x9F], [CHR 0xE3, CHR 0x80, CHR 0x80]]"

fun strip_prefix :: "'a list \<Rightarrow> 'a list \<Rightarrow> 'a list option" where
  "strip_prefix [] s = Some s"
| "strip_prefix (p # ps) [] = None"
| "strip_prefix (p # ps) (c # s) = (if p = c then strip_prefix ps s else None)"

lemma strip_prefix_Some: "strip_prefix p s = Some t \<longleftrightarrow> s = p @ t"
  by (induction p s rule: strip_prefix.induct) auto

lemma strip_prefix_None: "strip_prefix p s = None \<longleftrightarrow> (\<forall>t. s \<noteq> p @ t)"
  by (induction p s rule: strip_prefix.induct) auto

text \<open>Remove one of the given units from the front, if one is there.\<close>

fun strip_one :: "'a list list \<Rightarrow> 'a list \<Rightarrow> 'a list option" where
  "strip_one [] s = None"
| "strip_one (u # us) s = (case strip_prefix u s of Some t \<Rightarrow> Some t | None \<Rightarrow> strip_one us s)"

lemma strip_one_Some: "strip_one us s = Some t \<Longrightarrow> \<exists>u \<in> set us. s = u @ t"
  by (induction us) (auto simp: strip_prefix_Some split: option.splits)

lemma strip_one_None: "strip_one us s = None \<longleftrightarrow> (\<forall>u \<in> set us. \<forall>t. s \<noteq> u @ t)"
  by (induction us) (auto simp: strip_prefix_None strip_prefix_Some split: option.splits)

text \<open>Remove units from the front as long as there are any (the units are not empty).\<close>

function strip_all :: "'a list list \<Rightarrow> 'a list \<Rightarrow> 'a list" where
  "strip_all us s =
     (case strip_one us s of
        Some t \<Rightarrow> if length t < length s then strip_all us t else s
      | None \<Rightarrow> s)"
  by pat_completeness auto
termination
  by (relation "measure (\<lambda>(us, s). length s)") auto

declare strip_all.simps [simp del]

lemma strip_all_stop: "strip_one us s = None \<Longrightarrow> strip_all us s = s"
  by (subst strip_all.simps) simp

lemma strip_all_clean: "[] \<notin> set us \<Longrightarrow> strip_one us (strip_all us s) = None"
proof (induction us s rule: strip_all.induct)
  case (1 us s)
  show ?case
  proof (cases "strip_one us s")
    case None
    then show ?thesis by (simp add: strip_all_stop)
  next
    case (Some t)
    then obtain u where "u \<in> set us" "s = u @ t" by (blast dest: strip_one_Some)
    with 1(2) have "length t < length s" by (cases u) auto
    with Some 1 show ?thesis by (subst strip_all.simps) simp
  qed
qed

lemma strip_all_suffix: "\<exists>p. s = p @ strip_all us s"
proof (induction us s rule: strip_all.induct)
  case (1 us s)
  show ?case
  proof (cases "strip_one us s")
    case None
    then show ?thesis by (simp add: strip_all_stop)
  next
    case (Some t)
    then obtain u where u: "s = u @ t" by (blast dest: strip_one_Some)
    show ?thesis
    proof (cases "length t < length s")
      case True
      with 1 [OF Some] obtain p where "t = p @ strip_all us t" by blast
      with u Some True have "s = (u @ p) @ strip_all us s"
        by (subst strip_all.simps) simp
      then show ?thesis by blast
    next
      case False
      with Some show ?thesis by (subst strip_all.simps) simp
    qed
  qed
qed

lemma strip_all_set: "set (strip_all us s) \<subseteq> set s"
  using strip_all_suffix [of s us] by (metis set_append sup_ge2)

text \<open>\<open>strings.TrimSpace\<close>.\<close>

definition trim_left :: "string \<Rightarrow> string" where
  "trim_left s = strip_all space_units s"

definition trim_right :: "string \<Rightarrow> string" where
  "trim_right s = rev (strip_all (map rev space_units) (rev s))"

definition TrimSpace :: "string \<Rightarrow> string" where
  "TrimSpace s = trim_right (trim_left s)"

lemma space_units_nonempty: "[] \<notin> set space_units" "[] \<notin> set (map rev space_units)"
  by (auto simp: space_units_def)

lemma trim_right_prefix: "\<exists>q. s = trim_right s @ q"
proof -
  obtain p where "rev s = p @ strip_all (map rev space_units) (rev s)"
    using strip_all_suffix by blast
  then have "s = trim_right s @ rev p"
    by (metis rev_append rev_rev_ident trim_right_def)
  then show ?thesis by blast
qed

lemma trim_right_clean: "strip_one (map rev space_units) (rev (trim_right s)) = None"
  using space_units_nonempty by (simp add: trim_right_def strip_all_clean)

lemma trim_left_clean: "strip_one space_units (trim_left s) = None"
  using space_units_nonempty by (simp add: trim_left_def strip_all_clean)

lemma TrimSpace_clean_left: "strip_one space_units (TrimSpace s) = None"
proof -
  obtain q where "trim_left s = TrimSpace s @ q"
    using trim_right_prefix [of "trim_left s"] by (auto simp: TrimSpace_def)
  with trim_left_clean [of s] show ?thesis by (auto simp: strip_one_None)
qed

lemma TrimSpace_idem [simp, trim_simps]: "TrimSpace (TrimSpace s) = TrimSpace s"
proof -
  have "trim_left (TrimSpace s) = TrimSpace s"
    by (simp add: trim_left_def strip_all_stop TrimSpace_clean_left)
  moreover have "trim_right (TrimSpace s) = TrimSpace s"
    using trim_right_clean [of "trim_left s"]
    by (metis TrimSpace_def rev_rev_ident strip_all_stop trim_right_def)
  ultimately show ?thesis by (metis TrimSpace_def)
qed

lemma TrimSpace_Nil [simp, trim_simps]: "TrimSpace [] = []"
proof -
  have "strip_one space_units [] = None" "strip_one (map rev space_units) [] = None"
    by (auto simp: strip_one_None space_units_def)
  then show ?thesis by (simp add: TrimSpace_def trim_left_def trim_right_def strip_all_stop)
qed

lemma TrimSpace_set: "set (TrimSpace s) \<subseteq> set s"
  using strip_all_set [of "map rev space_units" "rev (trim_left s)"] strip_all_set [of space_units s]
  by (auto simp: TrimSpace_def trim_right_def trim_left_def)

text \<open>\<open>strings.TrimRight\<close> and \<open>strings.Trim\<close> with a cutset of ASCII bytes.\<close>

definition TrimRightSet :: "char list \<Rightarrow> string \<Rightarrow> string" where
  "TrimRightSet cs s = rev (dropWhile (\<lambda>c. c \<in> set cs) (rev s))"

definition TrimSet :: "char list \<Rightarrow> string \<Rightarrow> string" where
  "TrimSet cs s = TrimRightSet cs (dropWhile (\<lambda>c. c \<in> set cs) s)"

text \<open>
  \<open>strings.ToLower\<close>, \<open>ToUpper\<close> and \<open>EqualFold\<close> on ASCII letters; bytes outside ASCII are
  left as they are.
\<close>

definition lower_char :: "char \<Rightarrow> char" where
  "lower_char c = (if CHR ''A'' \<le> c \<and> c \<le> CHR ''Z'' then char_of (of_char c + 32 :: nat) else c)"

definition upper_char :: "char \<Rightarrow> char" where
  "upper_char c = (if CHR ''a'' \<le> c \<and> c \<le> CHR ''z'' then char_of (of_char c - 32 :: nat) else c)"

definition ToLower :: "string \<Rightarrow> string" where
  "ToLower s = map lower_char s"

definition ToUpper :: "string \<Rightarrow> string" where
  "ToUpper s = map upper_char s"

definition EqualFold :: "string \<Rightarrow> string \<Rightarrow> bool" where
  "EqualFold s t = (ToLower s = ToLower t)"

definition HasPrefix :: "string \<Rightarrow> string \<Rightarrow> bool" where
  "HasPrefix s p = (strip_prefix p s \<noteq> None)"

definition TrimPrefix :: "string \<Rightarrow> string \<Rightarrow> string" where
  "TrimPrefix s p = (case strip_prefix p s of Some t \<Rightarrow> t | None \<Rightarrow> s)"

lemma HasPrefix_iff: "HasPrefix s p \<longleftrightarrow> (\<exists>t. s = p @ t)"
  by (auto simp: HasPrefix_def strip_prefix_Some)

lemma ToLower_Nil [simp]: "ToLower s = [] \<longleftrightarrow> s = []"
  by (simp add: ToLower_def)

lemma ToUpper_Nil [simp]: "ToUpper s = [] \<longleftrightarrow> s = []"
  by (simp add: ToUpper_def)

text \<open>\<open>firstNonEmpty\<close> and \<open>containsString\<close> of the plugin.\<close>

fun firstNonEmpty :: "string list \<Rightarrow> string" where
  "firstNonEmpty [] = []"
| "firstNonEmpty (v # vs) = (if TrimSpace v \<noteq> [] then TrimSpace v else firstNonEmpty vs)"

definition containsString :: "string list \<Rightarrow> string \<Rightarrow> bool" where
  "containsString values wanted = list_ex (\<lambda>v. v = wanted) values"

lemma containsString_iff [simp]: "containsString vs w \<longleftrightarrow> w \<in> set vs"
  by (auto simp: containsString_def list_ex_iff)

lemma firstNonEmpty_trimmed: "TrimSpace (firstNonEmpty vs) = firstNonEmpty vs"
  by (induction vs) auto

lemma printable_trim:
  assumes "\<forall>c \<in> {hd s, last s}. CHR 0x20 < c \<and> c < CHR 0x7F"
  shows "TrimSpace s = s"
proof (cases "s = []")
  case False
  then obtain c t where s: "s = c # t" by (cases s) auto
  have "strip_one space_units s = None"
    using assms unfolding strip_one_None s by (auto simp: space_units_def less_char_def)
  then have l: "trim_left s = s" by (simp add: trim_left_def strip_all_stop)
  obtain d u where r: "rev s = d # u" using False by (cases "rev s") auto
  then have d: "d = last s" using False by (metis hd_rev list.sel(1))
  have "strip_one (map rev space_units) (rev s) = None"
    using assms d unfolding strip_one_None r by (auto simp: space_units_def less_char_def)
  then have "trim_right s = s" by (simp add: trim_right_def strip_all_stop)
  with l show ?thesis by (simp add: TrimSpace_def)
qed simp

text \<open>An account id as the adapters produce it: not empty and without surrounding space.\<close>

definition id_ok :: "string \<Rightarrow> bool" where
  "id_ok k = (k \<noteq> [] \<and> TrimSpace k = k)"

section \<open>Decimal numerals\<close>

definition digit_char :: "int \<Rightarrow> char" where
  "digit_char d = char_of (48 + d)"

function digits_str :: "int \<Rightarrow> string" where
  "digits_str n =
     (if n < 10 then [digit_char n] else digits_str (n div 10) @ [digit_char (n mod 10)])"
  by pat_completeness auto
termination
  by (relation "measure nat") auto

declare digits_str.simps [simp del]

lemma digits_str_nonempty [simp]: "digits_str n \<noteq> []"
  by (subst digits_str.simps) simp

definition int_str :: "int \<Rightarrow> string" where
  "int_str i = (if i < 0 then CHR ''-'' # digits_str (- i) else digits_str i)"

section \<open>Time\<close>

text \<open>
  \<open>time.Time\<close> as nanoseconds since the epoch; the zero \<open>time.Time\<close> is the first instant of
  year 1.  \<open>Sub\<close> gives an int64 and saturates.
\<close>

type_synonym gotime = int

definition zero_time :: gotime where
  "zero_time = -62135596800000000000"

definition IsZero :: "gotime \<Rightarrow> bool" where
  "IsZero t = (t = zero_time)"

definition time_sub :: "gotime \<Rightarrow> gotime \<Rightarrow> int" where
  "time_sub a b = max (- (2 ^ 63)) (min (2 ^ 63 - 1) (a - b))"

text \<open>Arithmetic of int64: two's complement wrap-around.\<close>

definition wrap64 :: "int \<Rightarrow> int" where
  "wrap64 x = (x + 2 ^ 63) mod 2 ^ 64 - 2 ^ 63"

lemma wrap64_id: "- (2 ^ 63) \<le> x \<Longrightarrow> x < 2 ^ 63 \<Longrightarrow> wrap64 x = x"
  by (simp add: wrap64_def)

lemma wrap64_range: "- (2 ^ 63) \<le> wrap64 x \<and> wrap64 x < 2 ^ 63"
  unfolding wrap64_def
  using pos_mod_bound [of "2 ^ 64" "x + 2 ^ 63"] pos_mod_sign [of "2 ^ 64" "x + 2 ^ 63"]
  by simp

section \<open>Stable sorting\<close>

text \<open>
  \<open>sort.Slice\<close> and \<open>sort.SliceStable\<close> with a comparison function: insertion before
  the first element that is not smaller, so equal elements keep their order.
\<close>

fun insert_by :: "('a \<Rightarrow> 'a \<Rightarrow> bool) \<Rightarrow> 'a \<Rightarrow> 'a list \<Rightarrow> 'a list" where
  "insert_by lt x [] = [x]"
| "insert_by lt x (y # ys) = (if lt y x then y # insert_by lt x ys else x # y # ys)"

fun sort_by :: "('a \<Rightarrow> 'a \<Rightarrow> bool) \<Rightarrow> 'a list \<Rightarrow> 'a list" where
  "sort_by lt [] = []"
| "sort_by lt (x # xs) = insert_by lt x (sort_by lt xs)"

lemma set_insert_by [simp]: "set (insert_by lt x xs) = insert x (set xs)"
  by (induction xs) auto

lemma set_sort_by [simp]: "set (sort_by lt xs) = set xs"
  by (induction xs) auto

lemma length_insert_by [simp]: "length (insert_by lt x xs) = Suc (length xs)"
  by (induction xs) auto

lemma length_sort_by [simp]: "length (sort_by lt xs) = length xs"
  by (induction xs) auto

lemma sorted_insert_by:
  assumes "\<And>x y. lt x y \<Longrightarrow> \<not> lt y x"
    and "\<And>x y z. \<not> lt y x \<Longrightarrow> \<not> lt z y \<Longrightarrow> \<not> lt z x"
    and "sorted_wrt (\<lambda>a b. \<not> lt b a) ys"
  shows "sorted_wrt (\<lambda>a b. \<not> lt b a) (insert_by lt x ys)"
  using assms(3)
proof (induction ys)
  case (Cons y ys)
  show ?case
  proof (cases "lt y x")
    case True
    then show ?thesis using Cons assms(1) by auto
  next
    case False
    then show ?thesis using Cons.prems assms(2) [of y x] by auto
  qed
qed simp

lemma sorted_sort_by:
  assumes "\<And>x y. lt x y \<Longrightarrow> \<not> lt y x"
    and "\<And>x y z. \<not> lt y x \<Longrightarrow> \<not> lt z y \<Longrightarrow> \<not> lt z x"
  shows "sorted_wrt (\<lambda>a b. \<not> lt b a) (sort_by lt xs)"
  by (induction xs) (simp_all add: sorted_insert_by [OF assms])

text \<open>A result is a sum: an error on the left, a value on the right.\<close>

lemma result_InrE:
  assumes "case r of Inl e \<Rightarrow> False | Inr v \<Rightarrow> P v"
  obtains v where "r = Inr v" "P v"
  using assms by (cases r) auto

end
