(* ===== verification/Go_Float.thy ===== *)
theory Go_Float
  imports Complex_Main Go_Prelude
begin

text \<open>
  Go's \<open>float64\<close>: IEEE 754 binary64 with round-to-nearest-even, NaN, infinities and signed
  zero, over exact rational magnitudes, and the three conversions of package strconv that
  the plugin uses (\<open>ParseFloat(s, 64)\<close>, \<open>FormatFloat(x, 'f', 6, 64)\<close> and
  \<open>FormatFloat(x, 'f', -1, 64)\<close>).  Comparison and arithmetic are instances of the ordinary
  type classes, so the model's conditions read as the code's.
\<close>

section \<open>Rounding to binary64\<close>

definition pow2 :: "int \<Rightarrow> rat" where
  "pow2 e = (if 0 \<le> e then of_int (2 ^ nat e) else 1 / of_int (2 ^ nat (- e)))"

lemma pow2_powi: "pow2 e = 2 powi e"
  by (simp add: pow2_def power_int_def inverse_eq_divide power_one_over)

lemma pow2_pos [simp]: "0 < pow2 e"
  by (simp add: pow2_def)

lemma pow2_nonneg [simp]: "0 \<le> pow2 e"
  by (simp add: pow2_def)

lemma pow2_nonzero [simp]: "pow2 e \<noteq> 0"
  by (simp add: pow2_def)

lemma pow2_add: "pow2 (a + b) = pow2 a * pow2 b"
  by (simp add: pow2_powi power_int_add)

lemma pow2_minus: "pow2 (- e) = 1 / pow2 e"
  by (simp add: pow2_powi power_int_minus inverse_eq_divide)

lemma pow2_diff: "pow2 (a - b) = pow2 a / pow2 b"
  using pow2_add [of a "- b"] by (simp add: pow2_minus)

lemma pow2_mono: "a \<le> b \<Longrightarrow> pow2 a \<le> pow2 b"
  by (simp add: pow2_powi power_int_increasing)

lemma pow2_less_iff [simp]: "pow2 a < pow2 b \<longleftrightarrow> a < b"
proof
  show "a < b \<Longrightarrow> pow2 a < pow2 b"
    by (simp add: pow2_powi power_int_strict_increasing)
  show "pow2 a < pow2 b \<Longrightarrow> a < b"
    using pow2_mono [of b a] by (meson not_le)
qed

lemma pow2_le_iff [simp]: "pow2 a \<le> pow2 b \<longleftrightarrow> a \<le> b"
  using pow2_less_iff [of b a] by (simp only: not_less [symmetric] simp_thms)

lemma pow2_0 [simp]: "pow2 0 = 1"
  by (simp add: pow2_def)

lemma pow2_int: "0 \<le> e \<Longrightarrow> \<exists>n::int. pow2 e = of_int n"
  by (rule exI [of _ "2 ^ nat e"]) (simp add: pow2_def)

text \<open>The number of bits of a positive integer.\<close>

function nbits :: "int \<Rightarrow> int" where
  "nbits n = (if n \<le> 0 then 0 else 1 + nbits (n div 2))"
  by pat_completeness auto
termination
  by (relation "measure nat") auto

declare nbits.simps [simp del]

lemma nbits_bounds: "0 < n \<Longrightarrow> pow2 (nbits n - 1) \<le> of_int n \<and> of_int n < pow2 (nbits n)"
proof (induction n rule: nbits.induct)
  case (1 n)
  then have nb: "nbits n = 1 + nbits (n div 2)" by (subst nbits.simps) simp
  show ?case
  proof (cases "n div 2 \<le> 0")
    case True
    with 1 have "n = 1" by linarith
    then show ?thesis by (simp add: nbits.simps pow2_def)
  next
    case False
    define h where "h = n div 2"
    have IH: "pow2 (nbits h - 1) \<le> of_int h" "of_int h < pow2 (nbits h)"
      using 1 False by (simp_all add: h_def)
    have n: "2 * h \<le> n" "n \<le> 2 * h + 1" unfolding h_def by linarith+
    have "(1::rat) \<le> of_int h" using False by (simp add: h_def)
    with IH(2) have "1 < pow2 (nbits h)" by simp
    then have k: "0 \<le> nbits h" using pow2_less_iff [of 0 "nbits h"] by (simp only: pow2_0) simp
    obtain c :: int where c: "pow2 (nbits h) = of_int c" using pow2_int [OF k] by auto
    have "h < c" using IH(2) by (simp add: c)
    with n have "n < 2 * c" by linarith
    then have "of_int n < (of_int (2 * c) :: rat)" by (simp only: of_int_less_iff)
    then have "of_int n < 2 * (of_int c :: rat)" by simp
    moreover have "2 * pow2 (nbits h - 1) \<le> of_int n"
    proof -
      have "2 * pow2 (nbits h - 1) \<le> of_int (2 * h)" using IH(1) by simp
      also have "\<dots> \<le> of_int n" using n by (simp only: of_int_le_iff)
      finally show ?thesis .
    qed
    moreover have "2 * pow2 (nbits h - 1) = pow2 (nbits n - 1)"
      using pow2_add [of 1 "nbits h - 1"] by (simp add: nb h_def pow2_def [of 1])
    moreover have "2 * pow2 (nbits h) = pow2 (nbits n)"
      using pow2_add [of 1 "nbits h"] by (simp add: nb h_def pow2_def [of 1])
    ultimately show ?thesis by (simp add: c)
  qed
qed

text \<open>The binary exponent of a positive rational: \<open>2 ^ e \<le> m < 2 ^ (e + 1)\<close>.\<close>

definition ilog2 :: "rat \<Rightarrow> int" where
  "ilog2 m =
     (let (n, d) = quotient_of m; k = nbits n - nbits d
      in if pow2 k \<le> m then k else k - 1)"

lemma ilog2_bounds:
  assumes "0 < m"
  shows "pow2 (ilog2 m) \<le> m \<and> m < pow2 (ilog2 m + 1)"
proof -
  obtain n d where q: "quotient_of m = (n, d)" by fastforce
  have d: "0 < d" using q by (rule quotient_of_denom_pos)
  have m: "m = of_int n / of_int d" using q by (rule quotient_of_div)
  have n: "0 < n" using assms m d by (simp add: zero_less_divide_iff)
  define a where "a = nbits n"
  define b where "b = nbits d"
  have N: "pow2 (a - 1) \<le> of_int n" "of_int n < pow2 a"
    and D: "pow2 (b - 1) \<le> of_int d" "of_int d < pow2 b"
    using nbits_bounds [OF n] nbits_bounds [OF d] by (simp_all add: a_def b_def)
  define k where "k = a - b"
  have dpos: "(0::rat) < of_int d" using d by simp
  have up: "m < pow2 (k + 1)"
  proof -
    have "of_int n < pow2 a" by (rule N)
    also have "pow2 a = pow2 (k + 1) * pow2 (b - 1)"
      by (simp add: pow2_add [symmetric] k_def)
    also have "\<dots> \<le> pow2 (k + 1) * of_int d" using D by (simp add: mult_left_mono)
    finally show ?thesis using dpos by (simp add: m field_simps)
  qed
  have lo: "pow2 (k - 1) \<le> m"
  proof -
    have "pow2 (k - 1) * of_int d \<le> pow2 (k - 1) * pow2 b" using D by (simp add: mult_left_mono)
    also have "\<dots> = pow2 (a - 1)" by (simp add: pow2_add [symmetric] k_def)
    also have "\<dots> \<le> of_int n" by (rule N)
    finally show ?thesis using dpos by (simp add: m field_simps)
  qed
  have "ilog2 m = (if pow2 k \<le> m then k else k - 1)"
    by (simp add: ilog2_def q a_def b_def k_def)
  then show ?thesis using up lo by (auto simp: not_le)
qed

text \<open>Round half to even.\<close>

definition round_even :: "rat \<Rightarrow> int" where
  "round_even x =
     (let q = \<lfloor>x\<rfloor>; r = x - of_int q
      in if r < 1 / 2 then q else if 1 / 2 < r then q + 1 else if even q then q else q + 1)"

lemma round_even_of_int [simp]: "round_even (of_int n) = n"
  by (simp add: round_even_def)

lemma round_even_cases: "round_even x = \<lfloor>x\<rfloor> \<or> round_even x = \<lfloor>x\<rfloor> + 1"
  by (simp add: round_even_def Let_def)

lemma round_even_mono: "x \<le> y \<Longrightarrow> round_even x \<le> round_even y"
proof -
  assume xy: "x \<le> y"
  show ?thesis
  proof (cases "\<lfloor>x\<rfloor> = \<lfloor>y\<rfloor>")
    case True
    then show ?thesis using xy by (simp add: round_even_def Let_def)
  next
    case False
    with xy have "\<lfloor>x\<rfloor> < \<lfloor>y\<rfloor>" using floor_mono [of x y] by simp
    then show ?thesis using round_even_cases [of x] round_even_cases [of y] by linarith
  qed
qed

lemma round_even_le: "x \<le> of_int n \<Longrightarrow> round_even x \<le> n"
  using round_even_mono [of x "of_int n"] by simp

lemma round_even_ge: "of_int n \<le> x \<Longrightarrow> n \<le> round_even x"
  using round_even_mono [of "of_int n" x] by simp

text \<open>
  Round a magnitude to 53 significant bits, with the exponent bounded below (subnormal
  numbers): the exponent of the unit in the last place, and the rounded value.
\<close>

definition ulp_exp :: "rat \<Rightarrow> int" where
  "ulp_exp m = max (ilog2 m - 52) (- 1074)"

definition rnd_mag :: "rat \<Rightarrow> rat" where
  "rnd_mag m = (if m \<le> 0 then 0 else of_int (round_even (m / pow2 (ulp_exp m))) * pow2 (ulp_exp m))"

definition max_mag :: rat where
  "max_mag = of_int (2 ^ 1024)"

lemma rnd_mag_nonneg [simp]: "0 \<le> rnd_mag m"
proof (cases "m \<le> 0")
  case False
  then have "0 \<le> round_even (m / pow2 (ulp_exp m))" by (intro round_even_ge) (simp add: divide_nonneg_pos)
  then show ?thesis by (simp add: rnd_mag_def)
qed (simp add: rnd_mag_def)

lemma rnd_mag_0 [simp]: "rnd_mag 0 = 0"
  by (simp add: rnd_mag_def)

text \<open>A power of two at or above the unit in the last place bounds the rounding.\<close>

lemma rnd_mag_le_pow2:
  assumes "m \<le> pow2 p" "ulp_exp m \<le> p"
  shows "rnd_mag m \<le> pow2 p"
proof (cases "m \<le> 0")
  case False
  obtain n where n: "pow2 (p - ulp_exp m) = of_int n" using assms(2) pow2_int [of "p - ulp_exp m"] by auto
  have "m / pow2 (ulp_exp m) \<le> pow2 (p - ulp_exp m)"
    using assms(1) by (simp add: pow2_diff divide_right_mono)
  then have "round_even (m / pow2 (ulp_exp m)) \<le> n" unfolding n by (rule round_even_le)
  then have "of_int (round_even (m / pow2 (ulp_exp m))) * pow2 (ulp_exp m) \<le> of_int n * pow2 (ulp_exp m)"
    by (intro mult_right_mono) simp_all
  also have "\<dots> = pow2 p" by (simp add: n [symmetric] pow2_diff)
  finally show ?thesis using False by (simp add: rnd_mag_def)
qed (simp add: rnd_mag_def)

lemma rnd_mag_ge_pow2:
  assumes "pow2 p \<le> m" "ulp_exp m \<le> p"
  shows "pow2 p \<le> rnd_mag m"
proof -
  have "0 < m" using assms(1) pow2_pos [of p] by linarith
  obtain n where n: "pow2 (p - ulp_exp m) = of_int n" using assms(2) pow2_int [of "p - ulp_exp m"] by auto
  have "pow2 (p - ulp_exp m) \<le> m / pow2 (ulp_exp m)"
    using assms(1) by (simp add: pow2_diff divide_right_mono)
  then have "n \<le> round_even (m / pow2 (ulp_exp m))" unfolding n by (rule round_even_ge)
  then have "of_int n * pow2 (ulp_exp m) \<le> of_int (round_even (m / pow2 (ulp_exp m))) * pow2 (ulp_exp m)"
    by (intro mult_right_mono) simp_all
  moreover have "of_int n * pow2 (ulp_exp m) = pow2 p" by (simp add: n [symmetric] pow2_diff)
  ultimately show ?thesis using \<open>0 < m\<close> by (simp add: rnd_mag_def)
qed

lemma ilog2_mono: "0 < a \<Longrightarrow> a \<le> b \<Longrightarrow> ilog2 a \<le> ilog2 b"
proof -
  assume a: "0 < a" "a \<le> b"
  have "pow2 (ilog2 a) \<le> a" using ilog2_bounds [OF a(1)] by simp
  also have "a \<le> b" by (rule a)
  also have "b < pow2 (ilog2 b + 1)" using ilog2_bounds [of b] a by simp
  finally have "ilog2 a < ilog2 b + 1" by simp
  then show ?thesis by simp
qed

text \<open>Rounding is monotone.\<close>

lemma rnd_mag_mono: "a \<le> b \<Longrightarrow> rnd_mag a \<le> rnd_mag b"
proof (cases "a \<le> 0")
  case True
  then show ?thesis by (simp add: rnd_mag_def [of a])
next
  case False
  assume ab: "a \<le> b"
  from False ab have a: "0 < a" and b: "0 < b" by simp_all
  have le: "ulp_exp a \<le> ulp_exp b" using ilog2_mono [OF a ab] by (auto simp: ulp_exp_def)
  show ?thesis
  proof (cases "ulp_exp a = ulp_exp b")
    case True
    have "a / pow2 (ulp_exp b) \<le> b / pow2 (ulp_exp b)" using ab by (simp add: divide_right_mono)
    then have "round_even (a / pow2 (ulp_exp b)) \<le> round_even (b / pow2 (ulp_exp b))"
      by (rule round_even_mono)
    then show ?thesis using a b by (simp add: rnd_mag_def True mult_right_mono)
  next
    case False
    with le have lt: "ulp_exp a < ulp_exp b" by simp
    then have lb: "ulp_exp b = ilog2 b - 52" and la: "ilog2 a < ilog2 b" by (auto simp: ulp_exp_def)
    have "rnd_mag a \<le> pow2 (ilog2 b)"
    proof (rule rnd_mag_le_pow2)
      have "a < pow2 (ilog2 a + 1)" using ilog2_bounds [OF a] by simp
      also have "\<dots> \<le> pow2 (ilog2 b)" using la by simp
      finally show "a \<le> pow2 (ilog2 b)" by simp
      show "ulp_exp a \<le> ilog2 b" using lt lb by simp
    qed
    also have "\<dots> \<le> rnd_mag b"
      by (rule rnd_mag_ge_pow2) (use ilog2_bounds [OF b] lb in simp_all)
    finally show ?thesis .
  qed
qed

lemma rnd_mag_le_1: "m \<le> 1 \<Longrightarrow> rnd_mag m \<le> 1"
proof (cases "m \<le> 0")
  case False
  assume "m \<le> 1"
  with False have "ilog2 m \<le> ilog2 1" by (intro ilog2_mono) simp_all
  moreover have "ilog2 1 = 0"
    using ilog2_bounds [of 1] pow2_le_iff [of "ilog2 1" 0] pow2_less_iff [of 0 "ilog2 1 + 1"]
    unfolding pow2_0 by linarith
  ultimately have "ulp_exp m \<le> 0" by (simp add: ulp_exp_def)
  then show ?thesis using rnd_mag_le_pow2 [of m 0] \<open>m \<le> 1\<close> by simp
qed (simp add: rnd_mag_def)

section \<open>The type\<close>

text \<open>A finite number is a sign and a magnitude; \<open>Fin True 0\<close> is the negative zero.\<close>

datatype f64 = NaN | Infty bool | Fin bool rat

fun fval :: "f64 \<Rightarrow> rat" where
  "fval (Fin s m) = (if s then - m else m)"
| "fval _ = 0"

definition mkfin :: "bool \<Rightarrow> rat \<Rightarrow> f64" where
  "mkfin s m = (if max_mag \<le> rnd_mag m then Infty s else Fin s (rnd_mag m))"

definition fl :: "rat \<Rightarrow> f64" where
  "fl r = mkfin (r < 0) \<bar>r\<bar>"

fun fadd :: "f64 \<Rightarrow> f64 \<Rightarrow> f64" where
  "fadd NaN _ = NaN"
| "fadd _ NaN = NaN"
| "fadd (Infty s) (Infty t) = (if s = t then Infty s else NaN)"
| "fadd (Infty s) (Fin _ _) = Infty s"
| "fadd (Fin _ _) (Infty t) = Infty t"
| "fadd (Fin s m) (Fin t n) =
     (let r = fval (Fin s m) + fval (Fin t n) in if r = 0 then Fin (s \<and> t) 0 else fl r)"

fun fneg :: "f64 \<Rightarrow> f64" where
  "fneg NaN = NaN"
| "fneg (Infty s) = Infty (\<not> s)"
| "fneg (Fin s m) = Fin (\<not> s) m"

fun fmul :: "f64 \<Rightarrow> f64 \<Rightarrow> f64" where
  "fmul NaN _ = NaN"
| "fmul _ NaN = NaN"
| "fmul (Infty s) (Infty t) = Infty (s \<noteq> t)"
| "fmul (Infty s) (Fin t n) = (if n = 0 then NaN else Infty (s \<noteq> t))"
| "fmul (Fin s m) (Infty t) = (if m = 0 then NaN else Infty (s \<noteq> t))"
| "fmul (Fin s m) (Fin t n) = mkfin (s \<noteq> t) (m * n)"

fun fdiv :: "f64 \<Rightarrow> f64 \<Rightarrow> f64" where
  "fdiv NaN _ = NaN"
| "fdiv _ NaN = NaN"
| "fdiv (Infty s) (Infty t) = NaN"
| "fdiv (Infty s) (Fin t n) = Infty (s \<noteq> t)"
| "fdiv (Fin s m) (Infty t) = Fin (s \<noteq> t) 0"
| "fdiv (Fin s m) (Fin t n) =
     (if n = 0 then (if m = 0 then NaN else Infty (s \<noteq> t)) else mkfin (s \<noteq> t) (m / n))"

fun flt :: "f64 \<Rightarrow> f64 \<Rightarrow> bool" where
  "flt NaN _ = False"
| "flt _ NaN = False"
| "flt (Infty s) (Infty t) = (s \<and> \<not> t)"
| "flt (Infty s) (Fin _ _) = s"
| "flt (Fin _ _) (Infty t) = (\<not> t)"
| "flt (Fin s m) (Fin t n) = (fval (Fin s m) < fval (Fin t n))"

text \<open>Go's \<open>==\<close> on floats: NaN differs from itself and the zeros are equal.\<close>

fun feq :: "f64 \<Rightarrow> f64 \<Rightarrow> bool" where
  "feq (Infty s) (Infty t) = (s = t)"
| "feq (Fin s m) (Fin t n) = (fval (Fin s m) = fval (Fin t n))"
| "feq _ _ = False"

instantiation f64 :: "{zero, one, plus, minus, uminus, times, inverse, ord}"
begin

definition zero_f64 :: f64 where "0 = Fin False 0"
definition one_f64 :: f64 where "1 = Fin False 1"
definition plus_f64 :: "f64 \<Rightarrow> f64 \<Rightarrow> f64" where "a + b = fadd a b"
definition uminus_f64 :: "f64 \<Rightarrow> f64" where "- a = fneg a"
definition minus_f64 :: "f64 \<Rightarrow> f64 \<Rightarrow> f64" where "a - b = fadd a (fneg b)"
definition times_f64 :: "f64 \<Rightarrow> f64 \<Rightarrow> f64" where "a * b = fmul a b"
definition divide_f64 :: "f64 \<Rightarrow> f64 \<Rightarrow> f64" where "a div b = fdiv a b"
definition inverse_f64 :: "f64 \<Rightarrow> f64" where "inverse a = fdiv (Fin False 1) a"
definition less_f64 :: "f64 \<Rightarrow> f64 \<Rightarrow> bool" where "a < b = flt a b"
definition less_eq_f64 :: "f64 \<Rightarrow> f64 \<Rightarrow> bool" where "a \<le> b = (flt a b \<or> feq a b)"

instance ..

end

lemmas f64_arith_defs = zero_f64_def one_f64_def plus_f64_def uminus_f64_def minus_f64_def
  times_f64_def divide_f64_def less_f64_def less_eq_f64_def

definition fnum :: "int \<Rightarrow> f64" where
  "fnum n = fl (of_int n)"

definition isNaN :: "f64 \<Rightarrow> bool" where
  "isNaN a = (a = NaN)"

section \<open>Order\<close>

lemma f64_le_trans: "a \<le> b \<Longrightarrow> b \<le> c \<Longrightarrow> a \<le> (c :: f64)"
  by (cases a; cases b; cases c) (auto simp: less_eq_f64_def split: if_splits)

lemma f64_less_trans: "a < b \<Longrightarrow> b < c \<Longrightarrow> a < (c :: f64)"
  by (cases a; cases b; cases c) (auto simp: less_f64_def split: if_splits)

lemma f64_le_less_trans: "a \<le> b \<Longrightarrow> b < c \<Longrightarrow> a < (c :: f64)"
  by (cases a; cases b; cases c) (auto simp: less_f64_def less_eq_f64_def split: if_splits)

lemma f64_less_le_trans: "a < b \<Longrightarrow> b \<le> c \<Longrightarrow> a < (c :: f64)"
  by (cases a; cases b; cases c) (auto simp: less_f64_def less_eq_f64_def split: if_splits)

lemma f64_less_imp_le: "a < b \<Longrightarrow> a \<le> (b :: f64)"
  by (simp add: less_f64_def less_eq_f64_def)

lemma f64_less_irrefl [simp]: "\<not> a < (a :: f64)"
  by (cases a) (auto simp: less_f64_def)

lemma f64_not_less: "\<not> isNaN a \<Longrightarrow> \<not> isNaN b \<Longrightarrow> (\<not> a < b) = (b \<le> (a :: f64))"
  by (cases a; cases b) (auto simp: isNaN_def less_f64_def less_eq_f64_def)

lemma f64_not_le: "\<not> isNaN a \<Longrightarrow> \<not> isNaN b \<Longrightarrow> (\<not> a \<le> b) = (b < (a :: f64))"
  by (cases a; cases b) (auto simp: isNaN_def less_f64_def less_eq_f64_def)

lemma f64_le_refl: "a \<le> a \<longleftrightarrow> \<not> isNaN (a :: f64)"
  by (cases a) (auto simp: isNaN_def less_eq_f64_def)

lemma f64_le_not_NaN: "a \<le> b \<Longrightarrow> \<not> isNaN a \<and> \<not> isNaN (b :: f64)"
  by (cases a; cases b) (auto simp: isNaN_def less_eq_f64_def)

lemma f64_less_not_NaN: "a < b \<Longrightarrow> \<not> isNaN a \<and> \<not> isNaN (b :: f64)"
  by (cases a; cases b) (auto simp: isNaN_def less_f64_def)

lemma NaN_compare [simp]:
  "\<not> NaN < a" "\<not> a < NaN" "\<not> NaN \<le> a" "\<not> a \<le> NaN" "\<not> feq NaN a" "\<not> feq a NaN"
  by (cases a; simp add: less_f64_def less_eq_f64_def)+

lemma mkfin_not_NaN [simp]: "\<not> isNaN (mkfin s m)" "mkfin s m \<noteq> NaN"
  by (simp_all add: isNaN_def mkfin_def)

lemma fl_not_NaN [simp]: "\<not> isNaN (fl r)" "fl r \<noteq> NaN"
  by (simp_all add: fl_def)

text \<open>Rounding a real number to a float is monotone, infinities included.\<close>

lemma mkfin_mono: "0 \<le> a \<Longrightarrow> a \<le> b \<Longrightarrow> mkfin False a \<le> mkfin False b"
  using rnd_mag_mono [of a b] by (auto simp: mkfin_def less_eq_f64_def)

lemma fneg_le: "fneg a \<le> fneg b \<longleftrightarrow> b \<le> a"
  by (cases a; cases b) (auto simp: less_eq_f64_def)

lemma mkfin_neg: "mkfin True a = fneg (mkfin False a)"
  by (simp add: mkfin_def)

lemma fl_mono: "a \<le> b \<Longrightarrow> fl a \<le> fl b"
proof -
  assume ab: "a \<le> b"
  consider "0 \<le> a" | "b < 0" | "a < 0" "0 \<le> b" using ab by linarith
  then show ?thesis
  proof cases
    case 1
    with ab show ?thesis by (simp add: fl_def mkfin_mono)
  next
    case 2
    with ab have "mkfin False (- b) \<le> mkfin False (- a)" by (intro mkfin_mono) simp_all
    with 2 ab show ?thesis by (simp add: fl_def mkfin_neg fneg_le)
  next
    case 3
    have nn: "0 \<le> rnd_mag (- a)" "0 \<le> rnd_mag b" by simp_all
    have "- rnd_mag (- a) \<le> rnd_mag b" using nn by linarith
    moreover have "- rnd_mag (- a) < rnd_mag b \<or> - rnd_mag (- a) = rnd_mag b" using nn by linarith
    ultimately show ?thesis using 3 by (auto simp: fl_def mkfin_def less_eq_f64_def)
  qed
qed

text \<open>Scaling by a positive integer is monotone, NaN apart.\<close>

definition f64_nonneg_mag :: "f64 \<Rightarrow> bool" where
  "f64_nonneg_mag a = (case a of Fin _ m \<Rightarrow> 0 \<le> m | _ \<Rightarrow> True)"

lemma fmul_pos_mono:
  assumes "a \<le> b" "f64_nonneg_mag a" "f64_nonneg_mag b" "0 < n"
  shows "a * Fin False n \<le> b * Fin False n"
proof -
  have fin: "x * Fin False n \<le> y * Fin False n"
    if xy: "x = Fin s m" "y = Fin t k" "x \<le> y" "0 \<le> m" "0 \<le> k" for x y s m t k
  proof -
    have prod: "Fin u j * Fin False n = mkfin u (j * n)" for u j
      by (simp add: times_f64_def)
    have le: "fval (Fin s m) \<le> fval (Fin t k)" using xy by (auto simp: less_eq_f64_def split: if_splits)
    have nn: "0 \<le> m * n" "0 \<le> k * n" using xy assms(4) by simp_all
    have r: "0 \<le> rnd_mag (m * n)" "0 \<le> rnd_mag (k * n)" by simp_all
    consider "\<not> s" "\<not> t" | "s" "t" | "s" "\<not> t" | "\<not> s" "t" "m = 0" "k = 0"
      using le xy(4,5) by (cases s; cases t; simp)
    then show ?thesis
    proof cases
      case 1
      then have "m * n \<le> k * n" using le assms(4) by (simp add: mult_right_mono)
      with 1 nn show ?thesis by (simp add: xy prod mkfin_mono)
    next
      case 2
      then have "k * n \<le> m * n" using le assms(4) by (simp add: mult_right_mono)
      with 2 nn show ?thesis by (simp add: xy prod mkfin_neg fneg_le mkfin_mono)
    next
      case 3
      have "- rnd_mag (m * n) < rnd_mag (k * n) \<or> - rnd_mag (m * n) = rnd_mag (k * n)" using r by linarith
      with 3 show ?thesis by (auto simp: xy prod mkfin_def less_eq_f64_def)
    next
      case 4
      then show ?thesis by (simp add: xy prod mkfin_def less_eq_f64_def max_mag_def)
    qed
  qed
  show ?thesis
  proof (cases a; cases b)
    fix s m t k assume "a = Fin s m" "b = Fin t k"
    with fin [of a s m b t k] assms show ?thesis by (simp add: f64_nonneg_mag_def)
  next
    fix s t k assume ab: "a = Infty s" "b = Fin t k"
    with assms have s by (auto simp: less_eq_f64_def)
    with ab assms(4) show ?thesis by (auto simp: times_f64_def mkfin_def less_eq_f64_def)
  next
    fix s m t assume ab: "a = Fin s m" "b = Infty t"
    with assms have "\<not> t" by (auto simp: less_eq_f64_def)
    with ab assms(4) show ?thesis by (auto simp: times_f64_def mkfin_def less_eq_f64_def)
  next
    fix s t assume ab: "a = Infty s" "b = Infty t"
    with assms show ?thesis by (auto simp: times_f64_def less_eq_f64_def)
  qed (use assms in \<open>auto\<close>)
qed

section \<open>strconv\<close>

subsection \<open>ParseFloat\<close>

text \<open>The value of a digit character, for base 16 with the letters.\<close>

definition dec_digit :: "char \<Rightarrow> int option" where
  "dec_digit c = (if CHR ''0'' \<le> c \<and> c \<le> CHR ''9'' then Some (of_char c - 48) else None)"

definition hex_digit :: "char \<Rightarrow> int option" where
  "hex_digit c =
     (case dec_digit c of Some d \<Rightarrow> Some d
      | None \<Rightarrow> if CHR ''a'' \<le> lower_char c \<and> lower_char c \<le> CHR ''f''
               then Some (of_char (lower_char c) - 87) else None)"

text \<open>
  The digits of the mantissa: the number they form, how many stand after the point, whether
  a point, a digit and an underscore were seen, and the rest of the input.
\<close>

fun scan_mant :: "bool \<Rightarrow> string \<Rightarrow> int \<Rightarrow> int \<Rightarrow> bool \<Rightarrow> bool \<Rightarrow> bool
    \<Rightarrow> int \<times> int \<times> bool \<times> bool \<times> string" where
  "scan_mant hex [] m f dot dig und = (m, f, dig, und, [])"
| "scan_mant hex (c # cs) m f dot dig und =
     (if c = CHR ''_'' then scan_mant hex cs m f dot dig True
      else if c = CHR ''.'' then
        (if dot then (m, f, dig, und, c # cs) else scan_mant hex cs m f True dig und)
      else case (if hex then hex_digit c else dec_digit c) of
          Some d \<Rightarrow> scan_mant hex cs (m * (if hex then 16 else 10) + d)
                     (if dot then f + 1 else f) dot True und
        | None \<Rightarrow> (m, f, dig, und, c # cs))"

text \<open>The digits of the exponent; it stops growing at 10000.\<close>

fun scan_exp :: "string \<Rightarrow> int \<Rightarrow> bool \<Rightarrow> int \<times> bool \<times> string" where
  "scan_exp [] e und = (e, und, [])"
| "scan_exp (c # cs) e und =
     (if c = CHR ''_'' then scan_exp cs e True
      else case dec_digit c of
          Some d \<Rightarrow> scan_exp cs (if e < 10000 then e * 10 + d else e) und
        | None \<Rightarrow> (e, und, c # cs))"

text \<open>\<open>underscoreOK\<close>: underscores only between digits, or after a base prefix.\<close>

fun underscores_ok :: "bool \<Rightarrow> char \<Rightarrow> string \<Rightarrow> bool" where
  "underscores_ok hex saw [] = (saw \<noteq> CHR ''_'')"
| "underscores_ok hex saw (c # cs) =
     (if dec_digit c \<noteq> None \<or> hex \<and> hex_digit c \<noteq> None then underscores_ok hex CHR ''0'' cs
      else if c = CHR ''_'' then saw = CHR ''0'' \<and> underscores_ok hex CHR ''_'' cs
      else saw \<noteq> CHR ''_'' \<and> underscores_ok hex CHR ''!'' cs)"

definition drop_sign :: "string \<Rightarrow> bool \<times> string" where
  "drop_sign s =
     (case s of c # cs \<Rightarrow> if c = CHR ''-'' then (True, cs) else if c = CHR ''+'' then (False, cs)
                         else (False, s)
              | [] \<Rightarrow> (False, []))"

definition underscoreOK :: "string \<Rightarrow> bool" where
  "underscoreOK s =
     (case snd (drop_sign s) of
        a # b # cs \<Rightarrow>
          if a = CHR ''0'' \<and> lower_char b \<in> set ''box''
          then underscores_ok (lower_char b = CHR ''x'') CHR ''0'' cs
          else underscores_ok False CHR ''^'' (a # b # cs)
      | cs \<Rightarrow> underscores_ok False CHR ''^'' cs)"

text \<open>
  \<open>ParseFloat\<close>: \<open>None\<close> is an error (bad syntax, or a value out of range); NaN and the
  infinities are accepted spellings.
\<close>

definition parse_special :: "string \<Rightarrow> f64 option" where
  "parse_special s =
     (let (neg, t) = drop_sign s
      in if ToLower t = ''inf'' \<or> ToLower t = ''infinity'' then Some (Infty neg)
         else if ToLower s = ''nan'' then Some NaN else None)"

definition finish_float :: "bool \<Rightarrow> rat \<Rightarrow> f64 option" where
  "finish_float neg r = (case mkfin neg r of Infty _ \<Rightarrow> None | x \<Rightarrow> Some x)"

definition scale10 :: "int \<Rightarrow> int \<Rightarrow> rat" where
  "scale10 m e = (if 0 \<le> e then of_int (m * 10 ^ nat e) else of_int m / of_int (10 ^ nat (- e)))"

definition ParseFloat_with :: "(bool \<Rightarrow> rat \<Rightarrow> f64 option) \<Rightarrow> string \<Rightarrow> f64 option" where
  "ParseFloat_with fin s =
     (case parse_special s of Some x \<Rightarrow> Some x | None \<Rightarrow>
      (let (neg, t) = drop_sign s;
           hex = (2 < length t \<and> t ! 0 = CHR ''0'' \<and> lower_char (t ! 1) = CHR ''x'');
           (m, f, dig, und, rest) = scan_mant hex (if hex then drop 2 t else t) 0 0 False False False
       in if \<not> dig then None
          else case rest of
            [] \<Rightarrow> if hex \<or> und \<and> \<not> underscoreOK s then None else fin neg (scale10 m (- f))
          | c # cs \<Rightarrow>
              if lower_char c \<noteq> (if hex then CHR ''p'' else CHR ''e'') then None
              else let (eneg, ds) = drop_sign cs in
                   if ds = [] \<or> dec_digit (hd ds) = None then None
                   else let (e, und', rest') = scan_exp ds 0 und;
                            ex = (if eneg then - e else e)
                        in if rest' \<noteq> [] \<or> und' \<and> \<not> underscoreOK s then None
                           else if hex then fin neg (of_int m * pow2 (ex - 4 * f))
                           else fin neg (scale10 m (ex - f))))"

definition ParseFloat :: "string \<Rightarrow> f64 option" where
  "ParseFloat s = ParseFloat_with finish_float s"

text \<open>What \<open>ParseFloat\<close> returns beside its error: an infinity when the value is out of range, else 0.\<close>

definition ParseFloat_value :: "string \<Rightarrow> f64" where
  "ParseFloat_value s =
     (case ParseFloat_with (\<lambda>neg r. Some (mkfin neg r)) s of Some x \<Rightarrow> x | None \<Rightarrow> 0)"

text \<open>\<open>numericValue\<close> of the plugin: the trimmed text as a float.\<close>

definition numericValue :: "string \<Rightarrow> f64 option" where
  "numericValue value = ParseFloat (TrimSpace value)"

subsection \<open>FormatFloat\<close>

definition pad_left :: "nat \<Rightarrow> string \<Rightarrow> string" where
  "pad_left n s = replicate (n - length s) CHR ''0'' @ s"

text \<open>Fixed-point notation with the given number of fractional digits.\<close>

definition fixed_digits :: "nat \<Rightarrow> int \<Rightarrow> string" where
  "fixed_digits prec k =
     int_str (k div 10 ^ prec) @ (if prec = 0 then [] else CHR ''.'' # pad_left prec (int_str (k mod 10 ^ prec)))"

fun FormatFloat_f6 :: "f64 \<Rightarrow> string" where
  "FormatFloat_f6 NaN = ''NaN''"
| "FormatFloat_f6 (Infty s) = (if s then ''-Inf'' else ''+Inf'')"
| "FormatFloat_f6 (Fin s m) =
     (if s then ''-'' else []) @ fixed_digits 6 (round_even (m * 1000000))"

text \<open>
  The shortest decimal that reads back as the number: the least number of significant digits
  (at most 17) whose nearest decimal rounds to it.
\<close>

definition ndigits :: "int \<Rightarrow> int" where
  "ndigits n = int (length (int_str n))"

definition ilog10 :: "rat \<Rightarrow> int" where
  "ilog10 m =
     (let (n, d) = quotient_of m; k = ndigits n - ndigits d
      in if scale10 1 k \<le> m then k else k - 1)"

fun shortest_search :: "rat \<Rightarrow> int \<Rightarrow> nat \<Rightarrow> int \<Rightarrow> int \<times> int" where
  "shortest_search m l 0 n = (round_even (m * scale10 1 (n - 1 - l)), l + 1 - n)"
| "shortest_search m l (Suc fuel) n =
     (let d = round_even (m * scale10 1 (n - 1 - l)); p = l + 1 - n
      in if rnd_mag (scale10 d p) = m then (d, p) else shortest_search m l fuel (n + 1))"

fun FormatFloat_shortest :: "f64 \<Rightarrow> string" where
  "FormatFloat_shortest NaN = ''NaN''"
| "FormatFloat_shortest (Infty s) = (if s then ''-Inf'' else ''+Inf'')"
| "FormatFloat_shortest (Fin s m) =
     (if s then ''-'' else []) @
     (if m = 0 then ''0''
      else let (d, p) = shortest_search m (ilog10 m) 16 1
           in if 0 \<le> p then int_str (d * 10 ^ nat p) else fixed_digits (nat (- p)) d)"

text \<open>\<open>decimalString\<close> of the plugin: six decimals, trailing zeros and point removed.\<close>

definition decimalString :: "f64 \<Rightarrow> string" where
  "decimalString value = TrimRightSet ''.'' (TrimRightSet ''0'' (FormatFloat_f6 value))"

section \<open>Small float helpers of the plugin\<close>

definition minFloat :: "f64 \<Rightarrow> f64 \<Rightarrow> f64" where
  "minFloat left right = (if right < left then right else left)"

definition maxFloat :: "f64 \<Rightarrow> f64 \<Rightarrow> f64" where
  "maxFloat left right = (if left < right then right else left)"

definition maxMinFraction :: "f64 \<Rightarrow> f64" where
  "maxMinFraction value = (if value < 0 then 0 else if 1 < value then 1 else value)"

definition clampPercent :: "f64 \<Rightarrow> f64" where
  "clampPercent value = (if value < 0 then 0 else if fnum 100 < value then fnum 100 else value)"

end
