(* ===== verification/Go_Json.thy ===== *)
theory Go_Json
  imports Go_Float
begin

text \<open>
  The values that \<open>encoding/json\<close> decodes into an \<open>any\<close> (adapters.go reads upstream bodies
  this way), and the accessors with which the adapters read them.  A body that does not
  decode is the \<open>None\<close> of the callers' \<open>json option\<close>.
\<close>

datatype json =
    JNull
  | JBool bool
  | JNum f64
  | JStr string
  | JArr "json list"
  | JObj "(string \<times> json) list"

type_synonym jobj = "(string, json) gomap"

text \<open>\<open>decodeObject\<close>: only an object (or null, the nil map) decodes into a \<open>map[string]any\<close>.\<close>

fun decodeObject :: "json option \<Rightarrow> jobj option" where
  "decodeObject (Some (JObj m)) = Some m"
| "decodeObject (Some JNull) = Some []"
| "decodeObject _ = None"

text \<open>The nil map of Go is \<open>None\<close>.\<close>

definition objectValue :: "jobj option \<Rightarrow> string \<Rightarrow> jobj option" where
  "objectValue obj key =
     (case obj of None \<Rightarrow> None
      | Some m \<Rightarrow> (case mget m key of Some (JObj o') \<Rightarrow> Some o' | _ \<Rightarrow> None))"

fun objects_of :: "json list \<Rightarrow> jobj list" where
  "objects_of [] = []"
| "objects_of (JObj m # vs) = m # objects_of vs"
| "objects_of (_ # vs) = objects_of vs"

definition objectArray :: "jobj option \<Rightarrow> string \<Rightarrow> jobj list" where
  "objectArray obj key =
     (case obj of None \<Rightarrow> []
      | Some m \<Rightarrow> (case mget m key of Some (JArr vs) \<Rightarrow> objects_of vs | _ \<Rightarrow> []))"

definition arrayValue :: "jobj option \<Rightarrow> string \<Rightarrow> jobj list" where
  "arrayValue obj key =
     (case obj of None \<Rightarrow> []
      | Some m \<Rightarrow> (case mget m key of Some (JArr vs) \<Rightarrow> objects_of vs | _ \<Rightarrow> []))"

text \<open>
  \<open>stringValue\<close>: the first key that holds a non-blank string or a number.  A blank string,
  or a value of another type, lets the search go on.
\<close>

fun stringValue_in :: "jobj \<Rightarrow> string list \<Rightarrow> string" where
  "stringValue_in m [] = []"
| "stringValue_in m (k # ks) =
     (case mget m k of
        Some (JStr s) \<Rightarrow> if TrimSpace s \<noteq> [] then TrimSpace s else stringValue_in m ks
      | Some (JNum x) \<Rightarrow> FormatFloat_shortest x
      | _ \<Rightarrow> stringValue_in m ks)"

definition stringValue :: "jobj option \<Rightarrow> string list \<Rightarrow> string" where
  "stringValue obj ks = (case obj of None \<Rightarrow> [] | Some m \<Rightarrow> stringValue_in m ks)"

text \<open>\<open>strconv.ParseBool\<close>.\<close>

definition ParseBool :: "string \<Rightarrow> bool option" where
  "ParseBool s =
     (if s \<in> set [''1'', ''t'', ''T'', ''true'', ''TRUE'', ''True''] then Some True
      else if s \<in> set [''0'', ''f'', ''F'', ''false'', ''FALSE'', ''False''] then Some False
      else None)"

fun objectBool_in :: "jobj \<Rightarrow> string list \<Rightarrow> bool option" where
  "objectBool_in m [] = None"
| "objectBool_in m (k # ks) =
     (case mget m k of
        Some (JBool b) \<Rightarrow> Some b
      | Some (JStr s) \<Rightarrow> (case ParseBool (TrimSpace s) of Some b \<Rightarrow> Some b | None \<Rightarrow> objectBool_in m ks)
      | _ \<Rightarrow> objectBool_in m ks)"

definition objectBoolValue :: "jobj option \<Rightarrow> string list \<Rightarrow> bool option" where
  "objectBoolValue obj ks = (case obj of None \<Rightarrow> None | Some m \<Rightarrow> objectBool_in m ks)"

definition boolValue :: "jobj option \<Rightarrow> string list \<Rightarrow> bool" where
  "boolValue obj ks =
     (case obj of None \<Rightarrow> False
      | Some m \<Rightarrow> (case objectBool_in m ks of Some b \<Rightarrow> b | None \<Rightarrow> False))"

section \<open>Redaction\<close>

text \<open>
  \<open>sanitizeJSON\<close>: drop the members with a secret's name, at every depth, and cut the tree
  below depth 8.
\<close>

definition secret_keys :: "string list" where
  "secret_keys = [''api_key'', ''apikey'', ''token'', ''authorization'', ''cookie'', ''secret'']"

fun sanitizeJSON :: "json \<Rightarrow> nat \<Rightarrow> json" where
  "sanitizeJSON (JObj m) depth =
     (if 8 < depth then JNull
      else JObj (map (\<lambda>(k, v). (k, sanitizeJSON v (depth + 1)))
                  (filter (\<lambda>(k, v). ToLower k \<notin> set secret_keys) m)))"
| "sanitizeJSON (JArr vs) depth =
     (if 8 < depth then JNull else JArr (map (\<lambda>v. sanitizeJSON v (depth + 1)) vs))"
| "sanitizeJSON v depth = (if 8 < depth then JNull else v)"

text \<open>What redaction promises: no secret name at any depth, and a bounded depth.\<close>

fun no_secrets :: "json \<Rightarrow> bool" where
  "no_secrets (JObj m) = list_all (\<lambda>(k, v). ToLower k \<notin> set secret_keys \<and> no_secrets v) m"
| "no_secrets (JArr vs) = list_all no_secrets vs"
| "no_secrets _ = True"

fun json_depth :: "json \<Rightarrow> nat" where
  "json_depth (JObj m) = Suc (foldr max (map (\<lambda>(k, v). json_depth v) m) 0)"
| "json_depth (JArr vs) = Suc (foldr max (map json_depth vs) 0)"
| "json_depth _ = 0"

lemma foldr_max_le: "(\<forall>x \<in> set xs. x \<le> n) \<Longrightarrow> foldr max xs 0 \<le> (n :: nat)"
  by (induction xs) auto

lemma sanitizeJSON_no_secrets: "no_secrets (sanitizeJSON v depth)"
  by (induction v depth rule: sanitizeJSON.induct) (auto simp: list_all_iff)

lemma sanitizeJSON_depth: "json_depth (sanitizeJSON v depth) \<le> 9 - depth"
proof (induction v depth rule: sanitizeJSON.induct)
  case (1 m depth)
  show ?case
  proof (cases "8 < depth")
    case False
    have "foldr max (map (\<lambda>(k, v). json_depth v)
      (map (\<lambda>(k, v). (k, sanitizeJSON v (depth + 1)))
        (filter (\<lambda>(k, v). ToLower k \<notin> set secret_keys) m))) 0 \<le> 8 - depth"
      using 1 [OF False] False by (intro foldr_max_le) (fastforce simp: case_prod_beta)
    with False show ?thesis by simp
  qed simp
next
  case (2 vs depth)
  show ?case
  proof (cases "8 < depth")
    case False
    have "foldr max (map json_depth (map (\<lambda>v. sanitizeJSON v (depth + 1)) vs)) 0 \<le> 8 - depth"
      using 2 [OF False] False by (intro foldr_max_le) fastforce
    with False show ?thesis by simp
  qed simp
qed simp_all

end
