(* ===== verification/Snapshot_Model.thy ===== *)
theory Snapshot_Model
  imports Go_Json
begin

text \<open>
  The data model of model.go: snapshots of an upstream account, their statuses and error
  sections, and the operations on a single snapshot (\<open>inferSnapshotBaseStatus\<close>,
  \<open>markSectionError\<close>, \<open>markStale\<close>, \<open>accountSnapshotWithSuccess\<close>, \<open>inferAccountKind\<close>), with
  the order of severities \<open>maxStatus\<close> of main.go.
\<close>

section \<open>Statuses and kinds\<close>

text \<open>\<open>accountStatus\<close> and \<open>accountKind\<close> are strings in the code, and stay strings here.\<close>

type_synonym accountStatus = string
type_synonym accountKind = string

abbreviation statusOK :: accountStatus where "statusOK \<equiv> ''ok''"
abbreviation statusWarning :: accountStatus where "statusWarning \<equiv> ''warning''"
abbreviation statusCritical :: accountStatus where "statusCritical \<equiv> ''critical''"
abbreviation statusError :: accountStatus where "statusError \<equiv> ''error''"
abbreviation statusUnknown :: accountStatus where "statusUnknown \<equiv> ''unknown''"
abbreviation statusDisabled :: accountStatus where "statusDisabled \<equiv> ''disabled''"

abbreviation kindBalance :: accountKind where "kindBalance \<equiv> ''balance''"
abbreviation kindPeriodQuota :: accountKind where "kindPeriodQuota \<equiv> ''period_quota''"
abbreviation kindQuota :: accountKind where "kindQuota \<equiv> ''quota''"
abbreviation kindUnsupported :: accountKind where "kindUnsupported \<equiv> ''unsupported''"

definition status_rank :: "accountStatus \<Rightarrow> nat" where
  "status_rank s =
     (if s = statusError then 6 else if s = statusCritical then 5 else if s = statusWarning then 4
      else if s = statusUnknown then 3 else if s = statusDisabled then 2 else if s = statusOK then 1
      else 0)"

definition maxStatus :: "accountStatus \<Rightarrow> accountStatus \<Rightarrow> accountStatus" where
  "maxStatus current candidate =
     (if status_rank current < status_rank candidate then candidate else current)"

lemma status_rank_simps [simp]:
  "status_rank ''error'' = 6" "status_rank ''critical'' = 5" "status_rank ''warning'' = 4"
  "status_rank ''unknown'' = 3" "status_rank ''disabled'' = 2" "status_rank ''ok'' = 1"
  by (simp_all add: status_rank_def)

lemma status_rank_le: "status_rank s \<le> 6"
  by (simp add: status_rank_def)

text \<open>
  A scale of severities with an operation that keeps the worse one: the interface that the
  report and the threshold code rely on when they fold statuses together.
\<close>

locale severity =
  fixes rank :: "'s \<Rightarrow> nat" and worse :: "'s \<Rightarrow> 's \<Rightarrow> 's"
  assumes rank_worse: "rank (worse a b) = max (rank a) (rank b)"
    and worse_either: "worse a b = a \<or> worse a b = b"
    and worse_keeps: "rank b \<le> rank a \<Longrightarrow> worse a b = a"
begin

lemma rank_foldl: "rank (foldl worse a xs) = Max (insert (rank a) (rank ` set xs))"
proof (induction xs arbitrary: a)
  case Nil
  then show ?case by simp
next
  case (Cons x xs)
  have "Max (insert (rank a) (rank ` set (x # xs))) = Max (insert (rank a) (insert (rank x) (rank ` set xs)))"
    by simp
  also have "\<dots> = Max (insert (max (rank a) (rank x)) (rank ` set xs))"
    by (cases "set xs = {}") (simp_all add: max.assoc)
  finally show ?case using Cons by (simp add: rank_worse)
qed

lemma foldl_in: "foldl worse a xs \<in> insert a (set xs)"
proof (induction xs arbitrary: a)
  case (Cons x xs)
  show ?case using Cons [of "worse a x"] worse_either [of a x] by auto
qed simp

lemma foldl_upper: "x \<in> insert a (set xs) \<Longrightarrow> rank x \<le> rank (foldl worse a xs)"
  by (simp add: rank_foldl) auto

lemma foldl_rank_perm: "set xs = set ys \<Longrightarrow> rank (foldl worse a xs) = rank (foldl worse a ys)"
  by (simp add: rank_foldl)

lemma worse_idem: "worse a a = a"
  by (rule worse_keeps) simp

end

interpretation sev: severity status_rank maxStatus
  by unfold_locales (auto simp: maxStatus_def)

section \<open>Records\<close>

record moneyBalance =
  mb_Amount :: string
  mb_Currency :: string
  mb_BalanceType :: string

record quotaWindow =
  qw_Name :: string
  qw_Source :: string
  qw_RemainingFraction :: "f64 option"
  qw_UsedFraction :: "f64 option"
  qw_RemainingAmount :: string
  qw_TotalAmount :: string
  qw_UsedAmount :: string
  qw_ExcessAmount :: string
  qw_Unit :: string
  qw_ResetAt :: "gotime option"
  qw_ExpiresAt :: "gotime option"

record quotaQuantity =
  qq_Name :: string
  qq_Scope :: string
  qq_Source :: string
  qq_Display :: string
  qq_Unlimited :: bool
  qq_Remaining :: string
  qq_Total :: string
  qq_Used :: string
  qq_Unit :: string
  qq_ResetAt :: "gotime option"
  qq_ExpiresAt :: "gotime option"

record cashThreshold =
  ct_Warning :: string
  ct_Critical :: string

text \<open>The two maps of thresholds may be nil.\<close>

record thresholdConfig =
  tc_WarningPercent :: f64
  tc_CriticalPercent :: f64
  tc_CashByCurrency :: "(string, cashThreshold) gomap option"
  tc_CashByAccount :: "(string, cashThreshold) gomap option"

record snapshotError =
  se_Code :: string
  se_Message :: string

record sectionStatus =
  sec_Status :: string
  sec_UpdatedAt :: "gotime option"
  sec_ErrorCode :: string
  sec_Message :: string
  sec_ActionURL :: string
  sec_ActionLabel :: string

definition zero_section :: sectionStatus where
  "zero_section = \<lparr>sec_Status = [], sec_UpdatedAt = None, sec_ErrorCode = [], sec_Message = [],
     sec_ActionURL = [], sec_ActionLabel = []\<rparr>"

record accountSnapshot =
  as_AccountID :: string
  as_AccountName :: string
  as_Provider :: string
  as_AdapterID :: string
  as_BaseURL :: string
  as_Kind :: accountKind
  as_Status :: accountStatus
  as_Capabilities :: "string list"
  as_Balances :: "moneyBalance list"
  as_Windows :: "quotaWindow list"
  as_Quantities :: "quotaQuantity list"
  as_CheckedAt :: gotime
  as_LastAttemptAt :: gotime
  as_LastSuccessAt :: "gotime option"
  as_LatencyMs :: int
  as_ConfigRevision :: int
  as_Stale :: bool
  as_Error :: "snapshotError option"
  as_Warnings :: "string list"
  as_Sections :: "(string, sectionStatus) gomap"
  as_Details :: "(string, json) gomap"
  as_baseStatus :: accountStatus

text \<open>The zero \<open>accountSnapshot\<close>.\<close>

definition zero_snapshot :: accountSnapshot where
  "zero_snapshot = \<lparr>as_AccountID = [], as_AccountName = [], as_Provider = [], as_AdapterID = [],
     as_BaseURL = [], as_Kind = [], as_Status = [], as_Capabilities = [], as_Balances = [],
     as_Windows = [], as_Quantities = [], as_CheckedAt = zero_time, as_LastAttemptAt = zero_time,
     as_LastSuccessAt = None, as_LatencyMs = 0, as_ConfigRevision = 0, as_Stale = False,
     as_Error = None, as_Warnings = [], as_Sections = [], as_Details = [], as_baseStatus = []\<rparr>"

record credentialCandidate =
  cc_AccountID :: string
  cc_LegacyID :: string
  cc_AuthIndex :: string
  cc_AuthID :: string
  cc_Name :: string
  cc_Provider :: string
  cc_BaseURL :: string
  cc_ManagementBaseURL :: string
  cc_ProxyMode :: string
  cc_ProxyURL :: string
  cc_AllowInternalHTTP :: bool
  cc_Source :: string
  cc_SourceID :: string
  cc_Fingerprint :: string

definition zero_candidate :: credentialCandidate where
  "zero_candidate = \<lparr>cc_AccountID = [], cc_LegacyID = [], cc_AuthIndex = [], cc_AuthID = [],
     cc_Name = [], cc_Provider = [], cc_BaseURL = [], cc_ManagementBaseURL = [], cc_ProxyMode = [],
     cc_ProxyURL = [], cc_AllowInternalHTTP = False, cc_Source = [], cc_SourceID = [],
     cc_Fingerprint = []\<rparr>"

definition candidateAccountID :: "credentialCandidate \<Rightarrow> string" where
  "candidateAccountID c =
     (if TrimSpace (cc_AccountID c) \<noteq> [] then TrimSpace (cc_AccountID c)
      else TrimSpace (cc_AuthIndex c))"

section \<open>Operations on one snapshot\<close>

definition inferAccountKind :: "accountSnapshot \<Rightarrow> accountKind" where
  "inferAccountKind s =
     (if as_Balances s \<noteq> [] then kindBalance
      else if as_Windows s \<noteq> [] then kindPeriodQuota
      else if as_Quantities s \<noteq> [] then kindQuota
      else kindUnsupported)"

text \<open>The three loops of \<open>inferSnapshotBaseStatus\<close> that return critical, as their conditions.\<close>

definition balance_exhausted :: "moneyBalance \<Rightarrow> bool" where
  "balance_exhausted b =
     (mb_BalanceType b = ''total'' \<and>
      (case numericValue (mb_Amount b) of Some amount \<Rightarrow> amount \<le> 0 | None \<Rightarrow> False))"

definition window_exceeded :: "quotaWindow \<Rightarrow> bool" where
  "window_exceeded w =
     (case numericValue (qw_ExcessAmount w) of Some excess \<Rightarrow> 0 < excess | None \<Rightarrow> False)"

definition quantity_exceeded :: "quotaQuantity \<Rightarrow> bool" where
  "quantity_exceeded q =
     (case (numericValue (qq_Total q), numericValue (qq_Used q)) of
        (Some tot, Some used) \<Rightarrow> 0 < tot \<and> tot < used
      | _ \<Rightarrow> False)"

definition inferSnapshotBaseStatus :: "accountSnapshot \<Rightarrow> accountStatus" where
  "inferSnapshotBaseStatus s =
     (if as_Status s \<in> {statusError, statusUnknown, statusDisabled} then as_Status s
      else
        (let status = (if as_Error s \<noteq> None then maxStatus statusOK statusWarning else statusOK);
             status = foldl (\<lambda>st section. if sec_Status section = ''error''
                                          then maxStatus st statusWarning else st)
                        status (map snd (as_Sections s))
         in if list_ex balance_exhausted (as_Balances s) then statusCritical
            else if list_ex window_exceeded (as_Windows s) then statusCritical
            else if list_ex quantity_exceeded (as_Quantities s) then statusCritical
            else status))"

definition markSectionError :: "accountSnapshot \<Rightarrow> string \<Rightarrow> string \<Rightarrow> string \<Rightarrow> accountSnapshot" where
  "markSectionError s name code message =
     (if TrimSpace name = [] then s
      else s\<lparr>as_Sections := mput name
               (zero_section\<lparr>sec_Status := ''error'', sec_ErrorCode := code, sec_Message := message\<rparr>)
               (as_Sections s),
             as_Status := maxStatus (as_Status s) statusWarning\<rparr>)"

definition markStale :: "accountSnapshot \<Rightarrow> gotime \<Rightarrow> accountSnapshot" where
  "markStale s now =
     (let s = s\<lparr>as_Stale := True\<rparr>;
          s = (if as_Error s = None
               then s\<lparr>as_Error := Some \<lparr>se_Code = ''STALE'',
                        se_Message = ''using the last successful snapshot''\<rparr>\<rparr>
               else s)
      in if IsZero (as_CheckedAt s) then s\<lparr>as_CheckedAt := now\<rparr> else s)"

text \<open>A duration in nanoseconds as milliseconds; Go's division truncates towards zero.\<close>

definition Milliseconds :: "int \<Rightarrow> int" where
  "Milliseconds d = sgn d * (\<bar>d\<bar> div 1000000)"

definition accountSnapshotWithSuccess :: "accountSnapshot \<Rightarrow> gotime \<Rightarrow> int \<Rightarrow> accountSnapshot" where
  "accountSnapshotWithSuccess current now latency =
     (let current = (if as_Kind current = [] then current\<lparr>as_Kind := inferAccountKind current\<rparr> else current)
      in current\<lparr>
           as_LastAttemptAt := now,
           as_LastSuccessAt := Some now,
           as_LatencyMs := Milliseconds latency,
           as_Stale := False,
           as_Sections := mmapv (\<lambda>section.
             if sec_Status section = ''available'' \<and> sec_UpdatedAt section = None
             then section\<lparr>sec_UpdatedAt := Some now\<rparr> else section) (as_Sections current)\<rparr>)"

section \<open>Properties of one snapshot\<close>

lemma sections_fold:
  "foldl (\<lambda>st section. if sec_Status section = ''error'' then maxStatus st statusWarning else st) st xs =
     (if \<exists>x \<in> set xs. sec_Status x = ''error'' then maxStatus st statusWarning else st)"
  by (induction xs arbitrary: st) (auto simp: maxStatus_def)

definition has_section_error :: "accountSnapshot \<Rightarrow> bool" where
  "has_section_error s = list_ex (\<lambda>(_, section). sec_Status section = ''error'') (as_Sections s)"

definition exhausted :: "accountSnapshot \<Rightarrow> bool" where
  "exhausted s = (list_ex balance_exhausted (as_Balances s) \<or> list_ex window_exceeded (as_Windows s)
     \<or> list_ex quantity_exceeded (as_Quantities s))"

text \<open>What the base status is, without the loops.\<close>

lemma inferSnapshotBaseStatus_spec:
  "inferSnapshotBaseStatus s =
     (if as_Status s \<in> {statusError, statusUnknown, statusDisabled} then as_Status s
      else if exhausted s then statusCritical
      else if as_Error s \<noteq> None \<or> has_section_error s then statusWarning
      else statusOK)"
proof -
  have "(\<exists>x \<in> set (map snd (as_Sections s)). sec_Status x = ''error'') = has_section_error s"
    by (force simp: has_section_error_def list_ex_iff)
  then show ?thesis
    by (simp add: inferSnapshotBaseStatus_def sections_fold exhausted_def maxStatus_def Let_def)
qed

lemma markSectionError_rank:
  "TrimSpace name \<noteq> [] \<Longrightarrow> status_rank (as_Status (markSectionError s name code msg)) =
     max (status_rank (as_Status s)) 4"
  by (simp add: markSectionError_def maxStatus_def)

lemma markStale_keeps:
  "as_AccountID (markStale s now) = as_AccountID s" "as_Balances (markStale s now) = as_Balances s"
  "as_Windows (markStale s now) = as_Windows s" "as_Quantities (markStale s now) = as_Quantities s"
  "as_LastSuccessAt (markStale s now) = as_LastSuccessAt s" "as_Stale (markStale s now)"
  by (simp_all add: markStale_def Let_def)

end
