(* ===== verification/Thresholds.thy ===== *)
theory Thresholds
  imports Snapshot_Model
begin

text \<open>
  The threshold code of main.go: cash thresholds and quota percentages, their validation and
  normalisation, and \<open>applyThresholds\<close>, which derives the displayed status of a snapshot from
  its base status and the thresholds in force (\<open>state.effectiveThresholds()\<close>, an argument
  here).
\<close>

section \<open>Validation and normalisation\<close>

datatype threshold_error =
    EmptyKey
  | InvalidAmount string string
  | NegativeAmount string string
  | CriticalAboveWarning string
  | WarningPercentRange
  | CriticalPercentRange

definition parseThresholdAmount :: "string \<Rightarrow> string \<Rightarrow> string \<Rightarrow> threshold_error + f64" where
  "parseThresholdAmount key name raw =
     (case numericValue raw of
        None \<Rightarrow> Inl (InvalidAmount key name)
      | Some value \<Rightarrow> if value < 0 then Inl (NegativeAmount key name) else Inr value)"

definition normalizeRule :: "string \<Rightarrow> cashThreshold \<Rightarrow> threshold_error + cashThreshold" where
  "normalizeRule key rawRule =
     (case parseThresholdAmount key ''warning'' (ct_Warning rawRule) of
        Inl e \<Rightarrow> Inl e
      | Inr warning \<Rightarrow>
         (case parseThresholdAmount key ''critical'' (ct_Critical rawRule) of
            Inl e \<Rightarrow> Inl e
          | Inr critical \<Rightarrow>
              if warning < critical then Inl (CriticalAboveWarning key)
              else Inr \<lparr>ct_Warning = decimalString warning, ct_Critical = decimalString critical\<rparr>))"

definition threshold_key :: "bool \<Rightarrow> string \<Rightarrow> string" where
  "threshold_key uppercaseKeys rawKey =
     (if uppercaseKeys then ToUpper (TrimSpace rawKey) else TrimSpace rawKey)"

text \<open>The loop over the given map, with the map built so far.\<close>

fun normalize_loop :: "bool \<Rightarrow> (string, cashThreshold) gomap \<Rightarrow> (string, cashThreshold) gomap
    \<Rightarrow> threshold_error + (string, cashThreshold) gomap" where
  "normalize_loop up [] out = Inr out"
| "normalize_loop up ((rawKey, rawRule) # rest) out =
     (let key = threshold_key up rawKey
      in if key = [] then Inl EmptyKey
         else case normalizeRule key rawRule of
                Inl e \<Rightarrow> Inl e
              | Inr rule \<Rightarrow> normalize_loop up rest (mput key rule out))"

definition normalizeCashThresholdMap :: "(string, cashThreshold) gomap option \<Rightarrow> bool
    \<Rightarrow> threshold_error + (string, cashThreshold) gomap option" where
  "normalizeCashThresholdMap values uppercaseKeys =
     (case values of None \<Rightarrow> Inr None
      | Some m \<Rightarrow> if m = [] then Inr None
                 else (case normalize_loop uppercaseKeys m [] of Inl e \<Rightarrow> Inl e | Inr out \<Rightarrow> Inr (Some out)))"

definition normalizeCashThresholds ::
    "(string, cashThreshold) gomap option \<Rightarrow> threshold_error + (string, cashThreshold) gomap option" where
  "normalizeCashThresholds values = normalizeCashThresholdMap values True"

definition normalizeAccountCashThresholds ::
    "(string, cashThreshold) gomap option \<Rightarrow> threshold_error + (string, cashThreshold) gomap option" where
  "normalizeAccountCashThresholds values = normalizeCashThresholdMap values False"

definition validateThresholdPercentages :: "thresholdConfig \<Rightarrow> threshold_error option" where
  "validateThresholdPercentages t =
     (if tc_WarningPercent t \<le> 0 \<or> fnum 100 < tc_WarningPercent t then Some WarningPercentRange
      else if tc_CriticalPercent t \<le> 0 \<or> tc_WarningPercent t \<le> tc_CriticalPercent t
      then Some CriticalPercentRange
      else None)"

section \<open>Cash thresholds\<close>

definition cash_map :: "(string, cashThreshold) gomap option \<Rightarrow> (string, cashThreshold) gomap" where
  "cash_map m = (case m of None \<Rightarrow> [] | Some m \<Rightarrow> m)"

text \<open>The rule of an account wins over the rule of the currency.\<close>

definition cash_rule :: "thresholdConfig \<Rightarrow> string \<Rightarrow> string \<Rightarrow> cashThreshold option" where
  "cash_rule t accountID currency =
     (case mget (cash_map (tc_CashByAccount t)) (TrimSpace accountID) of
        Some rule \<Rightarrow> Some rule
      | None \<Rightarrow> mget (cash_map (tc_CashByCurrency t)) (ToUpper (TrimSpace currency)))"

definition cash_step :: "thresholdConfig \<Rightarrow> string \<Rightarrow> accountStatus \<Rightarrow> moneyBalance \<Rightarrow> accountStatus" where
  "cash_step t accountID status balance =
     (case numericValue (mb_Amount balance) of
        None \<Rightarrow> status
      | Some amount \<Rightarrow>
          if amount < 0 then statusCritical
          else (case cash_rule t accountID (mb_Currency balance) of
             None \<Rightarrow> status
           | Some rule \<Rightarrow>
               (case (numericValue (ct_Warning rule), numericValue (ct_Critical rule)) of
                  (Some warning, Some critical) \<Rightarrow>
                    if amount \<le> critical then statusCritical
                    else if amount \<le> warning \<and> status \<noteq> statusCritical then statusWarning
                    else status
                | _ \<Rightarrow> status)))"

definition cashThresholdStatus :: "accountSnapshot \<Rightarrow> thresholdConfig \<Rightarrow> accountStatus" where
  "cashThresholdStatus s t = foldl (cash_step t (as_AccountID s)) statusOK (as_Balances s)"

section \<open>applyThresholds\<close>

text \<open>The state of the two loops: the least remaining fraction, whether one was found, overage.\<close>

type_synonym quota_acc = "f64 \<times> bool \<times> bool"

definition window_step :: "quota_acc \<Rightarrow> quotaWindow \<Rightarrow> quota_acc" where
  "window_step acc w =
     (case acc of (minimum, found, overage) \<Rightarrow>
        (let overage = (overage \<or> window_exceeded w)
         in case qw_RemainingFraction w of
              None \<Rightarrow> (minimum, found, overage)
            | Some f \<Rightarrow> (minFloat minimum f, True, overage)))"

definition quantity_step :: "quota_acc \<Rightarrow> quotaQuantity \<Rightarrow> quota_acc" where
  "quantity_step acc q =
     (case acc of (minimum, found, overage) \<Rightarrow>
        if qq_Unlimited q then acc
        else (case (numericValue (qq_Remaining q), numericValue (qq_Total q)) of
            (Some remaining, Some tot) \<Rightarrow>
              if 0 < tot
              then (minFloat minimum (remaining / tot), True,
                    overage \<or> (case numericValue (qq_Used q) of Some used \<Rightarrow> tot < used | None \<Rightarrow> False))
              else acc
          | _ \<Rightarrow> acc))"

definition quota_scan :: "accountSnapshot \<Rightarrow> quota_acc" where
  "quota_scan s =
     foldl quantity_step (foldl window_step (1, False, False) (as_Windows s)) (as_Quantities s)"

definition applyThresholds :: "thresholdConfig \<Rightarrow> accountSnapshot \<Rightarrow> accountSnapshot" where
  "applyThresholds t s =
     (if as_Kind s = kindUnsupported then s
      else
        (let s = (if as_baseStatus s = [] then s\<lparr>as_baseStatus := inferSnapshotBaseStatus s\<rparr> else s);
             status = as_baseStatus s
         in if status \<in> {statusError, statusUnknown, statusDisabled} then s\<lparr>as_Status := status\<rparr>
            else
              (let cash = cashThresholdStatus s t;
                   status = (if cash \<noteq> statusOK then maxStatus status cash else status);
                   (minimum, found, overage) = quota_scan s
               in if overage then s\<lparr>as_Status := maxStatus status statusCritical\<rparr>
                  else if \<not> found then s\<lparr>as_Status := status\<rparr>
                  else if minimum * fnum 100 \<le> tc_CriticalPercent t
                  then s\<lparr>as_Status := maxStatus status statusCritical\<rparr>
                  else if minimum * fnum 100 \<le> tc_WarningPercent t
                  then s\<lparr>as_Status := maxStatus status statusWarning\<rparr>
                  else s\<lparr>as_Status := status\<rparr>)))"

section \<open>What the cash thresholds mean\<close>

text \<open>The verdict on one balance, and the fold as the worst verdict.\<close>

definition cash_verdict :: "thresholdConfig \<Rightarrow> string \<Rightarrow> moneyBalance \<Rightarrow> accountStatus" where
  "cash_verdict t accountID b = cash_step t accountID statusOK b"

lemma cash_verdict_cases:
  "cash_verdict t a b = statusOK \<or> cash_verdict t a b = statusWarning \<or> cash_verdict t a b = statusCritical"
  by (auto simp: cash_verdict_def cash_step_def split: option.splits)

lemma cash_step_worse:
  assumes "status \<in> {statusOK, statusWarning, statusCritical}"
  shows "cash_step t a status b = maxStatus status (cash_verdict t a b)"
  using assms
  by (auto simp: cash_step_def cash_verdict_def maxStatus_def split: option.splits)

lemma cash_fold:
  assumes "status \<in> {statusOK, statusWarning, statusCritical}"
  shows "foldl (cash_step t a) status bs = foldl maxStatus status (map (cash_verdict t a) bs)"
  using assms
proof (induction bs arbitrary: status)
  case (Cons b bs)
  have "maxStatus status (cash_verdict t a b) \<in> {statusOK, statusWarning, statusCritical}"
    using Cons.prems cash_verdict_cases [of t a b] sev.worse_either [of status "cash_verdict t a b"]
    by auto
  with Cons show ?case by (simp add: cash_step_worse)
qed simp

lemma cashThresholdStatus_worst:
  "cashThresholdStatus s t = foldl maxStatus statusOK (map (cash_verdict t (as_AccountID s)) (as_Balances s))"
  by (simp add: cashThresholdStatus_def cash_fold)

lemma cashThresholdStatus_range:
  "cashThresholdStatus s t \<in> {statusOK, statusWarning, statusCritical}"
proof -
  have "cashThresholdStatus s t \<in>
      insert statusOK (set (map (cash_verdict t (as_AccountID s)) (as_Balances s)))"
    unfolding cashThresholdStatus_worst by (rule sev.foldl_in)
  then show ?thesis using cash_verdict_cases by fastforce
qed

lemma status_rank_inj:
  "a \<in> {statusOK, statusWarning, statusCritical} \<Longrightarrow> b \<in> {statusOK, statusWarning, statusCritical} \<Longrightarrow>
     status_rank a = status_rank b \<Longrightarrow> a = b"
  by auto

text \<open>The order in which the balances are listed does not matter.\<close>

lemma cashThresholdStatus_perm:
  assumes "set (as_Balances s) = set (as_Balances s')" "as_AccountID s = as_AccountID s'"
  shows "cashThresholdStatus s t = cashThresholdStatus s' t"
proof (rule status_rank_inj [OF cashThresholdStatus_range cashThresholdStatus_range])
  show "status_rank (cashThresholdStatus s t) = status_rank (cashThresholdStatus s' t)"
    unfolding cashThresholdStatus_worst by (rule sev.foldl_rank_perm) (simp add: assms)
qed

section \<open>What applyThresholds computes\<close>

text \<open>The base status: the recorded one, or the inferred one.\<close>

definition base_of :: "accountSnapshot \<Rightarrow> accountStatus" where
  "base_of s = (if as_baseStatus s = [] then inferSnapshotBaseStatus s else as_baseStatus s)"

definition quota_verdict :: "thresholdConfig \<Rightarrow> accountSnapshot \<Rightarrow> accountStatus" where
  "quota_verdict t s =
     (case quota_scan s of (minimum, found, overage) \<Rightarrow>
        if overage then statusCritical
        else if \<not> found then statusOK
        else if minimum * fnum 100 \<le> tc_CriticalPercent t then statusCritical
        else if minimum * fnum 100 \<le> tc_WarningPercent t then statusWarning
        else statusOK)"

definition threshold_status :: "thresholdConfig \<Rightarrow> accountSnapshot \<Rightarrow> accountStatus" where
  "threshold_status t s =
     (if base_of s \<in> {statusError, statusUnknown, statusDisabled} then base_of s
      else maxStatus (maxStatus (base_of s) (cashThresholdStatus s t)) (quota_verdict t s))"

lemma inferSnapshotBaseStatus_nonempty: "as_Status s = [] \<or> inferSnapshotBaseStatus s \<noteq> []"
  by (auto simp: inferSnapshotBaseStatus_spec)

lemma infer_nonempty [simp]: "inferSnapshotBaseStatus s \<noteq> []"
  by (auto simp: inferSnapshotBaseStatus_spec)

lemma infer_range:
  "inferSnapshotBaseStatus s \<in> {statusOK, statusWarning, statusCritical, statusError, statusUnknown, statusDisabled}"
  by (auto simp: inferSnapshotBaseStatus_spec)

lemma maxStatus_ok [simp]: "1 \<le> status_rank a \<Longrightarrow> maxStatus a ''ok'' = a"
  by (simp add: maxStatus_def)

lemma quota_scan_cong [simp]:
  "quota_scan (s\<lparr>as_baseStatus := b\<rparr>) = quota_scan s" "quota_scan (s\<lparr>as_Status := st\<rparr>) = quota_scan s"
  by (simp_all add: quota_scan_def)

lemma cashThresholdStatus_cong [simp]:
  "cashThresholdStatus (s\<lparr>as_baseStatus := b\<rparr>) t = cashThresholdStatus s t"
  "cashThresholdStatus (s\<lparr>as_Status := st\<rparr>) t = cashThresholdStatus s t"
  by (simp_all add: cashThresholdStatus_def)

lemma applyThresholds_base:
  "(if as_baseStatus s = [] then s\<lparr>as_baseStatus := inferSnapshotBaseStatus s\<rparr> else s) =
     s\<lparr>as_baseStatus := base_of s\<rparr>"
  by (simp add: base_of_def)

lemma threshold_status_ok:
  assumes "base_of s \<notin> {statusError, statusUnknown, statusDisabled}" "1 \<le> status_rank (base_of s)"
    and "quota_scan s = (m, found, over)"
  shows "threshold_status t s =
     (let status = (if cashThresholdStatus s t \<noteq> statusOK
                    then maxStatus (base_of s) (cashThresholdStatus s t) else base_of s)
      in if over then maxStatus status statusCritical
         else if \<not> found then status
         else if m * fnum 100 \<le> tc_CriticalPercent t then maxStatus status statusCritical
         else if m * fnum 100 \<le> tc_WarningPercent t then maxStatus status statusWarning
         else status)"
proof -
  have c: "(if cashThresholdStatus s t \<noteq> statusOK
      then maxStatus (base_of s) (cashThresholdStatus s t) else base_of s) =
      maxStatus (base_of s) (cashThresholdStatus s t)"
    using assms(2) by simp
  have "1 \<le> status_rank (maxStatus (base_of s) (cashThresholdStatus s t))"
    using assms(2) by (simp add: sev.rank_worse)
  then show ?thesis
    using assms(1) unfolding c by (simp add: threshold_status_def quota_verdict_def assms(3) Let_def)
qed

lemma applyThresholds_eq:
  assumes "1 \<le> status_rank (base_of s)"
  shows "applyThresholds t s =
     (if as_Kind s = kindUnsupported then s
      else s\<lparr>as_baseStatus := base_of s, as_Status := threshold_status t s\<rparr>)"
proof (cases "as_Kind s = kindUnsupported \<or> base_of s \<in> {statusError, statusUnknown, statusDisabled}")
  case True
  then show ?thesis
    unfolding applyThresholds_def applyThresholds_base Let_def
    by (auto simp: threshold_status_def)
next
  case False
  obtain m found over where q: "quota_scan s = (m, found, over)" by (cases "quota_scan s") auto
  from False have b: "base_of s \<notin> {statusError, statusUnknown, statusDisabled}" by simp
  show ?thesis
    using False
    unfolding applyThresholds_def applyThresholds_base Let_def threshold_status_ok [OF b assms q]
    by (simp add: q)
qed

section \<open>Properties\<close>

text \<open>Concrete inputs for the witnesses: 3 USD left and a quarter of a quota.\<close>

definition ex_account :: accountSnapshot where
  "ex_account = zero_snapshot\<lparr>as_AccountID := ''a'', as_Kind := kindBalance, as_Status := statusOK,
     as_Balances := [\<lparr>mb_Amount = ''3'', mb_Currency = ''usd'', mb_BalanceType = ''total''\<rparr>],
     as_Quantities := [\<lparr>qq_Name = ''month'', qq_Scope = [], qq_Source = [], qq_Display = [],
       qq_Unlimited = False, qq_Remaining = ''1'', qq_Total = ''4'', qq_Used = ''3'', qq_Unit = [],
       qq_ResetAt = None, qq_ExpiresAt = None\<rparr>]\<rparr>"

definition ex_thresholds :: "f64 \<Rightarrow> f64 \<Rightarrow> thresholdConfig" where
  "ex_thresholds w c = \<lparr>tc_WarningPercent = w, tc_CriticalPercent = c,
     tc_CashByCurrency = Some [(''USD'', \<lparr>ct_Warning = ''5'', ct_Critical = ''1''\<rparr>)],
     tc_CashByAccount = None\<rparr>"

text \<open>A base status that the code can have written: none yet, or one of the known ones.\<close>

definition base_known :: "accountSnapshot \<Rightarrow> bool" where
  "base_known s = (as_baseStatus s = [] \<or> 1 \<le> status_rank (as_baseStatus s))"

lemma base_of_nonempty: "base_known s \<Longrightarrow> 1 \<le> status_rank (base_of s)"
  using infer_range [of s] by (auto simp: base_known_def base_of_def)

lemma rank_nonempty: "1 \<le> status_rank st \<Longrightarrow> st \<noteq> []"
  by (auto simp: status_rank_def)

lemma threshold_status_base_cong:
  "base_of s' = base_of s \<Longrightarrow> quota_scan s' = quota_scan s \<Longrightarrow>
     cashThresholdStatus s' t = cashThresholdStatus s t \<Longrightarrow>
     threshold_status t s' = threshold_status t s"
  by (simp add: threshold_status_def quota_verdict_def)

text \<open>
  C8: the displayed status of a snapshot is its base status where that is error, unknown or
  disabled; otherwise its severity is the worst of the base status, the verdict of the cash
  thresholds and the verdict of the quota (overage counts as critical, and a remaining
  percentage at or below a limit counts as that limit's level).
\<close>

theorem applyThresholds_severity:
  assumes "base_known s" "as_Kind s \<noteq> kindUnsupported"
  shows "(if base_of s \<in> {statusError, statusUnknown, statusDisabled}
          then as_Status (applyThresholds t s) = base_of s
          else status_rank (as_Status (applyThresholds t s)) =
               Max {status_rank (base_of s), status_rank (cashThresholdStatus s t),
                    status_rank (quota_verdict t s)})"
  using assms base_of_nonempty [OF assms(1)]
  by (auto simp: applyThresholds_eq threshold_status_def sev.rank_worse max.assoc)

lemma ex_base: "base_of ex_account = statusOK" "base_known ex_account" "as_Kind ex_account \<noteq> kindUnsupported"
  by code_simp+

lemma ex_verdicts:
  "cashThresholdStatus ex_account (ex_thresholds (fnum 20) (fnum 10)) = statusWarning"
  "quota_verdict (ex_thresholds (fnum 20) (fnum 10)) ex_account = statusOK"
  by code_simp+

theorem applyThresholds_severity_witness:
  "status_rank (as_Status (applyThresholds (ex_thresholds (fnum 20) (fnum 10)) ex_account)) = 4"
  using applyThresholds_severity [OF ex_base(2,3), of "ex_thresholds (fnum 20) (fnum 10)"]
  by (simp add: ex_base(1) ex_verdicts)

text \<open>
  C24: thresholds are re-applied from the base status, so a snapshot whose status was derived
  under other thresholds gets the status it would have got at once: severities raised by an
  old threshold do not stick (\<open>reapplyActive(applyThresholds)\<close> after a settings change).
\<close>

theorem applyThresholds_reapply:
  assumes "base_known s"
  shows "applyThresholds t2 (applyThresholds t1 s) = applyThresholds t2 s"
proof (cases "as_Kind s = kindUnsupported")
  case True
  then show ?thesis by (simp add: applyThresholds_def)
next
  case False
  define u where "u = s\<lparr>as_baseStatus := base_of s, as_Status := threshold_status t1 s\<rparr>"
  note r = base_of_nonempty [OF assms]
  have b: "base_of u = base_of s" using rank_nonempty [OF r] by (simp add: u_def base_of_def)
  have ts: "threshold_status t2 u = threshold_status t2 s"
    by (rule threshold_status_base_cong) (use b in \<open>simp_all add: u_def quota_scan_def cashThresholdStatus_def\<close>)
  have "applyThresholds t1 s = u" using False r by (simp add: applyThresholds_eq u_def)
  moreover have "applyThresholds t2 u = u\<lparr>as_baseStatus := base_of u, as_Status := threshold_status t2 u\<rparr>"
    using False r by (simp add: applyThresholds_eq b) (simp add: u_def)
  moreover have "\<dots> = s\<lparr>as_baseStatus := base_of s, as_Status := threshold_status t2 s\<rparr>"
    unfolding b ts by (simp add: u_def)
  ultimately show ?thesis using False r by (simp add: applyThresholds_eq)
qed

theorem applyThresholds_reapply_witness:
  "applyThresholds (ex_thresholds (fnum 20) (fnum 10)) (applyThresholds (ex_thresholds (fnum 60) (fnum 40)) ex_account)
     = applyThresholds (ex_thresholds (fnum 20) (fnum 10)) ex_account
   \<and> as_Status (applyThresholds (ex_thresholds (fnum 60) (fnum 40)) ex_account) = statusCritical"
proof
  show "as_Status (applyThresholds (ex_thresholds (fnum 60) (fnum 40)) ex_account) = statusCritical"
    by code_simp
qed (rule applyThresholds_reapply [OF ex_base(2)])

lemma infer_after_apply:
  assumes "as_baseStatus s = []"
  shows "inferSnapshotBaseStatus (s\<lparr>as_Status := threshold_status t s\<rparr>) = inferSnapshotBaseStatus s"
proof -
  define i where "i = inferSnapshotBaseStatus s"
  have bi: "base_of s = i" by (simp add: base_of_def assms i_def)
  have ex: "exhausted (s\<lparr>as_Status := st\<rparr>) = exhausted s"
    "has_section_error (s\<lparr>as_Status := st\<rparr>) = has_section_error s" for st
    by (simp_all add: exhausted_def has_section_error_def)
  show ?thesis
  proof (cases "i \<in> {statusError, statusUnknown, statusDisabled}")
    case True
    then have "as_Status s = i" by (auto simp: i_def inferSnapshotBaseStatus_spec split: if_splits)
    moreover have "threshold_status t s = i" using True by (simp add: threshold_status_def bi)
    ultimately have "s\<lparr>as_Status := threshold_status t s\<rparr> = s" by (cases s) simp
    then show ?thesis by simp
  next
    case False
    then have orig: "as_Status s \<notin> {statusError, statusUnknown, statusDisabled}"
      by (auto simp: i_def inferSnapshotBaseStatus_spec split: if_splits)
    have ir: "i \<in> {statusOK, statusWarning, statusCritical}"
      using infer_range [of s] False by (auto simp: i_def)
    have cr: "cashThresholdStatus s t \<in> {statusOK, statusWarning, statusCritical}"
      by (rule cashThresholdStatus_range)
    have qr: "quota_verdict t s \<in> {statusOK, statusWarning, statusCritical}"
      by (auto simp: quota_verdict_def split: prod.splits)
    have "threshold_status t s \<in> {statusOK, statusWarning, statusCritical}"
      using ir cr qr False
      by (auto simp: threshold_status_def bi maxStatus_def)
    then have new: "threshold_status t s \<notin> {statusError, statusUnknown, statusDisabled}" by auto
    show ?thesis using orig new by (simp add: inferSnapshotBaseStatus_spec ex)
  qed
qed

text \<open>
  C23: the base status is not persisted, and need not be: a snapshot that is written to the
  cache with the status the old thresholds gave it and read back gets, under any thresholds,
  the status of the original snapshot.
\<close>

theorem applyThresholds_reload:
  assumes "as_baseStatus s = []"
  shows "as_Status (applyThresholds t2 ((applyThresholds t1 s)\<lparr>as_baseStatus := []\<rparr>)) =
         as_Status (applyThresholds t2 s)"
proof (cases "as_Kind s = kindUnsupported")
  case True
  then show ?thesis by (simp add: applyThresholds_def)
next
  case False
  define u where "u = s\<lparr>as_Status := threshold_status t1 s\<rparr>"
  have r: "1 \<le> status_rank (base_of s)" by (rule base_of_nonempty) (simp add: base_known_def assms)
  have "(applyThresholds t1 s)\<lparr>as_baseStatus := []\<rparr> = u"
    using False r assms by (simp add: applyThresholds_eq u_def)
  moreover have b: "base_of u = base_of s"
    using infer_after_apply [OF assms, of t1] by (simp add: u_def base_of_def assms)
  moreover have "threshold_status t2 u = threshold_status t2 s"
    by (rule threshold_status_base_cong) (use b in \<open>simp_all add: u_def\<close>)
  ultimately show ?thesis using False r by (simp add: applyThresholds_eq b) (simp add: u_def)
qed

theorem applyThresholds_reload_witness:
  "as_Status (applyThresholds (ex_thresholds (fnum 20) (fnum 10))
      ((applyThresholds (ex_thresholds (fnum 60) (fnum 40)) ex_account)\<lparr>as_baseStatus := []\<rparr>)) =
   as_Status (applyThresholds (ex_thresholds (fnum 20) (fnum 10)) ex_account)"
  by (rule applyThresholds_reload) (simp add: ex_account_def zero_snapshot_def)

lemma quota_verdict_mono:
  assumes "tc_WarningPercent t1 \<le> tc_WarningPercent t2" "tc_CriticalPercent t1 \<le> tc_CriticalPercent t2"
  shows "status_rank (quota_verdict t1 s) \<le> status_rank (quota_verdict t2 s)"
proof -
  obtain m found over where q: "quota_scan s = (m, found, over)" by (cases "quota_scan s") auto
  have "m * fnum 100 \<le> tc_WarningPercent t1 \<Longrightarrow> m * fnum 100 \<le> tc_WarningPercent t2"
    "m * fnum 100 \<le> tc_CriticalPercent t1 \<Longrightarrow> m * fnum 100 \<le> tc_CriticalPercent t2"
    using assms by (blast intro: f64_le_trans)+
  then show ?thesis by (simp add: quota_verdict_def q)
qed

text \<open>
  C25: raising the percentage thresholds never makes an account look better.
\<close>

theorem applyThresholds_percent_mono:
  assumes "base_known s"
    and "tc_WarningPercent t1 \<le> tc_WarningPercent t2" "tc_CriticalPercent t1 \<le> tc_CriticalPercent t2"
    and "tc_CashByCurrency t1 = tc_CashByCurrency t2" "tc_CashByAccount t1 = tc_CashByAccount t2"
  shows "status_rank (as_Status (applyThresholds t1 s)) \<le> status_rank (as_Status (applyThresholds t2 s))"
proof -
  have cr: "cash_rule t1 = cash_rule t2"
    unfolding fun_eq_iff cash_rule_def assms(4,5) by simp
  have "cash_step t1 = cash_step t2"
    unfolding fun_eq_iff cash_step_def cr by simp
  then have c: "cashThresholdStatus s t1 = cashThresholdStatus s t2"
    by (simp add: cashThresholdStatus_def)
  show ?thesis
    using base_of_nonempty [OF assms(1)] quota_verdict_mono [OF assms(2,3), of s]
    by (auto simp: applyThresholds_eq threshold_status_def sev.rank_worse c)
qed

theorem applyThresholds_percent_mono_witness:
  "status_rank (as_Status (applyThresholds (ex_thresholds (fnum 20) (fnum 10)) ex_account)) \<le>
   status_rank (as_Status (applyThresholds (ex_thresholds (fnum 60) (fnum 40)) ex_account))"
proof (rule applyThresholds_percent_mono [OF ex_base(2)])
  have "fnum 20 \<le> fnum 60" "fnum 10 \<le> fnum 40" by code_simp+
  then show "tc_WarningPercent (ex_thresholds (fnum 20) (fnum 10)) \<le> tc_WarningPercent (ex_thresholds (fnum 60) (fnum 40))"
    "tc_CriticalPercent (ex_thresholds (fnum 20) (fnum 10)) \<le> tc_CriticalPercent (ex_thresholds (fnum 60) (fnum 40))"
    by (simp_all add: ex_thresholds_def)
qed (simp_all add: ex_thresholds_def)

end
