(* ===== verification/Store_Contract.thy ===== *)
theory Store_Contract
  imports Go_Prelude
begin

text \<open>
  The contract of a keyed store, as the components that use one rely on it: what a lookup
  returns after a write and after a removal.  The snapshot store, the preferences' maps and
  the session table provide it; the lemmas on histories of operations are proved here once.
\<close>

datatype ('k, 'v) store_op = Store 'v | Discard 'k

fun apply_op :: "('v \<Rightarrow> 's \<Rightarrow> 's) \<Rightarrow> ('k \<Rightarrow> 's \<Rightarrow> 's) \<Rightarrow> 's \<Rightarrow> ('k, 'v) store_op \<Rightarrow> 's" where
  "apply_op store discard s (Store v) = store v s"
| "apply_op store discard s (Discard j) = discard j s"

fun op_key :: "('v \<Rightarrow> 'k) \<Rightarrow> ('k, 'v) store_op \<Rightarrow> 'k" where
  "op_key key_of (Store v) = key_of v"
| "op_key key_of (Discard j) = j"

fun op_value :: "('k, 'v) store_op \<Rightarrow> 'v option" where
  "op_value (Store v) = Some v"
| "op_value (Discard j) = None"

locale keyed_store =
  fixes lookup :: "'s \<Rightarrow> 'k \<Rightarrow> 'v option"
    and store :: "'v \<Rightarrow> 's \<Rightarrow> 's"
    and discard :: "'k \<Rightarrow> 's \<Rightarrow> 's"
    and key_of :: "'v \<Rightarrow> 'k"
    and valid :: "'k \<Rightarrow> bool"
  assumes lookup_store: "valid (key_of v) \<Longrightarrow> lookup (store v s) k = (if k = key_of v then Some v else lookup s k)"
    and lookup_discard: "valid j \<Longrightarrow> lookup (discard j s) k = (if k = j then None else lookup s k)"
begin

lemma lookup_op: "valid (op_key key_of x) \<Longrightarrow> lookup (apply_op store discard s x) k = (if k = op_key key_of x then op_value x else lookup s k)"
  by (cases x) (auto simp: lookup_store lookup_discard)

text \<open>After any history of operations a key holds what the last operation on it left.\<close>

lemma lookup_run:
  assumes "\<forall>x \<in> set ops. valid (op_key key_of x)"
  shows "lookup (foldl (apply_op store discard) s ops) k =
    (case filter (\<lambda>x. op_key key_of x = k) ops of [] \<Rightarrow> lookup s k | xs \<Rightarrow> op_value (last xs))"
  using assms
proof (induction ops rule: rev_induct)
  case (snoc x ops)
  then have "valid (op_key key_of x)" by simp
  with snoc show ?case by (auto simp: lookup_op split: list.splits)
qed simp

lemma untouched:
  assumes "\<forall>x \<in> set ops. valid (op_key key_of x)" "\<forall>x \<in> set ops. op_key key_of x \<noteq> k"
  shows "lookup (foldl (apply_op store discard) s ops) k = lookup s k"
proof -
  have "filter (\<lambda>x. op_key key_of x = k) ops = []" using assms(2) by (simp add: filter_empty_conv)
  then show ?thesis by (simp add: lookup_run [OF assms(1)])
qed

lemma removed_stays_removed:
  assumes "valid k" "\<forall>x \<in> set ops. valid (op_key key_of x)" "\<forall>v. Store v \<in> set ops \<longrightarrow> key_of v \<noteq> k"
  shows "lookup (foldl (apply_op store discard) (discard k s) ops) k = None"
proof -
  have "op_value (last (x # xs)) = None" if "filter (\<lambda>x. op_key key_of x = k) ops = x # xs" for x xs
  proof -
    have "last (x # xs) \<in> set (filter (\<lambda>x. op_key key_of x = k) ops)" unfolding that by (rule last_in_set) simp
    with assms(3) show ?thesis by (cases "last (x # xs)") auto
  qed
  then show ?thesis using assms(1,2) by (auto simp: lookup_run lookup_discard split: list.splits)
qed

end

section \<open>Invariants of step relations\<close>

text \<open>
  Reachability in a system of steps, and the rule for an invariant of it.  Each component
  whose operations interleave is such a system.
\<close>

inductive reach :: "('s \<Rightarrow> bool) \<Rightarrow> ('s \<Rightarrow> 's \<Rightarrow> bool) \<Rightarrow> 's \<Rightarrow> bool"
  for start :: "'s \<Rightarrow> bool" and step :: "'s \<Rightarrow> 's \<Rightarrow> bool" where
  reach_start: "start s \<Longrightarrow> reach start step s"
| reach_step: "reach start step s \<Longrightarrow> step s s' \<Longrightarrow> reach start step s'"

locale invariant_of =
  fixes start :: "'s \<Rightarrow> bool" and step :: "'s \<Rightarrow> 's \<Rightarrow> bool" and inv :: "'s \<Rightarrow> bool"
  assumes inv_start: "start s \<Longrightarrow> inv s"
    and inv_step: "inv s \<Longrightarrow> step s s' \<Longrightarrow> inv s'"
begin

lemma inv_reach: "reach start step s \<Longrightarrow> inv s"
  by (induction rule: reach.induct) (auto intro: inv_start inv_step)

lemma inv_steps: "step\<^sup>*\<^sup>* s s' \<Longrightarrow> inv s \<Longrightarrow> inv s'"
  by (induction rule: rtranclp_induct) (auto intro: inv_step)

end

end
