(* ===== verification/Atomic_File.thy ===== *)
theory Atomic_File
  imports Go_Prelude
begin

text \<open>
  storage.go: \<open>writeFileAtomic\<close> as the sequence of its system calls, each of which may fail.
  A file system maps paths to inodes; an inode knows whether its data has been synced.
  The run keeps every state it passes through (latest first), so that the properties can
  speak about a crash at any point.  Directories are not modelled beyond the failure of the
  calls on them.
\<close>

record inode =
  in_data :: string
  in_synced :: bool
  in_mode :: nat

type_synonym fsys = "(string, inode) gomap"

text \<open>The calls that can fail; the error of the function names the call.\<close>

datatype fs_call =
    MkdirAll | CreateTemp | Chmod | WriteTemp | SyncTemp | CloseTemp | Rename
  | OpenDir | SyncDir | CloseDir | RemoveTemp

section \<open>The calls\<close>

definition fs_create :: "string \<Rightarrow> fsys \<Rightarrow> fsys" where
  "fs_create p fs = mput p \<lparr>in_data = [], in_synced = False, in_mode = 384\<rparr> fs"

definition fs_update :: "string \<Rightarrow> (inode \<Rightarrow> inode) \<Rightarrow> fsys \<Rightarrow> fsys" where
  "fs_update p f fs = (case mget fs p of None \<Rightarrow> fs | Some i \<Rightarrow> mput p (f i) fs)"

definition fs_rename :: "string \<Rightarrow> string \<Rightarrow> fsys \<Rightarrow> fsys" where
  "fs_rename p q fs = (case mget fs p of None \<Rightarrow> fs | Some i \<Rightarrow> mput q i (mdel p fs))"

definition fs_remove :: "string \<Rightarrow> fsys \<Rightarrow> fsys" where
  "fs_remove p fs = mdel p fs"

text \<open>One more state of the run.\<close>

definition act :: "(fsys \<Rightarrow> fsys) \<Rightarrow> fsys list \<Rightarrow> fsys list" where
  "act f run = f (hd run) # run"

section \<open>The function\<close>

text \<open>
  After the temporary file exists: chmod, write (of which a failing call may have written a
  part), sync, close, rename, and the sync of the directory.  The result says whether the
  deferred removal of the temporary file is still armed.
\<close>

definition fill_temp :: "(fs_call \<Rightarrow> bool) \<Rightarrow> nat \<Rightarrow> string \<Rightarrow> string \<Rightarrow> string \<Rightarrow> nat \<Rightarrow> fsys list
    \<Rightarrow> fs_call option \<times> bool \<times> fsys list" where
  "fill_temp ok part tmp path data mode run =
     (if \<not> ok Chmod then (Some Chmod, True, run)
      else
        (let run = act (fs_update tmp (\<lambda>i. i\<lparr>in_mode := mode\<rparr>)) run
         in if \<not> ok WriteTemp
            then (Some WriteTemp, True, act (fs_update tmp (\<lambda>i. i\<lparr>in_data := take part data\<rparr>)) run)
            else
              (let run = act (fs_update tmp (\<lambda>i. i\<lparr>in_data := data\<rparr>)) run
               in if \<not> ok SyncTemp then (Some SyncTemp, True, run)
                  else
                    (let run = act (fs_update tmp (\<lambda>i. i\<lparr>in_synced := True\<rparr>)) run
                     in if \<not> ok CloseTemp then (Some CloseTemp, True, run)
                        else if \<not> ok Rename then (Some Rename, True, run)
                        else
                          (let run = act (fs_rename tmp path) run
                           in if \<not> ok OpenDir then (Some OpenDir, False, run)
                              else if \<not> ok SyncDir then (Some SyncDir, False, run)
                              else if \<not> ok CloseDir then (Some CloseDir, False, run)
                              else (None, False, run))))))"

definition writeFileAtomic :: "(fs_call \<Rightarrow> bool) \<Rightarrow> nat \<Rightarrow> string \<Rightarrow> string \<Rightarrow> string \<Rightarrow> nat \<Rightarrow> fsys
    \<Rightarrow> fs_call option \<times> fsys list" where
  "writeFileAtomic ok part tmp path data mode fs =
     (if \<not> ok MkdirAll then (Some MkdirAll, [fs])
      else if \<not> ok CreateTemp then (Some CreateTemp, [fs])
      else
        (case fill_temp ok part tmp path data mode (act (fs_create tmp) [fs]) of
           (err, removeTemp, run) \<Rightarrow>
             (err, if removeTemp \<and> ok RemoveTemp then act (fs_remove tmp) run else run)))"

text \<open>What a caller can see of a write: success, or an error before or after the replacement.\<close>

datatype write_outcome = Written | NotWritten | WrittenWithError

definition atomic_outcome :: "fs_call option \<Rightarrow> write_outcome" where
  "atomic_outcome err =
     (case err of None \<Rightarrow> Written
      | Some call \<Rightarrow> if call \<in> {OpenDir, SyncDir, CloseDir} then WrittenWithError else NotWritten)"

section \<open>Properties\<close>

definition written_inode :: "string \<Rightarrow> nat \<Rightarrow> inode" where
  "written_inode data mode = \<lparr>in_data = data, in_synced = True, in_mode = mode\<rparr>"

lemma mput_mput: "mput k v (mput k w m) = mput k v m"
  by (induction m) auto

lemma mdel_mput: "mdel k (mput k v m) = mdel k m"
  by (induction m) auto

lemma fs_update_put [simp]: "fs_update p f (mput p i fs) = mput p (f i) fs"
  by (simp add: fs_update_def mput_mput)

lemma fs_rename_put [simp]: "fs_rename p q (mput p i fs) = mput q i (mdel p fs)"
  by (simp add: fs_rename_def mdel_mput)

lemma fs_remove_put [simp]: "fs_remove p (mput p i fs) = mdel p fs"
  by (simp add: fs_remove_def mdel_mput)

lemmas run_simps = writeFileAtomic_def fill_temp_def act_def fs_create_def Let_def

text \<open>A property of all states of a run follows from the few states there are.\<close>

lemma run_all:
  assumes "P fs" "\<And>i. P (mput tmp i fs)" "P (mdel tmp fs)" "P (mput path (written_inode data mode) (mdel tmp fs))"
  shows "list_all P (snd (writeFileAtomic ok part tmp path data mode fs))"
  using assms by (simp add: run_simps written_inode_def)

text \<open>
  C29: whatever call fails, and wherever the process stops, the destination holds either
  what it held before or the complete new data, synced and with the requested mode: no state
  of the run shows a partial file there, and no state changes any other file but the
  temporary one.
\<close>

theorem atomic_destination_intact:
  assumes "tmp \<noteq> path"
  shows "list_all (\<lambda>fs'. (mget fs' path = mget fs path \<or> mget fs' path = Some (written_inode data mode))
      \<and> (\<forall>p. p \<notin> {path, tmp} \<longrightarrow> mget fs' p = mget fs p))
    (snd (writeFileAtomic ok part tmp path data mode fs))"
  using assms by (intro run_all) auto

theorem atomic_destination_intact_witness:
  "list_all (\<lambda>fs'. (mget fs' ''p'' = None \<or> mget fs' ''p'' = Some (written_inode ''new'' 384))
      \<and> (\<forall>p. p \<notin> {''p'', ''t''} \<longrightarrow> mget fs' p = None))
    (snd (writeFileAtomic (\<lambda>c. c \<noteq> WriteTemp) 1 ''t'' ''p'' ''new'' 384 []))
   \<and> length (snd (writeFileAtomic (\<lambda>c. c \<noteq> WriteTemp) 1 ''t'' ''p'' ''new'' 384 [])) = 5"
  using atomic_destination_intact [of "''t''" "''p''" "[]" "''new''" 384 "\<lambda>c. c \<noteq> WriteTemp" 1]
  by (simp add: run_simps)

text \<open>The first call that fails, in the order of the code.\<close>

lemma first_failure:
  obtains (MkdirAll_case) "\<not> ok MkdirAll"
    | (CreateTemp_case) "ok MkdirAll" "\<not> ok CreateTemp"
    | (Chmod_case) "ok MkdirAll" "ok CreateTemp" "\<not> ok Chmod"
    | (WriteTemp_case) "ok MkdirAll" "ok CreateTemp" "ok Chmod" "\<not> ok WriteTemp"
    | (SyncTemp_case) "ok MkdirAll" "ok CreateTemp" "ok Chmod" "ok WriteTemp" "\<not> ok SyncTemp"
    | (CloseTemp_case) "ok MkdirAll" "ok CreateTemp" "ok Chmod" "ok WriteTemp" "ok SyncTemp" "\<not> ok CloseTemp"
    | (Rename_case) "ok MkdirAll" "ok CreateTemp" "ok Chmod" "ok WriteTemp" "ok SyncTemp" "ok CloseTemp" "\<not> ok Rename"
    | (OpenDir_case) "ok MkdirAll" "ok CreateTemp" "ok Chmod" "ok WriteTemp" "ok SyncTemp" "ok CloseTemp" "ok Rename" "\<not> ok OpenDir"
    | (SyncDir_case) "ok MkdirAll" "ok CreateTemp" "ok Chmod" "ok WriteTemp" "ok SyncTemp" "ok CloseTemp" "ok Rename" "ok OpenDir" "\<not> ok SyncDir"
    | (CloseDir_case) "ok MkdirAll" "ok CreateTemp" "ok Chmod" "ok WriteTemp" "ok SyncTemp" "ok CloseTemp" "ok Rename" "ok OpenDir" "ok SyncDir" "\<not> ok CloseDir"
    | (All_case) "ok MkdirAll" "ok CreateTemp" "ok Chmod" "ok WriteTemp" "ok SyncTemp" "ok CloseTemp" "ok Rename" "ok OpenDir" "ok SyncDir" "ok CloseDir"
  by metis

text \<open>
  C39: the result tells what happened.  No error: the destination has the new data and the
  temporary file is gone.  An error before the rename: the destination is untouched, and the
  temporary file is gone unless its removal failed.  An error after it (opening, syncing or
  closing the directory): the function reports a failure although the destination has been
  replaced.
\<close>

theorem atomic_result:
  assumes "tmp \<noteq> path" "mget fs tmp = None"
  shows "let r = writeFileAtomic ok part tmp path data mode fs in
    mget (hd (snd r)) path =
      (if atomic_outcome (fst r) = NotWritten then mget fs path else Some (written_inode data mode))
    \<and> (atomic_outcome (fst r) \<noteq> NotWritten \<or> ok RemoveTemp \<longrightarrow> mget (hd (snd r)) tmp = None)
    \<and> (fst r = None \<longleftrightarrow> list_all ok [MkdirAll, CreateTemp, Chmod, WriteTemp, SyncTemp, CloseTemp, Rename,
          OpenDir, SyncDir, CloseDir])"
  using assms
  by (cases rule: first_failure [of ok]) (simp_all add: run_simps written_inode_def atomic_outcome_def)

theorem atomic_result_witness:
  "mget (hd (snd (writeFileAtomic (\<lambda>c. c \<noteq> SyncDir) 0 ''t'' ''p'' ''new'' 384 []))) ''p''
     = Some (written_inode ''new'' 384)
   \<and> fst (writeFileAtomic (\<lambda>c. c \<noteq> SyncDir) 0 ''t'' ''p'' ''new'' 384 []) = Some SyncDir"
proof -
  have e: "fst (writeFileAtomic (\<lambda>c. c \<noteq> SyncDir) 0 ''t'' ''p'' ''new'' 384 []) = Some SyncDir"
    by (simp add: run_simps)
  show ?thesis
    using atomic_result [of "''t''" "''p''" "[]" "\<lambda>c. c \<noteq> SyncDir" 0 "''new''" 384] e
    unfolding Let_def by (simp add: atomic_outcome_def)
qed

end
