(* ===== verification/Snapshot_Cache.thy ===== *)
theory Snapshot_Cache
  imports Thresholds Store_Contract Atomic_File
begin

text \<open>
  cache.go: the snapshot store with its active entries and its history of at most 50 events
  per account, the migration of a legacy identity, and the persisted cache file (decoding
  with validation, refusal to overwrite an unreadable file, write outcome bookkeeping).
  The lock of the store makes each operation one step; \<open>save\<close> reads under the lock, writes
  without it and finishes under it, so it is two steps here (\<open>save_begin\<close>, \<open>save_finish\<close>).
\<close>

definition snapshotHistoryLimit :: nat where
  "snapshotHistoryLimit = 50"

definition snapshotCacheFormatVersion :: int where
  "snapshotCacheFormatVersion = 2"

datatype cache_error =
    ReadCache
  | DecodeJSON
  | UnsupportedFormat int
  | EmptyAccountID
  | MismatchedAccountID string string
  | NoTimestamp string
  | RefuseOverwrite cache_error
  | EncodeCache
  | PersistCache

record snapshotStore =
  ss_entries :: "(string, accountSnapshot) gomap"
  ss_history :: "(string, accountSnapshot list) gomap"
  ss_loadErr :: "cache_error option"
  ss_migrationRevision :: nat
  ss_migrationDirty :: bool
  ss_migrationErr :: "cache_error option"

definition newSnapshotStore :: snapshotStore where
  "newSnapshotStore = \<lparr>ss_entries = [], ss_history = [], ss_loadErr = None,
     ss_migrationRevision = 0, ss_migrationDirty = False, ss_migrationErr = None\<rparr>"

abbreviation history_of :: "snapshotStore \<Rightarrow> string \<Rightarrow> accountSnapshot list" where
  "history_of s aid \<equiv> mgetz [] (ss_history s) aid"

section \<open>Operations\<close>

definition store_put :: "accountSnapshot \<Rightarrow> snapshotStore \<Rightarrow> snapshotStore" where
  "store_put snapshot s =
     (if as_AccountID snapshot = [] then s
      else
        (let aid = as_AccountID snapshot;
             s = s\<lparr>ss_entries := mput aid snapshot (ss_entries s)\<rparr>;
             s = s\<lparr>ss_history := mput aid (snapshot # history_of s aid) (ss_history s)\<rparr>
         in if snapshotHistoryLimit < length (history_of s aid)
            then s\<lparr>ss_history := mput aid (take snapshotHistoryLimit (history_of s aid)) (ss_history s)\<rparr>
            else s))"

definition store_get :: "snapshotStore \<Rightarrow> string \<Rightarrow> accountSnapshot option" where
  "store_get s aid = mget (ss_entries s) aid"

definition store_delete :: "string \<Rightarrow> snapshotStore \<Rightarrow> snapshotStore" where
  "store_delete aid s =
     (if aid = [] then s
      else s\<lparr>ss_entries := mdel aid (ss_entries s), ss_history := mdel aid (ss_history s)\<rparr>)"

definition store_removeActive :: "string \<Rightarrow> snapshotStore \<Rightarrow> snapshotStore" where
  "store_removeActive aid s = (if aid = [] then s else s\<lparr>ss_entries := mdel aid (ss_entries s)\<rparr>)"

definition store_reapplyActive :: "(accountSnapshot \<Rightarrow> accountSnapshot) \<Rightarrow> snapshotStore \<Rightarrow> snapshotStore" where
  "store_reapplyActive mutate s = s\<lparr>ss_entries := mmapv mutate (ss_entries s)\<rparr>"

definition store_historyFor :: "snapshotStore \<Rightarrow> string \<Rightarrow> int \<Rightarrow> accountSnapshot list" where
  "store_historyFor s aid limit =
     (if aid = [] then []
      else
        (let limit = (if limit \<le> 0 \<or> int snapshotHistoryLimit < limit then int snapshotHistoryLimit
                      else limit);
             items = history_of s aid
         in if limit < int (length items) then take (nat limit) items else items))"

text \<open>The order of \<open>list\<close>: by folded display name, then by account id.\<close>

definition snapshot_name_less :: "accountSnapshot \<Rightarrow> accountSnapshot \<Rightarrow> bool" where
  "snapshot_name_less a b =
     (let leftName = ToLower (TrimSpace (as_AccountName a));
          rightName = ToLower (TrimSpace (as_AccountName b))
      in if leftName \<noteq> rightName then leftName < rightName else as_AccountID a < as_AccountID b)"

definition store_list :: "snapshotStore \<Rightarrow> accountSnapshot list" where
  "store_list s = sort_by snapshot_name_less (map snd (ss_entries s))"

definition store_rename :: "string \<Rightarrow> string \<Rightarrow> snapshotStore \<Rightarrow> snapshotStore" where
  "store_rename aid name s =
     (if aid = [] then s
      else
        (let s = (case mget (ss_entries s) aid of
                    Some snapshot \<Rightarrow> s\<lparr>ss_entries := mput aid (snapshot\<lparr>as_AccountName := name\<rparr>) (ss_entries s)\<rparr>
                  | None \<Rightarrow> s)
         in case mget (ss_history s) aid of
              Some items \<Rightarrow> s\<lparr>ss_history := mput aid (map (\<lambda>x. x\<lparr>as_AccountName := name\<rparr>) items) (ss_history s)\<rparr>
            | None \<Rightarrow> s))"

definition store_prune :: "string list \<Rightarrow> snapshotStore \<Rightarrow> snapshotStore" where
  "store_prune keep s = s\<lparr>ss_entries := mfilterk (\<lambda>aid. aid \<in> set keep) (ss_entries s)\<rparr>"

definition store_missing :: "snapshotStore \<Rightarrow> string \<Rightarrow> bool" where
  "store_missing s aid = (aid = [] \<or> store_get s aid = None)"

definition hasPendingMigration :: "snapshotStore \<Rightarrow> bool" where
  "hasPendingMigration s = ss_migrationDirty s"

section \<open>Which snapshots have a JSON encoding\<close>

text \<open>
  \<open>json.Marshal\<close> fails on NaN and infinities, and on times outside the years 0 to 9999.
\<close>

definition json_time_ok :: "gotime \<Rightarrow> bool" where
  "json_time_ok t = (- 62167219200000000000 \<le> t \<and> t < 253402300800000000000)"

definition finite_f64 :: "f64 \<Rightarrow> bool" where
  "finite_f64 x = (case x of Fin _ _ \<Rightarrow> True | _ \<Rightarrow> False)"

definition opt_all :: "('a \<Rightarrow> bool) \<Rightarrow> 'a option \<Rightarrow> bool" where
  "opt_all P x = (case x of None \<Rightarrow> True | Some v \<Rightarrow> P v)"

fun json_finite :: "json \<Rightarrow> bool" where
  "json_finite (JNum x) = finite_f64 x"
| "json_finite (JArr vs) = list_all json_finite vs"
| "json_finite (JObj m) = list_all (\<lambda>(k, v). json_finite v) m"
| "json_finite _ = True"

definition marshalable :: "accountSnapshot \<Rightarrow> bool" where
  "marshalable s =
     (list_all (\<lambda>w. opt_all finite_f64 (qw_RemainingFraction w) \<and> opt_all finite_f64 (qw_UsedFraction w)
                    \<and> opt_all json_time_ok (qw_ResetAt w) \<and> opt_all json_time_ok (qw_ExpiresAt w))
        (as_Windows s)
      \<and> list_all (\<lambda>q. opt_all json_time_ok (qq_ResetAt q) \<and> opt_all json_time_ok (qq_ExpiresAt q))
        (as_Quantities s)
      \<and> json_time_ok (as_CheckedAt s) \<and> json_time_ok (as_LastAttemptAt s)
      \<and> opt_all json_time_ok (as_LastSuccessAt s)
      \<and> list_all (\<lambda>(k, sec). opt_all json_time_ok (sec_UpdatedAt sec)) (as_Sections s)
      \<and> list_all (\<lambda>(k, v). json_finite v) (as_Details s))"

text \<open>
  The encoding of a snapshot determines it up to the unexported base status and the order of
  the keys of its maps, which \<open>json.Marshal\<close> sorts: two snapshots have the same encoding iff
  they agree in this form.
\<close>

definition sorted_keys :: "(string, 'a) gomap \<Rightarrow> (string, 'a) gomap" where
  "sorted_keys m = sort_by (\<lambda>a b. fst a < fst b) m"

fun canon_json :: "json \<Rightarrow> json" where
  "canon_json (JArr vs) = JArr (map canon_json vs)"
| "canon_json (JObj m) = JObj (sorted_keys (map (\<lambda>(k, v). (k, canon_json v)) m))"
| "canon_json v = v"

definition json_key :: "accountSnapshot \<Rightarrow> accountSnapshot" where
  "json_key s = s\<lparr>as_baseStatus := [], as_Sections := sorted_keys (as_Sections s),
     as_Details := sorted_keys (mmapv canon_json (as_Details s))\<rparr>"

section \<open>Migration of a legacy identity\<close>

definition snapshotSortTime :: "accountSnapshot \<Rightarrow> gotime" where
  "snapshotSortTime s = (if \<not> IsZero (as_CheckedAt s) then as_CheckedAt s else as_LastAttemptAt s)"

definition snapshotNewer :: "accountSnapshot \<Rightarrow> accountSnapshot \<Rightarrow> bool" where
  "snapshotNewer left right =
     (if snapshotSortTime left \<noteq> snapshotSortTime right
      then snapshotSortTime right < snapshotSortTime left else False)"

definition migrate_less :: "accountSnapshot \<Rightarrow> accountSnapshot \<Rightarrow> bool" where
  "migrate_less a b =
     (if snapshotSortTime a \<noteq> snapshotSortTime b then snapshotSortTime b < snapshotSortTime a
      else as_Status b < as_Status a)"

text \<open>Keep the first of several events with the same encoding; drop those without one.\<close>

fun dedup_events :: "accountSnapshot list \<Rightarrow> accountSnapshot list \<Rightarrow> accountSnapshot list" where
  "dedup_events seen [] = []"
| "dedup_events seen (x # xs) =
     (if \<not> marshalable x then dedup_events seen xs
      else if json_key x \<in> set seen then dedup_events seen xs
      else x # dedup_events (json_key x # seen) xs)"

definition merged_history :: "string \<Rightarrow> accountSnapshot list \<Rightarrow> accountSnapshot list" where
  "merged_history newID combined =
     take snapshotHistoryLimit
       (dedup_events [] (sort_by migrate_less (map (\<lambda>x. x\<lparr>as_AccountID := newID\<rparr>) combined)))"

definition migrate_entry :: "string \<Rightarrow> string \<Rightarrow> snapshotStore \<Rightarrow> snapshotStore" where
  "migrate_entry oldID newID s =
     (case mget (ss_entries s) oldID of
        None \<Rightarrow> s
      | Some oldEntry \<Rightarrow>
          (let oldEntry = oldEntry\<lparr>as_AccountID := newID\<rparr>;
               entries = (case mget (ss_entries s) newID of
                   None \<Rightarrow> mput newID oldEntry (ss_entries s)
                 | Some current \<Rightarrow> if snapshotNewer oldEntry current
                                   then mput newID oldEntry (ss_entries s) else ss_entries s)
           in s\<lparr>ss_entries := mdel oldID entries\<rparr>))"

definition migrateAccount :: "string \<Rightarrow> string \<Rightarrow> snapshotStore \<Rightarrow> bool \<times> snapshotStore" where
  "migrateAccount oldID newID s =
     (let oldID = TrimSpace oldID; newID = TrimSpace newID
      in if oldID = [] \<or> newID = [] \<or> oldID = newID then (False, s)
         else if \<not> mhas (ss_entries s) oldID \<and> \<not> mhas (ss_history s) oldID then (False, s)
         else
           (let s = migrate_entry oldID newID s;
                combined = history_of s newID @ history_of s oldID;
                s = s\<lparr>ss_history := mdel oldID (ss_history s)\<rparr>;
                dirty = (\<lambda>s. s\<lparr>ss_migrationRevision := Suc (ss_migrationRevision s),
                              ss_migrationDirty := True\<rparr>)
            in if combined = [] then (True, dirty s)
               else (True, dirty (s\<lparr>ss_history := mput newID (merged_history newID combined)
                                     (ss_history s)\<rparr>))))"

section \<open>Loading\<close>

record persistedSnapshotCache =
  pc_FormatVersion :: int
  pc_Entries :: "(string, accountSnapshot) gomap"
  pc_History :: "(string, accountSnapshot list) gomap"

text \<open>
  What reading and JSON-decoding the file gives: no file, a read error, bytes that do not
  decode, a document with one of the keys of the versioned format, or a legacy document.
\<close>

datatype cache_file =
    NoFile
  | Unreadable
  | Undecodable
  | Versioned persistedSnapshotCache
  | Legacy "(string, accountSnapshot) gomap"

definition normalizeCachedSnapshot :: "string \<Rightarrow> accountSnapshot \<Rightarrow> cache_error + accountSnapshot" where
  "normalizeCachedSnapshot key s =
     (let key = TrimSpace key
      in if key = [] then Inl EmptyAccountID
         else if as_AccountID s \<noteq> [] \<and> as_AccountID s \<noteq> key
         then Inl (MismatchedAccountID key (as_AccountID s))
         else
           (let s = s\<lparr>as_AccountID := key\<rparr>
            in if IsZero (as_CheckedAt s) \<and> as_LastSuccessAt s = None then Inl (NoTimestamp key)
               else if as_Kind s = [] then Inr (s\<lparr>as_Kind := inferAccountKind s\<rparr>) else Inr s))"

fun validateSnapshotEntries ::
    "(string, accountSnapshot) gomap \<Rightarrow> cache_error + (string, accountSnapshot) gomap" where
  "validateSnapshotEntries [] = Inr []"
| "validateSnapshotEntries ((aid, s) # rest) =
     (case normalizeCachedSnapshot aid s of
        Inl e \<Rightarrow> Inl e
      | Inr n \<Rightarrow> (case validateSnapshotEntries rest of
                   Inl e \<Rightarrow> Inl e | Inr out \<Rightarrow> Inr ((aid, n) # out)))"

fun normalize_all :: "string \<Rightarrow> accountSnapshot list \<Rightarrow> cache_error + accountSnapshot list" where
  "normalize_all aid [] = Inr []"
| "normalize_all aid (s # rest) =
     (case normalizeCachedSnapshot aid s of
        Inl e \<Rightarrow> Inl e
      | Inr n \<Rightarrow> (case normalize_all aid rest of Inl e \<Rightarrow> Inl e | Inr out \<Rightarrow> Inr (n # out)))"

fun validateSnapshotHistory ::
    "(string, accountSnapshot list) gomap \<Rightarrow> cache_error + (string, accountSnapshot list) gomap" where
  "validateSnapshotHistory [] = Inr []"
| "validateSnapshotHistory ((aid, snaps) # rest) =
     (case normalize_all aid (take snapshotHistoryLimit snaps) of
        Inl e \<Rightarrow> Inl e
      | Inr ns \<Rightarrow> (case validateSnapshotHistory rest of
                   Inl e \<Rightarrow> Inl e | Inr out \<Rightarrow> Inr ((aid, ns) # out)))"

definition decodeSnapshotCache :: "cache_file \<Rightarrow>
    cache_error + ((string, accountSnapshot) gomap \<times> (string, accountSnapshot list) gomap)" where
  "decodeSnapshotCache file =
     (case file of
        Versioned cached \<Rightarrow>
          if snapshotCacheFormatVersion < pc_FormatVersion cached \<or> pc_FormatVersion cached < 0
          then Inl (UnsupportedFormat (pc_FormatVersion cached))
          else (case validateSnapshotEntries (pc_Entries cached) of
                  Inl e \<Rightarrow> Inl e
                | Inr entries \<Rightarrow>
                   (case validateSnapshotHistory (pc_History cached) of
                      Inl e \<Rightarrow> Inl e | Inr history \<Rightarrow> Inr (entries, history)))
      | Legacy legacy \<Rightarrow>
          (case validateSnapshotEntries legacy of
             Inl e \<Rightarrow> Inl e
           | Inr entries \<Rightarrow> Inr (entries, mmapv (\<lambda>s. [s]) entries))
      | _ \<Rightarrow> Inl DecodeJSON)"

definition store_load :: "string \<Rightarrow> cache_file \<Rightarrow> snapshotStore \<Rightarrow> cache_error option \<times> snapshotStore" where
  "store_load path file s =
     (if path = [] then (None, s)
      else case file of
          NoFile \<Rightarrow> (None, s\<lparr>ss_loadErr := None\<rparr>)
        | Unreadable \<Rightarrow> (Some ReadCache, s\<lparr>ss_loadErr := Some ReadCache\<rparr>)
        | _ \<Rightarrow> (case decodeSnapshotCache file of
                 Inl e \<Rightarrow> (Some e, s\<lparr>ss_loadErr := Some e\<rparr>)
               | Inr (entries, history) \<Rightarrow>
                   (None, s\<lparr>ss_entries := entries, ss_history := history, ss_loadErr := None\<rparr>)))"

section \<open>Saving\<close>

text \<open>
  The first step refuses while the last load failed, and takes the document to write with the
  migration revision it belongs to.
\<close>

definition save_begin :: "snapshotStore \<Rightarrow> cache_error + (nat \<times> persistedSnapshotCache)" where
  "save_begin s =
     (case ss_loadErr s of
        Some e \<Rightarrow> Inl (RefuseOverwrite e)
      | None \<Rightarrow>
          if list_all (\<lambda>(aid, x). marshalable x) (ss_entries s)
             \<and> list_all (\<lambda>(aid, xs). list_all marshalable xs) (ss_history s)
          then Inr (ss_migrationRevision s,
                 \<lparr>pc_FormatVersion = snapshotCacheFormatVersion,
                  pc_Entries = mmapv json_key (ss_entries s),
                  pc_History = mmapv (map json_key) (ss_history s)\<rparr>)
          else Inl EncodeCache)"

text \<open>The last step books the outcome of the write.\<close>

definition save_finish :: "nat \<Rightarrow> bool \<Rightarrow> snapshotStore \<Rightarrow> cache_error option \<times> snapshotStore" where
  "save_finish revision written s =
     (if \<not> written
      then (Some PersistCache,
            if ss_migrationDirty s then s\<lparr>ss_migrationErr := Some PersistCache\<rparr> else s)
      else (None,
            if ss_migrationRevision s = revision
            then s\<lparr>ss_migrationDirty := False, ss_migrationErr := None\<rparr> else s))"

text \<open>
  A save that nothing interrupts, with the file after it: a write can fail after it has
  replaced the file (theory \<open>Atomic_File\<close>).
\<close>

definition store_save :: "string \<Rightarrow> (persistedSnapshotCache \<Rightarrow> write_outcome) \<Rightarrow> cache_file \<Rightarrow> snapshotStore
    \<Rightarrow> cache_error option \<times> cache_file \<times> snapshotStore" where
  "store_save path writeFile file s =
     (if path = [] then (None, file, s)
      else case save_begin s of
          Inl e \<Rightarrow> (Some e, file, s)
        | Inr (revision, doc) \<Rightarrow>
            (let outcome = writeFile doc; (e, s) = save_finish revision (outcome = Written) s
             in (e, if outcome = NotWritten then file else Versioned doc, s)))"

end
