(* ===== verification/Cache_Properties.thy ===== *)
theory Cache_Properties
  imports Snapshot_Cache
begin

text \<open>
  What the snapshot cache promises: its invariant over every sequence of operations, the
  contract of a keyed store, the outcome of a migration, and the behaviour of load and save
  (round trip, refusal to overwrite an unreadable file, migrations during a save).
\<close>

section \<open>The invariant\<close>

definition snapshot_ok :: "accountSnapshot \<Rightarrow> bool" where
  "snapshot_ok x =
     (id_ok (as_AccountID x) \<and> (\<not> IsZero (as_CheckedAt x) \<or> as_LastSuccessAt x \<noteq> None)
      \<and> as_Kind x \<noteq> [])"

definition store_wf :: "snapshotStore \<Rightarrow> bool" where
  "store_wf s =
     (mwf (ss_entries s) \<and> mwf (ss_history s)
      \<and> (\<forall>k x. mget (ss_entries s) k = Some x \<longrightarrow> snapshot_ok x \<and> as_AccountID x = k)
      \<and> (\<forall>k xs. mget (ss_history s) k = Some xs \<longrightarrow>
           id_ok k \<and> length xs \<le> snapshotHistoryLimit
           \<and> (\<forall>x \<in> set xs. snapshot_ok x \<and> as_AccountID x = k)))"

lemma store_wfI:
  assumes "mwf (ss_entries s)" "mwf (ss_history s)"
    and "\<And>k x. mget (ss_entries s) k = Some x \<Longrightarrow> snapshot_ok x \<and> as_AccountID x = k"
    and "\<And>k xs. mget (ss_history s) k = Some xs \<Longrightarrow>
      id_ok k \<and> length xs \<le> snapshotHistoryLimit \<and> (\<forall>x \<in> set xs. snapshot_ok x \<and> as_AccountID x = k)"
  shows "store_wf s"
  using assms unfolding store_wf_def by blast

lemma store_wfD:
  assumes "store_wf s"
  shows "mwf (ss_entries s)" "mwf (ss_history s)"
    and "mget (ss_entries s) k = Some x \<Longrightarrow> snapshot_ok x \<and> as_AccountID x = k"
    and "mget (ss_history s) k = Some xs \<Longrightarrow>
      id_ok k \<and> length xs \<le> snapshotHistoryLimit \<and> (\<forall>x \<in> set xs. snapshot_ok x \<and> as_AccountID x = k)"
  using assms unfolding store_wf_def by blast+

lemma wf_history_of:
  assumes "store_wf s"
  shows "length (history_of s k) \<le> snapshotHistoryLimit"
    and "x \<in> set (history_of s k) \<Longrightarrow> snapshot_ok x \<and> as_AccountID x = k"
  using store_wfD(4) [OF assms, of k] by (cases "mget (ss_history s) k"; simp add: mgetz_def)+

lemma put_unfold:
  "as_AccountID x \<noteq> [] \<Longrightarrow> store_put x s =
     s\<lparr>ss_entries := mput (as_AccountID x) x (ss_entries s),
       ss_history := ss_history (store_put x s)\<rparr>"
  by (simp add: store_put_def Let_def)

lemma put_history_of:
  "as_AccountID x \<noteq> [] \<Longrightarrow> mget (ss_history (store_put x s)) k =
     (if k = as_AccountID x then Some (take snapshotHistoryLimit (x # history_of s k))
      else mget (ss_history s) k)"
  by (auto simp: store_put_def Let_def)

lemma put_entries:
  "as_AccountID x \<noteq> [] \<Longrightarrow> ss_entries (store_put x s) = mput (as_AccountID x) x (ss_entries s)"
  by (simp add: store_put_def Let_def)

lemma put_mwf: "mwf (ss_history s) \<Longrightarrow> mwf (ss_history (store_put x s))"
  by (simp add: store_put_def Let_def)

lemma put_wf:
  assumes "store_wf s" "snapshot_ok x"
  shows "store_wf (store_put x s)"
proof -
  have ne: "as_AccountID x \<noteq> []" and ok: "id_ok (as_AccountID x)"
    using assms(2) by (auto simp: snapshot_ok_def id_ok_def)
  note wf = store_wfD [OF assms(1)]
  show ?thesis
  proof (rule store_wfI)
    show "mwf (ss_entries (store_put x s))" "mwf (ss_history (store_put x s))"
      using wf(1,2) by (simp_all add: put_entries [OF ne] put_mwf)
  next
    fix k y
    assume "mget (ss_entries (store_put x s)) k = Some y"
    then show "snapshot_ok y \<and> as_AccountID y = k"
      using wf(3) assms(2) by (auto simp: put_entries [OF ne] split: if_splits)
  next
    fix k xs
    assume a: "mget (ss_history (store_put x s)) k = Some xs"
    show "id_ok k \<and> length xs \<le> snapshotHistoryLimit \<and> (\<forall>x \<in> set xs. snapshot_ok x \<and> as_AccountID x = k)"
    proof (cases "k = as_AccountID x")
      case True
      with a have xs: "xs = take snapshotHistoryLimit (x # history_of s k)"
        by (simp add: put_history_of [OF ne])
      have "y = x \<or> y \<in> set (history_of s k)" if "y \<in> set xs" for y
        using that set_take_subset [of snapshotHistoryLimit "x # history_of s k"] xs by auto
      then show ?thesis using True ok assms(2) wf_history_of(2) [OF assms(1)] xs by auto
    next
      case False
      with a show ?thesis using wf(4) by (simp add: put_history_of [OF ne])
    qed
  qed
qed

lemma delete_wf: "store_wf s \<Longrightarrow> store_wf (store_delete k s)"
  by (auto simp: store_wf_def store_delete_def)

lemma removeActive_wf: "store_wf s \<Longrightarrow> store_wf (store_removeActive k s)"
  by (auto simp: store_wf_def store_removeActive_def)

lemma reapplyActive_wf:
  assumes "store_wf s" "\<And>x. snapshot_ok x \<Longrightarrow> snapshot_ok (f x) \<and> as_AccountID (f x) = as_AccountID x"
  shows "store_wf (store_reapplyActive f s)"
  using assms by (auto simp: store_wf_def store_reapplyActive_def)

lemma prune_wf: "store_wf s \<Longrightarrow> store_wf (store_prune keep s)"
  by (auto simp: store_wf_def store_prune_def split: if_splits)

lemma rename_entries:
  "k \<noteq> [] \<Longrightarrow> mget (ss_entries (store_rename k name s)) j =
     (if j = k then map_option (\<lambda>x. x\<lparr>as_AccountName := name\<rparr>) (mget (ss_entries s) j)
      else mget (ss_entries s) j)"
  by (auto simp: store_rename_def Let_def split: option.splits)

lemma rename_history:
  "k \<noteq> [] \<Longrightarrow> mget (ss_history (store_rename k name s)) j =
     (if j = k then map_option (map (\<lambda>x. x\<lparr>as_AccountName := name\<rparr>)) (mget (ss_history s) j)
      else mget (ss_history s) j)"
  by (auto simp: store_rename_def Let_def split: option.splits)

lemma rename_mwf:
  "mwf (ss_entries s) \<Longrightarrow> mwf (ss_entries (store_rename k name s))"
  "mwf (ss_history s) \<Longrightarrow> mwf (ss_history (store_rename k name s))"
  by (auto simp: store_rename_def Let_def split: option.splits)

lemma renamed_ok [simp]:
  "snapshot_ok (x\<lparr>as_AccountName := n\<rparr>) = snapshot_ok x"
  by (simp add: snapshot_ok_def)

lemma rename_wf: "store_wf s \<Longrightarrow> store_wf (store_rename k name s)"
proof (cases "k = []")
  case True
  moreover assume "store_wf s"
  ultimately show ?thesis by (simp add: store_rename_def)
next
  case False
  assume wf: "store_wf s"
  show ?thesis
    using store_wfD [OF wf]
    by (intro store_wfI) (force simp: rename_mwf rename_entries [OF False] rename_history [OF False]
      split: if_splits)+
qed

section \<open>Migration\<close>

lemma dedup_events_subset: "set (dedup_events seen xs) \<subseteq> set xs"
  by (induction seen xs rule: dedup_events.induct) auto

lemma dedup_events_new: "x \<in> set (dedup_events seen xs) \<Longrightarrow> marshalable x \<and> json_key x \<notin> set seen"
  by (induction seen xs rule: dedup_events.induct) (auto split: if_splits)

lemma dedup_events_distinct: "distinct (map json_key (dedup_events seen xs))"
proof (induction seen xs rule: dedup_events.induct)
  case (2 seen x xs)
  have "json_key x \<notin> json_key ` set (dedup_events (json_key x # seen) xs)"
    using dedup_events_new [of _ "json_key x # seen" xs] by fastforce
  with 2 show ?case by simp
qed simp

lemma dedup_events_complete:
  "x \<in> set xs \<Longrightarrow> marshalable x \<Longrightarrow> json_key x \<notin> set seen \<Longrightarrow>
     json_key x \<in> json_key ` set (dedup_events seen xs)"
  by (induction seen xs rule: dedup_events.induct) auto

lemma dedup_events_sorted:
  "sorted_wrt R xs \<Longrightarrow> sorted_wrt R (dedup_events seen xs)"
proof (induction seen xs rule: dedup_events.induct)
  case (2 seen x xs)
  then show ?case using dedup_events_subset [of "json_key x # seen" xs] by auto
qed simp

lemma migrate_order: 
  "sorted_wrt (\<lambda>a b. \<not> migrate_less b a) (sort_by migrate_less xs)"
  by (rule sorted_sort_by) (auto simp: migrate_less_def not_less split: if_splits)

definition newest_first :: "accountSnapshot list \<Rightarrow> bool" where
  "newest_first xs = sorted_wrt (\<lambda>a b. snapshotSortTime b \<le> snapshotSortTime a) xs"

lemma merged_newest_first: "newest_first (merged_history newID xs)"
proof -
  have "sorted_wrt (\<lambda>a b. \<not> migrate_less b a) (merged_history newID xs)"
    unfolding merged_history_def
    by (intro sorted_wrt_take dedup_events_sorted migrate_order)
  then show ?thesis
    unfolding newest_first_def
    by (rule sorted_wrt_mono_rel [rotated]) (auto simp: migrate_less_def split: if_splits)
qed

lemma merged_distinct: "distinct (map json_key (merged_history newID xs))"
  using dedup_events_distinct by (simp add: merged_history_def take_map [symmetric] distinct_take)

lemma merged_length: "length (merged_history newID xs) \<le> snapshotHistoryLimit"
  by (simp add: merged_history_def)

lemma merged_subset: "set (merged_history newID xs) \<subseteq> (\<lambda>x. x\<lparr>as_AccountID := newID\<rparr>) ` set xs"
proof -
  have "set (merged_history newID xs) \<subseteq>
      set (dedup_events [] (sort_by migrate_less (map (\<lambda>x. x\<lparr>as_AccountID := newID\<rparr>) xs)))"
    unfolding merged_history_def by (rule set_take_subset)
  also have "\<dots> \<subseteq> (\<lambda>x. x\<lparr>as_AccountID := newID\<rparr>) ` set xs"
    using dedup_events_subset by fastforce
  finally show ?thesis .
qed

lemma merged_complete:
  assumes "length xs \<le> snapshotHistoryLimit" "x \<in> set xs" "marshalable (x\<lparr>as_AccountID := newID\<rparr>)"
  shows "json_key (x\<lparr>as_AccountID := newID\<rparr>) \<in> json_key ` set (merged_history newID xs)"
proof -
  have len: "length (dedup_events seen ys) \<le> length ys" for seen ys
    by (induction seen ys rule: dedup_events.induct) auto
  let ?ys = "sort_by migrate_less (map (\<lambda>x. x\<lparr>as_AccountID := newID\<rparr>) xs)"
  have "length (dedup_events [] ?ys) \<le> snapshotHistoryLimit"
    using len [of "[]" ?ys] assms(1) by simp
  then have "merged_history newID xs = dedup_events [] ?ys" by (simp add: merged_history_def)
  then show ?thesis using assms(2,3) by (auto intro!: dedup_events_complete)
qed

lemma sortTime_id [simp]: "snapshotSortTime (x\<lparr>as_AccountID := k\<rparr>) = snapshotSortTime x"
  by (simp add: snapshotSortTime_def)

lemma migrate_entry_entries:
  assumes "oldID \<noteq> newID"
  shows "mget (ss_entries (migrate_entry oldID newID s)) k =
    (case mget (ss_entries s) oldID of
       None \<Rightarrow> mget (ss_entries s) k
     | Some x \<Rightarrow>
         if k = oldID then None
         else if k = newID
         then (case mget (ss_entries s) newID of
                 None \<Rightarrow> Some (x\<lparr>as_AccountID := newID\<rparr>)
               | Some y \<Rightarrow> Some (if snapshotNewer x y then x\<lparr>as_AccountID := newID\<rparr> else y))
         else mget (ss_entries s) k)"
proof -
  have n: "snapshotNewer (x\<lparr>as_AccountID := newID\<rparr>) y = snapshotNewer x y" for x y
    by (simp add: snapshotNewer_def)
  show ?thesis
    using assms by (auto simp: migrate_entry_def n Let_def split: option.splits)
qed

lemma migrate_entry_other [simp]:
  "ss_history (migrate_entry oldID newID s) = ss_history s"
  "ss_migrationRevision (migrate_entry oldID newID s) = ss_migrationRevision s"
  "ss_migrationDirty (migrate_entry oldID newID s) = ss_migrationDirty s"
  "ss_loadErr (migrate_entry oldID newID s) = ss_loadErr s"
  "mwf (ss_entries s) \<Longrightarrow> mwf (ss_entries (migrate_entry oldID newID s))"
  by (auto simp: migrate_entry_def Let_def split: option.splits)

text \<open>The cases in which there is something to migrate.\<close>

definition migrates :: "string \<Rightarrow> string \<Rightarrow> snapshotStore \<Rightarrow> bool" where
  "migrates oldID newID s =
     (TrimSpace oldID \<noteq> [] \<and> TrimSpace newID \<noteq> [] \<and> TrimSpace oldID \<noteq> TrimSpace newID
      \<and> (mhas (ss_entries s) (TrimSpace oldID) \<or> mhas (ss_history s) (TrimSpace oldID)))"

lemma migrate_none: "\<not> migrates oldID newID s \<Longrightarrow> migrateAccount oldID newID s = (False, s)"
  by (auto simp: migrates_def migrateAccount_def Let_def)

lemma migrate_some:
  assumes "migrates oldID newID s"
  defines "old \<equiv> TrimSpace oldID" and "new \<equiv> TrimSpace newID"
  shows "fst (migrateAccount oldID newID s)"
    and "ss_entries (snd (migrateAccount oldID newID s)) = ss_entries (migrate_entry old new s)"
    and "ss_history (snd (migrateAccount oldID newID s)) =
      (let combined = history_of s new @ history_of s old
       in if combined = [] then mdel old (ss_history s)
          else mput new (merged_history new combined) (mdel old (ss_history s)))"
    and "ss_migrationRevision (snd (migrateAccount oldID newID s)) = Suc (ss_migrationRevision s)"
    and "ss_migrationDirty (snd (migrateAccount oldID newID s))"
    and "ss_loadErr (snd (migrateAccount oldID newID s)) = ss_loadErr s"
  using assms(1) unfolding old_def new_def
  by (auto simp: migrates_def migrateAccount_def Let_def)

lemma migrate_history_of:
  assumes "migrates oldID newID s"
  shows "history_of (snd (migrateAccount oldID newID s)) k =
    (if k = TrimSpace oldID then []
     else if k = TrimSpace newID
     then merged_history (TrimSpace newID) (history_of s (TrimSpace newID) @ history_of s (TrimSpace oldID))
     else history_of s k)"
proof -
  have "merged_history n [] = []" for n by (simp add: merged_history_def)
  moreover have "TrimSpace oldID \<noteq> TrimSpace newID" using assms by (simp add: migrates_def)
  ultimately show ?thesis by (auto simp: migrate_some(3) [OF assms] Let_def)
qed

lemma moved_ok [simp]: "id_ok k \<Longrightarrow> snapshot_ok x \<Longrightarrow> snapshot_ok (x\<lparr>as_AccountID := k\<rparr>)"
  by (simp add: snapshot_ok_def)

lemma migrate_wf:
  assumes "store_wf s"
  shows "store_wf (snd (migrateAccount oldID newID s))"
proof (cases "migrates oldID newID s")
  case False
  with assms show ?thesis by (simp add: migrate_none)
next
  case True
  define new where "new = TrimSpace newID"
  define combined where "combined = history_of s new @ history_of s (TrimSpace oldID)"
  note wf = store_wfD [OF assms]
  have ok: "id_ok new" and ne: "TrimSpace oldID \<noteq> new"
    using True by (auto simp: migrates_def id_ok_def new_def)
  note h = migrate_some(3) [OF True, folded new_def, unfolded Let_def, folded combined_def]
  have merged: "snapshot_ok x \<and> as_AccountID x = new" if mem: "x \<in> set (merged_history new combined)" for x
  proof -
    obtain y where y: "y \<in> set combined" "x = y\<lparr>as_AccountID := new\<rparr>"
      using mem merged_subset by blast
    then have "snapshot_ok y" using wf_history_of(2) [OF assms] by (auto simp: combined_def)
    with y ok show ?thesis by simp
  qed
  show ?thesis
  proof (rule store_wfI)
    show "mwf (ss_entries (snd (migrateAccount oldID newID s)))"
      using wf(1) by (simp add: migrate_some(2) [OF True])
    show "mwf (ss_history (snd (migrateAccount oldID newID s)))"
      using wf(2) by (simp add: h)
  next
    fix k x
    assume "mget (ss_entries (snd (migrateAccount oldID newID s))) k = Some x"
    then show "snapshot_ok x \<and> as_AccountID x = k"
      using wf(3) ok ne unfolding new_def migrate_some(2) [OF True]
      by (auto simp: migrate_entry_entries split: option.splits if_splits)
  next
    fix k xs
    assume "mget (ss_history (snd (migrateAccount oldID newID s))) k = Some xs"
    then show "id_ok k \<and> length xs \<le> snapshotHistoryLimit \<and> (\<forall>x \<in> set xs. snapshot_ok x \<and> as_AccountID x = k)"
      using wf(4) merged ok merged_length [of new combined] by (auto simp: h split: if_splits)
  qed
qed

section \<open>Loading\<close>

lemma infer_kind_nonempty [simp]: "inferAccountKind x \<noteq> []"
  by (simp add: inferAccountKind_def)

lemma normalizeCached_ok:
  "normalizeCachedSnapshot key x = Inr n \<Longrightarrow> snapshot_ok n \<and> as_AccountID n = TrimSpace key"
  by (auto simp: normalizeCachedSnapshot_def Let_def snapshot_ok_def id_ok_def split: if_splits)

lemma normalizeCached_id:
  "snapshot_ok x \<Longrightarrow> normalizeCachedSnapshot (as_AccountID x) x = Inr x"
  by (auto simp: normalizeCachedSnapshot_def snapshot_ok_def id_ok_def Let_def)

lemma validateEntries_keys: "validateSnapshotEntries m = Inr e \<Longrightarrow> mkeys e = mkeys m"
  by (induction m arbitrary: e rule: validateSnapshotEntries.induct) (auto simp: mkeys_def split: sum.splits)

lemma validateEntries_ok:
  "validateSnapshotEntries m = Inr e \<Longrightarrow> mget e k = Some x \<Longrightarrow> snapshot_ok x \<and> as_AccountID x = TrimSpace k"
proof (induction m arbitrary: e rule: validateSnapshotEntries.induct)
  case (2 key y rest)
  from 2(2) obtain n out where n: "normalizeCachedSnapshot key y = Inr n"
      and o: "validateSnapshotEntries rest = Inr out" and e: "e = (key, n) # out"
    by (auto split: sum.splits)
  show ?case
  proof (cases "k = key")
    case True
    with 2(3) e normalizeCached_ok [OF n] show ?thesis by simp
  next
    case False
    with 2(3) e have "mget out k = Some x" by simp
    with 2(1) [OF n o] show ?thesis by blast
  qed
qed simp

lemma normalize_all_ok:
  "normalize_all key xs = Inr ys \<Longrightarrow>
     length ys = length xs \<and> (\<forall>y \<in> set ys. snapshot_ok y \<and> as_AccountID y = TrimSpace key)"
proof (induction key xs arbitrary: ys rule: normalize_all.induct)
  case (2 key x rest)
  from 2(2) obtain n out where n: "normalizeCachedSnapshot key x = Inr n"
      and o: "normalize_all key rest = Inr out" and y: "ys = n # out"
    by (auto split: sum.splits)
  from 2(1) [OF n o] normalizeCached_ok [OF n] y show ?case by simp
qed simp

lemma validateHistory_keys: "validateSnapshotHistory m = Inr h \<Longrightarrow> mkeys h = mkeys m"
  by (induction m arbitrary: h rule: validateSnapshotHistory.induct) (auto simp: mkeys_def split: sum.splits)

lemma validateHistory_ok:
  "validateSnapshotHistory m = Inr h \<Longrightarrow> mget h k = Some xs \<Longrightarrow>
     length xs \<le> snapshotHistoryLimit \<and> (\<forall>x \<in> set xs. snapshot_ok x \<and> as_AccountID x = TrimSpace k)"
proof (induction m arbitrary: h rule: validateSnapshotHistory.induct)
  case (2 key snaps rest)
  from 2(2) obtain ns out where n: "normalize_all key (take snapshotHistoryLimit snaps) = Inr ns"
      and o: "validateSnapshotHistory rest = Inr out" and h: "h = (key, ns) # out"
    by (auto split: sum.splits)
  show ?case
  proof (cases "k = key")
    case True
    with 2(3) h normalize_all_ok [OF n] show ?thesis by simp
  next
    case False
    with 2(3) h have "mget out k = Some xs" by simp
    with 2(1) [OF n o] show ?thesis by blast
  qed
qed simp

text \<open>A file whose maps have each key once, and ids without surrounding space.\<close>

fun file_ok :: "cache_file \<Rightarrow> bool" where
  "file_ok (Versioned doc) =
     (mwf (pc_Entries doc) \<and> mwf (pc_History doc)
      \<and> list_all id_ok (mkeys (pc_Entries doc)) \<and> list_all id_ok (mkeys (pc_History doc)))"
| "file_ok (Legacy m) = (mwf m \<and> list_all id_ok (mkeys m))"
| "file_ok _ = True"

lemma mwf_keys: "mkeys m = mkeys m' \<Longrightarrow> mwf m = mwf m'"
  by (simp add: mkeys_def mwf_def)

lemma mget_key: "mget m k = Some v \<Longrightarrow> k \<in> set (mkeys m)"
  by (metis mget_Some_in fst_conv imageI mkeys_def set_map)

lemma validated_wf:
  assumes "validateSnapshotEntries m = Inr e" "validateSnapshotHistory mh = Inr h"
    and "mwf m" "mwf mh" "list_all id_ok (mkeys m)" "list_all id_ok (mkeys mh)"
  shows "store_wf (s\<lparr>ss_entries := e, ss_history := h, ss_loadErr := None\<rparr>)"
proof (rule store_wfI)
  show "mwf (ss_entries (s\<lparr>ss_entries := e, ss_history := h, ss_loadErr := None\<rparr>))"
    "mwf (ss_history (s\<lparr>ss_entries := e, ss_history := h, ss_loadErr := None\<rparr>))"
    using assms(3,4) mwf_keys [OF validateEntries_keys [OF assms(1)]]
      mwf_keys [OF validateHistory_keys [OF assms(2)]] by simp_all
next
  fix k x
  assume "mget (ss_entries (s\<lparr>ss_entries := e, ss_history := h, ss_loadErr := None\<rparr>)) k = Some x"
  then have x: "mget e k = Some x" by simp
  then have "id_ok k"
    using mget_key [OF x] assms(5) by (simp add: validateEntries_keys [OF assms(1)] list_all_iff)
  then show "snapshot_ok x \<and> as_AccountID x = k"
    using validateEntries_ok [OF assms(1) x] by (simp add: id_ok_def)
next
  fix k xs
  assume "mget (ss_history (s\<lparr>ss_entries := e, ss_history := h, ss_loadErr := None\<rparr>)) k = Some xs"
  then have x: "mget h k = Some xs" by simp
  then have "id_ok k"
    using mget_key [OF x] assms(6) by (simp add: validateHistory_keys [OF assms(2)] list_all_iff)
  then show "id_ok k \<and> length xs \<le> snapshotHistoryLimit \<and> (\<forall>x \<in> set xs. snapshot_ok x \<and> as_AccountID x = k)"
    using validateHistory_ok [OF assms(2) x] by (simp add: id_ok_def)
qed

lemma load_wf:
  assumes "store_wf s" "file_ok file"
  shows "store_wf (snd (store_load path file s))"
proof -
  have err: "store_wf (s\<lparr>ss_loadErr := e\<rparr>)" for e
    using assms(1) by (simp add: store_wf_def)
  have legacy: "validateSnapshotHistory (mmapv (\<lambda>x. [x]) m) = Inr (mmapv (\<lambda>x. [x]) e)"
    if "validateSnapshotEntries m = Inr e" for m e
    using that
    by (induction m arbitrary: e rule: validateSnapshotEntries.induct)
       (auto simp: mmapv_def snapshotHistoryLimit_def split: sum.splits)
  show ?thesis
  proof (cases "path = [] \<or> (\<exists>e. decodeSnapshotCache file = Inl e)")
    case True
    then show ?thesis
      using assms(1) err by (auto simp: store_load_def split: cache_file.splits)
  next
    case False
    then obtain e h where d: "decodeSnapshotCache file = Inr (e, h)" and p: "path \<noteq> []"
      by (cases "decodeSnapshotCache file") auto
    then have "snd (store_load path file s) = s\<lparr>ss_entries := e, ss_history := h, ss_loadErr := None\<rparr>"
      by (auto simp: store_load_def decodeSnapshotCache_def split: cache_file.splits)
    moreover from d assms(2) obtain m mh where "validateSnapshotEntries m = Inr e"
        "validateSnapshotHistory mh = Inr h"
        "mwf m" "mwf mh" "list_all id_ok (mkeys m)" "list_all id_ok (mkeys mh)"
    proof (cases "file")
      case (Versioned doc)
      with d assms(2) that [of "pc_Entries doc" "pc_History doc"] show ?thesis
        by (auto simp: decodeSnapshotCache_def split: if_splits sum.splits)
    next
      case (Legacy m)
      with d have v: "validateSnapshotEntries m = Inr e" and h: "h = mmapv (\<lambda>x. [x]) e"
        by (auto simp: decodeSnapshotCache_def split: sum.splits)
      show ?thesis using that [OF v, of "mmapv (\<lambda>x. [x]) m"] legacy [OF v] h Legacy assms(2) by simp
    qed (auto simp: decodeSnapshotCache_def)
    ultimately show ?thesis by (simp add: validated_wf)
  qed
qed

lemma finish_same:
  "ss_entries (snd (save_finish r w s)) = ss_entries s"
  "ss_history (snd (save_finish r w s)) = ss_history s"
  "ss_loadErr (snd (save_finish r w s)) = ss_loadErr s"
  "ss_migrationRevision (snd (save_finish r w s)) = ss_migrationRevision s"
  by (simp_all add: save_finish_def)

lemma finish_wf: "store_wf s \<Longrightarrow> store_wf (snd (save_finish r w s))"
  by (simp add: store_wf_def finish_same)

section \<open>The store as a system of steps\<close>

lemma applyThresholds_same:
  "as_AccountID (applyThresholds t s) = as_AccountID s" "as_CheckedAt (applyThresholds t s) = as_CheckedAt s"
  "as_LastSuccessAt (applyThresholds t s) = as_LastSuccessAt s" "as_Kind (applyThresholds t s) = as_Kind s"
  unfolding applyThresholds_def applyThresholds_base by (simp_all add: Let_def split: prod.split)

lemma thresholds_snapshot_ok [simp]: "snapshot_ok (applyThresholds t s) = snapshot_ok s"
  by (simp add: snapshot_ok_def applyThresholds_same)

text \<open>The operations of the plugin on the store, each under the store's lock.\<close>

inductive op_step :: "snapshotStore \<Rightarrow> snapshotStore \<Rightarrow> bool" where
  Put: "snapshot_ok x \<Longrightarrow> op_step s (store_put x s)"
| Delete: "op_step s (store_delete k s)"
| RemoveActive: "op_step s (store_removeActive k s)"
| Reapply: "op_step s (store_reapplyActive (applyThresholds t) s)"
| Rename: "op_step s (store_rename k name s)"
| Prune: "op_step s (store_prune keep s)"
| Migrate: "op_step s (snd (migrateAccount oldID newID s))"

text \<open>With the end of a save; a load is a step of its own.  A save and a load exclude each other.\<close>

inductive cache_step :: "snapshotStore \<Rightarrow> snapshotStore \<Rightarrow> bool" where
  Op: "op_step s s' \<Longrightarrow> cache_step s s'"
| Finish: "cache_step s (snd (save_finish revision written s))"

inductive load_step :: "snapshotStore \<Rightarrow> snapshotStore \<Rightarrow> bool" where
  Load: "file_ok file \<Longrightarrow> load_step s (snd (store_load path file s))"
| Other: "cache_step s s' \<Longrightarrow> load_step s s'"

inductive_cases op_stepE: "op_step s s'"
inductive_cases cache_stepE: "cache_step s s'"
inductive_cases load_stepE: "load_step s s'"

lemma new_wf: "store_wf newSnapshotStore"
  by (simp add: store_wf_def newSnapshotStore_def)

lemma op_step_wf: "op_step s s' \<Longrightarrow> store_wf s \<Longrightarrow> store_wf s'"
  by (induction rule: op_step.induct)
     (simp_all add: put_wf delete_wf removeActive_wf reapplyActive_wf rename_wf prune_wf migrate_wf
       applyThresholds_same)

lemma cache_step_wf: "cache_step s s' \<Longrightarrow> store_wf s \<Longrightarrow> store_wf s'"
  by (auto simp: op_step_wf finish_wf elim: cache_stepE)

interpretation cache: invariant_of "\<lambda>s. s = newSnapshotStore" load_step store_wf
  by unfold_locales (auto simp: new_wf load_wf cache_step_wf elim: load_stepE)

interpretation snap: keyed_store store_get store_put store_delete as_AccountID "\<lambda>k. k \<noteq> []"
  by unfold_locales (auto simp: store_get_def put_entries store_delete_def)

interpretation snap_active: keyed_store store_get store_put store_removeActive as_AccountID "\<lambda>k. k \<noteq> []"
  by unfold_locales (auto simp: store_get_def put_entries store_removeActive_def)

end
