(* ===== verification/Cache_Theorems.thy ===== *)
theory Cache_Theorems
  imports Cache_Properties
begin

text \<open>
  The properties of the snapshot cache, each with a witness at a concrete store.
\<close>

definition ex_snapshot :: "string \<Rightarrow> gotime \<Rightarrow> accountSnapshot" where
  "ex_snapshot k t = zero_snapshot\<lparr>as_AccountID := k, as_Kind := kindBalance, as_Status := statusOK,
     as_CheckedAt := t\<rparr>"

definition ex_store :: snapshotStore where
  "ex_store = store_put (ex_snapshot ''new'' 5) (store_put (ex_snapshot ''old'' 9)
     (store_put (ex_snapshot ''old'' 7) newSnapshotStore))"

lemma TrimSpace_examples [simp]:
  "TrimSpace ''old'' = ''old''" "TrimSpace ''new'' = ''new''"
  by code_simp+

lemma ex_snapshot_ok [simp]:
  "snapshot_ok (ex_snapshot ''old'' t)" "snapshot_ok (ex_snapshot ''new'' t)" if "t \<noteq> zero_time"
  using that by (simp_all add: ex_snapshot_def snapshot_ok_def id_ok_def zero_snapshot_def IsZero_def)



text \<open>
  C15: a put makes the snapshot the active one of its account and the newest event of its
  history, of which it keeps the 49 latest older events, and changes no other account.
\<close>

theorem put_effect:
  "store_put x s = s\<lparr>ss_entries := ss_entries (store_put x s), ss_history := ss_history (store_put x s)\<rparr>
   \<and> store_get (store_put x s) k =
     (if as_AccountID x \<noteq> [] \<and> k = as_AccountID x then Some x else store_get s k)
   \<and> history_of (store_put x s) k =
     (if as_AccountID x \<noteq> [] \<and> k = as_AccountID x then x # take 49 (history_of s k) else history_of s k)"
proof (cases "as_AccountID x = []")
  case False
  have "take snapshotHistoryLimit (x # xs) = x # take 49 xs" for xs
    by (simp add: snapshotHistoryLimit_def take_Cons')
  then have "history_of (store_put x s) k =
     (if k = as_AccountID x then x # take 49 (history_of s k) else history_of s k)"
    by (simp add: mgetz_def put_history_of [OF False])
  moreover have "store_put x s = s\<lparr>ss_entries := ss_entries (store_put x s), ss_history := ss_history (store_put x s)\<rparr>"
    by (simp add: store_put_def Let_def)
  ultimately show ?thesis using False by (simp add: store_get_def put_entries)
qed (simp add: store_put_def)



text \<open>
  C26: migrating an account to its stable id leaves nothing under the old id; the active
  snapshot under the new id is the newer of the two (the one of the new id on a tie), filed
  under the new id; other accounts are untouched and the store is marked for saving.
\<close>

theorem migrate_active:
  assumes "migrates oldID newID s"
  defines "old \<equiv> TrimSpace oldID" and "new \<equiv> TrimSpace newID"
    and "s' \<equiv> snd (migrateAccount oldID newID s)"
  shows "store_get s' old = None \<and> history_of s' old = []
    \<and> store_get s' new =
      (case (store_get s old, store_get s new) of
         (None, y) \<Rightarrow> y
       | (Some x, None) \<Rightarrow> Some (x\<lparr>as_AccountID := new\<rparr>)
       | (Some x, Some y) \<Rightarrow> Some (if snapshotSortTime y < snapshotSortTime x
                                 then x\<lparr>as_AccountID := new\<rparr> else y))
    \<and> (\<forall>k. k \<noteq> old \<longrightarrow> k \<noteq> new \<longrightarrow> store_get s' k = store_get s k \<and> history_of s' k = history_of s k)
    \<and> hasPendingMigration s' \<and> fst (migrateAccount oldID newID s)"
proof -
  have ne: "TrimSpace oldID \<noteq> TrimSpace newID" using assms(1) by (simp add: migrates_def)
  have e: "store_get s' k = mget (ss_entries (migrate_entry old new s)) k" for k
    by (simp add: store_get_def s'_def migrate_some(2) [OF assms(1)] old_def new_def)
  have h: "history_of s' k = (if k = old then [] else if k = new
      then merged_history new (history_of s new @ history_of s old) else history_of s k)" for k
    by (simp add: s'_def migrate_history_of [OF assms(1)] old_def new_def)
  have n: "snapshotNewer x y = (snapshotSortTime y < snapshotSortTime x)" for x y
    by (auto simp: snapshotNewer_def)
  show ?thesis
    using ne migrate_some(1,5) [OF assms(1)]
    unfolding e h hasPendingMigration_def
    by (auto simp: migrate_entry_entries n store_get_def old_def new_def s'_def split: option.splits)
qed

theorem migrate_active_witness:
  "store_get (snd (migrateAccount ''old'' ''new'' ex_store)) ''new'' =
     Some ((ex_snapshot ''old'' 9)\<lparr>as_AccountID := ''new''\<rparr>)"
proof -
  have m: "migrates ''old'' ''new'' ex_store"
    by (simp add: migrates_def ex_store_def mhas_def put_entries ex_snapshot_def)
  have "store_get ex_store ''old'' = Some (ex_snapshot ''old'' 9)"
    "store_get ex_store ''new'' = Some (ex_snapshot ''new'' 5)"
    by (simp_all add: ex_store_def store_get_def put_entries ex_snapshot_def)
  moreover have "snapshotSortTime (ex_snapshot ''new'' 5) < snapshotSortTime (ex_snapshot ''old'' 9)"
    by (simp add: snapshotSortTime_def ex_snapshot_def IsZero_def zero_time_def)
  ultimately show ?thesis using migrate_active [OF m] by simp
qed

text \<open>
  C10: a migration merges the histories of the two ids: the result has at most 50 events, the
  newest first, all under the new id and each from one of the two histories, no two with the
  same encoding; and if both histories together fit, no event that has an encoding is lost.
\<close>

theorem migrate_merges_history:
  assumes "migrates oldID newID s"
  defines "new \<equiv> TrimSpace newID"
    and "combined \<equiv> history_of s (TrimSpace newID) @ history_of s (TrimSpace oldID)"
    and "merged \<equiv> history_of (snd (migrateAccount oldID newID s)) (TrimSpace newID)"
  shows "length merged \<le> 50 \<and> newest_first merged \<and> distinct (map json_key merged)
    \<and> set merged \<subseteq> (\<lambda>x. x\<lparr>as_AccountID := new\<rparr>) ` set combined
    \<and> (length combined \<le> 50 \<longrightarrow>
        (\<forall>x \<in> set combined. marshalable (x\<lparr>as_AccountID := new\<rparr>) \<longrightarrow>
          json_key (x\<lparr>as_AccountID := new\<rparr>) \<in> json_key ` set merged))"
proof -
  have "TrimSpace oldID \<noteq> TrimSpace newID" using assms(1) by (simp add: migrates_def)
  then have "merged = merged_history new combined"
    by (simp add: merged_def new_def combined_def migrate_history_of [OF assms(1)])
  moreover have "snapshotHistoryLimit = 50" by (simp add: snapshotHistoryLimit_def)
  ultimately show ?thesis
    using merged_length [of new combined] merged_newest_first merged_distinct merged_subset merged_complete
    by simp
qed

theorem migrate_merges_history_witness:
  "newest_first (history_of (snd (migrateAccount ''old'' ''new'' ex_store)) ''new'')"
proof -
  have m: "migrates ''old'' ''new'' ex_store"
    by (simp add: migrates_def ex_store_def mhas_def put_entries ex_snapshot_def)
  show ?thesis using migrate_merges_history [OF m] by simp
qed

section \<open>Load and save\<close>

lemma validate_entries_id:
  "\<forall>(k, x) \<in> set m. snapshot_ok x \<and> as_AccountID x = k \<Longrightarrow> validateSnapshotEntries m = Inr m"
  by (induction m) (auto simp: normalizeCached_id)

lemma normalize_all_id:
  "\<forall>x \<in> set xs. snapshot_ok x \<and> as_AccountID x = k \<Longrightarrow> normalize_all k xs = Inr xs"
  by (induction xs) (auto simp: normalizeCached_id)

lemma validate_history_id:
  "\<forall>(k, xs) \<in> set m. length xs \<le> snapshotHistoryLimit \<and> (\<forall>x \<in> set xs. snapshot_ok x \<and> as_AccountID x = k) \<Longrightarrow>
     validateSnapshotHistory m = Inr m"
  by (induction m) (auto simp: normalize_all_id)

lemma json_key_ok [simp]:
  "snapshot_ok (json_key x) = snapshot_ok x" "as_AccountID (json_key x) = as_AccountID x"
  by (simp_all add: json_key_def snapshot_ok_def)

definition all_marshalable :: "snapshotStore \<Rightarrow> bool" where
  "all_marshalable s =
     (list_all (\<lambda>(_, x). marshalable x) (ss_entries s)
      \<and> list_all (\<lambda>(_, xs). list_all marshalable xs) (ss_history s))"

lemma save_begin_unfold:
  "save_begin s =
     (case ss_loadErr s of Some e \<Rightarrow> Inl (RefuseOverwrite e)
      | None \<Rightarrow> if all_marshalable s
                then Inr (ss_migrationRevision s,
                       \<lparr>pc_FormatVersion = snapshotCacheFormatVersion,
                        pc_Entries = mmapv json_key (ss_entries s),
                        pc_History = mmapv (map json_key) (ss_history s)\<rparr>)
                else Inl EncodeCache)"
  unfolding save_begin_def all_marshalable_def by (rule refl)

text \<open>
  C14: a store that keeps its invariant, and all of whose snapshots have an encoding, survives
  a save and a load: the save succeeds, and a fresh store that reads the file gets every
  active snapshot and every history back, up to what the encoding does not carry.
\<close>

theorem save_load_roundtrip:
  assumes "store_wf s" "all_marshalable s" "ss_loadErr s = None" "path \<noteq> []"
  shows "fst (store_save path (\<lambda>_. Written) file s) = None
    \<and> (let file' = fst (snd (store_save path (\<lambda>_. Written) file s));
           r = store_load path file' newSnapshotStore
       in fst r = None
          \<and> (\<forall>k. store_get (snd r) k = map_option json_key (store_get s k))
          \<and> (\<forall>k. history_of (snd r) k = map json_key (history_of s k)))"
proof -
  let ?doc = "\<lparr>pc_FormatVersion = snapshotCacheFormatVersion,
     pc_Entries = mmapv json_key (ss_entries s), pc_History = mmapv (map json_key) (ss_history s)\<rparr>"
  note wf = store_wfD [OF assms(1)]
  have e: "validateSnapshotEntries (mmapv json_key (ss_entries s)) = Inr (mmapv json_key (ss_entries s))"
  proof (rule validate_entries_id)
    show "\<forall>(k, x) \<in> set (mmapv json_key (ss_entries s)). snapshot_ok x \<and> as_AccountID x = k"
      using wf(3) mwf_in_mget [OF wf(1)] by (fastforce simp: mmapv_def)
  qed
  have h: "validateSnapshotHistory (mmapv (map json_key) (ss_history s)) = Inr (mmapv (map json_key) (ss_history s))"
  proof (rule validate_history_id)
    show "\<forall>(k, xs) \<in> set (mmapv (map json_key) (ss_history s)). length xs \<le> snapshotHistoryLimit
        \<and> (\<forall>x \<in> set xs. snapshot_ok x \<and> as_AccountID x = k)"
      using wf(4) mwf_in_mget [OF wf(2)] by (fastforce simp: mmapv_def)
  qed
  have b: "save_begin s = Inr (ss_migrationRevision s, ?doc)"
    using assms(2,3) by (simp add: save_begin_unfold)
  have sv: "fst (store_save path (\<lambda>_. Written) file s) = None"
    "fst (snd (store_save path (\<lambda>_. Written) file s)) = Versioned ?doc"
    using assms(4) by (simp_all add: store_save_def b save_finish_def)
  have "store_load path (Versioned ?doc) newSnapshotStore =
     (None, newSnapshotStore\<lparr>ss_entries := mmapv json_key (ss_entries s),
        ss_history := mmapv (map json_key) (ss_history s), ss_loadErr := None\<rparr>)"
    using assms(4) by (simp add: store_load_def decodeSnapshotCache_def e h snapshotCacheFormatVersion_def)
  moreover have "history_of (newSnapshotStore\<lparr>ss_entries := a, ss_history := mmapv (map json_key) (ss_history s),
      ss_loadErr := None\<rparr>) k = map json_key (history_of s k)" for a k
    by (cases "mget (ss_history s) k") (simp_all add: mgetz_def)
  ultimately show ?thesis by (simp add: sv store_get_def)
qed

lemma ex_store_wf: "store_wf ex_store"
  unfolding ex_store_def
  by (intro put_wf new_wf ex_snapshot_ok) (simp_all add: zero_time_def)

lemma ex_store_marshalable: "all_marshalable ex_store"
  by code_simp

theorem save_load_roundtrip_witness:
  "fst (store_save ''cache.json'' (\<lambda>_. Written) NoFile ex_store) = None"
  using save_load_roundtrip [OF ex_store_wf ex_store_marshalable, of "''cache.json''" NoFile]
  by (simp add: ex_store_def store_put_def newSnapshotStore_def Let_def)

lemma op_step_loadErr: "op_step s s' \<Longrightarrow> ss_loadErr s' = ss_loadErr s"
proof (induction rule: op_step.induct)
  case (Migrate s oldID newID)
  show ?case
    by (cases "migrates oldID newID s") (simp_all add: migrate_some(6) migrate_none)
qed (auto simp: store_put_def store_delete_def store_removeActive_def store_reapplyActive_def
       store_rename_def store_prune_def Let_def split: option.splits)

lemma cache_step_loadErr: "cache_step s s' \<Longrightarrow> ss_loadErr s' = ss_loadErr s"
  by (auto simp: op_step_loadErr finish_same elim: cache_stepE)

text \<open>
  C28: after a load that failed, the store keeps its content, and no save overwrites the file,
  whatever operations happen in between, until a load succeeds.
\<close>

theorem unreadable_cache_kept:
  assumes "fst (store_load path file s) = Some e" "cache_step\<^sup>*\<^sup>* (snd (store_load path file s)) s'"
    and "path' \<noteq> []"
  shows "ss_entries (snd (store_load path file s)) = ss_entries s
    \<and> ss_history (snd (store_load path file s)) = ss_history s
    \<and> store_save path' writeFile file' s' = (Some (RefuseOverwrite e), file', s')"
proof -
  have l: "snd (store_load path file s) = s\<lparr>ss_loadErr := Some e\<rparr>"
    using assms(1) by (auto simp: store_load_def split: if_splits cache_file.splits sum.splits prod.splits)
  from assms(2) have "ss_loadErr s' = ss_loadErr (snd (store_load path file s))"
    by (induction rule: rtranclp_induct) (simp_all add: cache_step_loadErr)
  then have "ss_loadErr s' = Some e" by (simp add: l)
  with assms(3) show ?thesis by (simp add: l store_save_def save_begin_def)
qed

theorem unreadable_cache_kept_witness:
  "store_save ''p'' (\<lambda>_. Written) Undecodable (store_delete ''old'' (snd (store_load ''p'' Undecodable ex_store)))
     = (Some (RefuseOverwrite DecodeJSON), Undecodable, store_delete ''old'' (snd (store_load ''p'' Undecodable ex_store)))"
proof -
  have "fst (store_load ''p'' Undecodable ex_store) = Some DecodeJSON"
    by (simp add: store_load_def decodeSnapshotCache_def)
  moreover have "cache_step\<^sup>*\<^sup>* (snd (store_load ''p'' Undecodable ex_store))
      (store_delete ''old'' (snd (store_load ''p'' Undecodable ex_store)))"
    by (intro r_into_rtranclp cache_step.Op op_step.Delete)
  ultimately show ?thesis by (simp add: unreadable_cache_kept)
qed

lemma op_step_migration:
  "op_step s s' \<Longrightarrow> ss_migrationRevision s \<le> ss_migrationRevision s' \<and>
     (ss_migrationDirty s \<longrightarrow> ss_migrationDirty s')"
proof (induction rule: op_step.induct)
  case (Migrate s oldID newID)
  show ?case
    by (cases "migrates oldID newID s") (simp_all add: migrate_some(4,5) migrate_none)
qed (auto simp: store_put_def store_delete_def store_removeActive_def store_reapplyActive_def
       store_rename_def store_prune_def Let_def split: option.splits)

lemma op_steps_migration:
  "op_step\<^sup>*\<^sup>* s s' \<Longrightarrow> ss_migrationRevision s \<le> ss_migrationRevision s' \<and>
     (ss_migrationDirty s \<longrightarrow> ss_migrationDirty s')"
  by (induction rule: rtranclp_induct) (auto dest!: op_step_migration)

text \<open>
  C27: a migration that happens while a save is writing the file is not lost: when the save
  finishes, whether the file was written or not, the store is still marked as having a
  migration to write, whatever operations ran before and after the migration.  (Saves and
  loads hold \<open>saveMu\<close>, so none of them comes in between.)
\<close>

theorem migration_during_save_kept:
  assumes "save_begin s0 = Inr (revision, doc)"
    and "op_step\<^sup>*\<^sup>* s0 s1" "migrates oldID newID s1"
    and "op_step\<^sup>*\<^sup>* (snd (migrateAccount oldID newID s1)) s2"
  shows "hasPendingMigration (snd (save_finish revision written s2))"
proof -
  have "revision = ss_migrationRevision s0"
    using assms(1) by (simp add: save_begin_unfold split: option.splits if_splits)
  then have "revision < ss_migrationRevision s2"
    using op_steps_migration [OF assms(2)] op_steps_migration [OF assms(4)] migrate_some(4) [OF assms(3)]
    by simp
  moreover have "ss_migrationDirty s2"
    using op_steps_migration [OF assms(4)] migrate_some(5) [OF assms(3)] by simp
  ultimately show ?thesis by (simp add: save_finish_def hasPendingMigration_def)
qed

theorem migration_during_save_kept_witness:
  "hasPendingMigration (snd (save_finish 0 True (snd (migrateAccount ''old'' ''new'' ex_store))))"
proof -
  have m: "migrates ''old'' ''new'' ex_store"
    by (simp add: migrates_def ex_store_def mhas_def put_entries ex_snapshot_def)
  have r: "ss_loadErr ex_store = None" "ss_migrationRevision ex_store = 0"
    by (simp_all add: ex_store_def store_put_def newSnapshotStore_def Let_def)
  have b: "save_begin ex_store = Inr (0, \<lparr>pc_FormatVersion = snapshotCacheFormatVersion,
     pc_Entries = mmapv json_key (ss_entries ex_store),
     pc_History = mmapv (map json_key) (ss_history ex_store)\<rparr>)"
    by (simp add: save_begin_unfold r ex_store_marshalable)
  show ?thesis
    by (rule migration_during_save_kept [OF b rtranclp.rtrancl_refl m rtranclp.rtrancl_refl])
qed

end
