(* ===== verification/Pref_Crypto.thy ===== *)
theory Pref_Crypto
  imports Go_Crypto
begin

text \<open>
  The cryptographic helpers of prefs.go: base64 (raw standard and raw URL alphabets) as Go
  encodes and decodes it, the encryption of a management PAT, the derivation of account ids
  and credential fingerprints, and the key file.  AES-GCM and the random source are not code
  of the repository: they are the parameters \<open>aead\<close> and the bytes the source delivers.
\<close>

section \<open>Base64\<close>

definition b64_std :: string where
  "b64_std = ''ABCDEFGHIJKLMNOPQRSTUVWXYZabcdefghijklmnopqrstuvwxyz0123456789+/''"

definition b64_url :: string where
  "b64_url = ''ABCDEFGHIJKLMNOPQRSTUVWXYZabcdefghijklmnopqrstuvwxyz0123456789-_''"

fun b64_groups :: "int list \<Rightarrow> int list" where
  "b64_groups [] = []"
| "b64_groups [a] = [a div 4, (a mod 4) * 16]"
| "b64_groups [a, b] = [a div 4, (a mod 4) * 16 + b div 16, (b mod 16) * 4]"
| "b64_groups (a # b # c # rest) =
     [a div 4, (a mod 4) * 16 + b div 16, (b mod 16) * 4 + c div 64, c mod 64] @ b64_groups rest"

fun b64_ungroup :: "int list \<Rightarrow> int list option" where
  "b64_ungroup [] = Some []"
| "b64_ungroup [x] = None"
| "b64_ungroup [x, y] = Some [(x * 4 + y div 16) mod 256]"
| "b64_ungroup [x, y, z] = Some [(x * 4 + y div 16) mod 256, ((y mod 16) * 16 + z div 4) mod 256]"
| "b64_ungroup (x # y # z # w # rest) =
     map_option (\<lambda>bs. [(x * 4 + y div 16) mod 256, ((y mod 16) * 16 + z div 4) mod 256,
                      ((z mod 4) * 64 + w) mod 256] @ bs) (b64_ungroup rest)"

fun index_from :: "int \<Rightarrow> char \<Rightarrow> string \<Rightarrow> int option" where
  "index_from i c [] = None"
| "index_from i c (x # xs) = (if x = c then Some i else index_from (i + 1) c xs)"

fun all_some :: "'a option list \<Rightarrow> 'a list option" where
  "all_some [] = Some []"
| "all_some (None # xs) = None"
| "all_some (Some x # xs) = map_option (\<lambda>ys. x # ys) (all_some xs)"

definition b64_encode :: "string \<Rightarrow> int list \<Rightarrow> string" where
  "b64_encode alphabet bs = map (\<lambda>i. alphabet ! nat i) (b64_groups bs)"

text \<open>The decoder skips line breaks.\<close>

definition b64_decode :: "string \<Rightarrow> string \<Rightarrow> int list option" where
  "b64_decode alphabet s =
     (case all_some (map (\<lambda>c. index_from 0 c alphabet)
        (filter (\<lambda>c. c \<noteq> CHR 0x0A \<and> c \<noteq> CHR 0x0D) s)) of
        None \<Rightarrow> None
      | Some xs \<Rightarrow> b64_ungroup xs)"

definition is_bytes :: "int list \<Rightarrow> bool" where
  "is_bytes bs = list_all (\<lambda>b. 0 \<le> b \<and> b < 256) bs"

definition of_bytes :: "int list \<Rightarrow> string" where
  "of_bytes bs = map char_of bs"

lemma of_bytes_of [simp]: "of_bytes (bytes_of s) = s"
  by (simp add: of_bytes_def bytes_of_def comp_def)

lemma is_bytes_of [simp]: "is_bytes (bytes_of s)"
proof -
  have "0 \<le> (of_char c :: int) \<and> (of_char c :: int) < 256" for c
    by (cases c) (simp add: of_char_def split: if_splits)
  then show ?thesis by (simp add: is_bytes_def bytes_of_def list_all_iff)
qed

lemma join16: "0 \<le> y \<Longrightarrow> y < 16 \<Longrightarrow> (x * 16 + y) div 16 = x \<and> (x * 16 + y) mod 16 = y" for x y :: int
  by simp

lemma join4: "0 \<le> y \<Longrightarrow> y < 4 \<Longrightarrow> (x * 4 + y) div 4 = x \<and> (x * 4 + y) mod 4 = y" for x y :: int
  by simp

lemma byte_parts:
  "0 \<le> b \<and> b < 256 \<Longrightarrow> 0 \<le> b div 4 \<and> b div 4 < 64 \<and> 0 \<le> b div 16 \<and> b div 16 < 16
     \<and> 0 \<le> b div 64 \<and> b div 64 < 4 \<and> b mod 256 = b" for b :: int
  by (intro conjI) (simp_all add: pos_imp_zdiv_nonneg_iff, linarith+)

lemma b64_ungroup_groups: "is_bytes bs \<Longrightarrow> b64_ungroup (b64_groups bs) = Some bs"
proof (induction bs rule: b64_groups.induct)
  case (4 a b c rest)
  then have r: "0 \<le> a \<and> a < 256" "0 \<le> b \<and> b < 256" "0 \<le> c \<and> c < 256" "is_bytes rest"
    by (simp_all add: is_bytes_def)
  note p = byte_parts [OF r(1)] byte_parts [OF r(2)] byte_parts [OF r(3)]
  from r(4) 4 show ?case by (simp add: p join16 join4)
next
  case (2 a)
  then have r: "0 \<le> a \<and> a < 256" by (simp add: is_bytes_def)
  from byte_parts [OF r] show ?case by simp
next
  case (3 a b)
  then have r: "0 \<le> a \<and> a < 256" "0 \<le> b \<and> b < 256" by (simp_all add: is_bytes_def)
  note p = byte_parts [OF r(1)] byte_parts [OF r(2)]
  show ?case by (simp add: p join16)
qed simp

lemma six_bits:
  "0 \<le> y \<Longrightarrow> y < 16 \<Longrightarrow> 0 \<le> (a mod 4) * 16 + y \<and> (a mod 4) * 16 + y < 64"
  "0 \<le> z \<Longrightarrow> z < 4 \<Longrightarrow> 0 \<le> (a mod 16) * 4 + z \<and> (a mod 16) * 4 + z < 64"
  "0 \<le> (a mod 4) * 16 \<and> (a mod 4) * 16 < 64" "0 \<le> (a mod 16) * 4 \<and> (a mod 16) * 4 < 64" for a y z :: int
  using pos_mod_bound [of 4 a] pos_mod_sign [of 4 a] pos_mod_bound [of 16 a] pos_mod_sign [of 16 a]
  by linarith+

lemma b64_groups_range: "is_bytes bs \<Longrightarrow> list_all (\<lambda>x. 0 \<le> x \<and> x < 64) (b64_groups bs)"
proof (induction bs rule: b64_groups.induct)
  case (4 a b c rest)
  then have r: "0 \<le> a \<and> a < 256" "0 \<le> b \<and> b < 256" "0 \<le> c \<and> c < 256" "is_bytes rest"
    by (simp_all add: is_bytes_def)
  note p = byte_parts [OF r(1)] byte_parts [OF r(2)] byte_parts [OF r(3)]
  from r(4) 4 show ?case by (simp add: p six_bits)
next
  case (2 a)
  then have r: "0 \<le> a \<and> a < 256" by (simp add: is_bytes_def)
  from byte_parts [OF r] show ?case by (simp add: six_bits)
next
  case (3 a b)
  then have r: "0 \<le> a \<and> a < 256" "0 \<le> b \<and> b < 256" by (simp_all add: is_bytes_def)
  note p = byte_parts [OF r(1)] byte_parts [OF r(2)]
  show ?case by (simp add: p six_bits)
qed simp

text \<open>What a base64 alphabet needs for the round trip: checked for the two of Go.\<close>

definition alphabet_ok :: "string \<Rightarrow> bool" where
  "alphabet_ok al =
     (length al = 64 \<and> list_all (\<lambda>i. index_from 0 (al ! nat i) al = Some i) [0..63]
      \<and> CHR 0x0A \<notin> set al \<and> CHR 0x0D \<notin> set al)"

lemma alphabets_ok: "alphabet_ok b64_std" "alphabet_ok b64_url"
  by code_simp+

lemma all_some_map: "list_all (\<lambda>x. f x = Some (g x)) xs \<Longrightarrow> all_some (map f xs) = Some (map g xs)"
  by (induction xs) simp_all

lemma b64_roundtrip:
  assumes "alphabet_ok al" "is_bytes bs"
  shows "b64_decode al (b64_encode al bs) = Some bs"
proof -
  let ?gs = "b64_groups bs"
  note r = b64_groups_range [OF assms(2)]
  have mem: "al ! nat i \<in> set al" if "0 \<le> i" "i < 64" for i
    using that assms(1) by (simp add: alphabet_ok_def)
  have sub: "set (map (\<lambda>i. al ! nat i) ?gs) \<subseteq> set al"
    using r mem by (auto simp: list_all_iff)
  have f: "filter (\<lambda>c. c \<noteq> CHR 0x0A \<and> c \<noteq> CHR 0x0D) (map (\<lambda>i. al ! nat i) ?gs) =
      map (\<lambda>i. al ! nat i) ?gs"
  proof (intro filter_True ballI)
    fix c assume "c \<in> set (map (\<lambda>i. al ! nat i) ?gs)"
    with sub have "c \<in> set al" by blast
    with assms(1) show "c \<noteq> CHR 0x0A \<and> c \<noteq> CHR 0x0D" unfolding alphabet_ok_def by blast
  qed
  have "index_from 0 (al ! nat i) al = Some i" if "0 \<le> i" "i < 64" for i
    using assms(1) that by (simp add: alphabet_ok_def list_all_iff)
  with r have "list_all (\<lambda>i. index_from 0 (al ! nat i) al = Some i) ?gs"
    by (simp add: list_all_iff)
  from all_some_map [OF this] show ?thesis
    by (simp add: b64_decode_def b64_encode_def f comp_def b64_ungroup_groups [OF assms(2)])
qed

section \<open>Encryption of a preference\<close>

text \<open>\<open>seal key nonce plaintext aad\<close> and \<open>open key nonce ciphertext aad\<close> of AES-GCM.\<close>

record aead =
  ae_seal :: "int list \<Rightarrow> int list \<Rightarrow> int list \<Rightarrow> int list \<Rightarrow> int list"
  ae_open :: "int list \<Rightarrow> int list \<Rightarrow> int list \<Rightarrow> int list \<Rightarrow> int list option"

text \<open>
  The documented behaviour of \<open>cipher.AEAD\<close>: what was sealed opens with the same key, nonce and
  additional data, and sealed data are bytes.
\<close>

definition aead_ok :: "aead \<Rightarrow> bool" where
  "aead_ok A = (\<forall>k n p a. length k = 32 \<longrightarrow> length n = 12 \<longrightarrow> is_bytes p \<longrightarrow> is_bytes n \<longrightarrow>
     ae_open A k n (ae_seal A k n p a) a = Some p \<and> is_bytes (ae_seal A k n p a))"

datatype crypt_error = KeyUnavailable | RandomFailed | BadCipherKey | InvalidEncrypted | OpenFailed

text \<open>\<open>nonce\<close> is what the random source delivers for the twelve nonce bytes.\<close>

definition encryptPreference ::
    "aead \<Rightarrow> int list option \<Rightarrow> int list \<Rightarrow> string \<Rightarrow> string \<Rightarrow> crypt_error + string" where
  "encryptPreference A nonce key aad val =
     (if length key \<noteq> 32 then Inl KeyUnavailable
      else (case nonce of
          None \<Rightarrow> Inl RandomFailed
        | Some n \<Rightarrow> Inr (b64_encode b64_std (n @ ae_seal A key n (bytes_of val) (bytes_of aad)))))"

definition decryptPreference :: "aead \<Rightarrow> int list \<Rightarrow> string \<Rightarrow> string \<Rightarrow> crypt_error + string" where
  "decryptPreference A key aad encoded =
     (if length key \<notin> {16, 24, 32} then Inl BadCipherKey
      else (case b64_decode b64_std encoded of
          None \<Rightarrow> Inl InvalidEncrypted
        | Some raw \<Rightarrow>
            if length raw < 12 then Inl InvalidEncrypted
            else (case ae_open A key (take 12 raw) (drop 12 raw) (bytes_of aad) of
                None \<Rightarrow> Inl OpenFailed
              | Some v \<Rightarrow> Inr (of_bytes v))))"

lemma decrypt_encrypt:
  assumes "aead_ok A" "length key = 32" "length n = 12" "is_bytes n"
  shows "\<exists>e. encryptPreference A (Some n) key aad val = Inr e \<and> e \<noteq> []
    \<and> decryptPreference A key aad e = Inr val"
proof -
  let ?ct = "ae_seal A key n (bytes_of val) (bytes_of aad)"
  have a: "ae_open A key n ?ct (bytes_of aad) = Some (bytes_of val)" "is_bytes ?ct"
    using assms is_bytes_of unfolding aead_ok_def by blast+
  have "b64_decode b64_std (b64_encode b64_std (n @ ?ct)) = Some (n @ ?ct)"
    using assms(4) a(2) by (intro b64_roundtrip alphabets_ok) (simp add: is_bytes_def)
  then have "decryptPreference A key aad (b64_encode b64_std (n @ ?ct)) = Inr val"
    unfolding decryptPreference_def using assms(2,3) by (simp add: a(1))
  moreover have "b64_encode b64_std (n @ ?ct) \<noteq> []"
  proof -
    have "b64_groups bs = [] \<longleftrightarrow> bs = []" for bs by (cases bs rule: b64_groups.cases) simp_all
    then show ?thesis using assms(3) by (cases n) (simp_all only: b64_encode_def map_is_Nil_conv append_Cons list.distinct simp_thms, simp)
  qed
  moreover have "encryptPreference A (Some n) key aad val = Inr (b64_encode b64_std (n @ ?ct))"
    using assms(2) by (simp add: encryptPreference_def)
  ultimately show ?thesis by blast
qed

section \<open>Account ids and fingerprints\<close>

definition normalizeIdentityURL :: "string \<Rightarrow> string" where
  "normalizeIdentityURL raw = TrimRightSet ''/'' (TrimSpace (ToLower raw))"

definition stableAccountID :: "int list \<Rightarrow> string \<Rightarrow> string \<Rightarrow> string \<Rightarrow> string" where
  "stableAccountID key source sourceID fingerprint =
     ''acct_'' @ hex_encode (take 12 (hmac_sha256 key
       (bytes_of (ToLower (TrimSpace source)) @ [0] @ bytes_of (TrimSpace sourceID) @ [0]
        @ bytes_of (TrimSpace fingerprint))))"

definition credentialIdentityFingerprint ::
    "int list \<Rightarrow> string \<Rightarrow> string \<Rightarrow> string \<Rightarrow> string \<Rightarrow> string" where
  "credentialIdentityFingerprint key source sourceID baseURL secret =
     hex_encode (hmac_sha256 key
       (concat (map (\<lambda>v. bytes_of v @ [0])
          [ToLower (TrimSpace source), TrimSpace sourceID, normalizeIdentityURL baseURL, secret])))"

text \<open>\<open>random\<close> is what the random source delivers for sixteen bytes.\<close>

definition newAccountID :: "int list option \<Rightarrow> crypt_error + string" where
  "newAccountID random =
     (case random of None \<Rightarrow> Inl RandomFailed | Some raw \<Rightarrow> Inr (''acct_'' @ b64_encode b64_url raw))"

section \<open>The key file\<close>

datatype key_file = KeyMissing | KeyUnreadable | KeyBytes "int list"
datatype key_error = KeyNotExist | KeyReadError | KeyLength | KeyRandom | KeyWrite

definition loadKey :: "key_file \<Rightarrow> key_error + int list" where
  "loadKey f =
     (case f of
        KeyMissing \<Rightarrow> Inl KeyNotExist
      | KeyUnreadable \<Rightarrow> Inl KeyReadError
      | KeyBytes raw \<Rightarrow> if length raw \<noteq> 32 then Inl KeyLength else Inr raw)"

text \<open>\<open>written\<close> tells whether the new key could be stored.\<close>

definition loadOrCreateKey :: "int list option \<Rightarrow> bool \<Rightarrow> key_file \<Rightarrow> (key_error + int list) \<times> key_file" where
  "loadOrCreateKey random written f =
     (case loadKey f of
        Inr key \<Rightarrow> (Inr key, f)
      | Inl e \<Rightarrow>
          if e \<noteq> KeyNotExist then (Inl e, f)
          else (case random of
              None \<Rightarrow> (Inl KeyRandom, f)
            | Some key \<Rightarrow> if written then (Inr key, KeyBytes key) else (Inl KeyWrite, f)))"

end
