(* ===== verification/Preferences.thy ===== *)
theory Preferences
  imports Pref_Crypto Thresholds Atomic_File
begin

text \<open>
  prefs.go: the persisted preferences of the monitor, their normalisation, the transaction
  \<open>commitAtRevision\<close> that every change goes through, and the mutators that are committed.
  A clone of the data is the data itself here.  Revisions are int64 and wrap.  The random
  bytes that the encryption of a PAT takes from the system are an argument, and so is the
  outcome of writing the file.
\<close>

section \<open>Data\<close>

definition monitorPrefsFormatVersion :: int where
  "monitorPrefsFormatVersion = 2"

record persistedIdentity =
  pi_AccountID :: string
  pi_Source :: string
  pi_SourceID :: string
  pi_LegacyID :: string
  pi_BaseURL :: string
  pi_Fingerprint :: string
  pi_Provider :: string
  pi_FirstSeenAt :: gotime

record persistedMonitorPrefs =
  pp_FormatVersion :: int
  pp_Revision :: int
  pp_Known :: "(string, bool) gomap"
  pp_Monitored :: "(string, bool) gomap"
  pp_Adapters :: "(string, string) gomap"
  pp_PATs :: "(string, string) gomap"
  pp_Names :: "(string, string) gomap"
  pp_AccountOrder :: "string list"
  pp_FirstSeen :: "(string, gotime) gomap"
  pp_Identities :: "(string, persistedIdentity) gomap"
  pp_RelinkRequired :: "(string, bool) gomap"
  pp_QueryRevisions :: "(string, int) gomap"
  pp_DismissedAlerts :: "(string, bool) gomap"
  pp_Thresholds :: "thresholdConfig option"

definition newPersistedMonitorPrefs :: persistedMonitorPrefs where
  "newPersistedMonitorPrefs = \<lparr>pp_FormatVersion = monitorPrefsFormatVersion, pp_Revision = 0,
     pp_Known = [], pp_Monitored = [], pp_Adapters = [], pp_PATs = [], pp_Names = [],
     pp_AccountOrder = [], pp_FirstSeen = [], pp_Identities = [], pp_RelinkRequired = [],
     pp_QueryRevisions = [], pp_DismissedAlerts = [], pp_Thresholds = None\<rparr>"

datatype pref_error =
    RevisionConflict int int
  | EncodePrefs
  | PersistPrefs
  | ReadPrefs
  | DecodePrefs
  | NewerFormat int
  | AlertIDRequired
  | AlertIDTooLong
  | ProviderIDRequired
  | UnsupportedPATAction string
  | NameTooLong
  | NameControlCharacter
  | AdapterClearedAndReplaced
  | ReplacementPATRequired
  | PATClearedAndReplaced
  | CryptFailed crypt_error
  | DecryptLegacyPAT crypt_error
  | EncryptMigratedPAT crypt_error

record monitorPrefs =
  mp_path :: string
  mp_key :: "int list"
  mp_keyErr :: "key_error option"
  mp_loaded :: bool
  mp_data :: persistedMonitorPrefs

definition newMonitorPrefs :: monitorPrefs where
  "newMonitorPrefs = \<lparr>mp_path = [], mp_key = [], mp_keyErr = None, mp_loaded = False,
     mp_data = newPersistedMonitorPrefs\<rparr>"

text \<open>Trim the order, drop empty ids and keep the first of equal ones.\<close>

fun normalize_order :: "string list \<Rightarrow> string list \<Rightarrow> string list" where
  "normalize_order seen [] = []"
| "normalize_order seen (aid # rest) =
     (let aid = TrimSpace aid
      in if aid = [] then normalize_order seen rest
         else if aid \<in> set seen then normalize_order seen rest
         else aid # normalize_order (aid # seen) rest)"

definition normalizePersistedPrefs :: "persistedMonitorPrefs \<Rightarrow> persistedMonitorPrefs" where
  "normalizePersistedPrefs d =
     d\<lparr>pp_FormatVersion := monitorPrefsFormatVersion,
       pp_AccountOrder := normalize_order [] (pp_AccountOrder d)\<rparr>"

section \<open>Queries\<close>

definition isMonitored :: "persistedMonitorPrefs \<Rightarrow> string \<Rightarrow> bool \<Rightarrow> bool" where
  "isMonitored d aid defaultValue =
     (case mget (pp_Monitored d) aid of Some v \<Rightarrow> v | None \<Rightarrow> defaultValue)"

definition pref_adapter :: "persistedMonitorPrefs \<Rightarrow> string \<Rightarrow> string \<Rightarrow> string" where
  "pref_adapter d aid fallback = firstNonEmpty [mstr (pp_Adapters d) aid, fallback]"

definition pref_name :: "persistedMonitorPrefs \<Rightarrow> string \<Rightarrow> string \<Rightarrow> string" where
  "pref_name d aid fallback = firstNonEmpty [mstr (pp_Names d) aid, fallback]"

definition queryRevision :: "persistedMonitorPrefs \<Rightarrow> string \<Rightarrow> int" where
  "queryRevision d aid = mgetz 0 (pp_QueryRevisions d) aid"

definition canCommitQueryResult :: "persistedMonitorPrefs \<Rightarrow> string \<Rightarrow> int \<Rightarrow> bool" where
  "canCommitQueryResult d aid revn =
     (mbool (pp_Known d) aid \<and> mbool (pp_Monitored d) aid \<and> queryRevision d aid = revn)"

definition effectiveThresholds :: "persistedMonitorPrefs \<Rightarrow> thresholdConfig \<Rightarrow> thresholdConfig" where
  "effectiveThresholds d fallback =
     (case pp_Thresholds d of None \<Rightarrow> fallback | Some t \<Rightarrow> t)"

definition pref_firstSeen :: "persistedMonitorPrefs \<Rightarrow> string \<Rightarrow> gotime option" where
  "pref_firstSeen d aid =
     (case mget (pp_FirstSeen d) aid of
        None \<Rightarrow> None | Some t \<Rightarrow> if IsZero t then None else Some t)"

definition patConfigured :: "persistedMonitorPrefs \<Rightarrow> string \<Rightarrow> bool" where
  "patConfigured d aid = (mstr (pp_PATs d) aid \<noteq> [])"

definition pref_pat :: "aead \<Rightarrow> monitorPrefs \<Rightarrow> string \<Rightarrow> string" where
  "pref_pat A p aid =
     (let encoded = mstr (pp_PATs (mp_data p)) aid
      in if encoded = [] \<or> mp_keyErr p \<noteq> None \<or> length (mp_key p) \<noteq> 32
            \<or> mbool (pp_RelinkRequired (mp_data p)) aid then []
         else (case decryptPreference A (mp_key p) aid encoded of Inl _ \<Rightarrow> [] | Inr v \<Rightarrow> v))"

abbreviation patStatusMissing :: string where "patStatusMissing \<equiv> ''missing''"
abbreviation patStatusReady :: string where "patStatusReady \<equiv> ''ready''"
abbreviation patStatusError :: string where "patStatusError \<equiv> ''decrypt_error''"
abbreviation patStatusRelink :: string where "patStatusRelink \<equiv> ''relink_required''"

definition patStatus :: "aead \<Rightarrow> monitorPrefs \<Rightarrow> string \<Rightarrow> string" where
  "patStatus A p aid =
     (let d = mp_data p; encoded = mstr (pp_PATs d) aid
      in if mbool (pp_RelinkRequired d) aid then patStatusRelink
         else if encoded = [] then patStatusMissing
         else if mp_keyErr p \<noteq> None
         then (if mp_keyErr p = Some KeyNotExist then patStatusMissing else patStatusError)
         else if length (mp_key p) \<noteq> 32 then patStatusError
         else (case decryptPreference A (mp_key p) aid encoded of
                 Inl _ \<Rightarrow> patStatusError | Inr _ \<Rightarrow> patStatusReady))"

section \<open>The transaction\<close>

type_synonym mutator = "persistedMonitorPrefs \<Rightarrow> pref_error + (bool \<times> persistedMonitorPrefs)"

text \<open>\<open>json.Marshal\<close> of the preferences fails on thresholds that are not numbers and on odd times.\<close>

definition time_encodable :: "gotime \<Rightarrow> bool" where
  "time_encodable t = (- 62167219200000000000 \<le> t \<and> t < 253402300800000000000)"

definition num_encodable :: "f64 \<Rightarrow> bool" where
  "num_encodable x = (case x of Fin _ _ \<Rightarrow> True | _ \<Rightarrow> False)"

definition prefs_encodable :: "persistedMonitorPrefs \<Rightarrow> bool" where
  "prefs_encodable d =
     (list_all (\<lambda>(_, t). time_encodable t) (pp_FirstSeen d)
      \<and> list_all (\<lambda>(_, i). time_encodable (pi_FirstSeenAt i)) (pp_Identities d)
      \<and> (case pp_Thresholds d of None \<Rightarrow> True
         | Some t \<Rightarrow> num_encodable (tc_WarningPercent t) \<and> num_encodable (tc_CriticalPercent t)))"

text \<open>
  The state is the preferences in memory with the document in the file; the result is the
  revision with the error, if any.  A write may fail after it has replaced the file.
\<close>

type_synonym prefs_world = "monitorPrefs \<times> persistedMonitorPrefs option"

definition commit_changes :: "(persistedMonitorPrefs \<Rightarrow> write_outcome) \<Rightarrow> mutator
    \<Rightarrow> prefs_world \<Rightarrow> (int \<times> pref_error option) \<times> prefs_world" where
  "commit_changes writeFile mutate w =
     (case w of (p, disk) \<Rightarrow>
        (case mutate (mp_data p) of
           Inl e \<Rightarrow> ((pp_Revision (mp_data p), Some e), w)
         | Inr (changed, current) \<Rightarrow>
             if \<not> changed then ((pp_Revision current, None), w)
             else
               (let current = normalizePersistedPrefs current;
                    current = current\<lparr>pp_Revision := wrap64 (pp_Revision current + 1)\<rparr>;
                    p' = p\<lparr>mp_data := current, mp_loaded := True\<rparr>
                in if mp_path p = [] then ((pp_Revision current, None), (p', disk))
                   else if \<not> prefs_encodable current
                   then ((pp_Revision (mp_data p), Some EncodePrefs), w)
                   else (case writeFile current of
                       Written \<Rightarrow> ((pp_Revision current, None), (p', Some current))
                     | NotWritten \<Rightarrow> ((pp_Revision (mp_data p), Some PersistPrefs), w)
                     | WrittenWithError \<Rightarrow>
                         ((pp_Revision (mp_data p), Some PersistPrefs), (p, Some current))))))"

definition commitAtRevision :: "(persistedMonitorPrefs \<Rightarrow> write_outcome) \<Rightarrow> int option \<Rightarrow> mutator
    \<Rightarrow> prefs_world \<Rightarrow> (int \<times> pref_error option) \<times> prefs_world" where
  "commitAtRevision writeFile expected mutate w =
     (let revision = pp_Revision (mp_data (fst w))
      in case expected of
           None \<Rightarrow> commit_changes writeFile mutate w
         | Some e \<Rightarrow>
             if revision \<noteq> e then ((revision, Some (RevisionConflict e revision)), w)
             else commit_changes writeFile mutate w)"

section \<open>Mutators\<close>

definition dismiss_mutator :: "string \<Rightarrow> mutator" where
  "dismiss_mutator aid d =
     (if mbool (pp_DismissedAlerts d) aid then Inr (False, d)
      else Inr (True, d\<lparr>pp_DismissedAlerts := mput aid True (pp_DismissedAlerts d)\<rparr>))"

definition dismissAlert :: "(persistedMonitorPrefs \<Rightarrow> write_outcome) \<Rightarrow> string
    \<Rightarrow> prefs_world \<Rightarrow> pref_error option \<times> prefs_world" where
  "dismissAlert writeFile aid w =
     (let aid = TrimSpace aid
      in if aid = [] then (Some AlertIDRequired, w)
         else if 128 < length aid then (Some AlertIDTooLong, w)
         else (case commitAtRevision writeFile None (dismiss_mutator aid) w of
                 ((_, err), w) \<Rightarrow> (err, w)))"

definition reconcile_dismissed :: "(string, bool) gomap \<Rightarrow> mutator" where
  "reconcile_dismissed active d =
     Inr (list_ex (\<lambda>(aid, _). \<not> mbool active aid) (pp_DismissedAlerts d),
          d\<lparr>pp_DismissedAlerts := mfilterk (mbool active) (pp_DismissedAlerts d)\<rparr>)"

definition zero_cash :: cashThreshold where
  "zero_cash = \<lparr>ct_Warning = [], ct_Critical = []\<rparr>"

definition cashThresholdMapsEqual ::
    "(string, cashThreshold) gomap option \<Rightarrow> (string, cashThreshold) gomap option \<Rightarrow> bool" where
  "cashThresholdMapsEqual left right =
     (length (cash_map left) = length (cash_map right)
      \<and> list_all (\<lambda>(key, v). mgetz zero_cash (cash_map right) key = v) (cash_map left))"

definition thresholdConfigsEqual :: "thresholdConfig option \<Rightarrow> thresholdConfig option \<Rightarrow> bool" where
  "thresholdConfigsEqual left right =
     (case (left, right) of
        (Some l, Some r) \<Rightarrow>
          feq (tc_WarningPercent l) (tc_WarningPercent r)
          \<and> feq (tc_CriticalPercent l) (tc_CriticalPercent r)
          \<and> cashThresholdMapsEqual (tc_CashByCurrency l) (tc_CashByCurrency r)
          \<and> cashThresholdMapsEqual (tc_CashByAccount l) (tc_CashByAccount r)
      | (None, None) \<Rightarrow> True
      | _ \<Rightarrow> False)"

definition threshold_mutator :: "thresholdConfig \<Rightarrow> mutator" where
  "threshold_mutator t d =
     (if pp_Thresholds d \<noteq> None \<and> thresholdConfigsEqual (pp_Thresholds d) (Some t)
      then Inr (False, d)
      else Inr (True, d\<lparr>pp_Thresholds := Some t\<rparr>))"

definition updateThresholdsAtRevision :: "(persistedMonitorPrefs \<Rightarrow> write_outcome) \<Rightarrow> int option
    \<Rightarrow> thresholdConfig \<Rightarrow> prefs_world \<Rightarrow> (int \<times> pref_error option) \<times> prefs_world" where
  "updateThresholdsAtRevision writeFile expected t w =
     commitAtRevision writeFile expected (threshold_mutator t) w"

definition bump_query :: "string \<Rightarrow> persistedMonitorPrefs \<Rightarrow> persistedMonitorPrefs" where
  "bump_query aid d =
     d\<lparr>pp_QueryRevisions := mput aid (wrap64 (queryRevision d aid + 1)) (pp_QueryRevisions d)\<rparr>"

fun invalidate_loop :: "string list \<Rightarrow> string list \<Rightarrow> bool \<times> persistedMonitorPrefs
    \<Rightarrow> bool \<times> persistedMonitorPrefs" where
  "invalidate_loop seen [] st = st"
| "invalidate_loop seen (rawID # rest) (changed, d) =
     (let aid = TrimSpace rawID
      in if aid = [] then invalidate_loop seen rest (changed, d)
         else if aid \<in> set seen then invalidate_loop seen rest (changed, d)
         else invalidate_loop (aid # seen) rest (True, bump_query aid d))"

definition invalidate_mutator :: "string list \<Rightarrow> mutator" where
  "invalidate_mutator ids d = Inr (invalidate_loop [] ids (False, d))"

definition invalidateQueryResults :: "(persistedMonitorPrefs \<Rightarrow> write_outcome) \<Rightarrow> string list
    \<Rightarrow> prefs_world \<Rightarrow> pref_error option \<times> prefs_world" where
  "invalidateQueryResults writeFile ids w =
     (case commitAtRevision writeFile None (invalidate_mutator ids) w of ((_, err), w) \<Rightarrow> (err, w))"

section \<open>Known accounts\<close>

definition ensureKnownPreference :: "string \<Rightarrow> bool \<Rightarrow> gotime \<Rightarrow> persistedMonitorPrefs
    \<Rightarrow> bool \<times> persistedMonitorPrefs" where
  "ensureKnownPreference aid defaultValue now d =
     (let aid = TrimSpace aid
      in if aid = [] then (False, d)
         else
           (let (changed, d) =
                  (if \<not> mbool (pp_Known d) aid
                   then (True, d\<lparr>pp_Known := mput aid True (pp_Known d),
                                 pp_Monitored := mput aid defaultValue (pp_Monitored d)\<rparr>)
                   else (False, d));
                (changed, d) =
                  (if \<not> mhas (pp_FirstSeen d) aid \<or> IsZero (mgetz zero_time (pp_FirstSeen d) aid)
                   then (True, d\<lparr>pp_FirstSeen := mput aid now (pp_FirstSeen d)\<rparr>)
                   else (changed, d))
            in if \<not> containsString (pp_AccountOrder d) aid
               then (True, d\<lparr>pp_AccountOrder := pp_AccountOrder d @ [aid]\<rparr>)
               else (changed, d)))"

definition and_known :: "bool \<Rightarrow> gotime \<Rightarrow> bool \<times> persistedMonitorPrefs \<Rightarrow> string
    \<Rightarrow> bool \<times> persistedMonitorPrefs" where
  "and_known defaultValue now st aid =
     (case st of (changed, d) \<Rightarrow>
        (case ensureKnownPreference aid defaultValue now d of (c, d) \<Rightarrow> (c \<or> changed, d)))"

definition reconcile_mutator :: "gotime \<Rightarrow> string list \<Rightarrow> mutator" where
  "reconcile_mutator now ids d = Inr (foldl (and_known False now) (False, d) (map TrimSpace ids))"

definition reconcileDefaults_mutator :: "gotime \<Rightarrow> (string, bool) gomap \<Rightarrow> mutator" where
  "reconcileDefaults_mutator now defaults d =
     Inr (foldl (\<lambda>st (aid, defaultValue). and_known defaultValue now st aid) (False, d) defaults)"

section \<open>Updating a batch of accounts\<close>

record providerPreferenceMutation =
  pm_ID :: string
  pm_Monitored :: "bool option"
  pm_Adapter :: string
  pm_ClearAdapter :: bool
  pm_PATAction :: string
  pm_PAT :: string
  pm_CustomName :: "string option"

abbreviation patActionKeep :: string where "patActionKeep \<equiv> ''keep''"
abbreviation patActionReplace :: string where "patActionReplace \<equiv> ''replace''"
abbreviation patActionClear :: string where "patActionClear \<equiv> ''clear''"

text \<open>The runes of a string, with 0xFFFD for each byte that is not valid UTF-8.\<close>

definition cont_byte :: "int \<Rightarrow> bool" where
  "cont_byte b = (0x80 \<le> b \<and> b \<le> 0xBF)"

definition decode_rune :: "int \<Rightarrow> int list \<Rightarrow> int \<times> nat" where
  "decode_rune b0 rest =
     (if b0 < 0x80 then (b0, 0)
      else if 0xC2 \<le> b0 \<and> b0 \<le> 0xDF then
        (case rest of
           b1 # _ \<Rightarrow> if cont_byte b1 then ((b0 - 0xC0) * 64 + (b1 - 0x80), 1) else (0xFFFD, 0)
         | _ \<Rightarrow> (0xFFFD, 0))
      else if 0xE0 \<le> b0 \<and> b0 \<le> 0xEF then
        (case rest of
           b1 # b2 # _ \<Rightarrow>
             if (if b0 = 0xE0 then 0xA0 else 0x80) \<le> b1 \<and> b1 \<le> (if b0 = 0xED then 0x9F else 0xBF)
                \<and> cont_byte b2
             then ((b0 - 0xE0) * 4096 + (b1 - 0x80) * 64 + (b2 - 0x80), 2) else (0xFFFD, 0)
         | _ \<Rightarrow> (0xFFFD, 0))
      else if 0xF0 \<le> b0 \<and> b0 \<le> 0xF4 then
        (case rest of
           b1 # b2 # b3 # _ \<Rightarrow>
             if (if b0 = 0xF0 then 0x90 else 0x80) \<le> b1 \<and> b1 \<le> (if b0 = 0xF4 then 0x8F else 0xBF)
                \<and> cont_byte b2 \<and> cont_byte b3
             then ((b0 - 0xF0) * 262144 + (b1 - 0x80) * 4096 + (b2 - 0x80) * 64 + (b3 - 0x80), 3)
             else (0xFFFD, 0)
         | _ \<Rightarrow> (0xFFFD, 0))
      else (0xFFFD, 0))"

function runes :: "int list \<Rightarrow> int list" where
  "runes [] = []"
| "runes (b0 # rest) = fst (decode_rune b0 rest) # runes (drop (snd (decode_rune b0 rest)) rest)"
  by pat_completeness auto
termination
  by (relation "measure length") auto

definition validateCustomName :: "string \<Rightarrow> pref_error option" where
  "validateCustomName name =
     (let rs = runes (bytes_of (TrimSpace name))
      in if 80 < length rs then Some NameTooLong
         else if list_ex (\<lambda>r. r < 0x20 \<or> r = 0x7F) rs then Some NameControlCharacter
         else None)"

definition pat_action :: "providerPreferenceMutation \<Rightarrow> string" where
  "pat_action m = ToLower (TrimSpace (pm_PATAction m))"

text \<open>The first loop: all mutations are validated before any is applied.\<close>

definition validate_mutation :: "providerPreferenceMutation \<Rightarrow> pref_error option" where
  "validate_mutation m =
     (let action = (if pat_action m = [] then patActionKeep else pat_action m)
      in if TrimSpace (pm_ID m) = [] then Some ProviderIDRequired
         else if action \<notin> {patActionKeep, patActionReplace, patActionClear}
         then Some (UnsupportedPATAction (pm_PATAction m))
         else (case (case pm_CustomName m of None \<Rightarrow> None | Some name \<Rightarrow> validateCustomName name) of
                 Some e \<Rightarrow> Some e
               | None \<Rightarrow>
                   if pm_ClearAdapter m \<and> TrimSpace (pm_Adapter m) \<noteq> [] then Some AdapterClearedAndReplaced
                   else if action = patActionReplace \<and> TrimSpace (pm_PAT m) = []
                   then Some ReplacementPATRequired
                   else if action = patActionClear \<and> TrimSpace (pm_PAT m) \<noteq> []
                   then Some PATClearedAndReplaced
                   else None))"

fun validate_mutations :: "providerPreferenceMutation list \<Rightarrow> pref_error option" where
  "validate_mutations [] = None"
| "validate_mutations (m # ms) =
     (case validate_mutation m of Some e \<Rightarrow> Some e | None \<Rightarrow> validate_mutations ms)"

text \<open>
  The second loop.  Its parts return whether they changed something that invalidates a running
  query, whether they changed anything, and the data.  The ids are the ones of the mutations
  as given: the first loop trims a copy only.
\<close>

type_synonym change = "bool \<times> bool \<times> persistedMonitorPrefs"

definition apply_monitored :: "string \<Rightarrow> providerPreferenceMutation \<Rightarrow> change \<Rightarrow> change" where
  "apply_monitored aid m ch =
     (case ch of (q, changed, d) \<Rightarrow>
        (case pm_Monitored m of
           None \<Rightarrow> ch
         | Some v \<Rightarrow> if mbool (pp_Monitored d) aid \<noteq> v
                     then (True, True, d\<lparr>pp_Monitored := mput aid v (pp_Monitored d)\<rparr>) else ch))"

definition apply_adapter :: "string \<Rightarrow> providerPreferenceMutation \<Rightarrow> change \<Rightarrow> change" where
  "apply_adapter aid m ch =
     (case ch of (q, changed, d) \<Rightarrow>
        if pm_ClearAdapter m
        then (if mhas (pp_Adapters d) aid
              then (True, True, d\<lparr>pp_Adapters := mdel aid (pp_Adapters d)\<rparr>) else ch)
        else if TrimSpace (pm_Adapter m) \<noteq> []
        then (let adapter = ToLower (TrimSpace (pm_Adapter m))
              in if mstr (pp_Adapters d) aid \<noteq> adapter
                 then (True, True, d\<lparr>pp_Adapters := mput aid adapter (pp_Adapters d)\<rparr>) else ch)
        else ch)"

definition apply_pat :: "(string \<Rightarrow> string \<Rightarrow> crypt_error + string) \<Rightarrow> string
    \<Rightarrow> providerPreferenceMutation \<Rightarrow> change \<Rightarrow> pref_error + change" where
  "apply_pat encrypt aid m ch =
     (case ch of (q, changed, d) \<Rightarrow>
        if pat_action m = patActionReplace
        then (case encrypt aid (TrimSpace (pm_PAT m)) of
                Inl e \<Rightarrow> Inl (CryptFailed e)
              | Inr encrypted \<Rightarrow>
                  Inr (True, True, d\<lparr>pp_PATs := mput aid encrypted (pp_PATs d),
                                    pp_RelinkRequired := mdel aid (pp_RelinkRequired d)\<rparr>))
        else if pat_action m = patActionClear
        then (let (q, changed, d) =
                    (if mhas (pp_PATs d) aid
                     then (True, True, d\<lparr>pp_PATs := mdel aid (pp_PATs d)\<rparr>) else (q, changed, d))
              in Inr (if mbool (pp_RelinkRequired d) aid
                      then (True, True, d\<lparr>pp_RelinkRequired := mdel aid (pp_RelinkRequired d)\<rparr>)
                      else (q, changed, d)))
        else Inr ch)"

definition apply_name :: "string \<Rightarrow> providerPreferenceMutation \<Rightarrow> change \<Rightarrow> change" where
  "apply_name aid m ch =
     (case ch of (q, changed, d) \<Rightarrow>
        (case pm_CustomName m of
           None \<Rightarrow> ch
         | Some raw \<Rightarrow>
             (let name = TrimSpace raw
              in if name = []
                 then (if mhas (pp_Names d) aid
                       then (q, True, d\<lparr>pp_Names := mdel aid (pp_Names d)\<rparr>) else ch)
                 else if mstr (pp_Names d) aid \<noteq> name
                 then (q, True, d\<lparr>pp_Names := mput aid name (pp_Names d)\<rparr>) else ch)))"

definition apply_mutation :: "(string \<Rightarrow> string \<Rightarrow> crypt_error + string) \<Rightarrow> gotime
    \<Rightarrow> providerPreferenceMutation \<Rightarrow> bool \<times> persistedMonitorPrefs
    \<Rightarrow> pref_error + (bool \<times> persistedMonitorPrefs)" where
  "apply_mutation encrypt now m st =
     (let aid = pm_ID m; (changed, d) = and_known True now st aid
      in case apply_pat encrypt aid m (apply_adapter aid m (apply_monitored aid m (False, changed, d))) of
           Inl e \<Rightarrow> Inl e
         | Inr ch \<Rightarrow>
             (case apply_name aid m ch of (queryChanged, changed, d) \<Rightarrow>
                Inr (changed, if queryChanged then bump_query aid d else d)))"

text \<open>\<open>encrypt i\<close> is the encryption with the random bytes that the i-th use of it gets.\<close>

fun apply_mutations :: "(nat \<Rightarrow> string \<Rightarrow> string \<Rightarrow> crypt_error + string) \<Rightarrow> gotime \<Rightarrow> nat
    \<Rightarrow> providerPreferenceMutation list \<Rightarrow> bool \<times> persistedMonitorPrefs
    \<Rightarrow> pref_error + (bool \<times> persistedMonitorPrefs)" where
  "apply_mutations encrypt now i [] st = Inr st"
| "apply_mutations encrypt now i (m # ms) st =
     (case apply_mutation (encrypt i) now m st of
        Inl e \<Rightarrow> Inl e
      | Inr st \<Rightarrow> apply_mutations encrypt now (Suc i) ms st)"

definition batch_mutator :: "(nat \<Rightarrow> string \<Rightarrow> string \<Rightarrow> crypt_error + string) \<Rightarrow> gotime
    \<Rightarrow> providerPreferenceMutation list \<Rightarrow> thresholdConfig option \<Rightarrow> mutator" where
  "batch_mutator encrypt now ms thresholds d =
     (case validate_mutations ms of
        Some e \<Rightarrow> Inl e
      | None \<Rightarrow>
          (case apply_mutations encrypt now 0 ms (False, d) of
             Inl e \<Rightarrow> Inl e
           | Inr (changed, d) \<Rightarrow>
               if thresholds \<noteq> None \<and> \<not> thresholdConfigsEqual (pp_Thresholds d) thresholds
               then Inr (True, d\<lparr>pp_Thresholds := thresholds\<rparr>) else Inr (changed, d)))"

definition updateBatchAndThresholdsAtRevision ::
    "aead \<Rightarrow> (nat \<Rightarrow> int list option) \<Rightarrow> gotime \<Rightarrow> (persistedMonitorPrefs \<Rightarrow> write_outcome) \<Rightarrow> int option
     \<Rightarrow> providerPreferenceMutation list \<Rightarrow> thresholdConfig option
     \<Rightarrow> prefs_world \<Rightarrow> (int \<times> pref_error option) \<times> prefs_world" where
  "updateBatchAndThresholdsAtRevision A nonces now writeFile expected ms thresholds w =
     commitAtRevision writeFile expected
       (batch_mutator (\<lambda>i. encryptPreference A (nonces i) (mp_key (fst w))) now ms thresholds) w"

definition pref_update :: "aead \<Rightarrow> (nat \<Rightarrow> int list option) \<Rightarrow> gotime
    \<Rightarrow> (persistedMonitorPrefs \<Rightarrow> write_outcome) \<Rightarrow> string \<Rightarrow> bool option \<Rightarrow> string \<Rightarrow> string \<Rightarrow> bool
    \<Rightarrow> bool \<Rightarrow> string option \<Rightarrow> prefs_world \<Rightarrow> pref_error option \<times> prefs_world" where
  "pref_update A nonces now writeFile aid monitored adapter pat clearPAT clearAdapter customName w =
     (if clearPAT \<and> TrimSpace pat \<noteq> [] then (Some PATClearedAndReplaced, w)
      else
        (let action = (if clearPAT then patActionClear
                       else if TrimSpace pat \<noteq> [] then patActionReplace else patActionKeep)
         in case updateBatchAndThresholdsAtRevision A nonces now writeFile None
               [\<lparr>pm_ID = aid, pm_Monitored = monitored, pm_Adapter = adapter, pm_ClearAdapter = clearAdapter,
                 pm_PATAction = action, pm_PAT = pat, pm_CustomName = customName\<rparr>] None w of
              ((_, err), w) \<Rightarrow> (err, w)))"

section \<open>Loading\<close>

text \<open>What is found at the path: nothing, a read error, no bytes, bytes that do not decode, or a document.\<close>

datatype prefs_file = PNoFile | PUnreadable | PEmpty | PUndecodable | PDoc persistedMonitorPrefs

definition mark_relink :: "persistedMonitorPrefs \<Rightarrow> persistedMonitorPrefs" where
  "mark_relink d =
     d\<lparr>pp_RelinkRequired :=
         foldl (\<lambda>m (aid, encrypted). if TrimSpace encrypted \<noteq> [] then mput aid True m else m)
           (pp_RelinkRequired d) (pp_PATs d)\<rparr>"

text \<open>\<open>random\<close> and \<open>keyWritten\<close> serve the creation of a key.\<close>

definition pref_configure :: "string \<Rightarrow> prefs_file \<Rightarrow> key_file \<Rightarrow> int list option \<Rightarrow> bool
    \<Rightarrow> monitorPrefs \<Rightarrow> pref_error option \<times> monitorPrefs \<times> key_file" where
  "pref_configure path file keyFile random keyWritten p =
     (if TrimSpace path = [] then (None, p, keyFile)
      else
        (let path = TrimSpace path;
             install = (\<lambda>d.
               (let (key, keyFile) =
                      (case loadKey keyFile of
                         Inr k \<Rightarrow> (Inr k, keyFile)
                       | Inl e \<Rightarrow> if e = KeyNotExist \<and> pp_PATs d = []
                                  then loadOrCreateKey random keyWritten keyFile else (Inl e, keyFile))
                in (None,
                    p\<lparr>mp_path := path, mp_key := (case key of Inr k \<Rightarrow> k | Inl _ \<Rightarrow> []),
                      mp_keyErr := (case key of Inr _ \<Rightarrow> None | Inl e \<Rightarrow> Some e),
                      mp_data := d, mp_loaded := True\<rparr>, keyFile)))
         in if mp_path p = path \<and> mp_loaded p then (None, p, keyFile)
            else (case file of
                PUnreadable \<Rightarrow> (Some ReadPrefs, p, keyFile)
              | PUndecodable \<Rightarrow> (Some DecodePrefs, p, keyFile)
              | PNoFile \<Rightarrow> install (normalizePersistedPrefs newPersistedMonitorPrefs)
              | PEmpty \<Rightarrow> install (normalizePersistedPrefs newPersistedMonitorPrefs)
              | PDoc d \<Rightarrow>
                  (let version = pp_FormatVersion d
                   in if monitorPrefsFormatVersion < version then (Some (NewerFormat version), p, keyFile)
                      else
                        (let d = normalizePersistedPrefs d
                         in install (if version < monitorPrefsFormatVersion then mark_relink d else d))))))"

end
