(* ===== verification/Pref_Identity.thy ===== *)
theory Pref_Identity
  imports Preferences Snapshot_Model
begin

text \<open>
  prefs.go: stable account identities.  Credentials found on the host or in the configuration
  are matched with recorded identities, unknown ones get an id (derived for host credentials,
  random otherwise), and the preferences of a uniquely matched legacy id move to the stable
  one, with its PAT encrypted anew.
\<close>

section \<open>Matching\<close>

definition identityMatchesCandidate :: "persistedIdentity \<Rightarrow> credentialCandidate \<Rightarrow> bool" where
  "identityMatchesCandidate i c =
     (if pi_Source i \<noteq> cc_Source c then False
      else if TrimSpace (cc_SourceID c) \<noteq> [] then pi_SourceID i = cc_SourceID c
      else if TrimSpace (cc_Fingerprint c) = [] \<or> TrimSpace (pi_Fingerprint i) = [] then False
      else normalizeIdentityURL (pi_BaseURL i) = normalizeIdentityURL (cc_BaseURL c)
           \<and> pi_Fingerprint i = cc_Fingerprint c)"

definition hasStableIdentityBasis :: "credentialCandidate \<Rightarrow> bool" where
  "hasStableIdentityBasis c =
     (let source = ToLower (TrimSpace (cc_Source c))
      in if source = ''host'' then TrimSpace (cc_SourceID c) \<noteq> []
         else if source = ''static''
         then normalizeIdentityURL (cc_BaseURL c) \<noteq> [] \<and> TrimSpace (cc_Fingerprint c) \<noteq> []
         else False)"

definition hasLegacyPreference :: "persistedMonitorPrefs \<Rightarrow> string \<Rightarrow> bool" where
  "hasLegacyPreference d aid =
     (aid \<noteq> [] \<and>
      (mhas (pp_Known d) aid \<or> mhas (pp_Monitored d) aid \<or> mhas (pp_Adapters d) aid
       \<or> mhas (pp_PATs d) aid \<or> mhas (pp_Names d) aid \<or> mhas (pp_FirstSeen d) aid
       \<or> mhas (pp_RelinkRequired d) aid \<or> containsString (pp_AccountOrder d) aid))"

section \<open>Moving the preferences of a legacy id\<close>

definition movePreferenceValue :: "string \<Rightarrow> string \<Rightarrow> (string, 'v) gomap \<Rightarrow> (string, 'v) gomap" where
  "movePreferenceValue oldID newID m =
     (case mget m oldID of None \<Rightarrow> m | Some v \<Rightarrow> mdel oldID (mput newID v m))"

definition replaceString :: "string \<Rightarrow> string \<Rightarrow> string list \<Rightarrow> string list" where
  "replaceString old new xs = map (\<lambda>x. if x = old then new else x) xs"

definition move_plain :: "string \<Rightarrow> string \<Rightarrow> persistedMonitorPrefs \<Rightarrow> persistedMonitorPrefs" where
  "move_plain oldID newID d =
     d\<lparr>pp_RelinkRequired := (if mbool (pp_RelinkRequired d) oldID then mdel oldID (pp_RelinkRequired d)
                            else pp_RelinkRequired d),
       pp_Known := movePreferenceValue oldID newID (pp_Known d),
       pp_Monitored := movePreferenceValue oldID newID (pp_Monitored d),
       pp_Adapters := movePreferenceValue oldID newID (pp_Adapters d),
       pp_Names := movePreferenceValue oldID newID (pp_Names d),
       pp_FirstSeen := movePreferenceValue oldID newID (pp_FirstSeen d),
       pp_AccountOrder := replaceString oldID newID (pp_AccountOrder d)\<rparr>"

text \<open>\<open>nonce\<close> is what the random source gives to the encryption under the new id.\<close>

definition migratePreferenceData :: "aead \<Rightarrow> int list option \<Rightarrow> int list \<Rightarrow> string \<Rightarrow> string
    \<Rightarrow> persistedMonitorPrefs \<Rightarrow> pref_error + persistedMonitorPrefs" where
  "migratePreferenceData A nonce key oldID newID d =
     (if oldID = [] \<or> newID = [] \<or> oldID = newID then Inr d
      else
        (let encoded = mstr (pp_PATs d) oldID
         in if encoded = [] then Inr (move_plain oldID newID d)
            else (case decryptPreference A key oldID encoded of
                Inl e \<Rightarrow> Inl (DecryptLegacyPAT e)
              | Inr plain \<Rightarrow>
                  (case encryptPreference A nonce key newID plain of
                     Inl e \<Rightarrow> Inl (EncryptMigratedPAT e)
                   | Inr reencrypted \<Rightarrow>
                       Inr (move_plain oldID newID
                         (d\<lparr>pp_PATs := mdel oldID (mput newID reencrypted (pp_PATs d))\<rparr>))))))"

section \<open>Resolving the identities of the credentials found\<close>

definition find_identity :: "(string, persistedIdentity) gomap \<Rightarrow> credentialCandidate \<Rightarrow> string" where
  "find_identity m c =
     (case filter (\<lambda>(_, i). identityMatchesCandidate i c) m of [] \<Rightarrow> [] | (aid, _) # _ \<Rightarrow> aid)"

definition legacy_count :: "credentialCandidate list \<Rightarrow> string \<Rightarrow> nat" where
  "legacy_count cs legacyID = length (filter (\<lambda>c. TrimSpace (cc_LegacyID c) = legacyID) cs)"

text \<open>The id of a credential that no identity matches.\<close>

definition fresh_account_id :: "int list \<Rightarrow> int list option \<Rightarrow> credentialCandidate \<Rightarrow> crypt_error + string" where
  "fresh_account_id key random c =
     (if EqualFold (cc_Source c) ''host'' \<and> TrimSpace (cc_SourceID c) \<noteq> []
      then Inr (stableAccountID key (cc_Source c) (cc_SourceID c) (cc_Fingerprint c))
      else newAccountID random)"

text \<open>What becomes of the preferences recorded under the legacy id of a new account.\<close>

definition adopt_legacy :: "aead \<Rightarrow> int list option \<Rightarrow> int list \<Rightarrow> nat \<Rightarrow> credentialCandidate \<Rightarrow> string
    \<Rightarrow> bool \<times> persistedMonitorPrefs \<Rightarrow> bool \<times> persistedMonitorPrefs" where
  "adopt_legacy A nonce key legacyCount c accountID st =
     (case st of (changed, d) \<Rightarrow>
        (let legacyID = TrimSpace (cc_LegacyID c)
         in if legacyID = [] \<or> \<not> hasLegacyPreference d legacyID then st
            else if legacyCount = 1 \<and> hasStableIdentityBasis c
            then (case migratePreferenceData A nonce key legacyID accountID d of
                    Inl _ \<Rightarrow> (True, d\<lparr>pp_RelinkRequired := mput accountID True (pp_RelinkRequired d)\<rparr>)
                  | Inr d \<Rightarrow> (True, d))
            else if mstr (pp_PATs d) legacyID \<noteq> [] \<or> mbool (pp_RelinkRequired d) legacyID
            then (True, d\<lparr>pp_RelinkRequired := mput accountID True (pp_RelinkRequired d)\<rparr>)
            else st))"

definition new_identity :: "credentialCandidate \<Rightarrow> string \<Rightarrow> gotime \<Rightarrow> persistedIdentity" where
  "new_identity c accountID now = \<lparr>pi_AccountID = accountID, pi_Source = cc_Source c,
     pi_SourceID = cc_SourceID c, pi_LegacyID = cc_LegacyID c, pi_BaseURL = cc_BaseURL c,
     pi_Fingerprint = cc_Fingerprint c, pi_Provider = cc_Provider c, pi_FirstSeenAt = now\<rparr>"

text \<open>
  One candidate.  \<open>randoms i\<close> are the bytes for a new id and for the nonce that the i-th
  candidate gets.
\<close>

definition resolve_one :: "aead \<Rightarrow> (int list option \<times> int list option) \<Rightarrow> int list \<Rightarrow> gotime
    \<Rightarrow> credentialCandidate list \<Rightarrow> credentialCandidate \<Rightarrow> bool \<times> persistedMonitorPrefs
    \<Rightarrow> pref_error + (string \<times> bool \<times> persistedMonitorPrefs)" where
  "resolve_one A random key now cs c st =
     (if TrimSpace (cc_AccountID c) \<noteq> []
      then Inr (TrimSpace (cc_AccountID c), and_known False now st (TrimSpace (cc_AccountID c)))
      else
        (let found = find_identity (pp_Identities (snd st)) c
         in if found \<noteq> [] then Inr (found, and_known False now st found)
            else (case fresh_account_id key (fst random) c of
                Inl e \<Rightarrow> Inl (CryptFailed e)
              | Inr accountID \<Rightarrow>
                  (let (changed, d) = adopt_legacy A (snd random) key
                         (legacy_count cs (TrimSpace (cc_LegacyID c))) c accountID st;
                       d = d\<lparr>pp_Identities := mput accountID (new_identity c accountID now) (pp_Identities d)\<rparr>
                   in Inr (accountID, and_known False now (changed, d) accountID)))))"

fun resolve_all :: "aead \<Rightarrow> (nat \<Rightarrow> int list option \<times> int list option) \<Rightarrow> int list \<Rightarrow> gotime
    \<Rightarrow> credentialCandidate list \<Rightarrow> nat \<Rightarrow> credentialCandidate list \<Rightarrow> bool \<times> persistedMonitorPrefs
    \<Rightarrow> pref_error + (string list \<times> bool \<times> persistedMonitorPrefs)" where
  "resolve_all A randoms key now cs i [] st = Inr ([], st)"
| "resolve_all A randoms key now cs i (c # rest) st =
     (case resolve_one A (randoms i) key now cs c st of
        Inl e \<Rightarrow> Inl e
      | Inr (aid, st) \<Rightarrow>
          (case resolve_all A randoms key now cs (Suc i) rest st of
             Inl e \<Rightarrow> Inl e
           | Inr (ids, st) \<Rightarrow> Inr (aid # ids, st)))"

definition resolve_mutator :: "aead \<Rightarrow> (nat \<Rightarrow> int list option \<times> int list option) \<Rightarrow> int list \<Rightarrow> gotime
    \<Rightarrow> credentialCandidate list \<Rightarrow> mutator" where
  "resolve_mutator A randoms key now cs d =
     (case resolve_all A randoms key now cs 0 cs (False, d) of
        Inl e \<Rightarrow> Inl e | Inr (ids, st) \<Rightarrow> Inr st)"

text \<open>The ids are the ones of the committed run; an error of the commit discards them.\<close>

definition resolveIdentities :: "aead \<Rightarrow> (nat \<Rightarrow> int list option \<times> int list option) \<Rightarrow> gotime
    \<Rightarrow> (persistedMonitorPrefs \<Rightarrow> write_outcome) \<Rightarrow> credentialCandidate list \<Rightarrow> prefs_world
    \<Rightarrow> (pref_error + string list) \<times> prefs_world" where
  "resolveIdentities A randoms now writeFile cs w =
     (case commitAtRevision writeFile None (resolve_mutator A randoms (mp_key (fst w)) now cs) w of
        ((_, Some e), w') \<Rightarrow> (Inl e, w')
      | ((_, None), w') \<Rightarrow>
          (case resolve_all A randoms (mp_key (fst w)) now cs 0 cs (False, mp_data (fst w)) of
             Inl e \<Rightarrow> (Inl e, w')
           | Inr (ids, _) \<Rightarrow> (Inr ids, w')))"

definition canMigrateLegacySnapshot :: "persistedMonitorPrefs \<Rightarrow> credentialCandidate \<Rightarrow> string \<Rightarrow> bool" where
  "canMigrateLegacySnapshot d c accountID =
     (let legacyID = TrimSpace (cc_LegacyID c); accountID = TrimSpace accountID
      in hasStableIdentityBasis c \<and> legacyID \<noteq> [] \<and> accountID \<noteq> [] \<and> legacyID \<noteq> accountID
         \<and> (case mget (pp_Identities d) accountID of
              None \<Rightarrow> False
            | Some i \<Rightarrow> pi_LegacyID i = legacyID \<and> \<not> mbool (pp_RelinkRequired d) accountID)
         \<and> list_all (\<lambda>(aid, i). aid = accountID \<or> TrimSpace (pi_LegacyID i) \<noteq> legacyID) (pp_Identities d))"

definition migratePAT :: "aead \<Rightarrow> int list option \<Rightarrow> (persistedMonitorPrefs \<Rightarrow> write_outcome) \<Rightarrow> string
    \<Rightarrow> string \<Rightarrow> prefs_world \<Rightarrow> pref_error option \<times> prefs_world" where
  "migratePAT A nonce writeFile oldID newID w =
     (let oldID = TrimSpace oldID; newID = TrimSpace newID
      in if oldID = [] \<or> newID = [] \<or> oldID = newID then (None, w)
         else (case commitAtRevision writeFile None
                 (\<lambda>d. case migratePreferenceData A nonce (mp_key (fst w)) oldID newID d of
                        Inl e \<Rightarrow> Inl e | Inr d \<Rightarrow> Inr (True, d)) w of
              ((_, err), w) \<Rightarrow> (err, w)))"

end
