(* ===== verification/Pref_Transaction.thy ===== *)
theory Pref_Transaction
  imports Pref_Identity Store_Contract
begin

text \<open>
  The contract of the preferences' transaction, stated as a locale: a commit that reports an
  error leaves the data alone, one that does not has installed exactly what the mutator made
  of them, and an expected revision that is out of date is an error.  \<open>commitAtRevision\<close>
  provides it; the results on sequences of commits are proved once in the locale.
\<close>

locale transactional =
  fixes data :: "'w \<Rightarrow> 'd" and revision :: "'d \<Rightarrow> int"
    and commit :: "int option \<Rightarrow> ('d \<Rightarrow> 'e + (bool \<times> 'd)) \<Rightarrow> 'w \<Rightarrow> (int \<times> 'e option) \<times> 'w"
    and installed :: "'d \<Rightarrow> 'd"
  assumes failed: "snd (fst (commit e m w)) \<noteq> None \<Longrightarrow> data (snd (commit e m w)) = data w"
    and succeeded: "snd (fst (commit e m w)) = None \<Longrightarrow>
      (\<exists>d. m (data w) = Inr (False, d) \<and> data (snd (commit e m w)) = data w)
      \<or> (\<exists>d. m (data w) = Inr (True, d) \<and> data (snd (commit e m w)) = installed d)"
    and stale: "r \<noteq> revision (data w) \<Longrightarrow> snd (fst (commit (Some r) m w)) \<noteq> None"
begin

lemma commit_cases:
  "data (snd (commit e m w)) = data w
   \<or> (\<exists>d. m (data w) = Inr (True, d) \<and> data (snd (commit e m w)) = installed d)"
  using failed [of e m w] succeeded [of e m w] by blast

lemma commit_invariant:
  assumes "P (data w)" "\<And>d. m (data w) = Inr (True, d) \<Longrightarrow> P (installed d)"
  shows "P (data (snd (commit e m w)))"
  using commit_cases [of e m w] assms by metis

lemma commits_invariant:
  assumes "P (data w)" "\<And>m d d'. m \<in> M \<Longrightarrow> P d \<Longrightarrow> m d = Inr (True, d') \<Longrightarrow> P (installed d')"
    and "\<forall>x \<in> set xs. snd x \<in> M"
  shows "P (data (foldl (\<lambda>w (e, m). snd (commit e m w)) w xs))"
  using assms(1,3)
proof (induction xs arbitrary: w)
  case (Cons x xs)
  obtain e m where x: "x = (e, m)" by (cases x)
  have m: "m \<in> M" and p: "P (data w)" using Cons.prems by (simp_all add: x)
  have "P (data (snd (commit e m w)))"
    by (rule commit_invariant [of P, OF p]) (rule assms(2) [OF m p])
  then have "P (data (foldl (\<lambda>w (e, m). snd (commit e m w)) (snd (commit e m w)) xs))"
    using Cons.prems(2) by (intro Cons.IH) simp_all
  then show ?case by (simp add: x)
qed simp

text \<open>
  Of two writers that start from the same revision, the second fails once the first has moved
  the revision.
\<close>

lemma no_lost_update:
  assumes "revision (data w') \<noteq> r"
  shows "snd (fst (commit (Some r) m2 w')) \<noteq> None
    \<and> data (snd (commit (Some r) m2 w')) = data w'"
  using stale [of r w' m2] assms failed [of "Some r" m2 w'] by simp

end

section \<open>commitAtRevision provides the contract\<close>

definition install_prefs :: "persistedMonitorPrefs \<Rightarrow> persistedMonitorPrefs" where
  "install_prefs d =
     (let d = normalizePersistedPrefs d in d\<lparr>pp_Revision := wrap64 (pp_Revision d + 1)\<rparr>)"

lemma commit_changes_cases:
  "commit_changes wr m (p, disk) =
     (case m (mp_data p) of
        Inl e \<Rightarrow> ((pp_Revision (mp_data p), Some e), (p, disk))
      | Inr (changed, d) \<Rightarrow>
          if \<not> changed then ((pp_Revision d, None), (p, disk))
          else if mp_path p = []
          then ((pp_Revision (install_prefs d), None), (p\<lparr>mp_data := install_prefs d, mp_loaded := True\<rparr>, disk))
          else if \<not> prefs_encodable (install_prefs d)
          then ((pp_Revision (mp_data p), Some EncodePrefs), (p, disk))
          else (case wr (install_prefs d) of
              Written \<Rightarrow> ((pp_Revision (install_prefs d), None),
                 (p\<lparr>mp_data := install_prefs d, mp_loaded := True\<rparr>, Some (install_prefs d)))
            | NotWritten \<Rightarrow> ((pp_Revision (mp_data p), Some PersistPrefs), (p, disk))
            | WrittenWithError \<Rightarrow>
                ((pp_Revision (mp_data p), Some PersistPrefs), (p, Some (install_prefs d)))))"
  by (simp add: commit_changes_def install_prefs_def Let_def split: sum.split write_outcome.split)

abbreviation prefs_data :: "prefs_world \<Rightarrow> persistedMonitorPrefs" where
  "prefs_data w \<equiv> mp_data (fst w)"

interpretation txn: transactional prefs_data pp_Revision "commitAtRevision wr" install_prefs
proof
  fix e :: "int option" and m and w :: prefs_world
  obtain p disk where w: "w = (p, disk)" by (cases w)
  have c: "commitAtRevision wr e m w = commit_changes wr m w
      \<or> (\<exists>x. e = Some x \<and> commitAtRevision wr e m w = ((pp_Revision (prefs_data w), Some (RevisionConflict x (pp_Revision (prefs_data w)))), w))"
    by (auto simp: commitAtRevision_def Let_def split: option.split)
  show "snd (fst (commitAtRevision wr e m w)) \<noteq> None \<Longrightarrow>
      prefs_data (snd (commitAtRevision wr e m w)) = prefs_data w"
    using c unfolding w
    by (auto simp: commit_changes_cases split: sum.splits if_splits write_outcome.splits prod.splits)
  show "snd (fst (commitAtRevision wr e m w)) = None \<Longrightarrow>
      (\<exists>d. m (prefs_data w) = Inr (False, d) \<and> prefs_data (snd (commitAtRevision wr e m w)) = prefs_data w)
      \<or> (\<exists>d. m (prefs_data w) = Inr (True, d) \<and> prefs_data (snd (commitAtRevision wr e m w)) = install_prefs d)"
    using c unfolding w
    by (auto simp: commit_changes_cases split: sum.splits if_splits write_outcome.splits prod.splits)
next
  fix e m and w :: prefs_world
  show "e \<noteq> pp_Revision (prefs_data w) \<Longrightarrow> snd (fst (commitAtRevision wr (Some e) m w)) \<noteq> None"
    by (simp add: commitAtRevision_def Let_def)
qed

lemma wrap64_add: "0 < n \<Longrightarrow> n < 2 ^ 64 \<Longrightarrow> wrap64 (x + n) \<noteq> x"
proof
  assume n: "0 < n" "n < 2 ^ 64" and a: "wrap64 (x + n) = x"
  define k where "k = (x + n + 2 ^ 63) div 2 ^ 64"
  have "wrap64 (x + n) = x + n - 2 ^ 64 * k"
    by (simp add: wrap64_def k_def minus_div_mult_eq_mod [symmetric])
  with a have e: "n = 2 ^ 64 * k" by simp
  show False
  proof (cases "k \<le> 0")
    case True
    with n(1) e show False by simp
  next
    case False
    then have "2 ^ 64 * 1 \<le> 2 ^ 64 * k" by (intro mult_left_mono) simp_all
    with n(2) e show False by simp
  qed
qed

lemma wrap64_Suc: "wrap64 (x + 1) \<noteq> x"
  using wrap64_add [of 1 x] by simp

text \<open>
  C3: a change of the preferences is all or nothing.  If it reports an error, the memory is
  as before, and so is the file unless the failure is one of writing (which may have replaced
  the file already).  If it succeeds, either the mutator had nothing to change and nothing is
  touched, or memory holds exactly the mutator's result, normalised, under the next revision,
  and the file, if there is one, holds the same.
\<close>

theorem commit_all_or_nothing:
  "case commitAtRevision wr e m (p, disk) of ((r, err), (p', disk')) \<Rightarrow>
     (if err \<noteq> None
      then p' = p \<and> r = pp_Revision (mp_data p) \<and> (disk' = disk \<or> err = Some PersistPrefs)
      else (\<exists>d. m (mp_data p) = Inr (False, d) \<and> p' = p \<and> disk' = disk)
         \<or> (\<exists>d. m (mp_data p) = Inr (True, d) \<and> mp_data p' = install_prefs d
              \<and> r = pp_Revision (mp_data p')
              \<and> disk' = (if mp_path p = [] then disk else Some (mp_data p'))))"
  by (auto simp: commitAtRevision_def commit_changes_cases Let_def
      split: option.split sum.split if_split write_outcome.split prod.split)

end
