(* ===== verification/Pref_Update.thy ===== *)
theory Pref_Update
  imports Pref_Transaction
begin

text \<open>
  What the mutators do to the preferences: frames of the parts of an update, the invariant of
  the data, and the link between a change of the settings a query depends on and the query
  revision of the account.
\<close>

section \<open>Frames\<close>

text \<open>The settings of an account that the result of a query depends on.\<close>

definition query_view :: "persistedMonitorPrefs \<Rightarrow> string \<Rightarrow> bool option \<times> string option \<times> string option \<times> bool" where
  "query_view d k = (mget (pp_Monitored d) k, mget (pp_Adapters d) k, mget (pp_PATs d) k, mbool (pp_RelinkRequired d) k)"

definition maps_wf :: "persistedMonitorPrefs \<Rightarrow> bool" where
  "maps_wf d = (mwf (pp_Known d) \<and> mwf (pp_Monitored d) \<and> mwf (pp_Adapters d) \<and> mwf (pp_PATs d)
     \<and> mwf (pp_Names d) \<and> mwf (pp_FirstSeen d) \<and> mwf (pp_Identities d) \<and> mwf (pp_RelinkRequired d)
     \<and> mwf (pp_QueryRevisions d) \<and> mwf (pp_DismissedAlerts d))"

definition same_core :: "persistedMonitorPrefs \<Rightarrow> persistedMonitorPrefs \<Rightarrow> bool" where
  "same_core d d' =
     (pp_Revision d' = pp_Revision d \<and> pp_Known d' = pp_Known d \<and> pp_AccountOrder d' = pp_AccountOrder d
      \<and> pp_FirstSeen d' = pp_FirstSeen d \<and> pp_QueryRevisions d' = pp_QueryRevisions d
      \<and> (maps_wf d \<longrightarrow> maps_wf d')
      \<and> (\<forall>k. mhas (pp_Monitored d) k \<longrightarrow> mhas (pp_Monitored d') k))"

fun frame :: "string \<Rightarrow> change \<Rightarrow> change \<Rightarrow> bool" where
  "frame aid (q, c, d) (q', c', d') =
     (same_core d d' \<and> (\<forall>k. k \<noteq> aid \<longrightarrow> query_view d' k = query_view d k)
      \<and> (q \<longrightarrow> q') \<and> (\<not> q' \<longrightarrow> query_view d' aid = query_view d aid))"

lemma same_core_refl [simp]: "same_core d d"
  by (simp add: same_core_def)

lemma same_core_trans: "same_core a b \<Longrightarrow> same_core b c \<Longrightarrow> same_core a c"
  by (simp add: same_core_def)

lemma frame_refl [simp]: "frame aid ch ch"
  by (cases ch) simp

lemma frame_trans: "frame aid a b \<Longrightarrow> frame aid b c \<Longrightarrow> frame aid a c"
  by (cases a; cases b; cases c) (auto intro: same_core_trans)

lemmas frame_simps = same_core_def maps_wf_def query_view_def

lemma frame_monitored: "frame aid ch (apply_monitored aid m ch)"
  by (cases ch; cases "pm_Monitored m") (simp_all add: apply_monitored_def frame_simps)

lemma frame_adapter: "frame aid ch (apply_adapter aid m ch)"
  by (cases ch) (simp add: apply_adapter_def frame_simps Let_def)

lemma mdel_missing: "\<not> mhas m k \<Longrightarrow> mget m k = None"
  by (simp add: mhas_def)

lemma frame_pat:
  assumes "apply_pat enc aid m ch = Inr ch'"
  shows "frame aid ch ch'"
proof -
  obtain q c d where ch: "ch = (q, c, d)" by (cases ch)
  consider (replace) e where "pat_action m = patActionReplace"
      "ch' = (True, True, d\<lparr>pp_PATs := mput aid e (pp_PATs d), pp_RelinkRequired := mdel aid (pp_RelinkRequired d)\<rparr>)"
    | (clear) "pat_action m = patActionClear" | (keep) "ch' = ch"
    using assms unfolding ch by (auto simp: apply_pat_def split: if_splits sum.splits)
  then show ?thesis
  proof cases
    case replace
    then show ?thesis by (simp add: ch frame_simps)
  next
    case clear
    with assms show ?thesis
      unfolding ch by (auto simp: apply_pat_def Let_def frame_simps split: if_splits)
  qed simp
qed

lemma frame_name: "frame aid ch (apply_name aid m ch)"
  by (cases ch; cases "pm_CustomName m") (simp_all add: apply_name_def frame_simps Let_def)

lemma frame_mutation:
  assumes "apply_pat enc aid m (apply_adapter aid m (apply_monitored aid m (False, c, d))) = Inr ch"
  shows "frame aid (False, c, d) (apply_name aid m ch)"
  using frame_monitored frame_adapter frame_pat [OF assms] frame_name by (meson frame_trans)

section \<open>Known accounts\<close>

definition unseen :: "string \<Rightarrow> persistedMonitorPrefs \<Rightarrow> bool" where
  "unseen a d = (\<not> mhas (pp_FirstSeen d) a \<or> IsZero (mgetz zero_time (pp_FirstSeen d) a))"

definition make_known :: "string \<Rightarrow> bool \<Rightarrow> gotime \<Rightarrow> persistedMonitorPrefs \<Rightarrow> persistedMonitorPrefs" where
  "make_known a v now d =
     d\<lparr>pp_Known := (if mbool (pp_Known d) a then pp_Known d else mput a True (pp_Known d)),
       pp_Monitored := (if mbool (pp_Known d) a then pp_Monitored d else mput a v (pp_Monitored d)),
       pp_FirstSeen := (if unseen a d then mput a now (pp_FirstSeen d) else pp_FirstSeen d),
       pp_AccountOrder := (if a \<in> set (pp_AccountOrder d) then pp_AccountOrder d else pp_AccountOrder d @ [a])\<rparr>"

lemma ensureKnown_form:
  "ensureKnownPreference aid v now d =
     (if TrimSpace aid = [] then (False, d)
      else (\<not> mbool (pp_Known d) (TrimSpace aid) \<or> unseen (TrimSpace aid) d
              \<or> TrimSpace aid \<notin> set (pp_AccountOrder d), make_known (TrimSpace aid) v now d))"
proof (cases "TrimSpace aid = []")
  case False
  show ?thesis
    using False
    by (cases "mbool (pp_Known d) (TrimSpace aid)"; cases "unseen (TrimSpace aid) d")
       (simp_all add: ensureKnownPreference_def make_known_def unseen_def Let_def)
qed (simp add: ensureKnownPreference_def)

lemma make_known_same [simp]:
  "pp_Revision (make_known a v now d) = pp_Revision d"
  "pp_QueryRevisions (make_known a v now d) = pp_QueryRevisions d"
  "pp_PATs (make_known a v now d) = pp_PATs d"
  "pp_Adapters (make_known a v now d) = pp_Adapters d"
  "pp_Names (make_known a v now d) = pp_Names d"
  "pp_RelinkRequired (make_known a v now d) = pp_RelinkRequired d"
  "pp_Identities (make_known a v now d) = pp_Identities d"
  "pp_DismissedAlerts (make_known a v now d) = pp_DismissedAlerts d"
  by (simp_all add: make_known_def)

lemma make_known_known: "mbool (pp_Known (make_known a v now d)) k = (k = a \<or> mbool (pp_Known d) k)"
  by (auto simp: make_known_def)

lemma make_known_monitored:
  "mget (pp_Monitored (make_known a v now d)) k =
     (if k = a \<and> \<not> mbool (pp_Known d) a then Some v else mget (pp_Monitored d) k)"
  by (simp add: make_known_def)

lemma make_known_seen: "mhas (pp_FirstSeen (make_known a v now d)) k = (k = a \<or> mhas (pp_FirstSeen d) k)"
  by (auto simp: make_known_def unseen_def)

lemma make_known_order: "set (pp_AccountOrder (make_known a v now d)) = insert a (set (pp_AccountOrder d))"
  by (auto simp: make_known_def)

lemma make_known_maps: "maps_wf d \<Longrightarrow> maps_wf (make_known a v now d)"
  by (simp add: maps_wf_def) (simp add: make_known_def)

lemma and_known_form:
  "and_known v now (c, d) aid =
     (if TrimSpace aid = [] then (c, d)
      else (\<not> mbool (pp_Known d) (TrimSpace aid) \<or> unseen (TrimSpace aid) d
              \<or> TrimSpace aid \<notin> set (pp_AccountOrder d) \<or> c, make_known (TrimSpace aid) v now d))"
  by (auto simp: and_known_def ensureKnown_form)

section \<open>The invariant of the data\<close>

text \<open>
  Before the normalisation of the order: every known account is listed, has been seen and has
  a monitoring flag, and its id is trimmed.
\<close>

definition prefs_core :: "persistedMonitorPrefs \<Rightarrow> bool" where
  "prefs_core d =
     (maps_wf d \<and>
      (\<forall>k. mbool (pp_Known d) k \<longrightarrow>
         id_ok k \<and> k \<in> set (pp_AccountOrder d) \<and> mhas (pp_FirstSeen d) k \<and> mhas (pp_Monitored d) k))"

definition prefs_wf :: "persistedMonitorPrefs \<Rightarrow> bool" where
  "prefs_wf d =
     (prefs_core d \<and> distinct (pp_AccountOrder d) \<and> list_all id_ok (pp_AccountOrder d)
      \<and> pp_FormatVersion d = monitorPrefsFormatVersion \<and> - (2 ^ 63) \<le> pp_Revision d \<and> pp_Revision d < 2 ^ 63)"

lemma make_known_has: "mhas (pp_Monitored (make_known a v now d)) k =
    ((k = a \<and> \<not> mbool (pp_Known d) a) \<or> mhas (pp_Monitored d) k)"
  by (auto simp: mhas_def make_known_monitored)

lemma make_known_core:
  assumes "prefs_core d" "id_ok a"
  shows "prefs_core (make_known a v now d)"
  unfolding prefs_core_def make_known_known make_known_order make_known_seen make_known_has
  using assms make_known_maps [of d a v now] unfolding prefs_core_def by blast

lemma known_core: "prefs_core d \<Longrightarrow> prefs_core (snd (and_known v now (c, d) aid))"
  by (simp add: and_known_form make_known_core id_ok_def)

lemma normalize_order_set:
  "set (normalize_order seen xs) = {TrimSpace x |x. x \<in> set xs} - {[]} - set seen"
  by (induction seen xs rule: normalize_order.induct) (auto simp: Let_def)

lemma normalize_order_distinct: "distinct (normalize_order seen xs)"
  by (induction seen xs rule: normalize_order.induct) (auto simp: Let_def normalize_order_set)

lemma normalize_order_ok: "list_all id_ok (normalize_order seen xs)"
  by (auto simp: list_all_iff normalize_order_set id_ok_def)

lemma normalize_order_id:
  "distinct xs \<Longrightarrow> list_all id_ok xs \<Longrightarrow> set xs \<inter> set seen = {} \<Longrightarrow> normalize_order seen xs = xs"
  by (induction seen xs rule: normalize_order.induct) (auto simp: id_ok_def Let_def)

lemma install_wf:
  assumes "prefs_core d"
  shows "prefs_wf (install_prefs d)"
proof -
  have "k \<in> set (normalize_order [] (pp_AccountOrder d))" if "mbool (pp_Known d) k" for k
    using assms that by (force simp: prefs_core_def normalize_order_set id_ok_def)
  then show ?thesis
    using assms wrap64_range [of "pp_Revision d + 1"]
    by (auto simp: prefs_wf_def prefs_core_def install_prefs_def normalizePersistedPrefs_def Let_def
        maps_wf_def normalize_order_distinct normalize_order_ok)
qed

lemma same_core_core: "same_core d d' \<Longrightarrow> prefs_core d \<Longrightarrow> prefs_core d'"
  by (simp add: prefs_core_def same_core_def)

section \<open>What one mutation and a batch do\<close>

lemma bump_same [simp]:
  "pp_Known (bump_query a d) = pp_Known d" "pp_Monitored (bump_query a d) = pp_Monitored d"
  "pp_AccountOrder (bump_query a d) = pp_AccountOrder d" "pp_FirstSeen (bump_query a d) = pp_FirstSeen d"
  "pp_Revision (bump_query a d) = pp_Revision d" "query_view (bump_query a d) = query_view d"
  "maps_wf d \<Longrightarrow> maps_wf (bump_query a d)"
  "queryRevision (bump_query a d) k =
     (if k = a then wrap64 (queryRevision d a + 1) else queryRevision d k)"
  by (simp_all add: bump_query_def queryRevision_def maps_wf_def query_view_def fun_eq_iff)

lemma bump_core [simp]: "prefs_core d \<Longrightarrow> prefs_core (bump_query a d)"
  by (simp add: prefs_core_def)

lemma mutation_parts:
  assumes "apply_mutation enc now m (c, d) = Inr (c', d')"
  obtains q c2 d2 where
    "frame (pm_ID m) (False, and_known True now (c, d) (pm_ID m)) (q, c2, d2)"
    "c' = c2" "d' = (if q then bump_query (pm_ID m) d2 else d2)"
proof -
  obtain c1 d1 where k: "and_known True now (c, d) (pm_ID m) = (c1, d1)" by fastforce
  from assms obtain ch where p: "apply_pat enc (pm_ID m) m
      (apply_adapter (pm_ID m) m (apply_monitored (pm_ID m) m (False, c1, d1))) = Inr ch"
    by (auto simp: apply_mutation_def k Let_def split: sum.splits)
  obtain q c2 d2 where n: "apply_name (pm_ID m) m ch = (q, c2, d2)" by (cases "apply_name (pm_ID m) m ch")
  from frame_mutation [OF p] have "frame (pm_ID m) (False, c1, d1) (q, c2, d2)" by (simp add: n)
  moreover from assms have "c' = c2" "d' = (if q then bump_query (pm_ID m) d2 else d2)"
    by (auto simp: apply_mutation_def k p n Let_def)
  ultimately show thesis using that k by simp
qed

lemma known_same:
  "pp_Revision (snd (and_known v now st a)) = pp_Revision (snd st)"
  "queryRevision (snd (and_known v now st a)) k = queryRevision (snd st) k"
  "mbool (pp_Known (snd st)) k \<Longrightarrow> query_view (snd (and_known v now st a)) k = query_view (snd st) k"
  "mbool (pp_Known (snd st)) k \<Longrightarrow> mbool (pp_Known (snd (and_known v now st a))) k"
  by (cases st; auto simp: and_known_form queryRevision_def query_view_def make_known_monitored make_known_known)+

text \<open>
  A mutation either leaves the query settings and the query revision of a known account alone,
  or it counts the query revision up once.
\<close>

definition one_step :: "persistedMonitorPrefs \<Rightarrow> persistedMonitorPrefs \<Rightarrow> string \<Rightarrow> bool" where
  "one_step d d' k =
     ((query_view d' k = query_view d k \<and> queryRevision d' k = queryRevision d k)
      \<or> queryRevision d' k = wrap64 (queryRevision d k + 1))"

lemma mutation_effect:
  assumes "apply_mutation enc now m (c, d) = Inr (c', d')"
  shows "pp_Revision d' = pp_Revision d"
    and "prefs_core d \<Longrightarrow> prefs_core d'"
    and "mbool (pp_Known d) k \<Longrightarrow> mbool (pp_Known d') k \<and> one_step d d' k"
proof -
  obtain q c2 d2 where f: "frame (pm_ID m) (False, and_known True now (c, d) (pm_ID m)) (q, c2, d2)"
    and d': "d' = (if q then bump_query (pm_ID m) d2 else d2)"
    using mutation_parts [OF assms] by metis
  obtain c1 d1 where k: "and_known True now (c, d) (pm_ID m) = (c1, d1)" by fastforce
  note same = known_same [where v = True and now = now and st = "(c, d)" and a = "pm_ID m", unfolded k snd_conv]
  have s: "same_core d1 d2" and o: "\<And>j. j \<noteq> pm_ID m \<Longrightarrow> query_view d2 j = query_view d1 j"
    and u: "\<not> q \<Longrightarrow> query_view d2 (pm_ID m) = query_view d1 (pm_ID m)"
    using f by (auto simp: k)
  show "pp_Revision d' = pp_Revision d"
    using s same(1) by (simp add: d' same_core_def)
  show "prefs_core d'" if "prefs_core d"
  proof -
    have "prefs_core d1" using known_core [OF that, of True now c "pm_ID m"] by (simp add: k)
    with s have "prefs_core d2" by (rule same_core_core)
    then show ?thesis by (simp add: d')
  qed
  assume kn: "mbool (pp_Known d) k"
  have qr: "queryRevision d2 k = queryRevision d k"
    using s same(2) [of k] by (simp add: same_core_def queryRevision_def)
  have "mbool (pp_Known d') k" using s same(4) kn by (simp add: d' same_core_def)
  moreover have "one_step d d' k"
  proof (cases "q \<and> k = pm_ID m")
    case True
    then have "d' = bump_query k d2" unfolding d' by simp
    then show ?thesis using qr by (simp add: one_step_def)
  next
    case False
    then have "query_view d2 k = query_view d1 k" using o [of k] u by (cases "k = pm_ID m") auto
    moreover have "query_view d1 k = query_view d k" by (rule same(3) [OF kn])
    moreover have "query_view d' k = query_view d2 k" unfolding d' by simp
    moreover have "queryRevision d' k = queryRevision d2 k" unfolding d' using False by auto
    ultimately show ?thesis using qr by (simp add: one_step_def)
  qed
  ultimately show "mbool (pp_Known d') k \<and> one_step d d' k" ..
qed

definition steps :: "nat \<Rightarrow> persistedMonitorPrefs \<Rightarrow> persistedMonitorPrefs \<Rightarrow> string \<Rightarrow> bool" where
  "steps n d d' k =
     (if n = 0 then query_view d' k = query_view d k \<and> queryRevision d' k = queryRevision d k
      else queryRevision d' k = wrap64 (queryRevision d k + int n))"

lemma wrap64_wrap:
  "wrap64 (wrap64 x + y) = wrap64 (x + y)" "wrap64 (y + wrap64 x) = wrap64 (y + x)"
  by (simp_all add: wrap64_def mod_simps algebra_simps)

lemma steps_one: "one_step d d1 k \<Longrightarrow> steps n d1 d2 k \<Longrightarrow> \<exists>j \<le> Suc n. steps j d d2 k"
proof -
  assume a: "one_step d d1 k" and b: "steps n d1 d2 k"
  show ?thesis
  proof (cases "queryRevision d1 k = wrap64 (queryRevision d k + 1)")
    case True
    with b have "queryRevision d2 k = wrap64 (queryRevision d k + int (Suc n))"
      by (cases "n = 0") (simp_all add: steps_def wrap64_wrap algebra_simps)
    then have "steps (Suc n) d d2 k" by (simp add: steps_def)
    then show ?thesis by blast
  next
    case False
    with a b have "steps n d d2 k" by (auto simp: one_step_def steps_def)
    then show ?thesis by (meson le_SucI order_refl)
  qed
qed

lemma mutations_effect:
  assumes "apply_mutations enc now i ms (c, d) = Inr (c', d')"
  shows "pp_Revision d' = pp_Revision d \<and> (prefs_core d \<longrightarrow> prefs_core d')
    \<and> (mbool (pp_Known d) k \<longrightarrow> (\<exists>n \<le> length ms. steps n d d' k))"
  using assms
proof (induction ms arbitrary: i c d)
  case Nil
  then show ?case by (auto simp: steps_def)
next
  case (Cons m ms)
  then obtain c1 d1 where m: "apply_mutation (enc i) now m (c, d) = Inr (c1, d1)"
    and r: "apply_mutations enc now (Suc i) ms (c1, d1) = Inr (c', d')"
    by (auto split: sum.splits)
  note e = mutation_effect [OF m]
  have "\<exists>n \<le> length (m # ms). steps n d d' k" if "mbool (pp_Known d) k"
  proof -
    from e(3) [OF that] Cons.IH [OF r] obtain n where "n \<le> length ms" "steps n d1 d' k" "one_step d d1 k"
      by blast
    with steps_one [of d d1 k n d'] show ?thesis by (auto intro: le_trans)
  qed
  with Cons.IH [OF r] e(1,2) show ?case by auto
qed

lemma batch_effect:
  assumes "batch_mutator enc now ms t d = Inr (c, d')"
  shows "pp_Revision d' = pp_Revision d" "prefs_core d \<Longrightarrow> prefs_core d'"
    "mbool (pp_Known d) k \<Longrightarrow> \<exists>n \<le> length ms. steps n d d' k"
proof -
  from assms obtain c1 d1 where m: "apply_mutations enc now 0 ms (False, d) = Inr (c1, d1)"
    and d': "d' = d1 \<or> d' = d1\<lparr>pp_Thresholds := t\<rparr>"
    by (auto simp: batch_mutator_def split: option.splits sum.splits if_splits)
  have t: "prefs_core (d1\<lparr>pp_Thresholds := t\<rparr>) = prefs_core d1"
    "steps n d (d1\<lparr>pp_Thresholds := t\<rparr>) k = steps n d d1 k" for n
    by (simp_all add: prefs_core_def maps_wf_def steps_def query_view_def queryRevision_def)
  note e = mutations_effect [OF m, of k]
  show "pp_Revision d' = pp_Revision d" "prefs_core d \<Longrightarrow> prefs_core d'"
    "mbool (pp_Known d) k \<Longrightarrow> \<exists>n \<le> length ms. steps n d d' k"
    using e d' t by auto
qed

end
