(* ===== verification/Pref_Invariant.thy ===== *)
theory Pref_Invariant
  imports Pref_Update
begin

text \<open>
  Every mutator the plugin commits keeps the invariant of the preferences.
\<close>

section \<open>Ids that the plugin makes are trimmed\<close>

lemma be_bytes_range: "b \<in> set (be_bytes k n) \<Longrightarrow> 0 \<le> b \<and> b < 256"
  by (auto simp: be_bytes_def)

lemma sha256_range: "is_bytes (sha256_bytes m)"
  by (auto simp: is_bytes_def list_all_iff sha256_bytes_def Let_def dest: be_bytes_range)

lemma hmac_range: "is_bytes (hmac_sha256 key m)"
  by (simp add: hmac_sha256_def Let_def sha256_range)

definition printable :: "char \<Rightarrow> bool" where
  "printable c = (CHR 0x20 < c \<and> c < CHR 0x7F)"

lemma hex_nibbles_printable: "list_all (\<lambda>i. printable (hex_nibble i)) [0..15]"
  by code_simp

lemma alphabet_printable: "list_all printable b64_url"
  by code_simp

lemma hex_printable:
  assumes "is_bytes bs" "c \<in> set (hex_encode bs)"
  shows "printable c"
proof -
  obtain b where b: "b \<in> set bs" "c = hex_nibble (b div 16) \<or> c = hex_nibble (b mod 16)"
    using assms(2) by (auto simp: hex_encode_def)
  have "0 \<le> b \<and> b < 256" using assms(1) b(1) by (simp add: is_bytes_def list_all_iff)
  then have "b div 16 \<in> set [0..15]" "b mod 16 \<in> set [0..15]"
    using byte_parts [of b] pos_mod_bound [of 16 b] by auto
  with hex_nibbles_printable b(2) show ?thesis unfolding list_all_iff by metis
qed

lemma b64_printable:
  assumes "is_bytes bs" "c \<in> set (b64_encode b64_url bs)"
  shows "printable c"
proof -
  obtain i where i: "i \<in> set (b64_groups bs)" "c = b64_url ! nat i"
    using assms(2) by (auto simp: b64_encode_def)
  have "0 \<le> i \<and> i < 64" using b64_groups_range [OF assms(1)] i(1) by (simp add: list_all_iff)
  moreover have "length b64_url = 64" by (simp add: b64_url_def)
  ultimately have "b64_url ! nat i \<in> set b64_url" by (intro nth_mem) (simp add: nat_less_iff)
  then have "c \<in> set b64_url" using i(2) by simp
  then show ?thesis using alphabet_printable by (simp add: list_all_iff)
qed

lemma acct_id_ok: "\<forall>c \<in> set s. printable c \<Longrightarrow> id_ok (''acct_'' @ s)"
proof -
  assume a: "\<forall>c \<in> set s. printable c"
  have "last (''acct_'' @ s) \<in> insert CHR ''_'' (set s)" by simp
  moreover have "printable (CHR ''_'')" "printable (CHR ''a'')" by code_simp+
  ultimately have "\<forall>c \<in> {hd (''acct_'' @ s), last (''acct_'' @ s)}. printable c" using a by auto
  then have "TrimSpace (''acct_'' @ s) = ''acct_'' @ s"
    unfolding printable_def by (rule printable_trim)
  then show ?thesis by (simp add: id_ok_def)
qed

text \<open>The random source delivers bytes.\<close>

definition random_ok :: "int list option \<Rightarrow> bool" where
  "random_ok r = (case r of None \<Rightarrow> True | Some bs \<Rightarrow> is_bytes bs)"

lemma stable_id_ok: "id_ok (stableAccountID key src sid fp)"
proof -
  have "is_bytes (take 12 bs)" if "is_bytes bs" for bs
    using that set_take_subset [of 12 bs] by (auto simp: is_bytes_def list_all_iff)
  then show ?thesis unfolding stableAccountID_def
    by (intro acct_id_ok ballI hex_printable) (simp_all only: hmac_range)
qed

lemma fresh_id_ok: "fresh_account_id key r c = Inr k \<Longrightarrow> random_ok r \<Longrightarrow> id_ok k"
  using stable_id_ok acct_id_ok b64_printable
  by (auto simp: fresh_account_id_def newAccountID_def random_ok_def simp del: append.simps
      split: if_splits option.splits)

section \<open>Moving preferences keeps the invariant\<close>

lemma move_get:
  "oldID \<noteq> newID \<Longrightarrow> mget (movePreferenceValue oldID newID m) k =
     (case mget m oldID of None \<Rightarrow> mget m k
      | Some v \<Rightarrow> if k = oldID then None else if k = newID then Some v else mget m k)"
  by (simp add: movePreferenceValue_def split: option.split)

lemma move_has:
  "oldID \<noteq> newID \<Longrightarrow> mhas (movePreferenceValue oldID newID m) k =
     (if k = oldID then False else mhas m k \<or> (k = newID \<and> mhas m oldID))"
  by (auto simp: mhas_def move_get split: option.split)

lemma move_mwf [simp]: "mwf m \<Longrightarrow> mwf (movePreferenceValue oldID newID m)"
  by (simp add: movePreferenceValue_def split: option.split)

lemma move_known:
  "oldID \<noteq> newID \<Longrightarrow> mbool (movePreferenceValue oldID newID m) k \<Longrightarrow>
     k \<noteq> oldID \<and> (mbool m k \<or> (k = newID \<and> mbool m oldID))"
  by (auto simp: mgetz_def move_get split: option.splits if_splits)

lemma replace_mem:
  "x \<in> set xs \<Longrightarrow> x \<noteq> oldID \<Longrightarrow> x \<in> set (replaceString oldID newID xs)"
  "oldID \<in> set xs \<Longrightarrow> newID \<in> set (replaceString oldID newID xs)"
  by (force simp: replaceString_def)+

lemma move_maps: "maps_wf d \<Longrightarrow> maps_wf (move_plain oldID newID d)"
  by (simp add: maps_wf_def) (simp add: move_plain_def)

lemma move_core:
  assumes "prefs_core d" "oldID \<noteq> newID" "id_ok newID"
  shows "prefs_core (move_plain oldID newID d)"
proof -
  have "id_ok k \<and> k \<in> set (replaceString oldID newID (pp_AccountOrder d))
      \<and> mhas (movePreferenceValue oldID newID (pp_FirstSeen d)) k
      \<and> mhas (movePreferenceValue oldID newID (pp_Monitored d)) k"
    if "mbool (movePreferenceValue oldID newID (pp_Known d)) k" for k
  proof -
    from move_known [OF assms(2) that] have k: "k \<noteq> oldID"
      and o: "mbool (pp_Known d) k \<or> (k = newID \<and> mbool (pp_Known d) oldID)" by auto
    from o show ?thesis
    proof
      assume "mbool (pp_Known d) k"
      then have "id_ok k" "k \<in> set (pp_AccountOrder d)" "mhas (pp_FirstSeen d) k" "mhas (pp_Monitored d) k"
        using assms(1) unfolding prefs_core_def by blast+
      then show ?thesis using k by (simp add: move_has [OF assms(2)] replace_mem)
    next
      assume a: "k = newID \<and> mbool (pp_Known d) oldID"
      then have "oldID \<in> set (pp_AccountOrder d)" "mhas (pp_FirstSeen d) oldID" "mhas (pp_Monitored d) oldID"
        using assms(1) unfolding prefs_core_def by blast+
      then show ?thesis using a assms(3) k by (simp add: move_has [OF assms(2)] replace_mem)
    qed
  qed
  moreover have "maps_wf (move_plain oldID newID d)"
    using assms(1) by (simp add: prefs_core_def move_maps)
  ultimately show ?thesis unfolding prefs_core_def by (simp add: move_plain_def)
qed

lemma pats_core [simp]: "prefs_core d \<Longrightarrow> mwf m \<Longrightarrow> prefs_core (d\<lparr>pp_PATs := m\<rparr>)"
  "prefs_core d \<Longrightarrow> mwf m2 \<Longrightarrow> prefs_core (d\<lparr>pp_RelinkRequired := m2\<rparr>)"
  "prefs_core d \<Longrightarrow> mwf m3 \<Longrightarrow> prefs_core (d\<lparr>pp_Identities := m3\<rparr>)"
  "prefs_core d \<Longrightarrow> mwf m4 \<Longrightarrow> prefs_core (d\<lparr>pp_DismissedAlerts := m4\<rparr>)"
  "prefs_core d \<Longrightarrow> prefs_core (d\<lparr>pp_Thresholds := t\<rparr>)"
  by (simp_all add: prefs_core_def maps_wf_def)

lemma core_maps:
  assumes "prefs_core d"
  shows "mwf (pp_PATs d)" "mwf (pp_RelinkRequired d)" "mwf (pp_Identities d)" "mwf (pp_DismissedAlerts d)"
  using assms by (simp_all add: prefs_core_def maps_wf_def)

lemma migrate_data_core:
  assumes "migratePreferenceData A nonce key oldID newID d = Inr d'" "prefs_core d" "id_ok newID"
  shows "prefs_core d'"
proof (cases "oldID = [] \<or> newID = [] \<or> oldID = newID")
  case True
  with assms show ?thesis by (simp add: migratePreferenceData_def)
next
  case False
  note c = core_maps [OF assms(2)]
  have "prefs_core (move_plain oldID newID d)"
    using False assms by (intro move_core) auto
  moreover have "prefs_core (move_plain oldID newID (d\<lparr>pp_PATs := mdel oldID (mput newID r (pp_PATs d))\<rparr>))" for r
    using False assms c by (intro move_core) auto
  ultimately show ?thesis
    using False assms(1) unfolding migratePreferenceData_def Let_def
    by (auto split: if_splits sum.splits)
qed

section \<open>Resolving identities keeps the invariant\<close>

lemma adopt_core:
  assumes "prefs_core d" "id_ok k"
  shows "prefs_core (snd (adopt_legacy A nonce key n c k (ch, d)))"
  using assms core_maps [OF assms(1)]
  by (auto simp: adopt_legacy_def Let_def split: sum.splits dest: migrate_data_core)

lemma resolve_one_core:
  assumes "resolve_one A random key now cs c st = Inr (k, st')" "prefs_core (snd st)" "random_ok (fst random)"
  shows "prefs_core (snd st')"
proof -
  obtain ch d where st: "st = (ch, d)" by (cases st)
  have kn: "prefs_core (snd (and_known False now st2 a))" if "prefs_core (snd st2)" for st2 a
    using known_core [of "snd st2" False now "fst st2" a] that by simp
  consider "st' = and_known False now st (TrimSpace (cc_AccountID c))"
    | "st' = and_known False now st (find_identity (pp_Identities (snd st)) c)"
    | ch1 d1 where "fresh_account_id key (fst random) c = Inr k"
      "(ch1, d1) = adopt_legacy A (snd random) key (legacy_count cs (TrimSpace (cc_LegacyID c))) c k st"
      "st' = and_known False now (ch1, d1\<lparr>pp_Identities := mput k (new_identity c k now) (pp_Identities d1)\<rparr>) k"
    using assms(1) by (auto simp: resolve_one_def Let_def split: if_splits sum.splits prod.splits)
  then show ?thesis
  proof cases
    case 3
    have "prefs_core d1"
      using adopt_core [of d k A "snd random" key _ c ch] assms(2,3) fresh_id_ok [OF 3(1)] 3(2)
      by (metis snd_conv st)
    then show ?thesis using core_maps [of d1] by (simp add: 3(3) kn)
  qed (use kn assms(2) in auto)
qed

lemma resolve_all_core:
  assumes "resolve_all A randoms key now cs i rest st = Inr (ids, st')" "prefs_core (snd st)"
    and "\<forall>i. random_ok (fst (randoms i))"
  shows "prefs_core (snd st')"
  using assms(1,2)
proof (induction rest arbitrary: i ids st)
  case (Cons c rest)
  from Cons.prems(1) obtain k st1 ids1 where
    o: "resolve_one A (randoms i) key now cs c st = Inr (k, st1)"
    and r: "resolve_all A randoms key now cs (Suc i) rest st1 = Inr (ids1, st')"
    by (auto split: sum.splits)
  show ?case
    using resolve_one_core [OF o Cons.prems(2)] assms(3) by (intro Cons.IH [OF r]) simp
qed simp

section \<open>All mutators\<close>

inductive plugin_mutator :: "mutator \<Rightarrow> bool" where
  Dismiss: "plugin_mutator (dismiss_mutator k)"
| ReconcileDismissed: "plugin_mutator (reconcile_dismissed active)"
| Thresholds: "plugin_mutator (threshold_mutator t)"
| Invalidate: "plugin_mutator (invalidate_mutator ids)"
| Batch: "plugin_mutator (batch_mutator enc now ms t)"
| Reconcile: "plugin_mutator (reconcile_mutator now ids)"
| ReconcileDefaults: "plugin_mutator (reconcileDefaults_mutator now defaults)"
| Resolve: "\<forall>i. random_ok (fst (randoms i)) \<Longrightarrow> plugin_mutator (resolve_mutator A randoms key now cs)"
| MigratePAT: "id_ok newID \<Longrightarrow> plugin_mutator (\<lambda>d. case migratePreferenceData A nonce key oldID newID d of
     Inl e \<Rightarrow> Inl e | Inr d \<Rightarrow> Inr (True, d))"
| Save: "plugin_mutator (\<lambda>d. Inr (True, d))"

lemma fold_known_core:
  "prefs_core (snd st) \<Longrightarrow> prefs_core (snd (foldl (\<lambda>st (aid, v). and_known v now st aid) st xs))"
proof (induction xs arbitrary: st)
  case (Cons x xs)
  obtain a v where x: "x = (a, v)" by (cases x)
  have "prefs_core (snd (and_known v now st a))"
    using known_core [of "snd st" v now "fst st" a] Cons.prems by simp
  from Cons.IH [OF this] show ?case by (simp add: x)
qed simp

lemma fold_known_as_pairs:
  "foldl (and_known v now) st xs = foldl (\<lambda>st (aid, v). and_known v now st aid) st (map (\<lambda>a. (a, v)) xs)"
  by (induction xs arbitrary: st) simp_all

lemma invalidate_core:
  "prefs_core d \<Longrightarrow> prefs_core (snd (invalidate_loop seen ids (c, d)))"
  by (induction seen ids "(c, d)" arbitrary: c d rule: invalidate_loop.induct) (simp_all add: Let_def)

lemma plugin_mutator_core:
  assumes "plugin_mutator m" "prefs_core d" "m d = Inr (c, d')"
  shows "prefs_core d'"
  using assms
proof (induction rule: plugin_mutator.induct)
  case (Invalidate ids)
  then show ?case using invalidate_core [of d "[]" ids False] by (simp add: invalidate_mutator_def)
next
  case (Batch enc now ms t)
  then show ?case by (metis batch_effect(2))
next
  case (Reconcile now ids)
  then show ?case
    using fold_known_core [of "(False, d)" now "map (\<lambda>a. (a, False)) (map TrimSpace ids)"]
    by (simp add: reconcile_mutator_def fold_known_as_pairs)
next
  case (ReconcileDefaults now defaults)
  then show ?case using fold_known_core [of "(False, d)" now defaults] by (simp add: reconcileDefaults_mutator_def)
next
  case (Resolve randoms A key now cs)
  then show ?case
    using resolve_all_core [of A randoms key now cs 0 cs "(False, d)"]
    by (auto simp: resolve_mutator_def split: sum.splits)
next
  case (MigratePAT newID A nonce key oldID)
  then show ?case by (auto split: sum.splits dest: migrate_data_core)
qed (use core_maps in \<open>auto simp: dismiss_mutator_def reconcile_dismissed_def threshold_mutator_def split: if_splits\<close>)

end
