(* ===== verification/Report.thy ===== *)
theory Report
  imports Thresholds Go_Crypto
begin

text \<open>
  The report of main.go and model.go: the summary and overall status of the monitored
  accounts (\<open>buildReportFromAccounts\<close>), the alerts of an account (\<open>alertsForAccount\<close>) with
  their stable ids, and the filter of dismissed alerts.  Messages are the UTF-8 bytes of the
  code's literals.
\<close>

section \<open>Messages\<close>

definition msg_stale :: string where
  "msg_stale =
     [CHR 0xE6, CHR 0xAD, CHR 0xA3, CHR 0xE5, CHR 0x9C, CHR 0xA8, CHR 0xE4, CHR 0xBD, CHR 0xBF,
      CHR 0xE7, CHR 0x94, CHR 0xA8, CHR 0xE4, CHR 0xB8, CHR 0x8A, CHR 0xE6, CHR 0xAC, CHR 0xA1,
      CHR 0xE6, CHR 0x88, CHR 0x90, CHR 0xE5, CHR 0x8A, CHR 0x9F, CHR 0xE8, CHR 0x8E, CHR 0xB7,
      CHR 0xE5, CHR 0x8F, CHR 0x96, CHR 0xE7, CHR 0x9A, CHR 0x84, CHR 0xE6, CHR 0x95, CHR 0xB0,
      CHR 0xE6, CHR 0x8D, CHR 0xAE, CHR 0xEF, CHR 0xBC, CHR 0x8C, CHR 0xE5, CHR 0x90, CHR 0x8E,
      CHR 0xE5, CHR 0x8F, CHR 0xB0, CHR 0xE4, CHR 0xBC, CHR 0x9A, CHR 0xE7, CHR 0xBB, CHR 0xA7,
      CHR 0xE7, CHR 0xBB, CHR 0xAD, CHR 0xE9, CHR 0x87, CHR 0x8D, CHR 0xE8, CHR 0xAF, CHR 0x95,
      CHR 0xE3, CHR 0x80, CHR 0x82]"

definition msg_key_expired :: string where
  "msg_key_expired =
     [CHR 0xE4, CHR 0xB8, CHR 0x8A, CHR 0xE6, CHR 0xB8, CHR 0xB8, CHR 0x20, CHR 0x4B, CHR 0x65,
      CHR 0x79, CHR 0x20, CHR 0xE5, CHR 0xB7, CHR 0xB2, CHR 0xE8, CHR 0xBF, CHR 0x87, CHR 0xE6,
      CHR 0x9C, CHR 0x9F, CHR 0xE3, CHR 0x80, CHR 0x82]"

definition msg_key_disabled :: string where
  "msg_key_disabled =
     [CHR 0xE4, CHR 0xB8, CHR 0x8A, CHR 0xE6, CHR 0xB8, CHR 0xB8, CHR 0xE5, CHR 0xB7, CHR 0xB2,
      CHR 0xE7, CHR 0xA6, CHR 0x81, CHR 0xE7, CHR 0x94, CHR 0xA8, CHR 0xE8, CHR 0xAF, CHR 0xA5,
      CHR 0x20, CHR 0x4B, CHR 0x65, CHR 0x79, CHR 0x20, CHR 0xE6, CHR 0x88, CHR 0x96, CHR 0xE8,
      CHR 0xB4, CHR 0xA6, CHR 0xE6, CHR 0x88, CHR 0xB7, CHR 0xE3, CHR 0x80, CHR 0x82]"

definition msg_key_invalid :: string where
  "msg_key_invalid =
     [CHR 0xE4, CHR 0xB8, CHR 0x8A, CHR 0xE6, CHR 0xB8, CHR 0xB8, CHR 0xE8, CHR 0xBF, CHR 0x94,
      CHR 0xE5, CHR 0x9B, CHR 0x9E, CHR 0xE8, CHR 0xAF, CHR 0xA5, CHR 0x20, CHR 0x4B, CHR 0x65,
      CHR 0x79, CHR 0x20, CHR 0xE6, CHR 0x97, CHR 0xA0, CHR 0xE6, CHR 0x95, CHR 0x88, CHR 0xE3,
      CHR 0x80, CHR 0x82]"

definition msg_pat_missing :: string where
  "msg_pat_missing =
     [CHR 0xE5, CHR 0xB0, CHR 0x9A, CHR 0xE6, CHR 0x9C, CHR 0xAA, CHR 0xE9, CHR 0x85, CHR 0x8D,
      CHR 0xE7, CHR 0xBD, CHR 0xAE, CHR 0xE7, CHR 0xAE, CHR 0xA1, CHR 0xE7, CHR 0x90, CHR 0x86,
      CHR 0xE5, CHR 0x87, CHR 0xAD, CHR 0xE6, CHR 0x8D, CHR 0xAE, CHR 0xEF, CHR 0xBC, CHR 0x8C,
      CHR 0xE6, CHR 0x97, CHR 0xA0, CHR 0xE6, CHR 0xB3, CHR 0x95, CHR 0xE6, CHR 0x9F, CHR 0xA5,
      CHR 0xE8, CHR 0xAF, CHR 0xA2, CHR 0xE8, CHR 0xB4, CHR 0xA6, CHR 0xE6, CHR 0x88, CHR 0xB7,
      CHR 0xE9, CHR 0xA2, CHR 0x9D, CHR 0xE5, CHR 0xBA, CHR 0xA6, CHR 0xE3, CHR 0x80, CHR 0x82]"

definition msg_upstream_http :: string where
  "msg_upstream_http =
     [CHR 0xE4, CHR 0xB8, CHR 0x8A, CHR 0xE6, CHR 0xB8, CHR 0xB8, CHR 0xE6, CHR 0x8E, CHR 0xA5,
      CHR 0xE5, CHR 0x8F, CHR 0xA3, CHR 0xE6, CHR 0x9A, CHR 0x82, CHR 0xE6, CHR 0x97, CHR 0xB6,
      CHR 0xE6, CHR 0x97, CHR 0xA0, CHR 0xE6, CHR 0xB3, CHR 0x95, CHR 0xE7, CHR 0xA1, CHR 0xAE,
      CHR 0xE8, CHR 0xAE, CHR 0xA4, CHR 0xE5, CHR 0xBD, CHR 0x93, CHR 0xE5, CHR 0x89, CHR 0x8D,
      CHR 0xE7, CHR 0x8A, CHR 0xB6, CHR 0xE6, CHR 0x80, CHR 0x81, CHR 0xEF, CHR 0xBC, CHR 0x8C,
      CHR 0xE8, CHR 0xAF, CHR 0xB7, CHR 0xE7, CHR 0xA8, CHR 0x8D, CHR 0xE5, CHR 0x90, CHR 0x8E,
      CHR 0xE9, CHR 0x87, CHR 0x8D, CHR 0xE8, CHR 0xAF, CHR 0x95, CHR 0xE3, CHR 0x80, CHR 0x82]"

definition msg_unavailable :: string where
  "msg_unavailable =
     [CHR 0xE4, CHR 0xB8, CHR 0x8A, CHR 0xE6, CHR 0xB8, CHR 0xB8, CHR 0xE8, CHR 0xB4, CHR 0xA6,
      CHR 0xE6, CHR 0x88, CHR 0xB7, CHR 0xE6, CHR 0x9A, CHR 0x82, CHR 0xE6, CHR 0x97, CHR 0xB6,
      CHR 0xE6, CHR 0x97, CHR 0xA0, CHR 0xE6, CHR 0xB3, CHR 0x95, CHR 0xE7, CHR 0xA1, CHR 0xAE,
      CHR 0xE8, CHR 0xAE, CHR 0xA4, CHR 0xE5, CHR 0xBD, CHR 0x93, CHR 0xE5, CHR 0x89, CHR 0x8D,
      CHR 0xE7, CHR 0x8A, CHR 0xB6, CHR 0xE6, CHR 0x80, CHR 0x81, CHR 0xEF, CHR 0xBC, CHR 0x8C,
      CHR 0xE8, CHR 0xAF, CHR 0xB7, CHR 0xE7, CHR 0xA8, CHR 0x8D, CHR 0xE5, CHR 0x90, CHR 0x8E,
      CHR 0xE9, CHR 0x87, CHR 0x8D, CHR 0xE8, CHR 0xAF, CHR 0x95, CHR 0xE3, CHR 0x80, CHR 0x82]"

definition msg_section_balance :: string where
  "msg_section_balance =
     [CHR 0xE4, CHR 0xBD, CHR 0x99, CHR 0xE9, CHR 0xA2, CHR 0x9D, CHR 0xE6, CHR 0x95, CHR 0xB0,
      CHR 0xE6, CHR 0x8D, CHR 0xAE, CHR 0xE6, CHR 0x9F, CHR 0xA5, CHR 0xE8, CHR 0xAF, CHR 0xA2,
      CHR 0xE5, CHR 0xA4, CHR 0xB1, CHR 0xE8, CHR 0xB4, CHR 0xA5, CHR 0xEF, CHR 0xBC, CHR 0x8C,
      CHR 0xE5, CHR 0x85, CHR 0xB6, CHR 0xE4, CHR 0xBB, CHR 0x96, CHR 0xE5, CHR 0x8F, CHR 0xAF,
      CHR 0xE7, CHR 0x94, CHR 0xA8, CHR 0xE6, CHR 0x95, CHR 0xB0, CHR 0xE6, CHR 0x8D, CHR 0xAE,
      CHR 0xE4, CHR 0xBB, CHR 0x8D, CHR 0xE4, CHR 0xBC, CHR 0x9A, CHR 0xE4, CHR 0xBF, CHR 0x9D,
      CHR 0xE7, CHR 0x95, CHR 0x99, CHR 0xE3, CHR 0x80, CHR 0x82]"

definition msg_section_billing :: string where
  "msg_section_billing =
     [CHR 0xE8, CHR 0xAE, CHR 0xA1, CHR 0xE8, CHR 0xB4, CHR 0xB9, CHR 0xE6, CHR 0x95, CHR 0xB0,
      CHR 0xE6, CHR 0x8D, CHR 0xAE, CHR 0xE6, CHR 0x9F, CHR 0xA5, CHR 0xE8, CHR 0xAF, CHR 0xA2,
      CHR 0xE5, CHR 0xA4, CHR 0xB1, CHR 0xE8, CHR 0xB4, CHR 0xA5, CHR 0xEF, CHR 0xBC, CHR 0x8C,
      CHR 0xE5, CHR 0x85, CHR 0xB6, CHR 0xE4, CHR 0xBB, CHR 0x96, CHR 0xE5, CHR 0x8F, CHR 0xAF,
      CHR 0xE7, CHR 0x94, CHR 0xA8, CHR 0xE6, CHR 0x95, CHR 0xB0, CHR 0xE6, CHR 0x8D, CHR 0xAE,
      CHR 0xE4, CHR 0xBB, CHR 0x8D, CHR 0xE4, CHR 0xBC, CHR 0x9A, CHR 0xE4, CHR 0xBF, CHR 0x9D,
      CHR 0xE7, CHR 0x95, CHR 0x99, CHR 0xE3, CHR 0x80, CHR 0x82]"

definition msg_section_key_quota :: string where
  "msg_section_key_quota =
     [CHR 0xE5, CHR 0xBD, CHR 0x93, CHR 0xE5, CHR 0x89, CHR 0x8D, CHR 0x20, CHR 0x4B, CHR 0x65,
      CHR 0x79, CHR 0x20, CHR 0xE9, CHR 0xA2, CHR 0x9D, CHR 0xE5, CHR 0xBA, CHR 0xA6, CHR 0xE6,
      CHR 0x9F, CHR 0xA5, CHR 0xE8, CHR 0xAF, CHR 0xA2, CHR 0xE5, CHR 0xA4, CHR 0xB1, CHR 0xE8,
      CHR 0xB4, CHR 0xA5, CHR 0xEF, CHR 0xBC, CHR 0x8C, CHR 0xE5, CHR 0x85, CHR 0xB6, CHR 0xE4,
      CHR 0xBB, CHR 0x96, CHR 0xE5, CHR 0x8F, CHR 0xAF, CHR 0xE7, CHR 0x94, CHR 0xA8, CHR 0xE6,
      CHR 0x95, CHR 0xB0, CHR 0xE6, CHR 0x8D, CHR 0xAE, CHR 0xE4, CHR 0xBB, CHR 0x8D, CHR 0xE4,
      CHR 0xBC, CHR 0x9A, CHR 0xE4, CHR 0xBF, CHR 0x9D, CHR 0xE7, CHR 0x95, CHR 0x99, CHR 0xE3,
      CHR 0x80, CHR 0x82]"

definition msg_section_account_quota :: string where
  "msg_section_account_quota =
     [CHR 0xE8, CHR 0xB4, CHR 0xA6, CHR 0xE6, CHR 0x88, CHR 0xB7, CHR 0xE9, CHR 0xA2, CHR 0x9D,
      CHR 0xE5, CHR 0xBA, CHR 0xA6, CHR 0xE6, CHR 0x9F, CHR 0xA5, CHR 0xE8, CHR 0xAF, CHR 0xA2,
      CHR 0xE5, CHR 0xA4, CHR 0xB1, CHR 0xE8, CHR 0xB4, CHR 0xA5, CHR 0xEF, CHR 0xBC, CHR 0x8C,
      CHR 0xE5, CHR 0x85, CHR 0xB6, CHR 0xE4, CHR 0xBB, CHR 0x96, CHR 0xE5, CHR 0x8F, CHR 0xAF,
      CHR 0xE7, CHR 0x94, CHR 0xA8, CHR 0xE6, CHR 0x95, CHR 0xB0, CHR 0xE6, CHR 0x8D, CHR 0xAE,
      CHR 0xE4, CHR 0xBB, CHR 0x8D, CHR 0xE4, CHR 0xBC, CHR 0x9A, CHR 0xE4, CHR 0xBF, CHR 0x9D,
      CHR 0xE7, CHR 0x95, CHR 0x99, CHR 0xE3, CHR 0x80, CHR 0x82]"

definition msg_section_usage :: string where
  "msg_section_usage =
     [CHR 0xE7, CHR 0x94, CHR 0xA8, CHR 0xE9, CHR 0x87, CHR 0x8F, CHR 0xE7, CHR 0xBB, CHR 0x9F,
      CHR 0xE8, CHR 0xAE, CHR 0xA1, CHR 0xE6, CHR 0x95, CHR 0xB0, CHR 0xE6, CHR 0x8D, CHR 0xAE,
      CHR 0xE6, CHR 0x9F, CHR 0xA5, CHR 0xE8, CHR 0xAF, CHR 0xA2, CHR 0xE5, CHR 0xA4, CHR 0xB1,
      CHR 0xE8, CHR 0xB4, CHR 0xA5, CHR 0xEF, CHR 0xBC, CHR 0x8C, CHR 0xE5, CHR 0x85, CHR 0xB6,
      CHR 0xE4, CHR 0xBB, CHR 0x96, CHR 0xE5, CHR 0x8F, CHR 0xAF, CHR 0xE7, CHR 0x94, CHR 0xA8,
      CHR 0xE6, CHR 0x95, CHR 0xB0, CHR 0xE6, CHR 0x8D, CHR 0xAE, CHR 0xE4, CHR 0xBB, CHR 0x8D,
      CHR 0xE4, CHR 0xBC, CHR 0x9A, CHR 0xE4, CHR 0xBF, CHR 0x9D, CHR 0xE7, CHR 0x95, CHR 0x99,
      CHR 0xE3, CHR 0x80, CHR 0x82]"

definition msg_section_subscription :: string where
  "msg_section_subscription =
     [CHR 0xE5, CHR 0xA5, CHR 0x97, CHR 0xE9, CHR 0xA4, CHR 0x90, CHR 0xE4, CHR 0xBF, CHR 0xA1,
      CHR 0xE6, CHR 0x81, CHR 0xAF, CHR 0xE6, CHR 0x9F, CHR 0xA5, CHR 0xE8, CHR 0xAF, CHR 0xA2,
      CHR 0xE5, CHR 0xA4, CHR 0xB1, CHR 0xE8, CHR 0xB4, CHR 0xA5, CHR 0xEF, CHR 0xBC, CHR 0x8C,
      CHR 0xE5, CHR 0x85, CHR 0xB6, CHR 0xE4, CHR 0xBB, CHR 0x96, CHR 0xE5, CHR 0x8F, CHR 0xAF,
      CHR 0xE7, CHR 0x94, CHR 0xA8, CHR 0xE6, CHR 0x95, CHR 0xB0, CHR 0xE6, CHR 0x8D, CHR 0xAE,
      CHR 0xE4, CHR 0xBB, CHR 0x8D, CHR 0xE4, CHR 0xBC, CHR 0x9A, CHR 0xE4, CHR 0xBF, CHR 0x9D,
      CHR 0xE7, CHR 0x95, CHR 0x99, CHR 0xE3, CHR 0x80, CHR 0x82]"

definition msg_section_other :: string where
  "msg_section_other =
     [CHR 0xE9, CHR 0x83, CHR 0xA8, CHR 0xE5, CHR 0x88, CHR 0x86, CHR 0xE8, CHR 0xB4, CHR 0xA6,
      CHR 0xE6, CHR 0x88, CHR 0xB7, CHR 0xE6, CHR 0x95, CHR 0xB0, CHR 0xE6, CHR 0x8D, CHR 0xAE,
      CHR 0xE6, CHR 0x9F, CHR 0xA5, CHR 0xE8, CHR 0xAF, CHR 0xA2, CHR 0xE5, CHR 0xA4, CHR 0xB1,
      CHR 0xE8, CHR 0xB4, CHR 0xA5, CHR 0xEF, CHR 0xBC, CHR 0x8C, CHR 0xE5, CHR 0x85, CHR 0xB6,
      CHR 0xE4, CHR 0xBB, CHR 0x96, CHR 0xE5, CHR 0x8F, CHR 0xAF, CHR 0xE7, CHR 0x94, CHR 0xA8,
      CHR 0xE6, CHR 0x95, CHR 0xB0, CHR 0xE6, CHR 0x8D, CHR 0xAE, CHR 0xE4, CHR 0xBB, CHR 0x8D,
      CHR 0xE4, CHR 0xBC, CHR 0x9A, CHR 0xE4, CHR 0xBF, CHR 0x9D, CHR 0xE7, CHR 0x95, CHR 0x99,
      CHR 0xE3, CHR 0x80, CHR 0x82]"

definition msg_balance_low :: string where
  "msg_balance_low =
     [CHR 0xE4, CHR 0xBD, CHR 0x99, CHR 0xE9, CHR 0xA2, CHR 0x9D, CHR 0xE4, CHR 0xBD, CHR 0x8E,
      CHR 0xE4, CHR 0xBA, CHR 0x8E, CHR 0xE9, CHR 0x85, CHR 0x8D, CHR 0xE7, CHR 0xBD, CHR 0xAE,
      CHR 0xE9, CHR 0x98, CHR 0x88, CHR 0xE5, CHR 0x80, CHR 0xBC]"

definition msg_quota_low :: string where
  "msg_quota_low =
     [CHR 0xE9, CHR 0xA2, CHR 0x9D, CHR 0xE5, CHR 0xBA, CHR 0xA6, CHR 0xE5, CHR 0x89, CHR 0xA9,
      CHR 0xE4, CHR 0xBD, CHR 0x99, CHR 0xE4, CHR 0xBD, CHR 0x8E, CHR 0xE4, CHR 0xBA, CHR 0x8E,
      CHR 0xE9, CHR 0x85, CHR 0x8D, CHR 0xE7, CHR 0xBD, CHR 0xAE, CHR 0xE9, CHR 0x98, CHR 0x88,
      CHR 0xE5, CHR 0x80, CHR 0xBC]"

definition availabilityAlertMessage :: "string \<Rightarrow> string" where
  "availabilityAlertMessage code =
     (let c = ToUpper (TrimSpace code)
      in if c = ''KEY_EXPIRED'' then msg_key_expired
         else if c = ''KEY_DISABLED'' then msg_key_disabled
         else if c = ''KEY_INVALID'' then msg_key_invalid
         else if c = ''PAT_NOT_CONFIGURED'' then msg_pat_missing
         else if c = ''STALE'' then msg_stale
         else if HasPrefix c ''UPSTREAM_HTTP_'' then msg_upstream_http
         else msg_unavailable)"

definition sectionAlertMessage :: "string \<Rightarrow> string" where
  "sectionAlertMessage name =
     (if name = ''balance'' then msg_section_balance
      else if name = ''billing'' then msg_section_billing
      else if name = ''key_quota'' then msg_section_key_quota
      else if name = ''account_quota'' then msg_section_account_quota
      else if name = ''usage'' then msg_section_usage
      else if name = ''subscription'' then msg_section_subscription
      else msg_section_other)"

section \<open>Alerts\<close>

record reportAlert =
  ra_ID :: string
  ra_Level :: accountStatus
  ra_AccountID :: string
  ra_MetricID :: string
  ra_WindowID :: string
  ra_Type :: string
  ra_Code :: string
  ra_Message :: string
  ra_Diagnostic :: string
  ra_Current :: string
  ra_Unit :: string
  ra_Threshold :: string
  ra_OccurredAt :: "gotime option"

definition zero_alert :: reportAlert where
  "zero_alert = \<lparr>ra_ID = [], ra_Level = [], ra_AccountID = [], ra_MetricID = [], ra_WindowID = [],
     ra_Type = [], ra_Code = [], ra_Message = [], ra_Diagnostic = [], ra_Current = [], ra_Unit = [],
     ra_Threshold = [], ra_OccurredAt = None\<rparr>"

text \<open>\<open>strings.Join\<close>.\<close>

fun join_with :: "string \<Rightarrow> string list \<Rightarrow> string" where
  "join_with sep [] = []"
| "join_with sep [s] = s"
| "join_with sep (s # ss) = s @ sep @ join_with sep ss"

definition stableAlertID :: "reportAlert \<Rightarrow> string" where
  "stableAlertID al =
     ''alert_'' @ hex_encode (take 8 (sha256_bytes (bytes_of (join_with [CHR 0x00]
       [ra_AccountID al, ra_MetricID al, ra_WindowID al, ra_Type al, ra_Code al]))))"

definition alert_level :: "accountStatus \<Rightarrow> accountStatus" where
  "alert_level status = (if status = statusDisabled then statusCritical else status)"

definition stale_alerts :: "accountSnapshot \<Rightarrow> reportAlert list" where
  "stale_alerts a =
     (if as_Stale a
      then [zero_alert\<lparr>ra_Level := statusWarning, ra_AccountID := as_AccountID a, ra_Type := ''stale'',
              ra_Code := ''STALE'', ra_Message := msg_stale\<rparr>]
      else [])"

definition availability_alerts :: "accountSnapshot \<Rightarrow> reportAlert list" where
  "availability_alerts a =
     (case as_Error a of
        None \<Rightarrow> []
      | Some e \<Rightarrow>
          if se_Code e = [] then []
          else [zero_alert\<lparr>ra_Level := alert_level (as_Status a), ra_AccountID := as_AccountID a,
                  ra_Type := ''availability'', ra_Code := se_Code e,
                  ra_Message := availabilityAlertMessage (se_Code e), ra_Diagnostic := se_Message e\<rparr>])"

definition error_sections :: "accountSnapshot \<Rightarrow> string list" where
  "error_sections a =
     sort_by (<) (map fst (filter (\<lambda>(name, section). sec_Status section = ''error'') (as_Sections a)))"

definition section_alert :: "accountSnapshot \<Rightarrow> string \<Rightarrow> reportAlert" where
  "section_alert a name =
     (let section = mgetz zero_section (as_Sections a) name
      in zero_alert\<lparr>ra_Level := statusWarning, ra_AccountID := as_AccountID a, ra_MetricID := name,
           ra_Type := ''section'', ra_Code := sec_ErrorCode section,
           ra_Message := sectionAlertMessage name, ra_Diagnostic := sec_Message section,
           ra_OccurredAt := sec_UpdatedAt section\<rparr>)"

definition balance_alerts :: "thresholdConfig \<Rightarrow> accountSnapshot \<Rightarrow> reportAlert list" where
  "balance_alerts t a =
     (let level = cashThresholdStatus a t
      in if level \<noteq> statusOK
         then [zero_alert\<lparr>ra_Level := level, ra_AccountID := as_AccountID a, ra_Type := ''balance_low'',
                 ra_Code := ''BALANCE_BELOW_THRESHOLD'', ra_Message := msg_balance_low\<rparr>]
         else [])"

definition window_alerts :: "thresholdConfig \<Rightarrow> accountSnapshot \<Rightarrow> quotaWindow \<Rightarrow> reportAlert list" where
  "window_alerts t a w =
     (case qw_RemainingFraction w of
        None \<Rightarrow> []
      | Some f \<Rightarrow>
          (let percent = f * fnum 100;
               (level, threshold, code) =
                 (if percent \<le> tc_CriticalPercent t
                  then (statusCritical, tc_CriticalPercent t, ''QUOTA_BELOW_CRITICAL'')
                  else if percent \<le> tc_WarningPercent t
                  then (statusWarning, tc_WarningPercent t, ''QUOTA_BELOW_WARNING'')
                  else (statusOK, 0, []))
           in if level = statusOK then []
              else [zero_alert\<lparr>ra_Level := level, ra_AccountID := as_AccountID a,
                      ra_WindowID := firstNonEmpty [qw_Name w, ''unknown''], ra_Type := ''quota_low'',
                      ra_Code := code, ra_Message := msg_quota_low, ra_Current := decimalString percent,
                      ra_Unit := ''%'', ra_Threshold := decimalString threshold\<rparr>]))"

definition quota_alerts :: "thresholdConfig \<Rightarrow> accountSnapshot \<Rightarrow> reportAlert list" where
  "quota_alerts t a =
     (let ws = concat (map (window_alerts t a) (as_Windows a))
      in if ws = [] \<and> error_sections a = []
         then [zero_alert\<lparr>ra_Level := as_Status a, ra_AccountID := as_AccountID a, ra_Type := ''quota_low'',
                 ra_Code := ''QUOTA_BELOW_THRESHOLD'', ra_Message := msg_quota_low\<rparr>]
         else ws)"

definition with_id :: "reportAlert \<Rightarrow> reportAlert" where
  "with_id al = al\<lparr>ra_ID := stableAlertID al\<rparr>"

definition alertsForAccount :: "thresholdConfig \<Rightarrow> accountSnapshot \<Rightarrow> reportAlert list" where
  "alertsForAccount t a =
     (let alerts = stale_alerts a @ availability_alerts a @ map (section_alert a) (error_sections a)
      in if as_Kind a = kindUnsupported then alerts
         else
           (let alerts =
              (if as_Status a = statusCritical \<or> as_Status a = statusWarning
               then alerts @ (if as_Kind a = kindBalance then balance_alerts t a else quota_alerts t a)
               else alerts)
            in map with_id alerts))"

section \<open>The report\<close>

record reportSummary =
  rs_Total :: nat
  rs_OK :: nat
  rs_Warning :: nat
  rs_Critical :: nat
  rs_Error :: nat
  rs_Unknown :: nat
  rs_Stale :: nat
  rs_Balances :: nat
  rs_PeriodQuotas :: nat
  rs_Quotas :: nat

record report =
  rp_SchemaVersion :: int
  rp_GeneratedAt :: gotime
  rp_Status :: accountStatus
  rp_Summary :: reportSummary
  rp_Alerts :: "reportAlert list"
  rp_Accounts :: "accountSnapshot list"

definition zero_summary :: reportSummary where
  "zero_summary = \<lparr>rs_Total = 0, rs_OK = 0, rs_Warning = 0, rs_Critical = 0, rs_Error = 0,
     rs_Unknown = 0, rs_Stale = 0, rs_Balances = 0, rs_PeriodQuotas = 0, rs_Quotas = 0\<rparr>"

definition count_account :: "accountSnapshot \<Rightarrow> reportSummary \<Rightarrow> reportSummary" where
  "count_account a r =
     (let r = r\<lparr>rs_Total := Suc (rs_Total r)\<rparr>;
          r = (if as_Stale a then r\<lparr>rs_Stale := Suc (rs_Stale r)\<rparr> else r);
          r = (if as_Status a = statusOK then r\<lparr>rs_OK := Suc (rs_OK r)\<rparr>
               else if as_Status a = statusWarning then r\<lparr>rs_Warning := Suc (rs_Warning r)\<rparr>
               else if as_Status a = statusCritical then r\<lparr>rs_Critical := Suc (rs_Critical r)\<rparr>
               else if as_Status a = statusError then r\<lparr>rs_Error := Suc (rs_Error r)\<rparr>
               else if as_Status a = statusUnknown then r\<lparr>rs_Unknown := Suc (rs_Unknown r)\<rparr>
               else r)
      in if as_Kind a = kindBalance then r\<lparr>rs_Balances := Suc (rs_Balances r)\<rparr>
         else if as_Kind a = kindPeriodQuota then r\<lparr>rs_PeriodQuotas := Suc (rs_PeriodQuotas r)\<rparr>
         else if as_Kind a = kindQuota then r\<lparr>rs_Quotas := Suc (rs_Quotas r)\<rparr>
         else r)"

text \<open>What an account contributes to the overall status.\<close>

definition effective_status :: "accountSnapshot \<Rightarrow> accountStatus" where
  "effective_status a =
     (let effective = alert_level (as_Status a)
      in if as_Stale a then maxStatus effective statusWarning else effective)"

definition report_step :: "thresholdConfig \<Rightarrow> report \<Rightarrow> accountSnapshot \<Rightarrow> report" where
  "report_step t out a =
     out\<lparr>rp_Summary := count_account a (rp_Summary out),
         rp_Alerts := rp_Alerts out @ alertsForAccount t a,
         rp_Status := maxStatus (rp_Status out) (effective_status a)\<rparr>"

definition buildReportFromAccounts :: "thresholdConfig \<Rightarrow> gotime \<Rightarrow> accountSnapshot list \<Rightarrow> report" where
  "buildReportFromAccounts t now accounts =
     foldl (report_step t)
       \<lparr>rp_SchemaVersion = 1, rp_GeneratedAt = now, rp_Status = statusOK, rp_Summary = zero_summary,
        rp_Alerts = [], rp_Accounts = accounts\<rparr> accounts"

section \<open>What the report says\<close>

lemma report_fold:
  "foldl (report_step t) out as =
     out\<lparr>rp_Summary := foldl (\<lambda>r a. count_account a r) (rp_Summary out) as,
         rp_Alerts := rp_Alerts out @ concat (map (alertsForAccount t) as),
         rp_Status := foldl maxStatus (rp_Status out) (map effective_status as)\<rparr>"
  by (induction as arbitrary: out) (simp_all add: report_step_def)

definition tally :: "(accountSnapshot \<Rightarrow> bool) \<Rightarrow> accountSnapshot list \<Rightarrow> nat" where
  "tally P as = length (filter P as)"

lemma count_account_step:
  "count_account a r =
     \<lparr>rs_Total = Suc (rs_Total r),
      rs_OK = rs_OK r + (if as_Status a = statusOK then 1 else 0),
      rs_Warning = rs_Warning r + (if as_Status a = statusWarning then 1 else 0),
      rs_Critical = rs_Critical r + (if as_Status a = statusCritical then 1 else 0),
      rs_Error = rs_Error r + (if as_Status a = statusError then 1 else 0),
      rs_Unknown = rs_Unknown r + (if as_Status a = statusUnknown then 1 else 0),
      rs_Stale = rs_Stale r + (if as_Stale a then 1 else 0),
      rs_Balances = rs_Balances r + (if as_Kind a = kindBalance then 1 else 0),
      rs_PeriodQuotas = rs_PeriodQuotas r + (if as_Kind a = kindPeriodQuota then 1 else 0),
      rs_Quotas = rs_Quotas r + (if as_Kind a = kindQuota then 1 else 0)\<rparr>"
  unfolding count_account_def Let_def
  by (rule reportSummary.equality) (simp_all split: if_split)

lemma count_accounts:
  "foldl (\<lambda>r a. count_account a r) r as =
     \<lparr>rs_Total = rs_Total r + length as,
      rs_OK = rs_OK r + tally (\<lambda>a. as_Status a = statusOK) as,
      rs_Warning = rs_Warning r + tally (\<lambda>a. as_Status a = statusWarning) as,
      rs_Critical = rs_Critical r + tally (\<lambda>a. as_Status a = statusCritical) as,
      rs_Error = rs_Error r + tally (\<lambda>a. as_Status a = statusError) as,
      rs_Unknown = rs_Unknown r + tally (\<lambda>a. as_Status a = statusUnknown) as,
      rs_Stale = rs_Stale r + tally as_Stale as,
      rs_Balances = rs_Balances r + tally (\<lambda>a. as_Kind a = kindBalance) as,
      rs_PeriodQuotas = rs_PeriodQuotas r + tally (\<lambda>a. as_Kind a = kindPeriodQuota) as,
      rs_Quotas = rs_Quotas r + tally (\<lambda>a. as_Kind a = kindQuota) as\<rparr>"
proof (induction as arbitrary: r)
  case (Cons a as)
  show ?case
    unfolding foldl_Cons Cons.IH unfolding count_account_step by (simp add: tally_def)
qed (simp add: tally_def)

text \<open>
  C32: the summary counts: every counter is the number of accounts with that status, kind or
  mark, and the status counters together miss exactly the accounts whose status is none of
  the five (the disabled ones), which only the total counts.
\<close>

theorem report_summary:
  defines "summary t now as \<equiv> rp_Summary (buildReportFromAccounts t now as)"
  shows "summary t now as =
     \<lparr>rs_Total = length as,
      rs_OK = tally (\<lambda>a. as_Status a = statusOK) as,
      rs_Warning = tally (\<lambda>a. as_Status a = statusWarning) as,
      rs_Critical = tally (\<lambda>a. as_Status a = statusCritical) as,
      rs_Error = tally (\<lambda>a. as_Status a = statusError) as,
      rs_Unknown = tally (\<lambda>a. as_Status a = statusUnknown) as,
      rs_Stale = tally as_Stale as,
      rs_Balances = tally (\<lambda>a. as_Kind a = kindBalance) as,
      rs_PeriodQuotas = tally (\<lambda>a. as_Kind a = kindPeriodQuota) as,
      rs_Quotas = tally (\<lambda>a. as_Kind a = kindQuota) as\<rparr>
   \<and> rs_OK (summary t now as) + rs_Warning (summary t now as) + rs_Critical (summary t now as)
      + rs_Error (summary t now as) + rs_Unknown (summary t now as)
      + tally (\<lambda>a. as_Status a \<notin> {statusOK, statusWarning, statusCritical, statusError, statusUnknown}) as
     = rs_Total (summary t now as)"
proof -
  have s: "summary t now as = foldl (\<lambda>r a. count_account a r) zero_summary as"
    by (simp add: summary_def buildReportFromAccounts_def report_fold)
  have "tally (\<lambda>a. as_Status a = statusOK) as + tally (\<lambda>a. as_Status a = statusWarning) as
      + tally (\<lambda>a. as_Status a = statusCritical) as + tally (\<lambda>a. as_Status a = statusError) as
      + tally (\<lambda>a. as_Status a = statusUnknown) as
      + tally (\<lambda>a. as_Status a \<notin> {statusOK, statusWarning, statusCritical, statusError, statusUnknown}) as
     = length as"
    by (induction as) (auto simp: tally_def)
  then show ?thesis unfolding s count_accounts by (simp add: zero_summary_def)
qed

text \<open>
  C31: the overall status is the worst of the accounts' own, where a disabled account counts
  as critical and a stale one as a warning at least; the empty report is ok.
\<close>

theorem report_status:
  "status_rank (rp_Status (buildReportFromAccounts t now as)) =
     Max (insert 1 ((\<lambda>a. max (status_rank (alert_level (as_Status a))) (if as_Stale a then 4 else 0)) ` set as))
   \<and> rp_Status (buildReportFromAccounts t now as) \<in> insert statusOK (effective_status ` set as)"
proof -
  have s: "rp_Status (buildReportFromAccounts t now as) = foldl maxStatus statusOK (map effective_status as)"
    by (simp add: buildReportFromAccounts_def report_fold)
  have e: "status_rank (effective_status a) =
      max (status_rank (alert_level (as_Status a))) (if as_Stale a then 4 else 0)" for a
    by (simp add: effective_status_def Let_def sev.rank_worse)
  have "status_rank (foldl maxStatus statusOK (map effective_status as)) =
      Max (insert 1 ((\<lambda>a. status_rank (effective_status a)) ` set as))"
    by (simp add: sev.rank_foldl image_image)
  moreover have "foldl maxStatus statusOK (map effective_status as) \<in> insert statusOK (effective_status ` set as)"
    using sev.foldl_in [of statusOK "map effective_status as"] by simp
  ultimately show ?thesis unfolding s e by simp
qed

lemma stableAlertID_with_id [simp]: "stableAlertID (with_id al) = stableAlertID al"
  by (simp add: stableAlertID_def with_id_def)





lemma error_sections_empty: "error_sections a = [] \<longleftrightarrow> \<not> has_section_error a"
proof -
  have "set (error_sections a) = fst ` {x \<in> set (as_Sections a). sec_Status (snd x) = ''error''}"
    by (force simp: error_sections_def)
  then have "error_sections a = [] \<longleftrightarrow> (\<forall>x \<in> set (as_Sections a). sec_Status (snd x) \<noteq> ''error'')"
    by (auto simp flip: set_empty)
  then show ?thesis by (auto simp: has_section_error_def list_ex_iff)
qed

text \<open>
  C38: an account in a warning or critical state never goes without an alert, unless it is a
  balance account without any fault of its queries whose balances satisfy the configured cash
  thresholds: that case (a zero total balance with no threshold configured, say) is silent.
\<close>

theorem bad_status_is_reported:
  assumes "as_Kind a \<noteq> kindUnsupported" "as_Status a \<in> {statusWarning, statusCritical}"
  shows "alertsForAccount t a = [] \<longleftrightarrow>
    as_Kind a = kindBalance \<and> \<not> as_Stale a \<and> \<not> has_section_error a
    \<and> (\<forall>e. as_Error a = Some e \<longrightarrow> se_Code e = []) \<and> cashThresholdStatus a t = statusOK"
proof -
  have "alertsForAccount t a = [] \<longleftrightarrow>
     stale_alerts a = [] \<and> availability_alerts a = [] \<and> error_sections a = []
     \<and> (if as_Kind a = kindBalance then balance_alerts t a = [] else quota_alerts t a = [])"
    using assms by (auto simp: alertsForAccount_def Let_def)
  moreover have "quota_alerts t a = [] \<longrightarrow> error_sections a \<noteq> []"
    by (auto simp: quota_alerts_def Let_def)
  moreover have "balance_alerts t a = [] \<longleftrightarrow> cashThresholdStatus a t = statusOK"
    by (simp add: balance_alerts_def Let_def)
  moreover have "availability_alerts a = [] \<longleftrightarrow> (\<forall>e. as_Error a = Some e \<longrightarrow> se_Code e = [])"
    by (simp add: availability_alerts_def split: option.split)
  moreover have "stale_alerts a = [] \<longleftrightarrow> \<not> as_Stale a" by (simp add: stale_alerts_def)
  ultimately show ?thesis by (auto simp: error_sections_empty)
qed

definition ex_silent :: accountSnapshot where
  "ex_silent = zero_snapshot\<lparr>as_Kind := kindBalance, as_Status := statusCritical,
     as_Balances := [\<lparr>mb_Amount = ''0'', mb_Currency = ''EUR'', mb_BalanceType = ''total''\<rparr>]\<rparr>"

theorem bad_status_is_reported_witness:
  "alertsForAccount (ex_thresholds (fnum 20) (fnum 10)) ex_silent = []"
proof -
  have "cashThresholdStatus ex_silent (ex_thresholds (fnum 20) (fnum 10)) = statusOK" by code_simp
  then show ?thesis
    by (subst bad_status_is_reported)
       (simp_all add: ex_silent_def zero_snapshot_def has_section_error_def)
qed





section \<open>Dismissed alerts\<close>

text \<open>The ids that \<open>filterDismissedAlerts\<close> reports as active, and what it leaves out.\<close>

definition active_alert_ids :: "reportAlert list \<Rightarrow> (string, bool) gomap" where
  "active_alert_ids als =
     foldl (\<lambda>m al. if TrimSpace (ra_ID al) \<noteq> [] then mput (ra_ID al) True m else m) [] als"

definition drop_dismissed :: "(string, bool) gomap \<Rightarrow> report \<Rightarrow> report" where
  "drop_dismissed dismissed out =
     (if dismissed = [] then out
      else out\<lparr>rp_Alerts := filter (\<lambda>al. \<not> mbool dismissed (ra_ID al)) (rp_Alerts out)\<rparr>)"

end
