(* ===== verification/Pref_Theorems.thy ===== *)
theory Pref_Theorems
  imports Pref_Invariant Report
begin

text \<open>
  The properties of the preferences: optimistic concurrency, the invariant over every history
  of commits, the invalidation of running queries, dismissed alerts, and the PAT store.
\<close>

definition ex_world :: prefs_world where
  "ex_world = (newMonitorPrefs, None)"

definition ex_switch :: "bool \<Rightarrow> providerPreferenceMutation" where
  "ex_switch b = \<lparr>pm_ID = ''a'', pm_Monitored = Some b, pm_Adapter = [], pm_ClearAdapter = False,
     pm_PATAction = ''keep'', pm_PAT = [], pm_CustomName = None\<rparr>"

text \<open>A cipher for the witnesses: it seals nothing, which the laws allow.\<close>

definition ex_aead :: aead where
  "ex_aead = \<lparr>ae_seal = (\<lambda>k n p a. p), ae_open = (\<lambda>k n c a. Some c)\<rparr>"

lemma ex_aead_ok: "aead_ok ex_aead"
  by (simp add: aead_ok_def ex_aead_def)

text \<open>
  C2: no update is lost: of two writers that read the same revision, the second gets a
  conflict that names the current revision and changes nothing, once the first one's update
  has changed anything.
\<close>

theorem second_writer_conflicts:
  assumes "updateBatchAndThresholdsAtRevision A n1 t1 wr1 (Some r) ms1 th1 w = ((r1, None), w1)"
    and "prefs_data w1 \<noteq> prefs_data w"
  shows "updateBatchAndThresholdsAtRevision A n2 t2 wr2 (Some r) ms2 th2 w1 =
    ((r1, Some (RevisionConflict r r1)), w1)"
proof -
  let ?m = "batch_mutator (\<lambda>i. encryptPreference A (n1 i) (mp_key (fst w))) t1 ms1 th1"
  obtain p disk where w: "w = (p, disk)" by (cases w)
  have c: "commitAtRevision wr1 (Some r) ?m w = ((r1, None), w1)"
    using assms(1) by (simp add: updateBatchAndThresholdsAtRevision_def)
  then have r: "pp_Revision (prefs_data w) = r"
    by (auto simp: commitAtRevision_def Let_def split: if_splits)
  from c assms(2) obtain d where d: "?m (prefs_data w) = Inr (True, d)"
    and p: "prefs_data w1 = install_prefs d" and r1: "r1 = pp_Revision (prefs_data w1)"
    using commit_all_or_nothing [where wr = wr1 and e = "Some r" and m = ?m and p = p and disk = disk] by (cases w1) (auto simp: w)
  have "pp_Revision (prefs_data w1) = wrap64 (r + 1)"
    using batch_effect(1) [OF d] r by (simp add: p install_prefs_def normalizePersistedPrefs_def Let_def)
  then have "pp_Revision (prefs_data w1) \<noteq> r" using wrap64_Suc by metis
  then show ?thesis
    by (simp add: updateBatchAndThresholdsAtRevision_def commitAtRevision_def Let_def r1)
qed

theorem second_writer_conflicts_witness:
  "snd (fst (updateBatchAndThresholdsAtRevision ex_aead (\<lambda>_. None) 5 (\<lambda>_. Written) (Some 0) [ex_switch False] None
     (snd (updateBatchAndThresholdsAtRevision ex_aead (\<lambda>_. None) 5 (\<lambda>_. Written) (Some 0) [ex_switch True] None ex_world))))
   = Some (RevisionConflict 0 1)"
proof -
  let ?u = "updateBatchAndThresholdsAtRevision ex_aead (\<lambda>_. None) 5 (\<lambda>_. Written) (Some 0) [ex_switch True] None ex_world"
  have u: "fst ?u = (1, None)" by code_simp
  have n: "pp_Revision (prefs_data (snd ?u)) = 1" "pp_Revision (prefs_data ex_world) = 0" by code_simp+
  have "prefs_data (snd ?u) \<noteq> prefs_data ex_world" using n by (metis zero_neq_one)
  moreover have "?u = ((1, None), snd ?u)" using u by (metis prod.collapse)
  ultimately show ?thesis using second_writer_conflicts by (metis fst_conv snd_conv)
qed

text \<open>
  C6: from the fresh preferences on, after any history of commits of the plugin's mutators,
  with any outcome of the writes, every known account has a trimmed id, a place in the order,
  a first-seen time and a monitoring flag; the order lists each id once; no map has a key
  twice; and the revision is an int64.
\<close>

theorem prefs_history_wf:
  assumes "\<forall>(e, m) \<in> set history. plugin_mutator m" "prefs_data w = newPersistedMonitorPrefs"
  shows "prefs_wf (prefs_data (foldl (\<lambda>w (e, m). snd (commitAtRevision wr e m w)) w history))"
proof (rule txn.commits_invariant [where M = "Collect plugin_mutator"])
  show "prefs_wf (prefs_data w)"
    by (simp add: assms(2) newPersistedMonitorPrefs_def prefs_wf_def prefs_core_def maps_wf_def)
  show "prefs_wf (install_prefs d')" if "m \<in> Collect plugin_mutator" "prefs_wf d" "m d = Inr (True, d')" for m d d'
    using that by (intro install_wf) (auto simp: prefs_wf_def intro: plugin_mutator_core)
  show "\<forall>x \<in> set history. snd x \<in> Collect plugin_mutator" using assms(1) by auto
qed

theorem prefs_history_wf_witness:
  "prefs_wf (prefs_data (foldl (\<lambda>w (e, m). snd (commitAtRevision (\<lambda>_. Written) e m w)) ex_world
     [(None, reconcile_mutator 5 ['' a'', ''b'']), (Some 1, dismiss_mutator ''x'')]))"
  by (rule prefs_history_wf)
     (simp_all add: plugin_mutator.intros ex_world_def newMonitorPrefs_def)

text \<open>
  C12: a running query cannot deliver a result for settings that have changed since it began:
  if an update changes whether a known account is monitored, or its adapter, its PAT or the
  mark that it must be linked again, then the query revision taken before no longer commits.
\<close>

theorem changed_settings_reject_result:
  assumes "updateBatchAndThresholdsAtRevision A nonces now wr e ms th w = ((r, None), w')"
    and "mbool (pp_Known (prefs_data w)) k"
    and "query_view (prefs_data w') k \<noteq> query_view (prefs_data w) k"
    and "length ms < 2 ^ 64"
  shows "\<not> canCommitQueryResult (prefs_data w') k (queryRevision (prefs_data w) k)"
proof -
  let ?m = "batch_mutator (\<lambda>i. encryptPreference A (nonces i) (mp_key (fst w))) now ms th"
  obtain p disk where w: "w = (p, disk)" by (cases w)
  have c: "commitAtRevision wr e ?m w = ((r, None), w')"
    using assms(1) by (simp add: updateBatchAndThresholdsAtRevision_def)
  from c assms(3) obtain d where d: "?m (prefs_data w) = Inr (True, d)"
    and p: "prefs_data w' = install_prefs d"
    using commit_all_or_nothing [where wr = wr and e = e and m = ?m and p = p and disk = disk] by (cases w') (auto simp: w)
  have i: "query_view (install_prefs d) = query_view d" "queryRevision (install_prefs d) = queryRevision d"
    by (simp_all add: install_prefs_def normalizePersistedPrefs_def Let_def query_view_def queryRevision_def fun_eq_iff)
  obtain n where n: "n \<le> length ms" "steps n (prefs_data w) d k"
    using batch_effect(3) [OF d assms(2)] by blast
  have "n \<noteq> 0" using n(2) assms(3) by (cases "n = 0") (simp_all add: steps_def p i)
  then have q: "queryRevision d k = wrap64 (queryRevision (prefs_data w) k + int n)" "0 < int n"
    using n(2) by (simp_all add: steps_def)
  have "int n < 2 ^ 64" using n(1) assms(4) by simp
  from wrap64_add [OF q(2) this] q(1) show ?thesis
    by (simp add: canCommitQueryResult_def p i)
qed

theorem changed_settings_reject_result_witness:
  "\<not> canCommitQueryResult (prefs_data (snd (updateBatchAndThresholdsAtRevision ex_aead (\<lambda>_. None) 5 (\<lambda>_. Written) None [ex_switch False] None
        (snd (updateBatchAndThresholdsAtRevision ex_aead (\<lambda>_. None) 5 (\<lambda>_. Written) None [ex_switch True] None ex_world))))) ''a'' 0"
proof -
  let ?w = "snd (updateBatchAndThresholdsAtRevision ex_aead (\<lambda>_. None) 5 (\<lambda>_. Written) None [ex_switch True] None ex_world)"
  let ?u = "updateBatchAndThresholdsAtRevision ex_aead (\<lambda>_. None) 5 (\<lambda>_. Written) None [ex_switch False] None ?w"
  have f: "fst ?u = (2, None)" by code_simp
  have v: "query_view (prefs_data (snd ?u)) ''a'' = (Some False, None, None, False)"
    "query_view (prefs_data ?w) ''a'' = (Some True, None, None, False)" by code_simp+
  have u: "?u = ((2, None), snd ?u)" using f by (metis prod.collapse)
  have k: "mbool (pp_Known (prefs_data ?w)) ''a''" "queryRevision (prefs_data ?w) ''a'' = 0" by code_simp+
  have "\<not> canCommitQueryResult (prefs_data (snd ?u)) ''a'' (queryRevision (prefs_data ?w) ''a'')"
    by (rule changed_settings_reject_result [OF u k(1)]) (simp_all add: v)
  from this [unfolded k(2)] show ?thesis .
qed

lemma invalidate_loop_revision:
  "queryRevision (snd (invalidate_loop seen ids (c, d))) k =
     (if k \<noteq> [] \<and> k \<in> TrimSpace ` set ids \<and> k \<notin> set seen
      then wrap64 (queryRevision d k + 1) else queryRevision d k)"
  by (induction seen ids "(c, d)" arbitrary: c d rule: invalidate_loop.induct) (auto simp: Let_def)

lemma install_query [simp]:
  "queryRevision (install_prefs d) = queryRevision d"
  "pp_PATs (install_prefs d) = pp_PATs d" "pp_RelinkRequired (install_prefs d) = pp_RelinkRequired d"
  "pp_DismissedAlerts (install_prefs d) = pp_DismissedAlerts d"
  by (simp_all add: install_prefs_def normalizePersistedPrefs_def Let_def queryRevision_def fun_eq_iff)

lemma invalidate_unchanged: "invalidate_loop seen ids (c, d) = (False, d') \<Longrightarrow> d' = d \<and> \<not> c"
  by (induction seen ids "(c, d)" arbitrary: c d rule: invalidate_loop.induct)
     (auto simp: Let_def split: if_splits)

text \<open>
  C35: invalidating the queries of a list of accounts counts the query revision of each of
  them up exactly once, however often and with whatever surrounding space it is listed, so no
  result of a query that began before can be committed; no other account is affected.
\<close>

theorem invalidate_counts_once:
  assumes "invalidateQueryResults wr ids w = (None, w')"
  shows "queryRevision (prefs_data w') k =
      (if k \<noteq> [] \<and> k \<in> TrimSpace ` set ids then wrap64 (queryRevision (prefs_data w) k + 1)
       else queryRevision (prefs_data w) k)
    \<and> (k \<noteq> [] \<and> k \<in> TrimSpace ` set ids \<longrightarrow>
        \<not> canCommitQueryResult (prefs_data w') k (queryRevision (prefs_data w) k))"
proof -
  obtain r where c: "commitAtRevision wr None (invalidate_mutator ids) w = ((r, None), w')"
    using assms by (auto simp: invalidateQueryResults_def split: prod.splits)
  obtain p disk where w: "w = (p, disk)" by (cases w)
  define l where "l = invalidate_loop [] ids (False, prefs_data w)"
  have "queryRevision (prefs_data w') k = queryRevision (snd l) k"
    using commit_all_or_nothing [where wr = wr and e = None and m = "invalidate_mutator ids" and p = p and disk = disk]
      c invalidate_unchanged [of "[]" ids False "prefs_data w"]
    by (cases w') (auto simp: w l_def invalidate_mutator_def)
  then have q: "queryRevision (prefs_data w') k =
      (if k \<noteq> [] \<and> k \<in> TrimSpace ` set ids then wrap64 (queryRevision (prefs_data w) k + 1)
       else queryRevision (prefs_data w) k)"
    by (simp add: l_def invalidate_loop_revision)
  then show ?thesis using wrap64_Suc by (simp add: canCommitQueryResult_def)
qed

theorem invalidate_counts_once_witness:
  "queryRevision (prefs_data (snd (invalidateQueryResults (\<lambda>_. Written) ['' a'', ''a'', ''b''] ex_world))) ''a'' = 1"
proof -
  let ?r = "invalidateQueryResults (\<lambda>_. Written) ['' a'', ''a'', ''b''] ex_world"
  have "fst ?r = None" by code_simp
  then have "?r = (None, snd ?r)" by (metis prod.collapse)
  from invalidate_counts_once [OF this, of "''a''"]
  have "queryRevision (prefs_data (snd ?r)) ''a'' = wrap64 (queryRevision (prefs_data ex_world) ''a'' + 1)"
  proof -
    have "''a'' \<in> TrimSpace ` set ['' a'', ''a'', ''b'']" by code_simp
    then show ?thesis using invalidate_counts_once [OF \<open>?r = (None, snd ?r)\<close>, of "''a''"] by simp
  qed
  moreover have "wrap64 (queryRevision (prefs_data ex_world) ''a'' + 1) = 1" by code_simp
  ultimately show ?thesis by simp
qed

section \<open>Management PATs\<close>

lemma apply_pat_replace:
  "pat_action m = patActionReplace \<Longrightarrow> enc aid (TrimSpace (pm_PAT m)) = Inr e \<Longrightarrow>
     \<exists>d'. apply_pat enc aid m ch = Inr (True, True, d') \<and> mget (pp_PATs d') aid = Some e
       \<and> \<not> mbool (pp_RelinkRequired d') aid"
  by (cases ch) (simp add: apply_pat_def)

lemma apply_name_pats:
  "pp_PATs (snd (snd (apply_name aid m ch))) = pp_PATs (snd (snd ch))"
  "pp_RelinkRequired (snd (snd (apply_name aid m ch))) = pp_RelinkRequired (snd (snd ch))"
  "fst (snd ch) \<Longrightarrow> fst (snd (apply_name aid m ch))"
  "fst (apply_name aid m ch) = fst ch"
  by (cases ch; cases "pm_CustomName m"; simp add: apply_name_def Let_def)+

lemma replace_mutation:
  assumes "pat_action m = patActionReplace" "enc (pm_ID m) (TrimSpace (pm_PAT m)) = Inr e"
  shows "\<exists>d'. apply_mutation enc now m st = Inr (True, d') \<and> mget (pp_PATs d') (pm_ID m) = Some e
    \<and> \<not> mbool (pp_RelinkRequired d') (pm_ID m)"
proof -
  obtain c1 d1 where k: "and_known True now st (pm_ID m) = (c1, d1)" by fastforce
  let ?ch = "apply_adapter (pm_ID m) m (apply_monitored (pm_ID m) m (False, c1, d1))"
  obtain d2 where p: "apply_pat enc (pm_ID m) m ?ch = Inr (True, True, d2)"
    and e: "mget (pp_PATs d2) (pm_ID m) = Some e" "\<not> mbool (pp_RelinkRequired d2) (pm_ID m)"
    using apply_pat_replace [where ch = ?ch, OF assms(1), where enc = enc, OF assms(2)] by blast
  obtain q c3 d3 where n: "apply_name (pm_ID m) m (True, True, d2) = (q, c3, d3)" by (cases "apply_name (pm_ID m) m (True, True, d2)")
  have "c3" "q" "pp_PATs d3 = pp_PATs d2" "pp_RelinkRequired d3 = pp_RelinkRequired d2"
    using apply_name_pats [where aid = "pm_ID m" and m = m and ch = "(True, True, d2)"] by (simp_all add: n)
  then show ?thesis using e by (simp add: apply_mutation_def k Let_def p n bump_query_def)
qed

text \<open>
  C17: a management PAT that has been stored is the PAT that is read back: after a successful
  \<open>update\<close> with a PAT, under a usable key, \<open>pat\<close> gives the trimmed PAT and the status is ready,
  also where the account had to be linked again before.
\<close>

theorem stored_pat_is_read_back:
  assumes "aead_ok A" "length (mp_key (fst w)) = 32" "mp_keyErr (fst w) = None"
    and "nonces 0 = Some n" "length n = 12" "is_bytes n"
    and "TrimSpace pat \<noteq> []" "TrimSpace k \<noteq> []"
    and "pref_update A nonces now wr k monitored [] pat False False None w = (None, w')"
  shows "pref_pat A (fst w') k = TrimSpace pat \<and> patStatus A (fst w') k = patStatusReady"
proof -
  obtain p disk where w: "w = (p, disk)" by (cases w)
  let ?m = "\<lparr>pm_ID = k, pm_Monitored = monitored, pm_Adapter = [], pm_ClearAdapter = False,
     pm_PATAction = patActionReplace, pm_PAT = pat, pm_CustomName = None\<rparr>"
  let ?enc = "\<lambda>i. encryptPreference A (nonces i) (mp_key (fst w))"
  obtain e where e: "?enc 0 k (TrimSpace pat) = Inr e" "e \<noteq> []"
    and dec: "decryptPreference A (mp_key (fst w)) k e = Inr (TrimSpace pat)"
    using decrypt_encrypt [OF assms(1,2,5,6), of k "TrimSpace pat"] by (auto simp: assms(4))
  have act: "pat_action ?m = patActionReplace" "TrimSpace patActionReplace = patActionReplace"
    unfolding pat_action_def by code_simp+
  obtain d1 where a: "apply_mutation (?enc 0) now ?m (False, prefs_data w) = Inr (True, d1)"
    and d1: "mget (pp_PATs d1) k = Some e" "\<not> mbool (pp_RelinkRequired d1) k"
    using replace_mutation [of ?m "?enc 0" e now "(False, prefs_data w)"] act(1) e(1) by auto
  have "validate_mutations [?m] = None"
    using assms(7,8) act(1) by (simp add: validate_mutation_def Let_def)
  then have b: "batch_mutator ?enc now [?m] None (prefs_data w) = Inr (True, d1)"
    using a by (simp add: batch_mutator_def)
  have "\<exists>r. commitAtRevision wr None (batch_mutator ?enc now [?m] None) w = ((r, None), w')"
    using assms(7,9) by (auto simp: pref_update_def updateBatchAndThresholdsAtRevision_def split: prod.splits)
  then have f: "fst w' = p\<lparr>mp_data := install_prefs d1, mp_loaded := True\<rparr>"
    using b by (auto simp: commitAtRevision_def w commit_changes_cases split: if_splits write_outcome.splits)
  have "mstr (pp_PATs d1) k = e" using d1(1) by (simp add: mgetz_def)
  then show ?thesis
    using assms(2,3) e(2) dec d1(2) by (simp add: pref_pat_def patStatus_def f w)
qed

lemma ex_bytes: "is_bytes (replicate 12 1)" "is_bytes (replicate 12 2)"
  by code_simp+

definition ex_key_world :: prefs_world where
  "ex_key_world = (newMonitorPrefs\<lparr>mp_key := replicate 32 7\<rparr>, None)"

theorem stored_pat_is_read_back_witness:
  "pref_pat ex_aead (fst (snd (pref_update ex_aead (\<lambda>_. Some (replicate 12 1)) 5 (\<lambda>_. Written) ''a'' None [] '' tok '' False False None ex_key_world))) ''a''
     = ''tok''"
proof -
  let ?u = "pref_update ex_aead (\<lambda>_. Some (replicate 12 1)) 5 (\<lambda>_. Written) ''a'' None [] '' tok '' False False None ex_key_world"
  have "fst ?u = None" by code_simp
  then have u: "?u = (None, snd ?u)" by (metis prod.collapse)
  have t: "TrimSpace '' tok '' = ''tok''" "TrimSpace ''a'' = ''a''" by code_simp+
  have "pref_pat ex_aead (fst (snd ?u)) ''a'' = TrimSpace '' tok '' \<and> patStatus ex_aead (fst (snd ?u)) ''a'' = patStatusReady"
    by (rule stored_pat_is_read_back [OF ex_aead_ok _ _ _ _ _ _ _ u, where n = "replicate 12 1"])
       (simp_all add: t ex_key_world_def newMonitorPrefs_def ex_bytes)
  then show ?thesis by (simp add: t)
qed

text \<open>
  C36: moving the preferences of a legacy id to its stable id keeps the PAT: what could be
  read under the old id can be read under the new one, nothing is left under the old one, and
  the monitoring flag, the adapter, the name and the first-seen time move along.
\<close>

theorem migration_keeps_pat:
  assumes "aead_ok A" "length key = 32" "length n = 12" "is_bytes n"
    and "oldID \<noteq> []" "newID \<noteq> []" "oldID \<noteq> newID"
    and "decryptPreference A key oldID (mstr (pp_PATs d) oldID) = Inr v" "mstr (pp_PATs d) oldID \<noteq> []"
  shows "\<exists>d'. migratePreferenceData A (Some n) key oldID newID d = Inr d'
    \<and> decryptPreference A key newID (mstr (pp_PATs d') newID) = Inr v
    \<and> mget (pp_PATs d') oldID = None
    \<and> mget (pp_Monitored d') newID = (case mget (pp_Monitored d) oldID of None \<Rightarrow> mget (pp_Monitored d) newID | Some b \<Rightarrow> Some b)
    \<and> mget (pp_Adapters d') newID = (case mget (pp_Adapters d) oldID of None \<Rightarrow> mget (pp_Adapters d) newID | Some b \<Rightarrow> Some b)
    \<and> mget (pp_Names d') newID = (case mget (pp_Names d) oldID of None \<Rightarrow> mget (pp_Names d) newID | Some b \<Rightarrow> Some b)
    \<and> mget (pp_FirstSeen d') newID = (case mget (pp_FirstSeen d) oldID of None \<Rightarrow> mget (pp_FirstSeen d) newID | Some b \<Rightarrow> Some b)"
proof -
  obtain e where e: "encryptPreference A (Some n) key newID v = Inr e"
    and d: "decryptPreference A key newID e = Inr v"
    using decrypt_encrypt [OF assms(1-4), of newID v] by blast
  have "migratePreferenceData A (Some n) key oldID newID d =
      Inr (move_plain oldID newID (d\<lparr>pp_PATs := mdel oldID (mput newID e (pp_PATs d))\<rparr>))"
    using assms(5-9) e by (simp add: migratePreferenceData_def)
  then show ?thesis
    using assms(7) d by (simp add: move_plain_def move_get not_sym [OF assms(7)] split: option.split)
qed

definition ex_legacy :: persistedMonitorPrefs where
  "ex_legacy = newPersistedMonitorPrefs\<lparr>
     pp_PATs := [(''old'', b64_encode b64_std (replicate 12 1 @ bytes_of ''tok''))]\<rparr>"

theorem migration_keeps_pat_witness:
  "\<exists>d'. migratePreferenceData ex_aead (Some (replicate 12 2)) (replicate 32 7) ''old'' ''new'' ex_legacy = Inr d'
     \<and> decryptPreference ex_aead (replicate 32 7) ''new'' (mstr (pp_PATs d') ''new'') = Inr ''tok''"
proof -
  have "decryptPreference ex_aead (replicate 32 7) ''old'' (mstr (pp_PATs ex_legacy) ''old'') = Inr ''tok''"
    "mstr (pp_PATs ex_legacy) ''old'' \<noteq> []"
    by code_simp+
  from migration_keeps_pat [OF ex_aead_ok _ _ _ _ _ _ this, of "replicate 12 2" "''new''"]
  show ?thesis by (auto simp: ex_bytes)
qed

end
