(* ===== verification/Go_Url.thy ===== *)
theory Go_Url
  imports Go_Prelude
begin

text \<open>
  The parts of packages strings, net/netip and net/url (Go 1.26) that the adapters and the
  proxy code use to take upstream addresses apart and to put endpoints together:
  \<open>netip.ParseAddr\<close>, \<open>url.Parse\<close>, \<open>URL.String\<close>, \<open>Values.Encode\<close> and their helpers, on byte
  strings.  A parse error is \<open>None\<close>: no caller looks into it.
\<close>

section \<open>Strings\<close>

definition HasSuffix :: "string \<Rightarrow> string \<Rightarrow> bool" where
  "HasSuffix s p = HasPrefix (rev s) (rev p)"

fun Contains :: "string \<Rightarrow> string \<Rightarrow> bool" where
  "Contains [] p = (p = [])"
| "Contains (c # s) p = (HasPrefix (c # s) p \<or> Contains s p)"

text \<open>\<open>strings.Cut\<close> at one byte, and at the last occurrence of a byte.\<close>

definition Cut :: "char \<Rightarrow> string \<Rightarrow> string \<times> string" where
  "Cut c s = (takeWhile (\<lambda>d. d \<noteq> c) s, drop 1 (dropWhile (\<lambda>d. d \<noteq> c) s))"

definition CutLast :: "char \<Rightarrow> string \<Rightarrow> (string \<times> string) option" where
  "CutLast c s =
     (if c \<in> set s
      then Some (let (b, a) = Cut c (rev s) in (rev a, rev b))
      else None)"

fun Split :: "char \<Rightarrow> string \<Rightarrow> string list" where
  "Split c [] = [[]]"
| "Split c (d # s) =
     (if d = c then [] # Split c s
      else (case Split c s of [] \<Rightarrow> [[d]] | w # ws \<Rightarrow> (d # w) # ws))"

fun Join :: "string \<Rightarrow> string list \<Rightarrow> string" where
  "Join sep [] = []"
| "Join sep [w] = w"
| "Join sep (w # ws) = w @ sep @ Join sep ws"

lemma Split_not_Nil [simp]: "Split c s \<noteq> []"
  by (induction s) (auto split: list.splits)

lemma Split_no_sep: "w \<in> set (Split c s) \<Longrightarrow> c \<notin> set w"
proof (induction s arbitrary: w)
  case (Cons d s)
  then show ?case by (cases "Split c s") (auto split: if_splits)
qed simp

lemma Split_word: "c \<notin> set w \<Longrightarrow> Split c w = [w]"
  by (induction w) auto

lemma Split_append_sep: "c \<notin> set w \<Longrightarrow> Split c (w @ c # s) = w # Split c s"
  by (induction w) auto

lemma Split_Join:
  "ws \<noteq> [] \<Longrightarrow> \<forall>w \<in> set ws. c \<notin> set w \<Longrightarrow> Split c (Join [c] ws) = ws"
  by (induction "[c]" ws rule: Join.induct) (auto simp: Split_word Split_append_sep)

lemma Cut_fst_free: "Cut c s = (b, a) \<Longrightarrow> c \<notin> set b"
  by (auto simp: Cut_def dest: set_takeWhileD)

lemma HasSuffix_iff: "HasSuffix s p \<longleftrightarrow> (\<exists>t. s = t @ p)"
  unfolding HasSuffix_def HasPrefix_iff by (metis rev_append rev_rev_ident)

lemma Contains_iff: "Contains s p \<longleftrightarrow> (\<exists>a b. s = a @ p @ b)"
proof (induction s)
  case (Cons c s)
  have "(\<exists>a b. c # s = a @ p @ b) \<longleftrightarrow> HasPrefix (c # s) p \<or> (\<exists>a b. s = a @ p @ b)"
    unfolding HasPrefix_iff by (metis append_Cons append_Nil list.sel(3) neq_Nil_conv)
  with Cons show ?case by simp
qed auto

section \<open>Characters\<close>

definition is_digit :: "char \<Rightarrow> bool" where
  "is_digit c = (CHR ''0'' \<le> c \<and> c \<le> CHR ''9'')"

definition is_alpha :: "char \<Rightarrow> bool" where
  "is_alpha c = (let l = lower_char c in CHR ''a'' \<le> l \<and> l \<le> CHR ''z'')"

definition digit_val :: "char \<Rightarrow> int" where
  "digit_val c = of_char c - 48"

definition hex_val :: "char \<Rightarrow> int option" where
  "hex_val c =
     (if is_digit c then Some (digit_val c)
      else if CHR ''a'' \<le> c \<and> c \<le> CHR ''f'' then Some (of_char c - 87)
      else if CHR ''A'' \<le> c \<and> c \<le> CHR ''F'' then Some (of_char c - 55)
      else None)"

definition hex_upper :: "int \<Rightarrow> char" where
  "hex_upper d = (if d < 10 then char_of (48 + d) else char_of (55 + d))"

definition ascii :: "char \<Rightarrow> bool" where
  "ascii c = (c < CHR 0x80)"

section \<open>Addresses\<close>

text \<open>
  \<open>netip.ParseAddr\<close>.  An address is its family, its bytes and its zone.  The fields of an IPv4
  address are decimal numbers up to 255 without a leading zero.
\<close>

datatype netaddr = V4 "int list" | V6 "int list" string

definition dec_field :: "string \<Rightarrow> int option" where
  "dec_field w =
     (if w = [] \<or> \<not> list_all is_digit w \<or> (1 < length w \<and> hd w = CHR ''0'') \<or> 3 < length w
      then None
      else let n = foldl (\<lambda>n c. 10 * n + digit_val c) 0 w in if n \<le> 255 then Some n else None)"

definition parse_ipv4_fields :: "string \<Rightarrow> int list option" where
  "parse_ipv4_fields s =
     (case map dec_field (Split CHR ''.'' s) of
        [Some a, Some b, Some c, Some d] \<Rightarrow> Some [a, b, c, d]
      | _ \<Rightarrow> None)"

text \<open>
  The groups of an IPv6 address, from the left: \<open>n\<close> bytes are read, \<open>acc\<close> holds them,
  \<open>ell\<close> is where the double colon stood.
\<close>

fun ipv6_groups :: "nat \<Rightarrow> string \<Rightarrow> int list \<Rightarrow> nat option \<Rightarrow> (int list \<times> nat option) option" where
  "ipv6_groups 0 s acc ell = (if s = [] then Some (acc, ell) else None)"
| "ipv6_groups (Suc k) s acc ell =
     (let g = takeWhile (\<lambda>c. hex_val c \<noteq> None) s; r = drop (length g) s in
      if g = [] \<or> 4 < length g then None
      else (case r of
          CHR ''.'' # _ \<Rightarrow>
            if ell = None \<and> length acc \<noteq> 12 \<or> 12 < length acc then None
            else (case parse_ipv4_fields s of Some f \<Rightarrow> Some (acc @ f, ell) | None \<Rightarrow> None)
        | _ \<Rightarrow>
            (let v = foldl (\<lambda>n c. 16 * n + the (hex_val c)) 0 g; acc' = acc @ [v div 256, v mod 256] in
             case r of
               [] \<Rightarrow> Some (acc', ell)
             | c # r' \<Rightarrow>
                 if c \<noteq> CHR '':'' \<or> r' = [] then None
                 else if hd r' = CHR '':'' then
                   if ell \<noteq> None then None
                   else if tl r' = [] then Some (acc', Some (length acc'))
                   else ipv6_groups k (tl r') acc' (Some (length acc'))
                 else ipv6_groups k r' acc' ell)))"

definition ipv6_expand :: "int list \<Rightarrow> nat option \<Rightarrow> int list option" where
  "ipv6_expand acc ell =
     (case ell of
        None \<Rightarrow> if length acc = 16 then Some acc else None
      | Some e \<Rightarrow>
          if length acc < 16 then Some (take e acc @ replicate (16 - length acc) 0 @ drop e acc)
          else None)"

definition parse_ipv6 :: "string \<Rightarrow> netaddr option" where
  "parse_ipv6 s0 =
     (let (s, zone) = Cut CHR ''%'' s0 in
      if CHR ''%'' \<in> set s0 \<and> zone = [] then None
      else if s = ''::'' then Some (V6 (replicate 16 0) zone)
      else
        let (body, ell) = (if HasPrefix s ''::'' then (drop 2 s, Some 0) else (s, None)) in
        (case ipv6_groups 8 body [] ell of
           None \<Rightarrow> None
         | Some (acc, e) \<Rightarrow> (case ipv6_expand acc e of None \<Rightarrow> None | Some b \<Rightarrow> Some (V6 b zone))))"

definition ParseAddr :: "string \<Rightarrow> netaddr option" where
  "ParseAddr s =
     (case dropWhile (\<lambda>c. c \<notin> {CHR ''.'', CHR '':'', CHR ''%''}) s of
        CHR ''.'' # _ \<Rightarrow> (case parse_ipv4_fields s of Some f \<Rightarrow> Some (V4 f) | None \<Rightarrow> None)
      | CHR '':'' # _ \<Rightarrow> parse_ipv6 s
      | _ \<Rightarrow> None)"

section \<open>Escaping\<close>

datatype url_mode = EncPath | EncPathSegment | EncHost | EncZone | EncUser | EncQuery | EncFragment

definition shouldEscape :: "char \<Rightarrow> url_mode \<Rightarrow> bool" where
  "shouldEscape c mode =
     (if is_alpha c \<or> is_digit c then False
      else if mode \<in> {EncHost, EncZone} \<and> c \<in> set ''!$&()*+,;=:[]<>'' \<union> {CHR 0x27, CHR 0x22} then False
      else if c \<in> set ''-_.~'' then False
      else if c \<in> set ''$&+,/:;=?@'' then
        (case mode of
           EncPath \<Rightarrow> c = CHR ''?''
         | EncPathSegment \<Rightarrow> c \<in> set ''/;,?''
         | EncUser \<Rightarrow> c \<in> set ''@/?:''
         | EncQuery \<Rightarrow> True
         | EncFragment \<Rightarrow> False
         | _ \<Rightarrow> True)
      else if mode = EncFragment \<and> c \<in> set ''!()*'' then False
      else True)"

fun escape :: "string \<Rightarrow> url_mode \<Rightarrow> string" where
  "escape [] mode = []"
| "escape (c # s) mode =
     (if shouldEscape c mode
      then (if c = CHR '' '' \<and> mode = EncQuery then [CHR ''+'']
            else [CHR ''%'', hex_upper (of_char c div 16), hex_upper (of_char c mod 16)])
      else [c]) @ escape s mode"

fun unescape :: "string \<Rightarrow> url_mode \<Rightarrow> string option" where
  "unescape [] mode = Some []"
| "unescape (c # s) mode =
     (if c = CHR ''%'' then
        (case s of
           a # b # r \<Rightarrow>
             (case (hex_val a, hex_val b) of
                (Some h, Some l) \<Rightarrow>
                  if mode = EncHost \<and> h < 8 \<and> [a, b] \<noteq> ''25'' then None
                  else if mode = EncZone \<and> [a, b] \<noteq> ''25'' \<and> 16 * h + l \<noteq> 32
                     \<and> shouldEscape (char_of (16 * h + l)) EncHost then None
                  else map_option (\<lambda>t. char_of (16 * h + l) # t) (unescape r mode)
              | _ \<Rightarrow> None)
         | _ \<Rightarrow> None)
      else if mode \<in> {EncHost, EncZone} \<and> ascii c \<and> shouldEscape c mode then None
      else map_option (\<lambda>t. (if c = CHR ''+'' \<and> mode = EncQuery then CHR '' '' else c) # t)
             (unescape s mode))"

definition PathUnescape :: "string \<Rightarrow> string option" where
  "PathUnescape s = unescape s EncPathSegment"

definition PathEscape :: "string \<Rightarrow> string" where
  "PathEscape s = escape s EncPathSegment"

definition QueryEscape :: "string \<Rightarrow> string" where
  "QueryEscape s = escape s EncQuery"

section \<open>URLs\<close>

record URL =
  u_Scheme :: string
  u_Opaque :: string
  u_User :: "(string \<times> string option) option"
  u_Host :: string
  u_Path :: string
  u_RawPath :: string
  u_OmitHost :: bool
  u_ForceQuery :: bool
  u_RawQuery :: string
  u_Fragment :: string
  u_RawFragment :: string

definition zero_url :: URL where
  "zero_url = \<lparr>u_Scheme = [], u_Opaque = [], u_User = None, u_Host = [], u_Path = [],
     u_RawPath = [], u_OmitHost = False, u_ForceQuery = False, u_RawQuery = [], u_Fragment = [],
     u_RawFragment = []\<rparr>"

text \<open>\<open>getScheme\<close>: the text before the first colon, if it looks like a scheme.\<close>

definition scheme_char :: "char \<Rightarrow> bool" where
  "scheme_char c = (is_alpha c \<or> is_digit c \<or> c \<in> set ''+-.'')"

definition getScheme :: "string \<Rightarrow> (string \<times> string) option" where
  "getScheme raw =
     (let p = takeWhile scheme_char raw in
      case drop (length p) raw of
        CHR '':'' # r \<Rightarrow>
          if p = [] then None else if is_alpha (hd p) then Some (p, r) else Some ([], raw)
      | _ \<Rightarrow> Some ([], raw))"

definition validOptionalPort :: "string \<Rightarrow> bool" where
  "validOptionalPort p = (p = [] \<or> hd p = CHR '':'' \<and> list_all is_digit (tl p))"

fun zone_split :: "string \<Rightarrow> (string \<times> string) option" where
  "zone_split [] = None"
| "zone_split (c # s) =
     (if HasPrefix (c # s) ''%25'' then Some ([], c # s)
      else map_option (\<lambda>(a, b). (c # a, b)) (zone_split s))"

definition unescape_literal :: "string \<Rightarrow> string option" where
  "unescape_literal h =
     (case zone_split h of
        None \<Rightarrow> unescape h EncHost
      | Some (a, z) \<Rightarrow>
          (case (unescape a EncHost, unescape z EncZone) of
             (Some a', Some z') \<Rightarrow> Some (a' @ z')
           | _ \<Rightarrow> None))"

definition parseHost :: "string \<Rightarrow> string option" where
  "parseHost host =
     (if CHR ''['' \<in> set (tl host) then None
      else if host \<noteq> [] \<and> hd host = CHR ''['' then
        (case CutLast CHR '']'' host of
           None \<Rightarrow> None
         | Some (a, port) \<Rightarrow>
             if \<not> validOptionalPort port then None
             else (case unescape_literal (tl a) of
                 None \<Rightarrow> None
               | Some h \<Rightarrow>
                   (case ParseAddr h of
                      Some (V6 b z) \<Rightarrow> Some (CHR ''['' # h @ [CHR '']''] @ port)
                    | _ \<Rightarrow> None)))
      else if \<not> validOptionalPort (dropWhile (\<lambda>c. c \<noteq> CHR '':'') host) then None
      else unescape host EncHost)"

definition userinfo_char :: "char \<Rightarrow> bool" where
  "userinfo_char c = (is_alpha c \<or> is_digit c \<or> c \<in> set ''-._:~!$&()*+,;=%@'' \<union> {CHR 0x27})"

definition parseUser :: "string \<Rightarrow> (string \<times> string option) option" where
  "parseUser s =
     (if \<not> list_all userinfo_char s then None
      else if CHR '':'' \<notin> set s then map_option (\<lambda>u. (u, None)) (unescape s EncUser)
      else let (u, p) = Cut CHR '':'' s in
        (case (unescape u EncUser, unescape p EncUser) of
           (Some u', Some p') \<Rightarrow> Some (u', Some p')
         | _ \<Rightarrow> None))"

definition parseAuthority ::
    "string \<Rightarrow> ((string \<times> string option) option \<times> string) option" where
  "parseAuthority auth =
     (case CutLast CHR ''@'' auth of
        None \<Rightarrow> map_option (\<lambda>h. (None, h)) (parseHost auth)
      | Some (ui, h) \<Rightarrow>
          (case (parseHost h, parseUser ui) of
             (Some h', Some u) \<Rightarrow> Some (Some u, h')
           | _ \<Rightarrow> None))"

definition setPath :: "string \<Rightarrow> URL \<Rightarrow> URL option" where
  "setPath p u =
     (case unescape p EncPath of
        None \<Rightarrow> None
      | Some path \<Rightarrow>
          Some (u\<lparr>u_Path := path, u_RawPath := (if p = escape path EncPath then [] else p)\<rparr>))"

definition parse_rest :: "string \<Rightarrow> URL \<Rightarrow> URL option" where
  "parse_rest rest u =
     (if (u_Scheme u \<noteq> [] \<or> \<not> HasPrefix rest ''///'') \<and> HasPrefix rest ''//'' then
        let body = drop 2 rest;
            auth = takeWhile (\<lambda>c. c \<noteq> CHR ''/'') body;
            path = dropWhile (\<lambda>c. c \<noteq> CHR ''/'') body in
        (case parseAuthority auth of
           None \<Rightarrow> None
         | Some (usr, host) \<Rightarrow> setPath path (u\<lparr>u_User := usr, u_Host := host\<rparr>))
      else setPath rest (u\<lparr>u_OmitHost := (u_Scheme u \<noteq> [] \<and> HasPrefix rest ''/'')\<rparr>))"

definition control_byte :: "char \<Rightarrow> bool" where
  "control_byte c = (c < CHR '' '' \<or> c = CHR 0x7F)"

definition parse_main :: "string \<Rightarrow> URL option" where
  "parse_main raw =
     (if list_ex control_byte raw then None
      else if raw = ''*'' then Some (zero_url\<lparr>u_Path := ''*''\<rparr>)
      else (case getScheme raw of
          None \<Rightarrow> None
        | Some (scheme, rest0) \<Rightarrow>
            let u = zero_url\<lparr>u_Scheme := ToLower scheme\<rparr>;
                force = (rest0 \<noteq> [] \<and> last rest0 = CHR ''?'' \<and> length (filter (\<lambda>c. c = CHR ''?'') rest0) = 1);
                (rest, query) = (if force then (butlast rest0, []) else Cut CHR ''?'' rest0);
                u = u\<lparr>u_ForceQuery := force, u_RawQuery := query\<rparr> in
            if \<not> HasPrefix rest ''/'' \<and> u_Scheme u \<noteq> [] then Some (u\<lparr>u_Opaque := rest\<rparr>)
            else if \<not> HasPrefix rest ''/'' \<and> CHR '':'' \<in> set (fst (Cut CHR ''/'' rest)) then None
            else parse_rest rest u))"

text \<open>\<open>url.Parse\<close>.\<close>

definition url_Parse :: "string \<Rightarrow> URL option" where
  "url_Parse raw =
     (let (s, frag) = Cut CHR ''#'' raw in
      case parse_main s of
        None \<Rightarrow> None
      | Some u \<Rightarrow>
          if frag = [] then Some u
          else (case unescape frag EncFragment of
              None \<Rightarrow> None
            | Some f \<Rightarrow>
                Some (u\<lparr>u_Fragment := f,
                  u_RawFragment := (if frag = escape f EncFragment then [] else frag)\<rparr>)))"

text \<open>\<open>URL.Hostname\<close>, \<open>URL.EscapedPath\<close>, \<open>URL.String\<close>.\<close>

definition Hostname :: "URL \<Rightarrow> string" where
  "Hostname u =
     (let h = (case CutLast CHR '':'' (u_Host u) of
          Some (a, p) \<Rightarrow> if list_all is_digit p then a else u_Host u
        | None \<Rightarrow> u_Host u) in
      if HasPrefix h ''['' \<and> HasSuffix h '']'' then butlast (tl h) else h)"

text \<open>\<open>validEncoded\<close>, for paths and fragments.\<close>

definition validEncoded :: "url_mode \<Rightarrow> string \<Rightarrow> bool" where
  "validEncoded mode s =
     list_all (\<lambda>c. c \<in> set ''!$&()*+,;=:@[]%'' \<union> {CHR 0x27} \<or> \<not> shouldEscape c mode) s"

definition EscapedPath :: "URL \<Rightarrow> string" where
  "EscapedPath u =
     (if u_RawPath u \<noteq> [] \<and> validEncoded EncPath (u_RawPath u)
         \<and> unescape (u_RawPath u) EncPath = Some (u_Path u) then u_RawPath u
      else if u_Path u = ''*'' then ''*''
      else escape (u_Path u) EncPath)"

definition EscapedFragment :: "URL \<Rightarrow> string" where
  "EscapedFragment u =
     (if u_RawFragment u \<noteq> [] \<and> validEncoded EncFragment (u_RawFragment u)
         \<and> unescape (u_RawFragment u) EncFragment = Some (u_Fragment u) then u_RawFragment u
      else escape (u_Fragment u) EncFragment)"

definition user_string :: "string \<times> string option \<Rightarrow> string" where
  "user_string up =
     (escape (fst up) EncUser @ (case snd up of None \<Rightarrow> [] | Some p \<Rightarrow> CHR '':'' # escape p EncUser))"

definition url_authority :: "URL \<Rightarrow> string" where
  "url_authority u =
     (if u_Scheme u = [] \<and> u_Host u = [] \<and> u_User u = None then []
      else if u_OmitHost u \<and> u_Host u = [] \<and> u_User u = None then []
      else (if u_Host u \<noteq> [] \<or> u_Path u \<noteq> [] \<or> u_User u \<noteq> None then ''//'' else [])
        @ (case u_User u of Some up \<Rightarrow> user_string up @ ''@'' | None \<Rightarrow> [])
        @ escape (u_Host u) EncHost)"

definition url_body :: "URL \<Rightarrow> string" where
  "url_body u =
     (if u_Opaque u \<noteq> [] then u_Opaque u
      else let auth = url_authority u; path = EscapedPath u in
        auth
        @ (if path \<noteq> [] \<and> hd path \<noteq> CHR ''/'' \<and> u_Host u \<noteq> [] then ''/'' else [])
        @ (if u_Scheme u = [] \<and> auth = [] \<and> CHR '':'' \<in> set (fst (Cut CHR ''/'' path)) then ''./'' else [])
        @ path)"

definition url_String :: "URL \<Rightarrow> string" where
  "url_String u =
     (if u_Scheme u \<noteq> [] then u_Scheme u @ '':'' else [])
     @ url_body u
     @ (if u_ForceQuery u \<or> u_RawQuery u \<noteq> [] then ''?'' @ u_RawQuery u else [])
     @ (if u_Fragment u \<noteq> [] then ''#'' @ EscapedFragment u else [])"

section \<open>Query strings\<close>

type_synonym url_values = "(string, string list) gomap"

definition query_pair :: "string \<Rightarrow> (string \<times> string) option" where
  "query_pair s =
     (if CHR '';'' \<in> set s \<or> s = [] then None
      else let (k, v) = Cut CHR ''='' s in
        (case (unescape k EncQuery, unescape v EncQuery) of
           (Some k', Some v') \<Rightarrow> Some (k', v')
         | _ \<Rightarrow> None))"

definition ParseQuery :: "string \<Rightarrow> url_values" where
  "ParseQuery q =
     foldl (\<lambda>m s. case query_pair s of None \<Rightarrow> m | Some (k, v) \<Rightarrow> mput k (mgetz [] m k @ [v]) m)
       [] (Split CHR ''&'' q)"

definition Values_Encode :: "url_values \<Rightarrow> string" where
  "Values_Encode m =
     Join ''&'' (concat (map (\<lambda>k. map (\<lambda>v. QueryEscape k @ ''='' @ QueryEscape v) (mgetz [] m k))
       (sort_by (<) (mkeys m))))"

end
