(* ===== verification/Go_Time.thy ===== *)
theory Go_Time
  imports Go_Url Go_Float
begin

text \<open>
  \<open>time.Parse(time.RFC3339, s)\<close>: the civil calendar, and the parser with what it accepts beyond
  the layout (an hour of one digit, a fraction after the seconds, an offset of up to 24:60).
  The result is in nanoseconds since the epoch.
\<close>

section \<open>Calendar\<close>

definition leap :: "int \<Rightarrow> bool" where
  "leap y = (y mod 4 = 0 \<and> (y mod 100 \<noteq> 0 \<or> y mod 400 = 0))"

definition daysIn :: "int \<Rightarrow> int \<Rightarrow> int" where
  "daysIn m y =
     (if m = 2 then (if leap y then 29 else 28) else if m \<in> {4, 6, 9, 11} then 30 else 31)"

text \<open>Days from 1970-01-01 to the given day: the years are counted from March.\<close>

definition days_from_civil :: "int \<Rightarrow> int \<Rightarrow> int \<Rightarrow> int" where
  "days_from_civil y m d =
     (let y' = (if m \<le> 2 then y - 1 else y); era = y' div 400; yoe = y' mod 400;
          doy = (153 * (if 2 < m then m - 3 else m + 9) + 2) div 5 + d - 1 in
      era * 146097 + (yoe * 365 + yoe div 4 - yoe div 100 + doy) - 719468)"

definition civil_seconds :: "int \<Rightarrow> int \<Rightarrow> int \<Rightarrow> int \<Rightarrow> int \<Rightarrow> int \<Rightarrow> int" where
  "civil_seconds y mo d h mi s = ((days_from_civil y mo d * 24 + h) * 60 + mi) * 60 + s"

section \<open>The parser\<close>

text \<open>Exactly \<open>n\<close> digits, and \<open>getnum\<close> of package time.\<close>

definition take_digits :: "nat \<Rightarrow> string \<Rightarrow> (int \<times> string) option" where
  "take_digits n s =
     (let w = take n s in
      if length w = n \<and> list_all is_digit w
      then Some (foldl (\<lambda>v c. 10 * v + digit_val c) 0 w, drop n s) else None)"

definition getnum :: "bool \<Rightarrow> string \<Rightarrow> (int \<times> string) option" where
  "getnum fixed s =
     (case take_digits 2 s of
        Some r \<Rightarrow> Some r
      | None \<Rightarrow> if fixed then None else take_digits 1 s)"

definition expect :: "char \<Rightarrow> string \<Rightarrow> string option" where
  "expect c s = (case s of d # r \<Rightarrow> if d = c then Some r else None | [] \<Rightarrow> None)"

text \<open>A fraction: a point or a comma and digits; the first nine count.\<close>

definition take_fraction :: "string \<Rightarrow> int \<times> string" where
  "take_fraction s =
     (case s of
        c # d # r \<Rightarrow>
          if c \<in> set ''.,'' \<and> is_digit d then
            let w = takeWhile is_digit (d # r); w9 = take 9 w in
            (foldl (\<lambda>v c. 10 * v + digit_val c) 0 (w9 @ replicate (9 - length w9) CHR ''0''),
             drop (length w) (d # r))
          else (0, s)
      | _ \<Rightarrow> (0, s))"

text \<open>The offset in seconds; nothing may follow.\<close>

definition take_zone :: "string \<Rightarrow> int option" where
  "take_zone s =
     (if s = ''Z'' then Some 0
      else (case s of
          sign # r \<Rightarrow>
            (case take_digits 2 r of
               Some (hr, r1) \<Rightarrow>
                 (case expect CHR '':'' r1 of
                    Some r2 \<Rightarrow>
                      (case take_digits 2 r2 of
                         Some (mm, []) \<Rightarrow>
                           if 24 < hr \<or> 60 < mm then None
                           else if sign = CHR ''+'' then Some ((hr * 60 + mm) * 60)
                           else if sign = CHR ''-'' then Some (- ((hr * 60 + mm) * 60))
                           else None
                       | _ \<Rightarrow> None)
                  | None \<Rightarrow> None)
             | None \<Rightarrow> None)
        | [] \<Rightarrow> None))"

definition take_date :: "string \<Rightarrow> (int \<times> int \<times> int \<times> string) option" where
  "take_date s =
     (case take_digits 4 s of None \<Rightarrow> None | Some (y, s) \<Rightarrow>
     (case expect CHR ''-'' s of None \<Rightarrow> None | Some s \<Rightarrow>
     (case take_digits 2 s of None \<Rightarrow> None | Some (m, s) \<Rightarrow>
     (case expect CHR ''-'' s of None \<Rightarrow> None | Some s \<Rightarrow>
     (case take_digits 2 s of None \<Rightarrow> None | Some (d, s) \<Rightarrow>
       if 1 \<le> m \<and> m \<le> 12 \<and> 1 \<le> d \<and> d \<le> daysIn m y then Some (y, m, d, s) else None)))))"

definition take_clock :: "string \<Rightarrow> (int \<times> int \<times> int \<times> string) option" where
  "take_clock s =
     (case getnum False s of None \<Rightarrow> None | Some (h, s) \<Rightarrow>
     (case expect CHR '':'' s of None \<Rightarrow> None | Some s \<Rightarrow>
     (case getnum True s of None \<Rightarrow> None | Some (mi, s) \<Rightarrow>
     (case expect CHR '':'' s of None \<Rightarrow> None | Some s \<Rightarrow>
     (case getnum True s of None \<Rightarrow> None | Some (sec, s) \<Rightarrow>
       if h < 24 \<and> mi < 60 \<and> sec < 60 then Some (h, mi, sec, s) else None)))))"

definition ParseRFC3339 :: "string \<Rightarrow> gotime option" where
  "ParseRFC3339 s =
     (case take_date s of None \<Rightarrow> None | Some (y, mo, d, s) \<Rightarrow>
     (case expect CHR ''T'' s of None \<Rightarrow> None | Some s \<Rightarrow>
     (case take_clock s of None \<Rightarrow> None | Some (h, mi, sec, s) \<Rightarrow>
     (let (ns, s) = take_fraction s in
     (case take_zone s of None \<Rightarrow> None | Some off \<Rightarrow>
       Some ((civil_seconds y mo d h mi sec - off) * 1000000000 + ns))))))"

text \<open>
  Truncation of a float to an integer of 64 bits: out of range, and for NaN, the machine
  (amd64) gives the smallest integer.
\<close>

definition trunc_rat :: "rat \<Rightarrow> int" where
  "trunc_rat r = (if r < 0 then - \<lfloor>- r\<rfloor> else \<lfloor>r\<rfloor>)"

definition int64_of_rat :: "rat \<Rightarrow> int" where
  "int64_of_rat r =
     (let n = trunc_rat r in if - (2 ^ 63) \<le> n \<and> n < 2 ^ 63 then n else - (2 ^ 63))"

text \<open>The instants that can be written as JSON: years 0 to 9999.\<close>

definition year_begin :: "int \<Rightarrow> gotime" where
  "year_begin y = civil_seconds y 1 1 0 0 0 * 1000000000"

definition marshalable_time :: "gotime \<Rightarrow> bool" where
  "marshalable_time t = (year_begin 0 \<le> t \<and> t < year_begin 10000)"

section \<open>Formatting\<close>

definition civil_from_days :: "int \<Rightarrow> int \<times> int \<times> int" where
  "civil_from_days n =
     (let z = n + 719468; era = z div 146097; doe = z mod 146097;
          yoe = (doe - doe div 1460 + doe div 36524 - doe div 146096) div 365;
          doy = doe - (365 * yoe + yoe div 4 - yoe div 100);
          mp = (5 * doy + 2) div 153;
          d = doy - (153 * mp + 2) div 5 + 1;
          m = (if mp < 10 then mp + 3 else mp - 9) in
      (yoe + era * 400 + (if m \<le> 2 then 1 else 0), m, d))"

definition padded :: "nat \<Rightarrow> int \<Rightarrow> string" where
  "padded n i = (if i < 0 then CHR ''-'' # pad_left n (int_str (- i)) else pad_left n (int_str i))"

text \<open>\<open>t.UTC().Format(time.RFC3339)\<close>, and with the fraction of \<open>RFC3339Nano\<close>.\<close>

definition format_seconds :: "int \<Rightarrow> string" where
  "format_seconds sec =
     (let (y, m, d) = civil_from_days (sec div 86400); r = sec mod 86400 in
      padded 4 y @ ''-'' @ padded 2 m @ ''-'' @ padded 2 d @ ''T'' @ padded 2 (r div 3600)
      @ '':'' @ padded 2 (r mod 3600 div 60) @ '':'' @ padded 2 (r mod 60))"

definition FormatRFC3339 :: "gotime \<Rightarrow> string" where
  "FormatRFC3339 t = format_seconds (t div 1000000000) @ ''Z''"

definition FormatRFC3339Nano :: "gotime \<Rightarrow> string" where
  "FormatRFC3339Nano t =
     (let ns = t mod 1000000000 in
      format_seconds (t div 1000000000)
      @ (if ns = 0 then [] else CHR ''.'' # TrimRightSet ''0'' (padded 9 ns)) @ ''Z'')"

end
