(* ===== verification/Adapter_Common.thy ===== *)
theory Adapter_Common
  imports Go_Time Snapshot_Model
begin

text \<open>
  What all adapters of adapters.go share: upstream responses, instants in upstream data
  (\<open>timeValue\<close>), the three builders of quota windows, and the snapshots with which an adapter
  starts.  A Go error is its text.  A response body is its length with what
  \<open>encoding/json\<close> makes of it: a value, or the text of the decoder's error.
\<close>

section \<open>Responses\<close>

record body =
  b_Len :: int
  b_Json :: "string + json"

record hostHTTPResponse =
  hr_StatusCode :: int
  hr_Body :: body

definition nil_body :: body where
  "nil_body = \<lparr>b_Len = 0, b_Json = Inl ''unexpected end of JSON input''\<rparr>"

definition json_kind :: "json \<Rightarrow> string" where
  "json_kind v =
     (case v of JArr _ \<Rightarrow> ''array'' | JStr _ \<Rightarrow> ''string'' | JNum _ \<Rightarrow> ''number'' | _ \<Rightarrow> ''bool'')"

text \<open>\<open>decodeObject\<close> with the text of its error.\<close>

definition decode_object :: "body \<Rightarrow> string + jobj" where
  "decode_object b =
     (case b_Json b of
        Inl e \<Rightarrow> Inl e
      | Inr v \<Rightarrow>
          (case decodeObject (Some v) of
             Some m \<Rightarrow> Inr m
           | None \<Rightarrow> Inl (''json: cannot unmarshal '' @ json_kind v
               @ '' into Go value of type map[string]interface {}'')))"

lemma decode_object_ok: "decode_object b = Inr m \<longleftrightarrow>
    (\<exists>v. b_Json b = Inr v \<and> decodeObject (Some v) = Some m)"
  by (auto simp: decode_object_def split: sum.splits option.splits)

definition ok_status :: "int \<Rightarrow> bool" where
  "ok_status code = (200 \<le> code \<and> code < 300)"

section \<open>Instants\<close>

definition int64_of_f64 :: "f64 \<Rightarrow> int" where
  "int64_of_f64 x = (case x of Fin s m \<Rightarrow> int64_of_rat (if s then - m else m) | _ \<Rightarrow> - (2 ^ 63))"

text \<open>A number is seconds below 2e10 and milliseconds from there on.\<close>

definition time_of_number :: "f64 \<Rightarrow> gotime option" where
  "time_of_number number =
     (if number \<le> 0 then None
      else let ms = (if number < fnum 20000000000 then number * fnum 1000 else number) in
        Some (int64_of_f64 ms * 1000000))"

definition timeValue :: "jobj option \<Rightarrow> string list \<Rightarrow> gotime option" where
  "timeValue object keys =
     (let raw = stringValue object keys in
      if raw = [] then None
      else (case numericValue raw of
          Some number \<Rightarrow> time_of_number number
        | None \<Rightarrow> ParseRFC3339 raw))"

fun firstTimeValue :: "jobj option list \<Rightarrow> string list \<Rightarrow> gotime option" where
  "firstTimeValue [] keys = None"
| "firstTimeValue (object # objects) keys =
     (case timeValue object keys of Some v \<Rightarrow> Some v | None \<Rightarrow> firstTimeValue objects keys)"

section \<open>Quota windows\<close>

definition zero_window :: quotaWindow where
  "zero_window = \<lparr>qw_Name = [], qw_Source = [], qw_RemainingFraction = None, qw_UsedFraction = None,
     qw_RemainingAmount = [], qw_TotalAmount = [], qw_UsedAmount = [], qw_ExcessAmount = [],
     qw_Unit = [], qw_ResetAt = None, qw_ExpiresAt = None\<rparr>"

definition zero_quantity :: quotaQuantity where
  "zero_quantity = \<lparr>qq_Name = [], qq_Scope = [], qq_Source = [], qq_Display = [],
     qq_Unlimited = False, qq_Remaining = [], qq_Total = [], qq_Used = [], qq_Unit = [],
     qq_ResetAt = None, qq_ExpiresAt = None\<rparr>"

text \<open>The window of an account that went over its limit.\<close>

definition overdrawn_window :: "string \<Rightarrow> string \<Rightarrow> string \<Rightarrow> f64 \<Rightarrow> f64 \<Rightarrow> f64 \<Rightarrow> quotaWindow" where
  "overdrawn_window name tot usedText usedValue limitValue remainingValue =
     zero_window\<lparr>qw_Name := name, qw_RemainingFraction := Some 0, qw_UsedFraction := Some 1,
       qw_RemainingAmount := ''0'', qw_TotalAmount := tot, qw_UsedAmount := usedText,
       qw_ExcessAmount := decimalString (maxFloat (usedValue - limitValue) (- remainingValue))\<rparr>"

definition quotaWindowFromValues ::
    "string \<Rightarrow> string \<Rightarrow> string \<Rightarrow> string \<Rightarrow> string \<Rightarrow> gotime option \<Rightarrow> quotaWindow option" where
  "quotaWindowFromValues name remaining tot used unit resetAt =
     (case (numericValue tot, numericValue remaining) of
        (Some limitValue, Some remainingValue) \<Rightarrow>
          if limitValue \<le> 0 then None
          else
            let usedValue = (case numericValue used of Some u \<Rightarrow> u | None \<Rightarrow> limitValue - remainingValue);
                usedText = firstNonEmpty [used, decimalString usedValue] in
            if remainingValue < 0 \<or> limitValue < usedValue then
              Some ((overdrawn_window name tot usedText usedValue limitValue remainingValue)
                \<lparr>qw_Unit := unit, qw_ResetAt := resetAt\<rparr>)
            else
              let remainingValue = (if limitValue < remainingValue then limitValue else remainingValue);
                  frac = remainingValue div limitValue in
              Some (zero_window\<lparr>qw_Name := name, qw_RemainingFraction := Some frac,
                qw_UsedFraction := Some (1 - frac),
                qw_RemainingAmount := firstNonEmpty [remaining, decimalString remainingValue],
                qw_TotalAmount := tot, qw_UsedAmount := usedText, qw_Unit := unit,
                qw_ResetAt := resetAt\<rparr>)
      | _ \<Rightarrow> None)"

definition limit_reset_keys :: "string list" where
  "limit_reset_keys = [''resetAt'', ''reset_at'', ''resetTime'', ''reset_time'', ''resetsAt'']"

definition quotaWindowFromLimit :: "jobj option \<Rightarrow> string \<Rightarrow> quotaWindow option" where
  "quotaWindowFromLimit object name =
     (if object = None then None
      else
        let limit = stringValue object [''limit'', ''total''];
            remaining = stringValue object [''remaining''];
            usedText = stringValue object [''used'', ''usage''] in
        (case (numericValue limit, numericValue remaining) of
           (Some limitValue, Some remainingValue) \<Rightarrow>
             if limitValue \<le> 0 then None
             else
               let (usedValue, usedText) =
                     (case numericValue usedText of
                        Some u \<Rightarrow> (u, usedText)
                      | None \<Rightarrow> (limitValue - remainingValue, decimalString (limitValue - remainingValue)));
                   frac = remainingValue div limitValue;
                   w = (if remainingValue < 0 \<or> limitValue < usedValue
                     then overdrawn_window name limit usedText usedValue limitValue remainingValue
                     else zero_window\<lparr>qw_Name := name, qw_RemainingFraction := Some frac,
                       qw_UsedFraction := Some (1 - frac), qw_RemainingAmount := remaining,
                       qw_TotalAmount := limit, qw_UsedAmount := usedText\<rparr>) in
               Some (w\<lparr>qw_Unit := stringValue object [''unit''],
                 qw_ResetAt := timeValue object limit_reset_keys,
                 qw_ExpiresAt := timeValue object [''expires_at'', ''expiresAt'']\<rparr>)
         | _ \<Rightarrow> None))"

text \<open>The used fraction of \<open>quotaWindowFromPercent\<close>, from the first reading that is there.\<close>

definition used_fraction :: "jobj option \<Rightarrow> f64 option" where
  "used_fraction object =
     (case numericValue (stringValue object [''usedFraction'']) of
        Some raw \<Rightarrow> Some raw
      | None \<Rightarrow>
     (case numericValue (stringValue object [''remainingFraction'']) of
        Some raw \<Rightarrow> Some (1 - raw)
      | None \<Rightarrow>
     (case numericValue (stringValue object
         [''usagePercent'', ''usedPercent'', ''percentUsed'', ''percentage'', ''percent'']) of
        Some raw \<Rightarrow> Some (raw div fnum 100)
      | None \<Rightarrow>
     (case (numericValue (stringValue object [''used'', ''consumed'']),
            numericValue (stringValue object [''limit'', ''total'', ''quota''])) of
        (Some usedValue, Some limit) \<Rightarrow> if limit \<le> 0 then None else Some (usedValue div limit)
      | _ \<Rightarrow> None))))"

definition quotaWindowFromPercent :: "jobj option \<Rightarrow> string \<Rightarrow> quotaWindow option" where
  "quotaWindowFromPercent object name =
     (if object = None then None
      else (case used_fraction object of
          None \<Rightarrow> None
        | Some raw \<Rightarrow>
            let used = maxMinFraction raw in
            Some (zero_window\<lparr>qw_Name := name, qw_UsedFraction := Some used,
              qw_RemainingFraction := Some (1 - used),
              qw_ResetAt := timeValue object [''resetAt'', ''resetsAt'', ''nextReset'', ''resetTime'']\<rparr>)))"

section \<open>Snapshots\<close>

text \<open>The fields that every adapter fills in from the candidate.\<close>

definition base_snapshot ::
    "credentialCandidate \<Rightarrow> string \<Rightarrow> accountKind \<Rightarrow> string list \<Rightarrow> accountSnapshot" where
  "base_snapshot candidate adapter kind capabilities =
     zero_snapshot\<lparr>as_AccountID := candidateAccountID candidate, as_AccountName := cc_Name candidate,
       as_Provider := cc_Provider candidate, as_AdapterID := adapter,
       as_BaseURL := cc_BaseURL candidate, as_Kind := kind, as_Status := statusOK,
       as_Capabilities := capabilities\<rparr>"

definition balanceSnapshot ::
    "credentialCandidate \<Rightarrow> string \<Rightarrow> string \<Rightarrow> string \<Rightarrow> string \<Rightarrow> accountSnapshot" where
  "balanceSnapshot candidate adapter currency tot available =
     (let s = (base_snapshot candidate adapter kindBalance [''balance''])
            \<lparr>as_Balances := [\<lparr>mb_Amount = tot, mb_Currency = currency, mb_BalanceType = ''total''\<rparr>]\<rparr>;
          s = (if available \<noteq> [] \<and> available \<noteq> tot
            then s\<lparr>as_Balances := as_Balances s
              @ [\<lparr>mb_Amount = available, mb_Currency = currency, mb_BalanceType = ''available''\<rparr>]\<rparr>
            else s) in
      (case numericValue tot of
         Some value \<Rightarrow> if value \<le> 0 then s\<lparr>as_Status := statusCritical\<rparr> else s
       | None \<Rightarrow> s))"

definition isCurrency :: "string \<Rightarrow> bool" where
  "isCurrency value = (value \<in> {''CNY'', ''USD'', ''EUR'', ''JPY'', ''GBP'', ''HKD''})"

definition unsupportedSnapshot ::
    "credentialCandidate \<Rightarrow> string \<Rightarrow> string \<Rightarrow> gotime \<Rightarrow> accountSnapshot" where
  "unsupportedSnapshot candidate adapter message now =
     (base_snapshot candidate adapter kindUnsupported [''unsupported''])
       \<lparr>as_Status := statusUnknown, as_CheckedAt := now,
        as_Error := Some \<lparr>se_Code = ''UNSUPPORTED'', se_Message = message\<rparr>\<rparr>"

end
