(* ===== verification/Endpoints.thy ===== *)
theory Endpoints
  imports Adapter_Common
begin

text \<open>
  Where a query is sent: the endpoint of adapters.go built from a configured base URL
  (\<open>fixedEndpointWithOptions\<close> with the merging of paths), the checks on configured URLs, the
  endpoints of the single adapters, and the host name by which an adapter is chosen.
\<close>

section \<open>Paths\<close>

definition splitEndpointPath :: "string \<Rightarrow> string list" where
  "splitEndpointPath path =
     (let trimmed = TrimSet ''/'' path in
      if trimmed = [] then [] else filter (\<lambda>p. p \<noteq> []) (Split CHR ''/'' trimmed))"

text \<open>The longest suffix of the base that is a proper prefix of the endpoint, at most \<open>n\<close> long.\<close>

fun path_overlap :: "string list \<Rightarrow> string list \<Rightarrow> nat \<Rightarrow> nat" where
  "path_overlap base ep 0 = 0"
| "path_overlap base ep (Suc n) =
     (if drop (length base - Suc n) base = take (Suc n) ep then Suc n else path_overlap base ep n)"

definition join_path :: "string list \<Rightarrow> string" where
  "join_path segments = (if segments = [] then ''/'' else CHR ''/'' # Join ''/'' segments)"

definition merge_segments :: "string list \<Rightarrow> string list \<Rightarrow> string list" where
  "merge_segments base ep = base @ drop (path_overlap base ep (min (length base) (length ep - 1))) ep"

definition mergeEndpointPath :: "string \<Rightarrow> string \<Rightarrow> string" where
  "mergeEndpointPath basePath endpointPath =
     join_path (merge_segments (splitEndpointPath basePath) (splitEndpointPath endpointPath))"

text \<open>\<open>StripInferenceSuffix\<close>: a last segment \<open>v1\<close> belongs to the inference API.\<close>

definition strip_v1 :: "string list \<Rightarrow> string list" where
  "strip_v1 segments = (if segments \<noteq> [] \<and> last segments = ''v1'' then butlast segments else segments)"

section \<open>Endpoints\<close>

record endpointOptions =
  eo_AllowInternalHTTP :: bool
  eo_StripInferenceSuffix :: bool

definition endpoint_scheme_ok :: "URL \<Rightarrow> endpointOptions \<Rightarrow> bool" where
  "endpoint_scheme_ok u options =
     (u_Scheme u = ''https'' \<or> u_Scheme u = ''http'' \<and> eo_AllowInternalHTTP options)"

definition endpoint_url :: "URL \<Rightarrow> URL \<Rightarrow> endpointOptions \<Rightarrow> URL option" where
  "endpoint_url u ep options =
     (let basePath = (if eo_StripInferenceSuffix options
            then join_path (strip_v1 (splitEndpointPath (EscapedPath u))) else EscapedPath u);
          merged = mergeEndpointPath basePath (EscapedPath ep) in
      case PathUnescape merged of
        None \<Rightarrow> None
      | Some decoded \<Rightarrow>
          Some (u\<lparr>u_Path := decoded, u_RawPath := merged, u_RawQuery := u_RawQuery ep,
            u_Fragment := []\<rparr>))"

definition fixedEndpointURL ::
    "string \<Rightarrow> string \<Rightarrow> string \<Rightarrow> endpointOptions \<Rightarrow> string + URL" where
  "fixedEndpointURL baseURL defaultBase path options =
     (let base = (if TrimSpace baseURL = [] then defaultBase else TrimSpace baseURL) in
      if base = [] then Inl ''base URL is required''
      else (case url_Parse base of
          None \<Rightarrow> Inl ''upstream base URL is invalid''
        | Some u \<Rightarrow>
            if Hostname u = [] then Inl ''upstream base URL is invalid''
            else if \<not> endpoint_scheme_ok u options then
              Inl ''upstream base URL must use HTTPS unless internal HTTP is explicitly enabled''
            else (case url_Parse (TrimSpace path) of
                None \<Rightarrow> Inl ''upstream endpoint path is invalid''
              | Some ep \<Rightarrow>
                  if u_Path ep = [] then Inl ''upstream endpoint path is invalid''
                  else (case endpoint_url u ep options of
                      None \<Rightarrow> Inl ''decode upstream endpoint path''
                    | Some v \<Rightarrow> Inr v))))"

definition fixedEndpointWithOptions ::
    "string \<Rightarrow> string \<Rightarrow> string \<Rightarrow> endpointOptions \<Rightarrow> string + string" where
  "fixedEndpointWithOptions baseURL defaultBase path options =
     (case fixedEndpointURL baseURL defaultBase path options of
        Inl e \<Rightarrow> Inl e
      | Inr v \<Rightarrow> Inr (url_String v))"

definition plain_options :: "credentialCandidate \<Rightarrow> endpointOptions" where
  "plain_options candidate =
     \<lparr>eo_AllowInternalHTTP = cc_AllowInternalHTTP candidate, eo_StripInferenceSuffix = False\<rparr>"

definition strip_options :: "credentialCandidate \<Rightarrow> endpointOptions" where
  "strip_options candidate =
     \<lparr>eo_AllowInternalHTTP = cc_AllowInternalHTTP candidate, eo_StripInferenceSuffix = True\<rparr>"

definition newAPIManagementEndpoint :: "credentialCandidate \<Rightarrow> string \<Rightarrow> string + string" where
  "newAPIManagementEndpoint candidate path =
     fixedEndpointWithOptions (firstNonEmpty [cc_ManagementBaseURL candidate, cc_BaseURL candidate])
       [] path (strip_options candidate)"

definition addSub2APIUsageQuery :: "string \<Rightarrow> string" where
  "addSub2APIUsageQuery endpoint =
     (case url_Parse endpoint of
        None \<Rightarrow> endpoint
      | Some u \<Rightarrow>
          url_String (u\<lparr>u_RawQuery := Values_Encode (mput ''days'' [''30''] (ParseQuery (u_RawQuery u)))\<rparr>))"

definition sub2APIUsageEndpoint :: "credentialCandidate \<Rightarrow> string + string" where
  "sub2APIUsageEndpoint candidate =
     (case fixedEndpointWithOptions (cc_BaseURL candidate) [] ''/v1/usage'' (plain_options candidate) of
        Inl e \<Rightarrow> Inl e
      | Inr ep \<Rightarrow> Inr (addSub2APIUsageQuery ep))"

definition deepseek_host_ok :: "URL \<Rightarrow> bool" where
  "deepseek_host_ok u = EqualFold (Hostname u) ''api.deepseek.com''"

definition deepSeekURL :: "string \<Rightarrow> string + string" where
  "deepSeekURL baseURL =
     (let base = (if TrimSpace baseURL = [] then ''https://api.deepseek.com'' else TrimSpace baseURL) in
      case url_Parse base of
        None \<Rightarrow> Inl ''DeepSeek adapter only permits https://api.deepseek.com''
      | Some u \<Rightarrow>
          if u_Scheme u \<noteq> ''https'' \<or> \<not> deepseek_host_ok u then
            Inl ''DeepSeek adapter only permits https://api.deepseek.com''
          else Inr (url_String (u\<lparr>u_Path := ''/user/balance'', u_RawQuery := [], u_Fragment := []\<rparr>)))"

definition commandCodeAPIBase :: string where
  "commandCodeAPIBase = ''https://api.commandcode.ai''"

definition commandCodeEndpoint :: "string \<Rightarrow> string \<Rightarrow> url_values \<Rightarrow> string" where
  "commandCodeEndpoint baseURL path query =
     (let base = TrimRightSet ''/'' (TrimSpace baseURL);
          endpoint = (if base = [] then commandCodeAPIBase else base) @ path in
      if query = [] then endpoint else endpoint @ ''?'' @ Values_Encode query)"

section \<open>Checks on configured URLs\<close>

datatype url_issue = NotAbsolute | HasUserinfo | NeedsHTTPS | BadScheme

definition validateConfiguredEndpointURL :: "string \<Rightarrow> bool \<Rightarrow> url_issue option" where
  "validateConfiguredEndpointURL raw allowInternalHTTP =
     (if TrimSpace raw = [] then None
      else (case url_Parse (TrimSpace raw) of
          None \<Rightarrow> Some NotAbsolute
        | Some u \<Rightarrow>
            if Hostname u = [] then Some NotAbsolute
            else if u_User u \<noteq> None then Some HasUserinfo
            else if u_Scheme u = ''https'' then None
            else if u_Scheme u = ''http'' then (if allowInternalHTTP then None else Some NeedsHTTPS)
            else Some BadScheme))"

definition host_of :: "string \<Rightarrow> string" where
  "host_of raw = (case url_Parse (TrimSpace raw) of None \<Rightarrow> [] | Some u \<Rightarrow> ToLower (Hostname u))"

section \<open>Segments\<close>

lemma splitEndpointPath_clean: "s \<in> set (splitEndpointPath p) \<Longrightarrow> s \<noteq> [] \<and> CHR ''/'' \<notin> set s"
  by (auto simp: splitEndpointPath_def Let_def dest: Split_no_sep split: if_splits)

lemma Join_slash_ends:
  assumes "ws \<noteq> []" "\<forall>w \<in> set ws. w \<noteq> [] \<and> CHR ''/'' \<notin> set w"
  shows "Join ''/'' ws \<noteq> [] \<and> hd (Join ''/'' ws) \<noteq> CHR ''/'' \<and> last (Join ''/'' ws) \<noteq> CHR ''/''"
  using assms
proof (induction "''/''" ws rule: Join.induct)
  case (2 w)
  then have "w \<noteq> []" "CHR ''/'' \<notin> set w" by auto
  then show ?case by (metis Join.simps(2) hd_in_set last_in_set)
next
  case (3 w v ws)
  then have "Join ''/'' (v # ws) \<noteq> []" "last (Join ''/'' (v # ws)) \<noteq> CHR ''/''" by auto
  moreover have "hd w \<noteq> CHR ''/''" using 3 by (metis hd_in_set list.set_intros(1))
  ultimately show ?case using 3 by (auto simp: hd_append)
qed simp

lemma split_join_path:
  assumes "\<forall>w \<in> set ws. w \<noteq> [] \<and> CHR ''/'' \<notin> set w"
  shows "splitEndpointPath (join_path ws) = ws"
proof (cases "ws = []")
  case True
  then show ?thesis by (simp add: splitEndpointPath_def join_path_def TrimSet_def TrimRightSet_def)
next
  case False
  let ?j = "Join ''/'' ws"
  from Join_slash_ends [OF False assms] have e: "?j \<noteq> []" "hd ?j \<noteq> CHR ''/''" "last ?j \<noteq> CHR ''/''" by auto
  then have "dropWhile (\<lambda>c. c \<in> set ''/'') (CHR ''/'' # ?j) = ?j" by (cases ?j) auto
  moreover have "dropWhile (\<lambda>c. c \<in> set ''/'') (rev ?j) = rev ?j"
    using e by (cases "rev ?j") (auto simp: last_rev hd_rev dest: arg_cong [of _ _ hd])
  ultimately have "TrimSet ''/'' (join_path ws) = ?j"
    using False by (simp add: TrimSet_def TrimRightSet_def join_path_def)
  then show ?thesis
    using False e assms by (simp add: splitEndpointPath_def Split_Join)
qed

lemma path_overlap_le: "path_overlap base ep n \<le> n"
  by (induction n) (auto simp: le_Suc_eq)

lemma path_overlap_match:
  "n \<le> length base \<Longrightarrow> n \<le> length ep \<Longrightarrow>
     drop (length base - path_overlap base ep n) base = take (path_overlap base ep n) ep"
  by (induction n) auto

lemma path_overlap_max:
  "path_overlap base ep n < k \<Longrightarrow> k \<le> n \<Longrightarrow> drop (length base - k) base \<noteq> take k ep"
  by (induction n) (auto simp: le_Suc_eq split: if_splits)

text \<open>The merged path ends with the whole endpoint path; the base loses only what is repeated.\<close>

lemma merge_segments_split:
  "\<exists>front repeated. merge_segments base ep = front @ ep \<and> base = front @ repeated
     \<and> repeated = take (length repeated) ep"
proof -
  let ?n = "min (length base) (length ep - 1)"
  let ?k = "path_overlap base ep ?n"
  have m: "drop (length base - ?k) base = take ?k ep" by (rule path_overlap_match) auto
  then have b: "base = take (length base - ?k) base @ take ?k ep" by (metis append_take_drop_id)
  have "merge_segments base ep = take (length base - ?k) base @ take ?k ep @ drop ?k ep"
    unfolding merge_segments_def using b by (metis append.assoc)
  then have "merge_segments base ep = take (length base - ?k) base @ ep" by simp
  moreover have "take ?k ep = take (length (take ?k ep)) ep" by (simp add: min_def)
  ultimately show ?thesis using b by blast
qed

end
