(* ===== verification/Proxy.thy ===== *)
theory Proxy
  imports Endpoints
begin

text \<open>
  proxy.go: the resolution of the proxy modes of an entry and its provider, the proxy of a
  credential, the redirect rule of the HTTP client, and the SOCKS5 handshake on a connection.
  A connection is what the peer will send, what was written so far, and the outcomes of the
  writes to come; the peer's bytes are arbitrary, so a property holds for every peer.
\<close>

section \<open>Modes\<close>

abbreviation proxyModeInherit :: string where "proxyModeInherit \<equiv> ''inherit''"
abbreviation proxyModeDirect :: string where "proxyModeDirect \<equiv> ''direct''"
abbreviation proxyModeURL :: string where "proxyModeURL \<equiv> ''url''"

datatype proxy_error =
    UnknownMode
  | DirectWithURL
  | URLMissing
  | URLUnparsable
  | URLWithoutHost
  | URLScheme string

definition normalizeProxyMode :: "string \<Rightarrow> string option" where
  "normalizeProxyMode raw =
     (let m = ToLower (TrimSpace raw) in
      if m = [] \<or> m = proxyModeInherit then Some proxyModeInherit
      else if m = proxyModeDirect then Some proxyModeDirect
      else if m = proxyModeURL then Some proxyModeURL
      else None)"

definition validateProxyURL :: "string \<Rightarrow> proxy_error option" where
  "validateProxyURL raw =
     (case url_Parse (TrimSpace raw) of
        None \<Rightarrow> Some URLUnparsable
      | Some p \<Rightarrow>
          if TrimSpace (u_Host p) = [] then Some URLWithoutHost
          else if u_Scheme p \<in> {''http'', ''https'', ''socks5''} then None
          else Some (URLScheme (u_Scheme p)))"

text \<open>A URL without a mode counts as the mode \<open>url\<close>.\<close>

definition implied_mode :: "string \<Rightarrow> string \<Rightarrow> string \<Rightarrow> string" where
  "implied_mode mode raw_mode url =
     (if mode = proxyModeInherit \<and> TrimSpace url \<noteq> [] \<and> TrimSpace raw_mode = [] then proxyModeURL else mode)"

text \<open>The checks on one level, in the order of the code; the two levels differ in it.\<close>

definition check_url :: "string \<Rightarrow> string \<Rightarrow> proxy_error option" where
  "check_url mode url = (if mode = proxyModeURL then validateProxyURL url else None)"

definition resolve_provider :: "string \<Rightarrow> string \<Rightarrow> proxy_error + string \<times> string" where
  "resolve_provider providerMode providerURL =
     (case normalizeProxyMode providerMode of
        None \<Rightarrow> Inl UnknownMode
      | Some m0 \<Rightarrow>
          let mode = implied_mode m0 providerMode providerURL; url = TrimSpace providerURL in
          if mode = proxyModeURL \<and> url = [] then Inl URLMissing
          else if mode = proxyModeDirect \<and> url \<noteq> [] then Inl DirectWithURL
          else (case check_url mode providerURL of
              Some e \<Rightarrow> Inl e
            | None \<Rightarrow> Inr (if mode = proxyModeDirect then proxyModeDirect else proxyModeInherit, url)))"

definition resolveStaticProxy ::
    "string \<Rightarrow> string \<Rightarrow> string \<Rightarrow> string \<Rightarrow> proxy_error + string \<times> string" where
  "resolveStaticProxy entryMode entryURL providerMode providerURL =
     (case normalizeProxyMode entryMode of
        None \<Rightarrow> Inl UnknownMode
      | Some m0 \<Rightarrow>
          let mode = implied_mode m0 entryMode entryURL; url = TrimSpace entryURL in
          if mode = proxyModeInherit then resolve_provider providerMode providerURL
          else if mode = proxyModeDirect \<and> url \<noteq> [] then Inl DirectWithURL
          else if mode = proxyModeURL \<and> url = [] then Inl URLMissing
          else (case check_url mode entryURL of Some e \<Rightarrow> Inl e | None \<Rightarrow> Inr (mode, url)))"

definition normalizedProxyMode :: "string \<Rightarrow> string \<Rightarrow> string" where
  "normalizedProxyMode mode url =
     (case normalizeProxyMode mode of None \<Rightarrow> proxyModeInherit | Some m \<Rightarrow> m)"

definition proxyIsConfigured :: "string \<Rightarrow> string \<Rightarrow> bool" where
  "proxyIsConfigured mode url =
     (normalizedProxyMode mode url \<noteq> proxyModeDirect \<and> TrimSpace url \<noteq> [])"

definition candidateProxyURL :: "credentialCandidate \<Rightarrow> string" where
  "candidateProxyURL candidate =
     (case normalizeProxyMode (cc_ProxyMode candidate) of
        None \<Rightarrow> []
      | Some m \<Rightarrow> if m = proxyModeDirect then [] else TrimSpace (cc_ProxyURL candidate))"

text \<open>The proxy that a credential carries; \<open>None\<close> is a storage that does not decode.\<close>

definition proxy_member :: "jobj option \<Rightarrow> string" where
  "proxy_member object =
     (case object of
        None \<Rightarrow> []
      | Some m \<Rightarrow> (case mget m ''proxy_url'' of Some (JStr v) \<Rightarrow> TrimSpace v | _ \<Rightarrow> []))"

definition proxyURLFromCredential :: "json option \<Rightarrow> string" where
  "proxyURLFromCredential storage =
     (case decodeObject storage of
        None \<Rightarrow> []
      | Some m \<Rightarrow>
          if proxy_member (Some m) \<noteq> [] then proxy_member (Some m)
          else proxy_member (objectValue (Some m) ''metadata''))"

definition applyCredentialProxy :: "credentialCandidate \<Rightarrow> json option \<Rightarrow> credentialCandidate" where
  "applyCredentialProxy candidate storage =
     (let proxyURL = proxyURLFromCredential storage in
      if EqualFold proxyURL proxyModeDirect then
        candidate\<lparr>cc_ProxyMode := proxyModeDirect, cc_ProxyURL := []\<rparr>
      else if normalizeProxyMode (cc_ProxyMode candidate) \<noteq> Some proxyModeInherit
          \<or> TrimSpace (cc_ProxyURL candidate) \<noteq> [] then candidate
      else if proxyURL = [] then candidate
      else candidate\<lparr>cc_ProxyMode := proxyModeURL, cc_ProxyURL := proxyURL\<rparr>)"

section \<open>The transport\<close>

record proxySettings =
  ps_Mode :: string
  ps_URL :: string

datatype transport = Direct | HTTPProxy URL | Socks5 string "(string \<times> string) option"

text \<open>The transport that \<open>queryEndpointWithProxyContext\<close> sets up.\<close>

definition choose_transport :: "proxySettings \<Rightarrow> proxy_error + transport" where
  "choose_transport settings =
     (if TrimSpace (ps_Mode settings) \<noteq> proxyModeDirect \<and> TrimSpace (ps_URL settings) \<noteq> [] then
        (case url_Parse (TrimSpace (ps_URL settings)) of
           None \<Rightarrow> Inl URLUnparsable
         | Some p \<Rightarrow>
             if TrimSpace (u_Host p) = [] then Inl URLWithoutHost
             else if u_Scheme p \<in> {''http'', ''https''} then Inr (HTTPProxy p)
             else if u_Scheme p = ''socks5'' then
               Inr (Socks5 (u_Host p) (map_option (\<lambda>(u, pw). (u, case pw of None \<Rightarrow> [] | Some w \<Rightarrow> w)) (u_User p)))
             else Inl (URLScheme (u_Scheme p)))
      else Inr Direct)"

text \<open>\<open>CheckRedirect\<close>: the requests made so far are \<open>via\<close>; \<open>None\<close> lets the redirect happen.\<close>

definition checkRedirect :: "URL \<Rightarrow> URL list \<Rightarrow> string option" where
  "checkRedirect request via =
     (if 5 \<le> length via then Some ''too many upstream redirects''
      else let previous = last via in
        if \<not> EqualFold (u_Scheme previous) (u_Scheme request) \<or> \<not> EqualFold (u_Host previous) (u_Host request)
        then Some ''cross-host upstream redirect is not supported''
        else None)"

text \<open>
  The requests of one query: the first, and the redirect targets that the server names, as long
  as the check lets them through.
\<close>

fun follow_redirects :: "URL list \<Rightarrow> URL list \<Rightarrow> URL list" where
  "follow_redirects via [] = via"
| "follow_redirects via (target # targets) =
     (if checkRedirect target via = None then follow_redirects (via @ [target]) targets else via)"

section \<open>SOCKS5\<close>

record connection =
  cn_In :: string
  cn_Out :: string
  cn_Writes :: "bool list"

datatype socks_error =
    CredentialsTooLong
  | WriteFailed
  | ReadFailed
  | MethodRefused
  | AuthFailed
  | BadTarget
  | BadPort
  | BadHost
  | BadVersion
  | ConnectFailed int
  | BadAddressType

type_synonym 'a socks = "connection \<Rightarrow> (socks_error + 'a) \<times> connection"

definition conn_write :: "string \<Rightarrow> unit socks" where
  "conn_write bytes cn =
     (case cn_Writes cn of
        False # rest \<Rightarrow> (Inl WriteFailed, cn\<lparr>cn_Writes := rest\<rparr>)
      | ws \<Rightarrow> (Inr (), cn\<lparr>cn_Out := cn_Out cn @ bytes, cn_Writes := drop 1 ws\<rparr>))"

definition conn_read :: "nat \<Rightarrow> string socks" where
  "conn_read n cn =
     (if length (cn_In cn) < n then (Inl ReadFailed, cn\<lparr>cn_In := []\<rparr>)
      else (Inr (take n (cn_In cn)), cn\<lparr>cn_In := drop n (cn_In cn)\<rparr>))"

definition socks_fail :: "socks_error \<Rightarrow> 'a socks" where
  "socks_fail e cn = (Inl e, cn)"

definition socks_bind :: "'a socks \<Rightarrow> ('a \<Rightarrow> 'b socks) \<Rightarrow> 'b socks" where
  "socks_bind f g cn = (case f cn of (Inl e, cn') \<Rightarrow> (Inl e, cn') | (Inr a, cn') \<Rightarrow> g a cn')"

definition socks_return :: "'a \<Rightarrow> 'a socks" where
  "socks_return a cn = (Inr a, cn)"

definition byte_of_len :: "string \<Rightarrow> char" where
  "byte_of_len s = char_of (length s)"

definition auth_request :: "string \<Rightarrow> string \<Rightarrow> string" where
  "auth_request username password =
     [CHR 0x01, byte_of_len username] @ username @ [byte_of_len password] @ password"

definition socks_authenticate :: "string \<Rightarrow> string \<Rightarrow> unit socks" where
  "socks_authenticate username password =
     socks_bind (conn_write (auth_request username password)) (\<lambda>_.
     socks_bind (conn_read 2) (\<lambda>response.
       if response ! 0 \<noteq> CHR 0x01 \<or> response ! 1 \<noteq> CHR 0x00 then socks_fail AuthFailed
       else socks_return ()))"

definition socks5Negotiate :: "string \<Rightarrow> string \<Rightarrow> bool \<Rightarrow> unit socks" where
  "socks5Negotiate username password hasAuth =
     (let m = (if hasAuth then CHR 0x02 else CHR 0x00) in
      if hasAuth \<and> (255 < length username \<or> 255 < length password) then socks_fail CredentialsTooLong
      else socks_bind (conn_write [CHR 0x05, CHR 0x01, m]) (\<lambda>_.
        socks_bind (conn_read 2) (\<lambda>response.
          if response ! 0 \<noteq> CHR 0x05 \<or> response ! 1 \<noteq> m then socks_fail MethodRefused
          else if \<not> hasAuth then socks_return ()
          else socks_authenticate username password)))"

text \<open>\<open>net.SplitHostPort\<close> and \<open>strconv.Atoi\<close>.\<close>

definition SplitHostPort :: "string \<Rightarrow> (string \<times> string) option" where
  "SplitHostPort hp =
     (case CutLast CHR '':'' hp of
        None \<Rightarrow> None
      | Some (h, port) \<Rightarrow>
          if hd hp = CHR ''['' then
            (let inner = takeWhile (\<lambda>c. c \<noteq> CHR '']'') (tl hp) in
             if h \<noteq> CHR ''['' # inner @ [CHR '']''] then None
             else if CHR ''['' \<in> set (tl hp) \<or> CHR '']'' \<in> set port then None
             else Some (inner, port))
          else if CHR '':'' \<in> set h \<or> CHR ''['' \<in> set hp \<or> CHR '']'' \<in> set hp then None
          else Some (h, port))"

definition Atoi :: "string \<Rightarrow> int option" where
  "Atoi s =
     (let (neg, ds) = drop_sign s in
      if ds = [] \<or> \<not> list_all is_digit ds then None
      else let n = foldl (\<lambda>v c. 10 * v + digit_val c) 0 ds; i = (if neg then - n else n) in
        if - (2 ^ 63) \<le> i \<and> i < 2 ^ 63 then Some i else None)"

definition ParseIP :: "string \<Rightarrow> int list option" where
  "ParseIP s =
     (case ParseAddr s of
        Some (V4 b) \<Rightarrow> Some b
      | Some (V6 b []) \<Rightarrow> Some (if take 12 b = replicate 10 0 @ [255, 255] then drop 12 b else b)
      | _ \<Rightarrow> None)"

definition socks_target :: "string \<Rightarrow> socks_error + string" where
  "socks_target host =
     (case ParseIP host of
        Some b \<Rightarrow> Inr ((if length b = 4 then CHR 0x01 else CHR 0x04) # map char_of b)
      | None \<Rightarrow>
          if host = [] \<or> 255 < length host then Inl BadHost
          else Inr ([CHR 0x03, byte_of_len host] @ host))"

definition port_bytes :: "int \<Rightarrow> string" where
  "port_bytes port = [char_of (port div 256), char_of (port mod 256)]"

definition socks_request :: "string \<Rightarrow> socks_error + string" where
  "socks_request address =
     (case SplitHostPort address of
        None \<Rightarrow> Inl BadTarget
      | Some (host, portText) \<Rightarrow>
          (case Atoi portText of
             None \<Rightarrow> Inl BadPort
           | Some port \<Rightarrow>
               if port < 1 \<or> 65535 < port then Inl BadPort
               else (case socks_target host of
                   Inl e \<Rightarrow> Inl e
                 | Inr t \<Rightarrow> Inr ([CHR 0x05, CHR 0x01, CHR 0x00] @ t @ port_bytes port))))"

text \<open>The bound address of the reply, by its type.\<close>

definition reply_length :: "char \<Rightarrow> nat socks" where
  "reply_length atype =
     (if atype = CHR 0x01 then socks_return 4
      else if atype = CHR 0x03 then socks_bind (conn_read 1) (\<lambda>l. socks_return (of_char (l ! 0)))
      else if atype = CHR 0x04 then socks_return 16
      else socks_fail BadAddressType)"

definition socks5Connect :: "string \<Rightarrow> unit socks" where
  "socks5Connect address =
     (case socks_request address of
        Inl e \<Rightarrow> socks_fail e
      | Inr request \<Rightarrow>
          socks_bind (conn_write request) (\<lambda>_.
          socks_bind (conn_read 4) (\<lambda>response.
            if response ! 0 \<noteq> CHR 0x05 then socks_fail BadVersion
            else if response ! 1 \<noteq> CHR 0x00 then socks_fail (ConnectFailed (of_char (response ! 1)))
            else socks_bind (reply_length (response ! 3)) (\<lambda>n.
              socks_bind (conn_read (n + 2)) (\<lambda>_. socks_return ())))))"

text \<open>The handshake of \<open>DialContext\<close> on an open connection.\<close>

definition socks5_handshake :: "string \<Rightarrow> string \<Rightarrow> bool \<Rightarrow> string \<Rightarrow> unit socks" where
  "socks5_handshake username password hasAuth address =
     socks_bind (socks5Negotiate username password hasAuth) (\<lambda>_. socks5Connect address)"

end
