(* ===== verification/Network_Theorems.thy ===== *)
theory Network_Theorems
  imports Proxy
begin

text \<open>
  What the network code promises: an endpoint stays on the configured upstream, redirects stay on
  its host, credentials reach a SOCKS5 proxy only after it asked for them, and the request that
  the proxy reads names the host and the port of the target.
\<close>

section \<open>Endpoints\<close>

lemma merged_path_segments:
  "splitEndpointPath (mergeEndpointPath b e) = merge_segments (splitEndpointPath b) (splitEndpointPath e)"
proof -
  have "set (merge_segments (splitEndpointPath b) (splitEndpointPath e))
      \<subseteq> set (splitEndpointPath b) \<union> set (splitEndpointPath e)"
    unfolding merge_segments_def by (auto dest: in_set_dropD)
  then show ?thesis
    unfolding mergeEndpointPath_def by (intro split_join_path) (blast dest: splitEndpointPath_clean)
qed

lemma strip_v1_prefix: "\<exists>t. segments = strip_v1 segments @ t"
proof (cases "segments \<noteq> [] \<and> last segments = ''v1''")
  case True
  then show ?thesis by (metis append_butlast_last_id strip_v1_def)
next
  case False
  then have "segments = strip_v1 segments @ []" by (auto simp: strip_v1_def)
  then show ?thesis by blast
qed

text \<open>The segments of the base path that an endpoint starts from.\<close>

definition base_segments :: "URL \<Rightarrow> endpointOptions \<Rightarrow> string list" where
  "base_segments u options =
     (let s = splitEndpointPath (EscapedPath u) in if eo_StripInferenceSuffix options then strip_v1 s else s)"

lemma endpoint_url_path:
  assumes "endpoint_url u ep options = Some v"
  shows "splitEndpointPath (u_RawPath v)
           = merge_segments (base_segments u options) (splitEndpointPath (EscapedPath ep))"
    and "PathUnescape (u_RawPath v) = Some (u_Path v)"
    and "v = u\<lparr>u_Path := u_Path v, u_RawPath := u_RawPath v, u_RawQuery := u_RawQuery ep, u_Fragment := []\<rparr>"
proof -
  let ?b = "if eo_StripInferenceSuffix options
            then join_path (strip_v1 (splitEndpointPath (EscapedPath u))) else EscapedPath u"
  let ?m = "mergeEndpointPath ?b (EscapedPath ep)"
  have "\<forall>s \<in> set (strip_v1 (splitEndpointPath (EscapedPath u))). s \<noteq> [] \<and> CHR ''/'' \<notin> set s"
    by (auto simp: strip_v1_def dest!: in_set_butlastD splitEndpointPath_clean split: if_splits)
  then have b: "splitEndpointPath ?b = base_segments u options"
    by (simp add: base_segments_def Let_def split_join_path)
  from assms obtain decoded where d: "PathUnescape (mergeEndpointPath ?b (EscapedPath ep)) = Some decoded"
    and v: "v = u\<lparr>u_Path := decoded, u_RawPath := mergeEndpointPath ?b (EscapedPath ep),
              u_RawQuery := u_RawQuery ep, u_Fragment := []\<rparr>"
    unfolding endpoint_url_def Let_def by (auto split: option.splits)
  have "u_RawPath v = ?m" unfolding v by simp
  then show "splitEndpointPath (u_RawPath v)
      = merge_segments (base_segments u options) (splitEndpointPath (EscapedPath ep))"
    by (simp only: merged_path_segments b)
  show "PathUnescape (u_RawPath v) = Some (u_Path v)" unfolding v using d by simp
  show "v = u\<lparr>u_Path := u_Path v, u_RawPath := u_RawPath v, u_RawQuery := u_RawQuery ep, u_Fragment := []\<rparr>"
    unfolding v by simp
qed

lemma base_segments_prefix: "\<exists>t. splitEndpointPath (EscapedPath u) = base_segments u options @ t"
  using strip_v1_prefix by (auto simp: base_segments_def Let_def)

lemma fixedEndpointURL_Inr:
  assumes "fixedEndpointURL baseURL dflt path options = Inr v"
  obtains u ep where
    "url_Parse (if TrimSpace baseURL = [] then dflt else TrimSpace baseURL) = Some u"
    "Hostname u \<noteq> []" "endpoint_scheme_ok u options"
    "url_Parse (TrimSpace path) = Some ep" "u_Path ep \<noteq> []" "endpoint_url u ep options = Some v"
  using assms unfolding fixedEndpointURL_def Let_def by (auto split: if_splits option.splits)

text \<open>
  C5: An endpoint stays on the configured upstream.  When \<open>fixedEndpointWithOptions\<close> succeeds,
  the URL that it builds is the parsed base URL with another path and query: scheme, host and
  userinfo are those of the base, the scheme is https (or http where that was allowed), there is
  no fragment, the query is that of the endpoint, and the segments of the path are leading
  segments of the base path followed by all segments of the endpoint path, nothing of the base
  path being dropped but what the endpoint path repeats (and a final v1 where it is to be
  stripped).
\<close>

theorem endpoint_stays_on_base:
  assumes "fixedEndpointURL baseURL dflt path options = Inr v"
  shows "\<exists>u ep front repeated.
     url_Parse (if TrimSpace baseURL = [] then dflt else TrimSpace baseURL) = Some u
     \<and> url_Parse (TrimSpace path) = Some ep
     \<and> (u_Scheme v = ''https'' \<or> u_Scheme v = ''http'' \<and> eo_AllowInternalHTTP options)
     \<and> Hostname v \<noteq> []
     \<and> v = u\<lparr>u_Path := u_Path v, u_RawPath := u_RawPath v, u_RawQuery := u_RawQuery ep, u_Fragment := []\<rparr>
     \<and> PathUnescape (u_RawPath v) = Some (u_Path v)
     \<and> splitEndpointPath (u_RawPath v) = front @ splitEndpointPath (EscapedPath ep)
     \<and> base_segments u options = front @ repeated
     \<and> repeated = take (length repeated) (splitEndpointPath (EscapedPath ep))"
proof -
  obtain u ep where p: "url_Parse (if TrimSpace baseURL = [] then dflt else TrimSpace baseURL) = Some u"
      "Hostname u \<noteq> []" "endpoint_scheme_ok u options"
      "url_Parse (TrimSpace path) = Some ep" and e: "endpoint_url u ep options = Some v"
    using assms by (rule fixedEndpointURL_Inr)
  note v = endpoint_url_path [OF e]
  obtain front repeated where "merge_segments (base_segments u options) (splitEndpointPath (EscapedPath ep))
      = front @ splitEndpointPath (EscapedPath ep)" "base_segments u options = front @ repeated"
      "repeated = take (length repeated) (splitEndpointPath (EscapedPath ep))"
    using merge_segments_split by metis
  moreover have "u_Scheme v = u_Scheme u" using arg_cong [OF v(3), of u_Scheme] by simp
  moreover have "u_Host v = u_Host u" using arg_cong [OF v(3), of u_Host] by simp
  moreover from this have "Hostname v = Hostname u" by (simp only: Hostname_def)
  ultimately show ?thesis
    using p v unfolding endpoint_scheme_ok_def
    by (intro exI [of _ u] exI [of _ ep] exI [of _ front] exI [of _ repeated] conjI) simp_all
qed

theorem endpoint_stays_on_base_witness:
  "let base = ''https://api.example.com:8443/relay/v1''; path = ''/v1/usage?days=30'';
       options = \<lparr>eo_AllowInternalHTTP = False, eo_StripInferenceSuffix = False\<rparr> in
   \<exists>v. fixedEndpointURL base [] path options = Inr v
     \<and> splitEndpointPath (u_RawPath v) = [''relay'', ''v1'', ''usage'']
     \<and> (\<exists>u ep front. url_Parse (TrimSpace base) = Some u \<and> url_Parse (TrimSpace path) = Some ep
          \<and> splitEndpointPath (u_RawPath v) = front @ splitEndpointPath (EscapedPath ep))"
proof -
  let ?base = "''https://api.example.com:8443/relay/v1''"
  let ?path = "''/v1/usage?days=30''"
  let ?options = "\<lparr>eo_AllowInternalHTTP = False, eo_StripInferenceSuffix = False\<rparr>"
  have c: "case fixedEndpointURL ?base [] ?path ?options of
      Inl e \<Rightarrow> False | Inr v \<Rightarrow> splitEndpointPath (u_RawPath v) = [''relay'', ''v1'', ''usage'']"
    by code_simp
  then obtain v where v: "fixedEndpointURL ?base [] ?path ?options = Inr v"
      "splitEndpointPath (u_RawPath v) = [''relay'', ''v1'', ''usage'']"
    by (rule result_InrE)
  have "TrimSpace ?base \<noteq> []" by code_simp
  then have t: "(if TrimSpace ?base = [] then [] else TrimSpace ?base) = TrimSpace ?base" by (rule if_not_P)
  obtain u ep front where "url_Parse (TrimSpace ?base) = Some u" "url_Parse (TrimSpace ?path) = Some ep"
      "splitEndpointPath (u_RawPath v) = front @ splitEndpointPath (EscapedPath ep)"
    using endpoint_stays_on_base [OF v(1)] unfolding t by (elim exE conjE)
  with v show ?thesis unfolding Let_def by blast
qed

section \<open>Redirects\<close>

lemma checkRedirect_None:
  "checkRedirect r via = None
     \<longleftrightarrow> length via < 5 \<and> EqualFold (u_Scheme (last via)) (u_Scheme r) \<and> EqualFold (u_Host (last via)) (u_Host r)"
  by (auto simp: checkRedirect_def Let_def)

definition same_server :: "URL \<Rightarrow> URL \<Rightarrow> bool" where
  "same_server u v = (EqualFold (u_Scheme u) (u_Scheme v) \<and> EqualFold (u_Host u) (u_Host v))"

lemma follow_redirects_prefix:
  "via \<noteq> [] \<Longrightarrow> length via \<le> 5 \<Longrightarrow> list_all (same_server f) via \<Longrightarrow>
     \<exists>k \<le> length targets. follow_redirects via targets = via @ take k targets
       \<and> length via + k \<le> 5
       \<and> list_all (same_server f) (via @ take k targets)
       \<and> (k < length targets \<longrightarrow> length via + k = 5 \<or> \<not> same_server f (targets ! k))"
proof (induction targets arbitrary: via)
  case (Cons t ts)
  have l: "same_server f (last via)" using Cons.prems by (simp add: list_all_iff)
  show ?case
  proof (cases "checkRedirect t via = None")
    case True
    then have "length via < 5" "same_server f t"
      using l by (auto simp: checkRedirect_None same_server_def EqualFold_def)
    then obtain k where k: "k \<le> length ts" "follow_redirects (via @ [t]) ts = (via @ [t]) @ take k ts"
        "length (via @ [t]) + k \<le> 5" "list_all (same_server f) ((via @ [t]) @ take k ts)"
        "k < length ts \<longrightarrow> length (via @ [t]) + k = 5 \<or> \<not> same_server f (ts ! k)"
      using Cons.IH [of "via @ [t]"] Cons.prems by auto
    then show ?thesis using True by (intro exI [of _ "Suc k"]) auto
  next
    case False
    then have "length via = 5 \<or> \<not> same_server f t"
      using l Cons.prems by (auto simp: checkRedirect_None same_server_def EqualFold_def)
    then show ?thesis using False Cons.prems by (intro exI [of _ 0]) auto
  qed
qed simp

text \<open>
  C20: Redirects stay on the server.  Whatever targets the servers name, the requests of one query
  are the first one followed by an initial part of the targets; there are at most five; each has
  the scheme and the host (with its port) of the first up to letter case, so the credential in
  the headers goes to no other server; and the client stops only at the fifth request or at the
  first target on another server.
\<close>

theorem redirects_stay_on_host:
  "\<exists>k \<le> length targets. follow_redirects [first] targets = first # take k targets
     \<and> k \<le> 4
     \<and> list_all (same_server first) (follow_redirects [first] targets)
     \<and> (k = length targets \<or> k = 4 \<or> \<not> same_server first (targets ! k))"
proof -
  have "same_server first first" by (simp add: same_server_def EqualFold_def)
  with follow_redirects_prefix [of "[first]" first targets]
  obtain k where "k \<le> length targets" "follow_redirects [first] targets = [first] @ take k targets"
      "length [first] + k \<le> 5" "list_all (same_server first) ([first] @ take k targets)"
      "k < length targets \<longrightarrow> length [first] + k = 5 \<or> \<not> same_server first (targets ! k)"
    by auto
  then show ?thesis by (intro exI [of _ k]) auto
qed

definition ex_server :: "string \<Rightarrow> string \<Rightarrow> URL" where
  "ex_server host path = zero_url\<lparr>u_Scheme := ''https'', u_Host := host, u_Path := path\<rparr>"

theorem redirects_stay_on_host_witness:
  "follow_redirects [ex_server ''a.io'' ''/1''] [ex_server ''A.io'' ''/2'', ex_server ''b.io'' ''/3'']
     = [ex_server ''a.io'' ''/1'', ex_server ''A.io'' ''/2'']"
proof -
  let ?first = "ex_server ''a.io'' ''/1''"
  let ?targets = "[ex_server ''A.io'' ''/2'', ex_server ''b.io'' ''/3'']"
  obtain k where k: "k \<le> length ?targets" "follow_redirects [?first] ?targets = ?first # take k ?targets"
      "list_all (same_server ?first) (follow_redirects [?first] ?targets)"
      "k = length ?targets \<or> k = 4 \<or> \<not> same_server ?first (?targets ! k)"
    using redirects_stay_on_host [where first = ?first and targets = ?targets] by blast
  have same: "same_server ?first (ex_server ''A.io'' ''/2'')" "\<not> same_server ?first (ex_server ''b.io'' ''/3'')"
    by code_simp+
  have "k = 0 \<or> k = 1 \<or> k = 2" using k(1) by auto
  moreover have "k \<noteq> 0" using k(4) same(1) by (intro notI) simp
  moreover have "k \<noteq> 2" using k(3) same(2) unfolding k(2) by auto
  ultimately have "k = 1" by blast
  with k(2) show ?thesis by simp
qed

section \<open>The SOCKS5 handshake\<close>

definition write_ok :: "nat \<Rightarrow> connection \<Rightarrow> bool" where
  "write_ok k cn = (drop k (cn_Writes cn) = [] \<or> hd (drop k (cn_Writes cn)))"

lemma conn_write_cases:
  "conn_write bytes cn =
     (if write_ok 0 cn then (Inr (), cn\<lparr>cn_Out := cn_Out cn @ bytes, cn_Writes := drop 1 (cn_Writes cn)\<rparr>)
      else (Inl WriteFailed, cn\<lparr>cn_Writes := drop 1 (cn_Writes cn)\<rparr>))"
  by (cases "cn_Writes cn") (auto simp: conn_write_def write_ok_def split: bool.splits)

lemma two_bytes: "HasPrefix s [a, b] \<longleftrightarrow> 2 \<le> length s \<and> s ! 0 = a \<and> s ! 1 = b"
  by (cases s; cases "tl s") (auto simp: HasPrefix_iff)

lemma authenticate_effect:
  "cn_Out (snd (socks_authenticate u p cn)) = cn_Out cn @ (if write_ok 0 cn then auth_request u p else [])"
  "fst (socks_authenticate u p cn) = Inr ()
     \<longleftrightarrow> write_ok 0 cn \<and> HasPrefix (cn_In cn) [CHR 0x01, CHR 0x00]"
  by (auto simp: socks_authenticate_def socks_bind_def conn_write_cases conn_read_def socks_fail_def
      socks_return_def two_bytes)

text \<open>What a SOCKS5 server reads: the method offer, the credentials (RFC 1929), the request (RFC 1928).\<close>

definition decode_auth :: "string \<Rightarrow> (string \<times> string) option" where
  "decode_auth s =
     (case s of
        v # l # r \<Rightarrow>
          (let n = of_char l in
           if v \<noteq> CHR 0x01 \<or> length r \<le> n then None
           else if length (drop (Suc n) r) \<noteq> of_char (r ! n) then None
           else Some (take n r, drop (Suc n) r))
      | _ \<Rightarrow> None)"

lemma of_char_byte_of_len: "length s \<le> 255 \<Longrightarrow> of_char (byte_of_len s) = length s"
  by (simp add: byte_of_len_def)

lemma decode_auth_request:
  "length u \<le> 255 \<Longrightarrow> length p \<le> 255 \<Longrightarrow> decode_auth (auth_request u p) = Some (u, p)"
  by (simp add: decode_auth_def auth_request_def of_char_byte_of_len nth_append)

text \<open>
  C9: Credentials are sent to a SOCKS5 proxy only after it chose their method.  The first message
  offers exactly one method; the user name and the password follow exactly when credentials are
  configured, none is longer than the 255 bytes that a length byte can say, and the first two
  bytes of the proxy choose the method; they are sent once and the proxy reads back exactly them.
  The negotiation succeeds exactly when the proxy chose the method that was offered and, with
  credentials, accepted them; a failed write sends nothing more.
\<close>

theorem socks_credentials_after_method:
  "let r = socks5Negotiate username password auth cn;
       m = (if auth then CHR 0x02 else CHR 0x00);
       credentials = auth_request username password;
       offered = ((auth \<longrightarrow> length username \<le> 255 \<and> length password \<le> 255) \<and> write_ok 0 cn);
       chosen = HasPrefix (cn_In cn) [CHR 0x05, m] in
   cn_Out (snd r) = cn_Out cn
       @ (if offered then [CHR 0x05, CHR 0x01, m] else [])
       @ (if offered \<and> auth \<and> chosen \<and> write_ok 1 cn then credentials else [])
   \<and> (decode_auth credentials = Some (username, password) \<or> \<not> offered \<or> \<not> auth)
   \<and> (fst r = Inr () \<longleftrightarrow>
        offered \<and> chosen
        \<and> (auth \<longrightarrow> write_ok 1 cn \<and> HasPrefix (drop 2 (cn_In cn)) [CHR 0x01, CHR 0x00]))"
proof (cases "auth \<and> (255 < length username \<or> 255 < length password)")
  case True
  then show ?thesis by (auto simp: socks5Negotiate_def socks_fail_def Let_def)
next
  case False
  then have l: "auth \<longrightarrow> length username \<le> 255 \<and> length password \<le> 255" by auto
  define m where "m = (if auth then CHR 0x02 else CHR 0x00)"
  define cn1 where "cn1 = cn\<lparr>cn_Out := cn_Out cn @ [CHR 0x05, CHR 0x01, m], cn_Writes := drop 1 (cn_Writes cn),
    cn_In := drop 2 (cn_In cn)\<rparr>"
  have w: "write_ok 0 cn1 = write_ok 1 cn" by (simp add: write_ok_def cn1_def)
  have n: "socks5Negotiate username password auth cn =
     (if \<not> write_ok 0 cn then (Inl WriteFailed, cn\<lparr>cn_Writes := drop 1 (cn_Writes cn)\<rparr>)
      else if length (cn_In cn) < 2 then (Inl ReadFailed, cn1\<lparr>cn_In := []\<rparr>)
      else if \<not> HasPrefix (cn_In cn) [CHR 0x05, m] then (Inl MethodRefused, cn1)
      else if auth then socks_authenticate username password cn1 else (Inr (), cn1))"
    using False by (auto simp: socks5Negotiate_def m_def [symmetric] Let_def socks_bind_def conn_write_cases
        conn_read_def socks_fail_def socks_return_def two_bytes cn1_def)
  have "HasPrefix (cn_In cn) [CHR 0x05, m] \<Longrightarrow> \<not> length (cn_In cn) < 2" by (simp add: two_bytes)
  with l show ?thesis
    unfolding Let_def m_def [symmetric] n
    using authenticate_effect [of username password cn1] decode_auth_request [of username password] w
    by (simp add: cn1_def)
qed

theorem socks_credentials_after_method_witness:
  "let r = socks5Negotiate ''me'' ''secret'' True
         \<lparr>cn_In = [CHR 0x05, CHR 0x02, CHR 0x01, CHR 0x00], cn_Out = [], cn_Writes = [True]\<rparr> in
   fst r = Inr () \<and> cn_Out (snd r) = [CHR 0x05, CHR 0x01, CHR 0x02] @ auth_request ''me'' ''secret''
   \<and> decode_auth (auth_request ''me'' ''secret'') = Some (''me'', ''secret'')"
  using socks_credentials_after_method [of "''me''" "''secret''" True
      "\<lparr>cn_In = [CHR 0x05, CHR 0x02, CHR 0x01, CHR 0x00], cn_Out = [], cn_Writes = [True]\<rparr>"]
  by (simp add: Let_def write_ok_def two_bytes)

section \<open>The SOCKS5 request\<close>

lemma of_char_int: "(of_char c :: int) = int (of_char c)"
  by (rule of_nat_of_char [symmetric])

lemma is_digit_val: "is_digit c \<Longrightarrow> 0 \<le> digit_val c \<and> digit_val c \<le> 9"
  unfolding is_digit_def digit_val_def less_eq_char_def of_char_int by simp

lemma hex_val_range: "hex_val c = Some h \<Longrightarrow> 0 \<le> h \<and> h < 16"
  using is_digit_val [of c] unfolding hex_val_def
  by (auto simp: less_eq_char_def of_char_int simp del: of_nat_of_char split: if_splits)

lemma hex_number_range:
  "\<forall>c \<in> set g. hex_val c \<noteq> None \<Longrightarrow> 0 \<le> n \<Longrightarrow>
     0 \<le> foldl (\<lambda>n c. 16 * n + the (hex_val c)) n g
     \<and> foldl (\<lambda>n c. 16 * n + the (hex_val c)) n g < (n + 1) * 16 ^ length g"
proof (induction g arbitrary: n)
  case (Cons c g)
  then obtain h where h: "hex_val c = Some h" "0 \<le> h" "h < 16" using hex_val_range by fastforce
  let ?n = "16 * n + h"
  have A: "(?n + 1) * 16 ^ length g \<le> (n + 1) * 16 ^ length (c # g)"
    using h mult_right_mono [of "?n + 1" "16 * (n + 1)" "16 ^ length g"] by (simp add: algebra_simps)
  have B: "0 \<le> foldl (\<lambda>n c. 16 * n + the (hex_val c)) ?n g
     \<and> foldl (\<lambda>n c. 16 * n + the (hex_val c)) ?n g < (?n + 1) * 16 ^ length g"
    using Cons h by simp
  have C: "foldl (\<lambda>n c. 16 * n + the (hex_val c)) n (c # g)
      = foldl (\<lambda>n c. 16 * n + the (hex_val c)) ?n g" using h by simp
  show ?case unfolding C by (rule conjI [OF conjunct1 [OF B] less_le_trans [OF conjunct2 [OF B] A]])
qed simp

definition byte_list :: "int list \<Rightarrow> bool" where
  "byte_list b = list_all (\<lambda>x. 0 \<le> x \<and> x < 256) b"

lemma dec_number_nonneg:
  "0 \<le> k \<Longrightarrow> list_all is_digit v \<Longrightarrow> 0 \<le> foldl (\<lambda>n c. 10 * n + digit_val c) k v"
proof (induction v arbitrary: k)
  case (Cons c v)
  then have "0 \<le> 10 * k + digit_val c" using is_digit_val [of c] by simp
  with Cons show ?case by simp
qed simp

lemma dec_field_range: "dec_field w = Some n \<Longrightarrow> 0 \<le> n \<and> n < 256"
  using dec_number_nonneg [of 0 w] by (auto simp: dec_field_def Let_def split: if_splits)

lemma parse_ipv4_bytes: "parse_ipv4_fields s = Some b \<Longrightarrow> byte_list b \<and> length b = 4"
  by (auto simp: parse_ipv4_fields_def byte_list_def dest!: dec_field_range
      split: list.splits option.splits)

lemma byte_list_group: "0 \<le> v \<Longrightarrow> v < 65536 \<Longrightarrow> byte_list [v div 256, v mod (256 :: int)]"
  unfolding byte_list_def by simp linarith

lemma byte_list_append [simp]: "byte_list (a @ b) \<longleftrightarrow> byte_list a \<and> byte_list b"
  by (simp add: byte_list_def)

lemma dot_case:
  "(case r of CHR ''.'' # t \<Rightarrow> P | _ \<Rightarrow> Q) = (if r \<noteq> [] \<and> hd r = CHR ''.'' then P else Q)"
  by (auto split: list.splits char.splits bool.splits)

lemma ipv6_groups_step:
  assumes "ipv6_groups (Suc k) s acc ell = Some (b, e)"
  shows "let g = takeWhile (\<lambda>c. hex_val c \<noteq> None) s; v = foldl (\<lambda>n c. 16 * n + the (hex_val c)) 0 g;
      acc' = acc @ [v div 256, v mod 256] in
    length g \<le> 4
    \<and> ((\<exists>f. parse_ipv4_fields s = Some f \<and> b = acc @ f) \<or> b = acc'
       \<or> (\<exists>s' ell'. ipv6_groups k s' acc' ell' = Some (b, e)))"
  using assms unfolding ipv6_groups.simps Let_def dot_case
  by (auto split: if_splits list.splits option.splits)

lemma ipv6_groups_bytes:
  "ipv6_groups n s acc ell = Some (b, e) \<Longrightarrow> byte_list acc \<Longrightarrow> byte_list b"
proof (induction n arbitrary: s acc ell)
  case (Suc k)
  define g where "g = takeWhile (\<lambda>c. hex_val c \<noteq> None) s"
  define v where "v = foldl (\<lambda>n c. 16 * n + the (hex_val c)) 0 g"
  note step = ipv6_groups_step [OF Suc.prems(1), unfolded Let_def, folded g_def, folded v_def]
  have "0 \<le> v \<and> v < (0 + 1) * 16 ^ length g"
    unfolding v_def by (rule hex_number_range) (auto simp: g_def dest: set_takeWhileD)
  moreover have "(16 :: int) ^ length g \<le> 16 ^ 4" using step by (intro power_increasing) auto
  ultimately have "byte_list [v div 256, v mod 256]" by (intro byte_list_group) auto
  with Suc.prems have "byte_list (acc @ [v div 256, v mod 256])" by simp
  with step Suc.IH Suc.prems(2) show ?case by (metis byte_list_append parse_ipv4_bytes)
qed (auto split: if_splits)

lemma byte_list_replicate [simp]: "byte_list (replicate n 0)"
  by (simp add: byte_list_def list_all_iff)

lemma byte_list_parts: "byte_list b \<Longrightarrow> byte_list (take n b) \<and> byte_list (drop n b)"
  by (metis append_take_drop_id byte_list_append)

lemma ipv6_expand_bytes: "ipv6_expand acc e = Some b \<Longrightarrow> byte_list acc \<Longrightarrow> byte_list b \<and> length b = 16"
  by (auto simp: ipv6_expand_def byte_list_parts split: option.splits if_splits)

lemma parse_ipv6_bytes:
  assumes "parse_ipv6 s = Some a"
  obtains b z where "a = V6 b z" "byte_list b" "length b = 16"
proof -
  let ?s = "fst (Cut CHR ''%'' s)"
  show thesis
  proof (cases "?s = ''::''")
    case True
    then have "a = V6 (replicate 16 0) (snd (Cut CHR ''%'' s))"
      using assms by (auto simp: parse_ipv6_def Let_def split: prod.splits if_splits)
    then show thesis by (rule that) simp_all
  next
    case False
    then obtain body ell acc e b z where g: "ipv6_groups 8 body [] ell = Some (acc, e)"
        "ipv6_expand acc e = Some b" "a = V6 b z"
      using assms by (auto simp: parse_ipv6_def Let_def split: prod.splits if_splits option.splits)
    have "byte_list acc" using ipv6_groups_bytes [OF g(1)] by (simp add: byte_list_def)
    with g that show thesis using ipv6_expand_bytes by blast
  qed
qed

lemma ParseIP_bytes:
  assumes "ParseIP s = Some b"
  shows "byte_list b \<and> (length b = 4 \<or> length b = 16)"
proof -
  obtain a where a: "ParseAddr s = Some a" using assms by (auto simp: ParseIP_def split: option.splits)
  then consider f where "a = V4 f" "parse_ipv4_fields s = Some f" | "parse_ipv6 s = Some a"
    unfolding ParseAddr_def by (auto split: list.splits char.splits bool.splits option.splits)
  then show ?thesis
  proof cases
    case 1
    then have "b = f" using a assms by (simp add: ParseIP_def)
    with 1 show ?thesis using parse_ipv4_bytes by blast
  next
    case 2
    then obtain c z where c: "a = V6 c z" "byte_list c" "length c = 16" by (rule parse_ipv6_bytes)
    then have "b = c \<or> b = drop 12 c" using a assms by (auto simp: ParseIP_def split: list.splits if_splits)
    with c show ?thesis using byte_list_parts by auto
  qed
qed

text \<open>The request as a server reads it: an address by its bytes, or a name, and the port.\<close>

definition decode_target :: "string \<Rightarrow> ((int list + string) \<times> string) option" where
  "decode_target s =
     (case s of
        t # r \<Rightarrow>
          if t = CHR 0x01 then Some (Inl (map of_char (take 4 r)), drop 4 r)
          else if t = CHR 0x04 then Some (Inl (map of_char (take 16 r)), drop 16 r)
          else if t = CHR 0x03 \<and> r \<noteq> [] then
            Some (Inr (take (of_char (hd r)) (tl r)), drop (of_char (hd r)) (tl r))
          else None
      | [] \<Rightarrow> None)"

definition decode_request :: "string \<Rightarrow> ((int list + string) \<times> int) option" where
  "decode_request s =
     (if \<not> HasPrefix s [CHR 0x05, CHR 0x01, CHR 0x00] then None
      else (case decode_target (drop 3 s) of
          Some (target, [h, l]) \<Rightarrow> Some (target, 256 * of_char h + of_char l)
        | _ \<Rightarrow> None))"

lemma bytes_back: "byte_list b \<Longrightarrow> map of_char (map char_of b :: string) = b"
  by (induction b) (auto simp: byte_list_def)

lemma decode_socks_target:
  assumes "socks_target host = Inr t"
  shows "decode_target (t @ r) = Some ((case ParseIP host of Some b \<Rightarrow> Inl b | None \<Rightarrow> Inr host), r)"
proof (cases "ParseIP host")
  case None
  then have "t = [CHR 0x03, byte_of_len host] @ host" "length host \<le> 255"
    using assms by (auto simp: socks_target_def split: if_splits)
  with None show ?thesis by (simp add: decode_target_def of_char_byte_of_len)
next
  case (Some b)
  then have t: "t = (if length b = 4 then CHR 0x01 else CHR 0x04) # map char_of b"
    using assms by (simp add: socks_target_def)
  have b: "byte_list b" "length b = 4 \<or> length b = 16" using ParseIP_bytes [OF Some] by auto
  then show ?thesis using Some bytes_back [OF b(1)] by (auto simp: t decode_target_def)
qed

text \<open>
  C18: The SOCKS5 request names the target.  When a request is built for an address, the address
  has the form host:port with a port from 1 to 65535, and a server that decodes the request by
  RFC 1928 recovers the port and the host: its address bytes where the host is an IP literal,
  the name itself otherwise (no length, no port and no address byte wraps around).
\<close>

theorem socks_request_roundtrip:
  assumes "socks_request address = Inr request"
  shows "\<exists>host portText port.
     SplitHostPort address = Some (host, portText) \<and> Atoi portText = Some port
     \<and> 1 \<le> port \<and> port \<le> 65535
     \<and> decode_request request
         = Some ((case ParseIP host of Some b \<Rightarrow> Inl b | None \<Rightarrow> Inr host), port)"
proof -
  obtain host portText port t where a: "SplitHostPort address = Some (host, portText)"
      "Atoi portText = Some port" "\<not> port < 1" "\<not> 65535 < port" "socks_target host = Inr t"
      "request = [CHR 0x05, CHR 0x01, CHR 0x00] @ t @ port_bytes port"
    using assms unfolding socks_request_def by (auto split: option.splits if_splits sum.splits)
  have p: "256 * of_char (char_of (port div 256) :: char) + of_char (char_of (port mod 256) :: char) = port"
  proof -
    have "port div 256 < 256" "0 \<le> port div 256" using a(3,4) by linarith+
    then show ?thesis by simp
  qed
  have "decode_request request
      = Some ((case ParseIP host of Some b \<Rightarrow> Inl b | None \<Rightarrow> Inr host), port)"
    using decode_socks_target [OF a(5), of "port_bytes port"] p
    by (simp add: decode_request_def a(6) HasPrefix_iff port_bytes_def)
  with a show ?thesis by auto
qed

theorem socks_request_roundtrip_witness:
  "\<exists>host portText port request.
     socks_request ''[2001:db8::1]:8443'' = Inr request
     \<and> SplitHostPort ''[2001:db8::1]:8443'' = Some (host, portText) \<and> Atoi portText = Some port
     \<and> decode_request request
         = Some ((case ParseIP host of Some b \<Rightarrow> Inl b | None \<Rightarrow> Inr host), port)"
proof -
  have "case socks_request ''[2001:db8::1]:8443'' of Inl e \<Rightarrow> False | Inr r \<Rightarrow> True" by code_simp
  then obtain r where "socks_request ''[2001:db8::1]:8443'' = Inr r" by (rule result_InrE)
  with socks_request_roundtrip [OF this] show ?thesis by blast
qed

end
