(* ===== verification/Session_Proxy.thy ===== *)
theory Session_Proxy
  imports Go_Url Pref_Crypto
begin

text \<open>
  The session proxy, cmd/session-proxy/main.go: it exchanges the management key for a session
  cookie and relays the requests of a signed-in page to the management interface, adding the key
  on the way.  A handler gives its response, the upstream requests it made, oldest first, and the
  new state.  What \<open>http.Client.Do\<close> returns, the bytes of \<open>rand.Read\<close>, the clock and the
  decoder of the login document are fields of the environment.
\<close>

section \<open>Constants\<close>

definition sessionDuration :: int where
  "sessionDuration = 12 * 3600 * 1000000000"

definition maxLoginBody :: nat where "maxLoginBody = 4096"
definition maxProxyBody :: nat where "maxProxyBody = 1048576"
definition maxResponseBody :: nat where "maxResponseBody = 16777216"

definition allowedRoutes :: "(string, string list) gomap" where
  "allowedRoutes =
     [(''state'', [''GET'']),
      (''refresh'', [''GET'', ''POST'']),
      (''config'', [''GET'', ''PUT'']),
      (''providers'', [''PUT'']),
      (''history'', [''GET'']),
      (''cleanup'', [''POST'']),
      (''alerts/dismiss'', [''POST''])]"

definition api_prefix :: string where
  "api_prefix = ''/upstream-monitor/api/''"

section \<open>State, requests and responses\<close>

record sessionProxy =
  sx_cpaKey :: string
  sx_cpaURL :: URL
  sx_cpampURL :: "URL option"
  sx_sessions :: "(string, gotime) gomap"

record pageRequest =
  hr_Method :: string
  hr_Path :: string
  hr_RawQuery :: string
  hr_Marker :: string
  hr_ContentType :: string
  hr_Cookie :: "string option"
  hr_Body :: string

record upstreamRequest =
  uq_Method :: string
  uq_URL :: string
  uq_Authorization :: string
  uq_ContentType :: string
  uq_Body :: string

text \<open>An upstream response; the body ends with an error when \<open>ur_Broken\<close> holds.\<close>

record upstreamResponse =
  ur_Status :: int
  ur_ContentType :: string
  ur_Body :: string
  ur_Broken :: bool

record proxy_env =
  pe_now :: gotime
  pe_random :: "int list option"
  pe_login :: "string \<Rightarrow> string option"
  pe_do :: "upstreamRequest \<Rightarrow> upstreamResponse option"

record sessionCookie =
  sk_Value :: string
  sk_Expires :: "gotime option"
  sk_MaxAge :: int

record pageResponse =
  rs_Status :: int
  rs_Cookie :: "sessionCookie option"
  rs_ContentType :: string
  rs_Body :: string

definition http_error :: "string \<Rightarrow> int \<Rightarrow> pageResponse" where
  "http_error message code =
     \<lparr>rs_Status = code, rs_Cookie = None, rs_ContentType = ''text/plain; charset=utf-8'',
      rs_Body = message @ [CHR 0x0A]\<rparr>"

definition no_content :: "sessionCookie option \<Rightarrow> pageResponse" where
  "no_content cookie = \<lparr>rs_Status = 204, rs_Cookie = cookie, rs_ContentType = [], rs_Body = []\<rparr>"

type_synonym served = "pageResponse \<times> upstreamRequest list \<times> sessionProxy"

section \<open>Configuration\<close>

datatype setup_error = VariableRequired string | SecretUnreadable | SecretEmpty | KeyRequired | BadBaseURL string

definition readSecret ::
    "(string \<Rightarrow> string) \<Rightarrow> (string \<Rightarrow> string option) \<Rightarrow> string \<Rightarrow> setup_error + string" where
  "readSecret getenv readFile environmentName =
     (let path = TrimSpace (getenv environmentName) in
      if path = [] then Inl (VariableRequired environmentName)
      else (case readFile path of
          None \<Rightarrow> Inl SecretUnreadable
        | Some raw \<Rightarrow> if TrimSpace raw = [] then Inl SecretEmpty else Inr (TrimSpace raw)))"

definition parseBaseURL :: "string \<Rightarrow> string \<Rightarrow> setup_error + URL" where
  "parseBaseURL rawValue name =
     (case url_Parse (TrimSpace rawValue) of
        None \<Rightarrow> Inl (BadBaseURL name)
      | Some u \<Rightarrow>
          if u_Scheme u \<noteq> ''http'' \<and> u_Scheme u \<noteq> ''https'' \<or> u_Host u = [] \<or> u_User u \<noteq> None
          then Inl (BadBaseURL name)
          else Inr (u\<lparr>u_RawQuery := [], u_Fragment := [], u_Path := TrimRightSet ''/'' (u_Path u)\<rparr>))"

definition newSessionProxy :: "string \<Rightarrow> string \<Rightarrow> string \<Rightarrow> setup_error + sessionProxy" where
  "newSessionProxy cpaKey rawCPAURL rawCPAMPURL =
     (if cpaKey = [] then Inl KeyRequired
      else (case parseBaseURL rawCPAURL ''CPA_BASE_URL'' of
          Inl e \<Rightarrow> Inl e
        | Inr baseURL \<Rightarrow>
            let made = (\<lambda>adminURL. \<lparr>sx_cpaKey = cpaKey, sx_cpaURL = baseURL, sx_cpampURL = adminURL,
                                     sx_sessions = []\<rparr>) in
            if EqualFold (TrimSpace rawCPAMPURL) ''off'' then Inr (made None)
            else (case parseBaseURL rawCPAMPURL ''CPAMP_BASE_URL'' of
                Inl e \<Rightarrow> Inl e
              | Inr adminURL \<Rightarrow> Inr (made (Some adminURL)))))"

text \<open>What \<open>main\<close> does before it listens.\<close>

definition setting :: "(string \<Rightarrow> string) \<Rightarrow> string \<Rightarrow> string \<Rightarrow> string" where
  "setting getenv name default_value =
     (let v = TrimSpace (getenv name) in if v = [] then default_value else v)"

definition proxy_main ::
    "(string \<Rightarrow> string) \<Rightarrow> (string \<Rightarrow> string option) \<Rightarrow> setup_error + sessionProxy \<times> string" where
  "proxy_main getenv readFile =
     (case readSecret getenv readFile ''CPA_MANAGEMENT_KEY_FILE'' of
        Inl e \<Rightarrow> Inl e
      | Inr cpaKey \<Rightarrow>
          (case newSessionProxy cpaKey (setting getenv ''CPA_BASE_URL'' ''http://cli-proxy-api:8317'')
                  (setting getenv ''CPAMP_BASE_URL'' ''http://cpa-manager-plus:18317'') of
             Inl e \<Rightarrow> Inl e
           | Inr p \<Rightarrow> Inr (p, setting getenv ''HTTP_ADDR'' '':18320'')))"

section \<open>Signing in and out\<close>

definition bearer :: "string \<Rightarrow> string" where
  "bearer key = ''Bearer '' @ key"

text \<open>\<open>Inl\<close> is the error of the function; the list is the upstream requests.\<close>

definition verifyCPAMPAdmin ::
    "proxy_env \<Rightarrow> URL \<Rightarrow> string \<Rightarrow> (unit + bool) \<times> upstreamRequest list" where
  "verifyCPAMPAdmin env cpampURL key =
     (let target = url_String (cpampURL\<lparr>u_Path := TrimRightSet ''/'' (u_Path cpampURL) @ ''/status''\<rparr>);
          request = \<lparr>uq_Method = ''GET'', uq_URL = target, uq_Authorization = bearer key,
                     uq_ContentType = [], uq_Body = []\<rparr> in
      if url_Parse target = None then (Inl (), [])
      else
        ((case pe_do env request of
            None \<Rightarrow> Inl ()
          | Some response \<Rightarrow>
              if ur_Status response \<in> {200, 204} then Inr True
              else if ur_Status response \<in> {401, 403} then Inr False
              else Inl ()),
         [request]))"

definition verifyLoginKey ::
    "proxy_env \<Rightarrow> sessionProxy \<Rightarrow> string \<Rightarrow> (unit + bool) \<times> upstreamRequest list" where
  "verifyLoginKey env p key =
     (if key = sx_cpaKey p then (Inr True, [])
      else (case sx_cpampURL p of
          None \<Rightarrow> (Inr False, [])
        | Some cpampURL \<Rightarrow> verifyCPAMPAdmin env cpampURL key))"

text \<open>The document of a login: one JSON value of at most \<open>maxLoginBody\<close> bytes and nothing after it.\<close>

definition login_key :: "proxy_env \<Rightarrow> string \<Rightarrow> string" where
  "login_key env raw =
     (if maxLoginBody < length raw then []
      else (case pe_login env raw of None \<Rightarrow> [] | Some key \<Rightarrow> key))"

definition add_session :: "gotime \<Rightarrow> string \<Rightarrow> sessionProxy \<Rightarrow> sessionProxy" where
  "add_session now token p =
     p\<lparr>sx_sessions := mput token (now + sessionDuration)
         (filter (\<lambda>(value, deadline). now < deadline) (sx_sessions p))\<rparr>"

definition createSession :: "proxy_env \<Rightarrow> pageRequest \<Rightarrow> sessionProxy \<Rightarrow> served" where
  "createSession env request p =
     (if hr_Marker request \<noteq> ''1'' then (http_error ''invalid request'' 400, [], p)
      else if \<not> HasPrefix (hr_ContentType request) ''application/json''
      then (http_error ''expected application/json'' 415, [], p)
      else if login_key env (hr_Body request) = [] then (http_error ''invalid login'' 400, [], p)
      else
        (case verifyLoginKey env p (login_key env (hr_Body request)) of
           (Inl _, sent) \<Rightarrow> (http_error ''session unavailable'' 503, sent, p)
         | (Inr False, sent) \<Rightarrow> (http_error ''unauthorized'' 401, sent, p)
         | (Inr True, sent) \<Rightarrow>
             (case pe_random env of
                None \<Rightarrow> (http_error ''session unavailable'' 500, sent, p)
              | Some random \<Rightarrow>
                  let token = b64_encode b64_url random in
                  (no_content (Some \<lparr>sk_Value = token, sk_Expires = Some (pe_now env + sessionDuration),
                     sk_MaxAge = sessionDuration div 1000000000\<rparr>),
                   sent, add_session (pe_now env) token p))))"

definition deleteSession :: "pageRequest \<Rightarrow> sessionProxy \<Rightarrow> served" where
  "deleteSession request p =
     (if hr_Marker request \<noteq> ''1'' then (http_error ''invalid request'' 400, [], p)
      else
        (no_content (Some \<lparr>sk_Value = [], sk_Expires = None, sk_MaxAge = - 1\<rparr>), [],
         (case hr_Cookie request of
            None \<Rightarrow> p
          | Some value \<Rightarrow> p\<lparr>sx_sessions := mdel value (sx_sessions p)\<rparr>)))"

section \<open>Relaying\<close>

definition authorized :: "gotime \<Rightarrow> pageRequest \<Rightarrow> sessionProxy \<Rightarrow> bool \<times> sessionProxy" where
  "authorized now request p =
     (case hr_Cookie request of
        None \<Rightarrow> (False, p)
      | Some value \<Rightarrow>
          if value = [] then (False, p)
          else (case mget (sx_sessions p) value of
              None \<Rightarrow> (False, p\<lparr>sx_sessions := mdel value (sx_sessions p)\<rparr>)
            | Some expires \<Rightarrow>
                if now < expires then (True, p)
                else (False, p\<lparr>sx_sessions := mdel value (sx_sessions p)\<rparr>)))"

definition relay_url :: "sessionProxy \<Rightarrow> string \<Rightarrow> string \<Rightarrow> string" where
  "relay_url p route query =
     url_String ((sx_cpaURL p)\<lparr>
       u_Path := TrimRightSet ''/'' (u_Path (sx_cpaURL p)) @ ''/v0/management/upstream-monitor/'' @ route,
       u_RawQuery := query\<rparr>)"

definition relay_request :: "sessionProxy \<Rightarrow> pageRequest \<Rightarrow> string \<Rightarrow> upstreamRequest" where
  "relay_request p request route =
     \<lparr>uq_Method = hr_Method request, uq_URL = relay_url p route (hr_RawQuery request),
      uq_Authorization = bearer (sx_cpaKey p), uq_ContentType = hr_ContentType request,
      uq_Body = hr_Body request\<rparr>"

definition relay_response :: "upstreamResponse option \<Rightarrow> pageResponse" where
  "relay_response r =
     (case r of
        None \<Rightarrow> http_error ''CPA management API unavailable'' 502
      | Some response \<Rightarrow>
          if length (ur_Body response) \<le> maxResponseBody \<and> ur_Broken response
          then http_error ''CPA response unavailable'' 502
          else if maxResponseBody < length (ur_Body response)
          then http_error ''CPA response too large'' 502
          else \<lparr>rs_Status = ur_Status response, rs_Cookie = None,
                rs_ContentType = ur_ContentType response, rs_Body = ur_Body response\<rparr>)"

definition proxy :: "proxy_env \<Rightarrow> pageRequest \<Rightarrow> string \<Rightarrow> sessionProxy \<Rightarrow> served" where
  "proxy env request route p =
     (if maxProxyBody < length (hr_Body request)
      then (http_error ''request body too large'' 413, [], p)
      else if url_Parse (relay_url p route (hr_RawQuery request)) = None
      then (http_error ''request unavailable'' 500, [], p)
      else (relay_response (pe_do env (relay_request p request route)),
            [relay_request p request route], p))"

definition serve_api :: "proxy_env \<Rightarrow> pageRequest \<Rightarrow> sessionProxy \<Rightarrow> served" where
  "serve_api env request p =
     (case authorized (pe_now env) request p of
        (False, p') \<Rightarrow> (http_error ''unauthorized'' 401, [], p')
      | (True, p') \<Rightarrow>
          let route = TrimPrefix (hr_Path request) api_prefix in
          if hr_Method request \<notin> set (mgetz [] allowedRoutes route)
          then (http_error ''route not allowed'' 405, [], p')
          else if hr_Method request \<noteq> ''GET'' \<and> hr_Marker request \<noteq> ''1''
          then (http_error ''invalid request'' 400, [], p')
          else proxy env request route p')"

definition ServeHTTP :: "proxy_env \<Rightarrow> pageRequest \<Rightarrow> sessionProxy \<Rightarrow> served" where
  "ServeHTTP env request p =
     (if hr_Path request = ''/health'' then
        (if hr_Method request \<noteq> ''GET'' then (http_error ''method not allowed'' 405, [], p)
         else (no_content None, [], p))
      else if hr_Path request = ''/upstream-monitor/session'' then
        (if hr_Method request = ''POST'' then createSession env request p
         else if hr_Method request = ''DELETE'' then deleteSession request p
         else (http_error ''method not allowed'' 405, [], p))
      else if \<not> HasPrefix (hr_Path request) api_prefix
      then (http_error ''404 page not found'' 404, [], p)
      else serve_api env request p)"

end
