(* ===== verification/Session_Theorems.thy ===== *)
theory Session_Theorems
  imports Session_Proxy
begin

text \<open>
  What the session proxy promises over every history of requests: a request is relayed only for
  a session that a verified sign-in opened, that has not ended and that was not signed out; and
  the management key goes nowhere but to the configured management interface.
\<close>

definition session_path :: string where
  "session_path = ''/upstream-monitor/session''"

text \<open>A successful sign-in that issues a token, and a sign-out of a token.\<close>

definition signs_in :: "sessionProxy \<Rightarrow> proxy_env \<Rightarrow> pageRequest \<Rightarrow> string \<Rightarrow> bool" where
  "signs_in p env r token =
     (hr_Path r = session_path \<and> hr_Method r = ''POST'' \<and> hr_Marker r = ''1''
      \<and> login_key env (hr_Body r) \<noteq> []
      \<and> fst (verifyLoginKey env p (login_key env (hr_Body r))) = Inr True
      \<and> map_option (b64_encode b64_url) (pe_random env) = Some token)"

definition signs_out :: "pageRequest \<Rightarrow> string \<Rightarrow> bool" where
  "signs_out r token =
     (hr_Path r = session_path \<and> hr_Method r = ''DELETE'' \<and> hr_Marker r = ''1''
      \<and> hr_Cookie r = Some token)"

definition served_state :: "sessionProxy \<Rightarrow> proxy_env \<times> pageRequest \<Rightarrow> sessionProxy" where
  "served_state p er = snd (snd (ServeHTTP (fst er) (snd er) p))"

definition serve_all :: "sessionProxy \<Rightarrow> (proxy_env \<times> pageRequest) list \<Rightarrow> sessionProxy" where
  "serve_all p history = foldl served_state p history"

section \<open>One request\<close>

lemma authorized_state:
  "snd (authorized now r p) = p
     \<or> (\<exists>v. snd (authorized now r p) = p\<lparr>sx_sessions := mdel v (sx_sessions p)\<rparr>)"
  by (auto simp: authorized_def split: option.splits)

lemma serve_api_state:
  "snd (snd (serve_api env r p)) = p
     \<or> (\<exists>v. snd (snd (serve_api env r p)) = p\<lparr>sx_sessions := mdel v (sx_sessions p)\<rparr>)"
proof -
  have "snd (snd (serve_api env r p)) = snd (authorized (pe_now env) r p)"
    by (auto simp: serve_api_def proxy_def Let_def split: prod.splits bool.splits)
  then show ?thesis using authorized_state by metis
qed

lemma createSession_state:
  assumes "hr_Path r = session_path" "hr_Method r = ''POST''"
  shows "snd (snd (createSession env r p)) = p
     \<or> (\<exists>token. signs_in p env r token
          \<and> snd (snd (createSession env r p)) = add_session (pe_now env) token p)"
  using assms unfolding createSession_def signs_in_def Let_def
  by (auto split: option.splits prod.splits sum.splits bool.splits)

text \<open>The cases of a step: no change, a sign-in, a sign-out, or an ended session that is dropped.\<close>

lemma serve_cases:
  obtains (Same) "served_state p (env, r) = p"
    | (In) token where "signs_in p env r token" "served_state p (env, r) = add_session (pe_now env) token p"
    | (Out) v where "served_state p (env, r) = p\<lparr>sx_sessions := mdel v (sx_sessions p)\<rparr>"
        "\<And>token. signs_out r token \<Longrightarrow> token = v"
proof -
  consider (login) "hr_Path r = session_path" "hr_Method r = ''POST''"
    | (logout) "hr_Path r = session_path" "hr_Method r = ''DELETE''"
    | (other) "hr_Path r = session_path" "hr_Method r \<noteq> ''POST''" "hr_Method r \<noteq> ''DELETE''"
    | (path) "hr_Path r \<noteq> session_path"
    by blast
  then show thesis
  proof cases
    case login
    then have "served_state p (env, r) = snd (snd (createSession env r p))"
      by (simp add: served_state_def ServeHTTP_def session_path_def)
    with createSession_state [OF login, of env p] Same In show thesis by metis
  next
    case logout
    then have "served_state p (env, r) = snd (snd (deleteSession r p))"
      by (simp add: served_state_def ServeHTTP_def session_path_def)
    then show thesis using Same Out [of "the (hr_Cookie r)"]
      by (auto simp: deleteSession_def signs_out_def split: if_splits option.splits)
  next
    case other
    then show thesis using Same by (simp add: served_state_def ServeHTTP_def session_path_def)
  next
    case path
    then have no: "\<not> signs_out r token" for token by (simp add: signs_out_def)
    have "served_state p (env, r) = p \<or> served_state p (env, r) = snd (snd (serve_api env r p))"
      using path by (auto simp: served_state_def ServeHTTP_def session_path_def)
    then show thesis using Same Out no serve_api_state [of env r p] by metis
  qed
qed

section \<open>Histories\<close>

definition same_setup :: "sessionProxy \<Rightarrow> sessionProxy \<Rightarrow> bool" where
  "same_setup p q = (sx_cpaKey p = sx_cpaKey q \<and> sx_cpaURL p = sx_cpaURL q \<and> sx_cpampURL p = sx_cpampURL q)"

lemma signs_in_setup: "same_setup p q \<Longrightarrow> signs_in q env r token \<Longrightarrow> signs_in p env r token"
proof -
  assume "same_setup p q"
  then have "verifyLoginKey env p k = verifyLoginKey env q k" for k
    unfolding same_setup_def by (simp only: verifyLoginKey_def)
  then show "signs_in q env r token \<Longrightarrow> signs_in p env r token" by (simp add: signs_in_def)
qed

lemma serve_all_setup: "same_setup p (serve_all p history)"
proof (induction history rule: rev_induct)
  case (snoc er history)
  obtain env r where er: "er = (env, r)" by fastforce
  have "same_setup q (served_state q (env, r))" for q
    by (cases rule: serve_cases [of q env r]) (simp_all add: same_setup_def add_session_def)
  with snoc er show ?case by (simp add: serve_all_def same_setup_def)
qed (simp add: serve_all_def same_setup_def)

lemma session_was_opened:
  assumes "sx_sessions p = []" "(token, deadline) \<in> set (sx_sessions (serve_all p history))"
  shows "\<exists>before env r after. history = before @ (env, r) # after
     \<and> signs_in p env r token \<and> deadline = pe_now env + sessionDuration
     \<and> (\<forall>e \<in> set after. \<not> signs_out (snd e) token)"
  using assms(2)
proof (induction history rule: rev_induct)
  case Nil
  with assms(1) show ?case by (simp add: serve_all_def)
next
  case (snoc er history)
  obtain env r where er: "er = (env, r)" by fastforce
  let ?q = "serve_all p history"
  have step: "serve_all p (history @ [er]) = served_state ?q (env, r)" by (simp add: serve_all_def er)
  have older: ?case if in_q: "(token, deadline) \<in> set (sx_sessions ?q)" and no: "\<not> signs_out r token"
  proof -
    obtain before env' r' after where "history = before @ (env', r') # after" "signs_in p env' r' token"
        "deadline = pe_now env' + sessionDuration" "\<forall>e \<in> set after. \<not> signs_out (snd e) token"
      using snoc.IH [OF in_q] by blast
    then have "history @ [er] = before @ (env', r') # (after @ [er])"
        "\<forall>e \<in> set (after @ [er]). \<not> signs_out (snd e) token"
      using no er by auto
    with \<open>signs_in p env' r' token\<close> \<open>deadline = _\<close> show ?case by blast
  qed
  show ?case
  proof (cases rule: serve_cases [of ?q env r])
    case Same
    show ?thesis
    proof (cases "signs_out r token")
      case True
      then have "served_state ?q (env, r) = ?q\<lparr>sx_sessions := mdel token (sx_sessions ?q)\<rparr>"
        by (simp add: signs_out_def served_state_def ServeHTTP_def session_path_def deleteSession_def)
      with snoc.prems step show ?thesis by (auto dest: set_mdel)
    next
      case False
      with older snoc.prems step Same show ?thesis by simp
    qed
  next
    case (In t)
    have no: "\<not> signs_out r token" using In(1) by (simp add: signs_in_def signs_out_def)
    have "(token, deadline) \<in> set (mput t (pe_now env + sessionDuration)
        (filter (\<lambda>(value, deadline). pe_now env < deadline) (sx_sessions ?q)))"
      using snoc.prems step In by (simp add: add_session_def)
    then consider "(token, deadline) = (t, pe_now env + sessionDuration)" | "(token, deadline) \<in> set (sx_sessions ?q)"
      by (auto dest!: set_mput)
    then show ?thesis
    proof cases
      case 1
      have "signs_in p env r t" using In(1) signs_in_setup serve_all_setup by blast
      with 1 er show ?thesis by (intro exI [of _ history] exI [of _ env] exI [of _ r] exI [of _ "[]"]) simp
    next
      case 2
      then show ?thesis using older no by blast
    qed
  next
    case (Out v)
    then have "(token, deadline) \<in> set (sx_sessions ?q)" "token \<noteq> v"
      using snoc.prems step by (auto dest: set_mdel)
    with Out(2) older show ?thesis by blast
  qed
qed

lemma authorized_True:
  "authorized now r p = (True, q) \<Longrightarrow>
     q = p \<and> (\<exists>token deadline. hr_Cookie r = Some token \<and> (token, deadline) \<in> set (sx_sessions p) \<and> now < deadline)"
  by (auto simp: authorized_def split: option.splits if_splits dest: mget_Some_in)

section \<open>What is sent\<close>

lemma serve_api_sent:
  "fst (snd (serve_api env r p)) = []
   \<or> (let route = TrimPrefix (hr_Path r) api_prefix in
      fst (snd (serve_api env r p)) = [relay_request p r route]
      \<and> fst (authorized (pe_now env) r p)
      \<and> hr_Method r \<in> set (mgetz [] allowedRoutes route)
      \<and> (hr_Method r = ''GET'' \<or> hr_Marker r = ''1'')
      \<and> length (hr_Body r) \<le> maxProxyBody)"
proof (cases "authorized (pe_now env) r p")
  case (Pair ok q)
  then show ?thesis
    using authorized_True [of "pe_now env" r p q]
    by (cases ok) (auto simp: serve_api_def proxy_def Let_def)
qed

lemma strip_api_prefix: "TrimPrefix (api_prefix @ route) api_prefix = route"
proof -
  have "strip_prefix api_prefix (api_prefix @ route) = Some route" by (simp add: strip_prefix_Some)
  then show ?thesis by (simp add: TrimPrefix_def)
qed

text \<open>An authorised request of the table is relayed.\<close>

lemma serve_relays:
  assumes "hr_Path r = api_prefix @ route" "fst (authorized (pe_now env) r p)"
    and "hr_Method r \<in> set (mgetz [] allowedRoutes route)" "hr_Method r = ''GET'' \<or> hr_Marker r = ''1''"
    and "length (hr_Body r) \<le> maxProxyBody" "url_Parse (relay_url p route (hr_RawQuery r)) \<noteq> None"
  shows "fst (snd (ServeHTTP env r p)) = [relay_request p r route]"
proof -
  have a: "authorized (pe_now env) r p = (True, p)"
    using assms(2) authorized_True by (metis (full_types) prod.collapse)
  have "HasPrefix (hr_Path r) api_prefix" using assms(1) by (auto simp: HasPrefix_iff)
  moreover have "hr_Path r \<noteq> ''/health''" "hr_Path r \<noteq> ''/upstream-monitor/session''"
    using assms(1) by (simp_all add: api_prefix_def)
  ultimately have "ServeHTTP env r p = serve_api env r p" by (simp add: ServeHTTP_def)
  then show ?thesis
    using assms(3-6) by (simp add: serve_api_def a assms(1) strip_api_prefix Let_def proxy_def)
qed





text \<open>
  C4: Only a live session is relayed.  Whatever requests the proxy has served since it started,
  when it sends something upstream for a request of the api, the request carries the token of an
  earlier sign-in whose key was verified and whose token came from the random source, less than
  twelve hours ago, and no sign-out of that token has been served since.
\<close>

theorem sessions_sound:
  assumes "newSessionProxy cpaKey rawCPAURL rawCPAMPURL = Inr p"
    and "hr_Path request \<noteq> session_path"
    and "fst (snd (ServeHTTP env request (serve_all p history))) \<noteq> []"
  shows "\<exists>token before e r after. hr_Cookie request = Some token
     \<and> history = before @ (e, r) # after
     \<and> signs_in p e r token
     \<and> pe_now env < pe_now e + 12 * 3600 * 1000000000
     \<and> list_all (\<lambda>(e', r'). \<not> signs_out r' token) after"
proof -
  let ?q = "serve_all p history"
  have "fst (snd (ServeHTTP env request ?q)) = [] \<or>
      fst (snd (ServeHTTP env request ?q)) = fst (snd (serve_api env request ?q))"
    using assms(2) by (simp add: ServeHTTP_def session_path_def)
  with assms(3) serve_api_sent [of env request ?q] have "fst (authorized (pe_now env) request ?q)"
    by (auto simp: Let_def)
  then obtain token deadline where t: "hr_Cookie request = Some token"
      "(token, deadline) \<in> set (sx_sessions ?q)" "pe_now env < deadline"
    by (metis authorized_True prod.collapse)
  have "sx_sessions p = []"
    using assms(1) by (auto simp: newSessionProxy_def Let_def split: if_splits sum.splits)
  from session_was_opened [OF this t(2)] obtain before e r after where
    "history = before @ (e, r) # after" "signs_in p e r token" "deadline = pe_now e + sessionDuration"
    "\<forall>x \<in> set after. \<not> signs_out (snd x) token" by blast
  with t show ?thesis
    by (intro exI [of _ token] exI [of _ before] exI [of _ e] exI [of _ r] exI [of _ after])
       (auto simp: sessionDuration_def list_all_iff)
qed

theorem sessions_sound_witness:
  "let env = (\<lambda>t. \<lparr>pe_now = t, pe_random = Some [1, 2, 3], pe_login = (\<lambda>raw. Some raw), pe_do = (\<lambda>u. None)\<rparr>);
       login = \<lparr>hr_Method = ''POST'', hr_Path = ''/upstream-monitor/session'', hr_RawQuery = [],
         hr_Marker = ''1'', hr_ContentType = ''application/json'', hr_Cookie = None, hr_Body = ''secret''\<rparr>;
       page = \<lparr>hr_Method = ''GET'', hr_Path = ''/upstream-monitor/api/state'', hr_RawQuery = [],
         hr_Marker = [], hr_ContentType = [], hr_Cookie = Some ''AQID'', hr_Body = []\<rparr> in
   \<exists>p before e r after.
     newSessionProxy ''secret'' ''http://cli-proxy-api:8317'' ''off'' = Inr p
     \<and> [(env 0, login)] = before @ (e, r) # after \<and> signs_in p e r ''AQID''"
proof -
  let ?env = "\<lambda>t. \<lparr>pe_now = t, pe_random = Some [1, 2, 3], pe_login = (\<lambda>raw. Some raw), pe_do = (\<lambda>u. None)\<rparr>"
  let ?login = "\<lparr>hr_Method = ''POST'', hr_Path = ''/upstream-monitor/session'', hr_RawQuery = [],
    hr_Marker = ''1'', hr_ContentType = ''application/json'', hr_Cookie = None, hr_Body = ''secret''\<rparr>"
  let ?page = "\<lparr>hr_Method = ''GET'', hr_Path = ''/upstream-monitor/api/state'', hr_RawQuery = [],
    hr_Marker = [], hr_ContentType = [], hr_Cookie = Some ''AQID'', hr_Body = []\<rparr>"
  let ?p = "\<lparr>sx_cpaKey = ''secret'', sx_cpaURL = zero_url\<lparr>u_Scheme := ''http'', u_Host := ''cli-proxy-api:8317''\<rparr>,
    sx_cpampURL = None, sx_sessions = []\<rparr>"
  let ?q = "serve_all ?p [(?env 0, ?login)]"
  have p: "newSessionProxy ''secret'' ''http://cli-proxy-api:8317'' ''off'' = Inr ?p" by code_simp
  have "fst (snd (ServeHTTP (?env 1) ?page ?q)) = [relay_request ?q ?page ''state'']"
  proof (rule serve_relays)
    show "hr_Path ?page = api_prefix @ ''state''" by code_simp
    show "fst (authorized (pe_now (?env 1)) ?page ?q)" by code_simp
    show "hr_Method ?page \<in> set (mgetz [] allowedRoutes ''state'')" by code_simp
    show "hr_Method ?page = ''GET'' \<or> hr_Marker ?page = ''1''" by simp
    show "length (hr_Body ?page) \<le> maxProxyBody" by simp
    show "url_Parse (relay_url ?q ''state'' (hr_RawQuery ?page)) \<noteq> None" by code_simp
  qed
  then have sent: "fst (snd (ServeHTTP (?env 1) ?page ?q)) \<noteq> []" by simp
  have "hr_Path ?page \<noteq> session_path" by (simp add: session_path_def)
  from sessions_sound [OF p this sent] obtain token before e r after where
      "hr_Cookie ?page = Some token" "[(?env 0, ?login)] = before @ (e, r) # after" "signs_in ?p e r token"
    by (elim exE conjE)
  moreover from this(1) have "token = ''AQID''" by simp
  ultimately show ?thesis using p unfolding Let_def
    by (intro exI [of _ ?p] exI [of _ before] exI [of _ e] exI [of _ r] exI [of _ after]) simp
qed

end
