(* ===== verification/Adapter_Plans.thy ===== *)
theory Adapter_Plans
  imports Adapter_Common
begin

text \<open>
  The parsers of the upstreams with a fixed vocabulary: Z.ai quota limits, Moonshot balances,
  Kimi and OpenCode Go windows (adapters.go) and DeepSeek balances (deepseek.go).
\<close>

section \<open>Z.ai\<close>

definition zai_no_cash :: string where
  "zai_no_cash =
     [CHR 0xE6, CHR 0x99, CHR 0xBA, CHR 0xE8, CHR 0xB0, CHR 0xB1, CHR 0xE5, CHR 0xBD, CHR 0x93,
      CHR 0xE5, CHR 0x89, CHR 0x8D, CHR 0xE6, CHR 0x9C, CHR 0xAA, CHR 0xE6, CHR 0x8F, CHR 0x90,
      CHR 0xE4, CHR 0xBE, CHR 0x9B, CHR 0xE5, CHR 0x8F, CHR 0xAF, CHR 0xE9, CHR 0xAA, CHR 0x8C,
      CHR 0xE8, CHR 0xAF, CHR 0x81, CHR 0xE7, CHR 0x9A, CHR 0x84, CHR 0xE7, CHR 0x8E, CHR 0xB0,
      CHR 0xE9, CHR 0x87, CHR 0x91, CHR 0xE4, CHR 0xBD, CHR 0x99, CHR 0xE9, CHR 0xA2, CHR 0x9D,
      CHR 0xE6, CHR 0x9F, CHR 0xA5, CHR 0xE8, CHR 0xAF, CHR 0xA2, CHR 0xE6, CHR 0x8E, CHR 0xA5,
      CHR 0xE5, CHR 0x8F, CHR 0xA3, CHR 0xEF, CHR 0xBC, CHR 0x8C, CHR 0xE8, CHR 0xAF, CHR 0xA5,
      CHR 0xE8, CHR 0xB4, CHR 0xA6, CHR 0xE5, CHR 0x8F, CHR 0xB7, CHR 0xE6, CHR 0x9A, CHR 0x82,
      CHR 0xE4, CHR 0xB8, CHR 0x8D, CHR 0xE6, CHR 0x94, CHR 0xAF, CHR 0xE6, CHR 0x8C, CHR 0x81,
      CHR 0xE8, CHR 0x87, CHR 0xAA, CHR 0xE5, CHR 0x8A, CHR 0xA8, CHR 0xE6, CHR 0x9F, CHR 0xA5,
      CHR 0xE8, CHR 0xAF, CHR 0xA2, CHR 0xE7, CHR 0x8E, CHR 0xB0, CHR 0xE9, CHR 0x87, CHR 0x91,
      CHR 0xE4, CHR 0xBD, CHR 0x99, CHR 0xE9, CHR 0xA2, CHR 0x9D, CHR 0xE3, CHR 0x80, CHR 0x82]"

definition zai_action_label :: string where
  "zai_action_label =
     [CHR 0xE5, CHR 0x89, CHR 0x8D, CHR 0xE5, CHR 0xBE, CHR 0x80, CHR 0xE6, CHR 0x8E, CHR 0xA7,
      CHR 0xE5, CHR 0x88, CHR 0xB6, CHR 0xE5, CHR 0x8F, CHR 0xB0, CHR 0xE6, CHR 0x9F, CHR 0xA5,
      CHR 0xE7, CHR 0x9C, CHR 0x8B]"

definition zai_other_open :: string where
  "zai_other_open =
     [CHR 0xE5, CHR 0x85, CHR 0xB6, CHR 0xE4, CHR 0xBB, CHR 0x96, CHR 0xE5, CHR 0x91, CHR 0xA8,
      CHR 0xE6, CHR 0x9C, CHR 0x9F, CHR 0xEF, CHR 0xBC, CHR 0x88]"

definition zai_other_close :: string where
  "zai_other_close =
     [CHR 0xEF, CHR 0xBC, CHR 0x89]"

definition zaiCashBalanceSection :: "credentialCandidate \<Rightarrow> sectionStatus" where
  "zaiCashBalanceSection candidate =
     zero_section\<lparr>sec_Status := ''unsupported'', sec_Message := zai_no_cash,
       sec_ActionURL := (if Contains (ToLower (cc_BaseURL candidate)) ''z.ai''
         then ''https://z.ai/manage-apikey/billing'' else ''https://bigmodel.cn/finance-center''),
       sec_ActionLabel := zai_action_label\<rparr>"

definition zai_other :: "string \<Rightarrow> string" where
  "zai_other raw = zai_other_open @ raw @ zai_other_close"

definition zai_period_keys :: "string list" where
  "zai_period_keys = [''window'', ''period'', ''cycle'', ''name'']"

definition zaiWindowName :: "jobj \<Rightarrow> string \<Rightarrow> string" where
  "zaiWindowName limit kind =
     (if kind = ''TIME_LIMIT'' then ''month''
      else if kind \<noteq> ''TOKENS_LIMIT'' \<and> kind \<noteq> ''CREDIT_LIMIT'' then
        zai_other (firstNonEmpty [stringValue (Some limit) zai_period_keys, kind])
      else
        let unitRaw = stringValue (Some limit) [''unit'', ''time_unit'', ''timeUnit''];
            numberRaw = stringValue (Some limit) [''number'', ''duration'', ''count''];
            raw = firstNonEmpty [stringValue (Some limit) zai_period_keys];
            other = zai_other (if raw = [] then Join '':'' [kind, unitRaw, numberRaw] else raw) in
        (case (numericValue unitRaw, numericValue numberRaw) of
           (Some u, Some n) \<Rightarrow>
             if feq u (fnum 3) \<and> feq n (fnum 5) then ''5h''
             else if feq u (fnum 6) \<and> feq n (fnum 1) then ''7d''
             else other
         | _ \<Rightarrow> other))"

text \<open>\<open>objectSlice\<close> keeps the objects; \<open>zaiLimitObjects\<close> finds the list of limits.\<close>

definition objectSlice :: "json list \<Rightarrow> jobj list" where
  "objectSlice vs = objects_of vs"

fun zai_named_limits :: "jobj \<Rightarrow> string list \<Rightarrow> json list option" where
  "zai_named_limits m [] = None"
| "zai_named_limits m (k # ks) =
     (case mget m k of Some (JArr vs) \<Rightarrow> Some vs | _ \<Rightarrow> zai_named_limits m ks)"

definition zaiLimitObjects :: "json \<Rightarrow> jobj list" where
  "zaiLimitObjects v =
     (case v of
        JObj m \<Rightarrow> (case zai_named_limits m [''limits'', ''quotas'', ''items''] of
            Some vs \<Rightarrow> objectSlice vs
          | None \<Rightarrow> [])
      | JArr vs \<Rightarrow> objectSlice vs
      | _ \<Rightarrow> [])"

text \<open>The pair of remaining and used fraction of a limit, before clamping.\<close>

definition zai_fractions :: "jobj \<Rightarrow> (f64 \<times> f64) option" where
  "zai_fractions m =
     (let sv = stringValue (Some m) in
      case numericValue (sv [''remaining_percent'', ''remainingPercent'', ''remaining_percentage'']) of
        Some raw \<Rightarrow> Some (raw div fnum 100, 1 - raw div fnum 100)
      | None \<Rightarrow>
     (case numericValue (sv [''used_percent'', ''usedPercent'', ''usage_percent'', ''usagePercent'',
         ''percent_used'', ''percentage'', ''percent'']) of
        Some raw \<Rightarrow> Some (1 - raw div fnum 100, raw div fnum 100)
      | None \<Rightarrow>
     (case numericValue (sv [''usage'', ''total'', ''limit'']) of
        None \<Rightarrow> None
      | Some tot \<Rightarrow>
          let by_remaining =
            (case numericValue (sv [''remaining'', ''available'']) of
               Some r \<Rightarrow> if 0 < tot then Some (maxMinFraction (r div tot), 1 - maxMinFraction (r div tot)) else None
             | None \<Rightarrow> None) in
          (case numericValue (sv [''currentValue'', ''used'', ''consumed'']) of
             Some u \<Rightarrow>
               if 0 < tot then Some (1 - maxMinFraction (u div tot), maxMinFraction (u div tot))
               else by_remaining
           | None \<Rightarrow> by_remaining))))"

definition quotaWindowFromZaiLimit :: "jobj \<Rightarrow> string \<Rightarrow> string \<Rightarrow> quotaWindow option" where
  "quotaWindowFromZaiLimit m name kind =
     (case zai_fractions m of
        None \<Rightarrow> None
      | Some (remaining, used) \<Rightarrow>
          let metric = stringValue (Some m) [''metric''] in
          Some (zero_window\<lparr>qw_Name := name,
            qw_RemainingFraction := Some (maxMinFraction remaining),
            qw_UsedFraction := Some (maxMinFraction used),
            qw_RemainingAmount := stringValue (Some m) [''remaining'', ''available''],
            qw_TotalAmount := stringValue (Some m) [''usage'', ''total'', ''limit''],
            qw_Unit := (if metric \<noteq> [] then metric
              else if kind = ''TOKENS_LIMIT'' then ''tokens''
              else if kind = ''TIME_LIMIT'' then ''requests'' else ''quota''),
            qw_ResetAt := timeValue (Some m) [''reset_time'', ''resetTime'', ''next_reset_time'',
              ''nextResetAt'', ''nextResetTime'', ''resetsAt'']\<rparr>))"

definition zai_limit_window :: "jobj \<Rightarrow> quotaWindow option" where
  "zai_limit_window m =
     (let kind = ToUpper (stringValue (Some m) [''type'', ''kind'']) in
      quotaWindowFromZaiLimit m (zaiWindowName m kind) kind)"

definition zai_windows :: "jobj list \<Rightarrow> quotaWindow list" where
  "zai_windows limits = List.map_filter zai_limit_window limits"

definition zai_refused :: "jobj \<Rightarrow> bool" where
  "zai_refused m =
     (EqualFold (stringValue (Some m) [''success'']) ''false'' \<or> stringValue (Some m) [''code''] = ''500'')"

definition zai_limits_snapshot :: "credentialCandidate \<Rightarrow> json \<Rightarrow> string + accountSnapshot" where
  "zai_limits_snapshot candidate data =
     (let limits = zaiLimitObjects data in
      if limits = [] then Inl ''Z.ai usage response contains no quota limits''
      else if zai_windows limits = [] then Inl ''Z.ai usage response contains no readable quota limits''
      else Inr ((base_snapshot candidate ''zai-usage'' kindPeriodQuota [''rolling_quota''])
        \<lparr>as_Sections := [(''cash_balance'', zaiCashBalanceSection candidate)],
         as_Windows := zai_windows limits\<rparr>))"

definition parseZaiSnapshot ::
    "credentialCandidate \<Rightarrow> body \<Rightarrow> gotime \<Rightarrow> string + accountSnapshot" where
  "parseZaiSnapshot candidate b now =
     (case b_Json b of
        Inl e \<Rightarrow> Inl (''decode Z.ai usage response: '' @ e)
      | Inr doc \<Rightarrow>
          (case doc of
             JObj m \<Rightarrow>
               if zai_refused m then
                 Inr (unsupportedSnapshot candidate ''zai-usage''
                   (firstNonEmpty [stringValue (Some m) [''msg'', ''message''],
                      ''Z.ai usage quota is not available for this account'']) now)
               else zai_limits_snapshot candidate (case mget m ''data'' of Some d \<Rightarrow> d | None \<Rightarrow> doc)
           | _ \<Rightarrow> zai_limits_snapshot candidate doc))"

section \<open>Moonshot\<close>

definition moonshot_snapshot :: "credentialCandidate \<Rightarrow> jobj option \<Rightarrow> string + accountSnapshot" where
  "moonshot_snapshot candidate data =
     (let tot = stringValue data [''available_balance'', ''balance''];
          currency = firstNonEmpty [stringValue data [''currency''], ''CNY''];
          extra = (\<lambda>key btype. let amount = stringValue data [key] in
            if amount = [] then [] else [\<lparr>mb_Amount = amount, mb_Currency = currency, mb_BalanceType = btype\<rparr>]) in
      if tot = [] then Inl ''Moonshot response contains no balance''
      else let s = balanceSnapshot candidate ''moonshot-balance'' currency tot [] in
        Inr (s\<lparr>as_Balances := as_Balances s @ extra ''cash_balance'' ''cash''
          @ extra ''voucher_balance'' ''voucher''\<rparr>))"

definition parse_moonshot :: "credentialCandidate \<Rightarrow> body \<Rightarrow> string + accountSnapshot" where
  "parse_moonshot candidate b =
     (case decode_object b of
        Inl e \<Rightarrow> Inl (''decode Moonshot response: '' @ e)
      | Inr doc \<Rightarrow> moonshot_snapshot candidate (objectValue (Some doc) ''data''))"

section \<open>Kimi and OpenCode Go\<close>

fun first_session :: "jobj list \<Rightarrow> quotaWindow list" where
  "first_session [] = []"
| "first_session (limit # limits) =
     (case quotaWindowFromLimit (objectValue (Some limit) ''detail'') ''session'' of
        Some w \<Rightarrow> [w]
      | None \<Rightarrow> first_session limits)"

definition option_list :: "'a option \<Rightarrow> 'a list" where
  "option_list o' = (case o' of None \<Rightarrow> [] | Some x \<Rightarrow> [x])"

definition kimi_snapshot :: "credentialCandidate \<Rightarrow> jobj option \<Rightarrow> string + accountSnapshot" where
  "kimi_snapshot candidate data =
     (let ws = option_list (quotaWindowFromLimit (objectValue data ''usage'') ''weekly'')
            @ first_session (arrayValue data ''limits'') in
      if ws = [] then Inl ''Kimi response contains no quota windows''
      else Inr ((base_snapshot candidate ''kimi-coding'' kindPeriodQuota [''rolling_quota''])\<lparr>as_Windows := ws\<rparr>))"

definition parse_kimi :: "credentialCandidate \<Rightarrow> body \<Rightarrow> string + accountSnapshot" where
  "parse_kimi candidate b =
     (case decode_object b of
        Inl e \<Rightarrow> Inl (''decode Kimi response: '' @ e)
      | Inr doc \<Rightarrow> kimi_snapshot candidate (objectValue (Some doc) ''data''))"

definition opencode_windows :: "jobj option \<Rightarrow> quotaWindow list" where
  "opencode_windows usage =
     concat (map (\<lambda>(key, name). option_list (quotaWindowFromPercent (objectValue usage key) name))
       [(''rolling'', ''session''), (''weekly'', ''weekly''), (''monthly'', ''monthly'')])"

definition parseOpenCodeSnapshot :: "credentialCandidate \<Rightarrow> body \<Rightarrow> string + accountSnapshot" where
  "parseOpenCodeSnapshot candidate b =
     (case decode_object b of
        Inl e \<Rightarrow> Inl (''decode OpenCode Go response: '' @ e)
      | Inr doc \<Rightarrow>
          let usage = (case objectValue (Some doc) ''usage'' of Some u \<Rightarrow> u | None \<Rightarrow> doc);
              ws = opencode_windows (Some usage) in
          if length ws < 2 then Inl ''OpenCode Go response contains insufficient quota windows''
          else Inr ((base_snapshot candidate ''opencode-go'' kindPeriodQuota [''rolling_quota''])
            \<lparr>as_Windows := ws\<rparr>))"

section \<open>DeepSeek\<close>

text \<open>
  The response is decoded into a struct: a missing or null member is its zero value, and a
  member of another type is an error.  Names are matched regardless of case, and the last member
  of a name counts.  The detail of a decoder's error on a member is left out.
\<close>

definition struct_member :: "jobj \<Rightarrow> string \<Rightarrow> json" where
  "struct_member m name =
     (case filter (\<lambda>(k, v). EqualFold k name) m of [] \<Rightarrow> JNull | kvs \<Rightarrow> snd (last kvs))"

definition struct_string :: "jobj \<Rightarrow> string \<Rightarrow> string option" where
  "struct_string m name =
     (case struct_member m name of JStr s \<Rightarrow> Some s | JNull \<Rightarrow> Some [] | _ \<Rightarrow> None)"

record deepSeekBalance =
  ds_Currency :: string
  ds_TotalBalance :: string
  ds_Granted :: string
  ds_ToppedUp :: string

record deepSeekBalanceResponse =
  ds_IsAvailable :: bool
  ds_BalanceInfos :: "deepSeekBalance list"

definition deepseek_info :: "json \<Rightarrow> deepSeekBalance option" where
  "deepseek_info v =
     (case decodeObject (Some v) of
        None \<Rightarrow> None
      | Some m \<Rightarrow>
          (case (struct_string m ''currency'', struct_string m ''total_balance'',
                 struct_string m ''granted_balance'', struct_string m ''topped_up_balance'') of
             (Some c, Some t, Some g, Some u) \<Rightarrow>
               Some \<lparr>ds_Currency = c, ds_TotalBalance = t, ds_Granted = g, ds_ToppedUp = u\<rparr>
           | _ \<Rightarrow> None))"

fun all_some :: "'a option list \<Rightarrow> 'a list option" where
  "all_some [] = Some []"
| "all_some (None # xs) = None"
| "all_some (Some x # xs) = map_option ((#) x) (all_some xs)"

definition decode_deepseek :: "json \<Rightarrow> deepSeekBalanceResponse option" where
  "decode_deepseek v =
     (case decodeObject (Some v) of
        None \<Rightarrow> None
      | Some m \<Rightarrow>
          (case (case struct_member m ''is_available'' of JBool b \<Rightarrow> Some b | JNull \<Rightarrow> Some False | _ \<Rightarrow> None,
                 case struct_member m ''balance_infos'' of
                   JArr vs \<Rightarrow> all_some (map deepseek_info vs) | JNull \<Rightarrow> Some [] | _ \<Rightarrow> None) of
             (Some a, Some infos) \<Rightarrow> Some \<lparr>ds_IsAvailable = a, ds_BalanceInfos = infos\<rparr>
           | _ \<Rightarrow> None))"

definition deepseek_balances :: "deepSeekBalance list \<Rightarrow> moneyBalance list" where
  "deepseek_balances infos =
     concat (map (\<lambda>i. if TrimSpace (ds_Currency i) = [] \<or> TrimSpace (ds_TotalBalance i) = [] then []
       else map (\<lambda>(amount, btype).
              \<lparr>mb_Amount = amount, mb_Currency = ds_Currency i, mb_BalanceType = btype\<rparr>)
         [(ds_TotalBalance i, ''total''), (ds_Granted i, ''granted''), (ds_ToppedUp i, ''topped_up'')])
       infos)"

definition parseDeepSeekSnapshot ::
    "credentialCandidate \<Rightarrow> body \<Rightarrow> gotime \<Rightarrow> string + accountSnapshot" where
  "parseDeepSeekSnapshot candidate b now =
     (case (case b_Json b of Inl e \<Rightarrow> None | Inr v \<Rightarrow> decode_deepseek v) of
        None \<Rightarrow> Inl (''decode DeepSeek balance response: '' @ (case b_Json b of Inl e \<Rightarrow> e | Inr _ \<Rightarrow> []))
      | Some payload \<Rightarrow>
          if ds_BalanceInfos payload = [] then Inl ''DeepSeek response contains no balance_infos''
          else
            let s = (base_snapshot candidate ''deepseek-balance'' kindBalance [''balance''])
                  \<lparr>as_AccountID := cc_AuthIndex candidate, as_CheckedAt := now\<rparr>;
                s = (if ds_IsAvailable payload then s
                  else s\<lparr>as_Status := statusWarning,
                    as_Error := Some \<lparr>se_Code = ''UNAVAILABLE'',
                      se_Message = ''DeepSeek reports this account is unavailable''\<rparr>\<rparr>);
                balances = deepseek_balances (ds_BalanceInfos payload) in
            if balances = [] then Inl ''DeepSeek response contains no usable balances''
            else Inr (s\<lparr>as_Balances := balances\<rparr>))"

end
