(* ===== verification/Adapter_NewApi.thy ===== *)
theory Adapter_NewApi
  imports Adapter_Common
begin

text \<open>
  The NewAPI adapter of adapters.go: the display configuration of an instance
  (\<open>newAPIQuotaStatus\<close>), the conversion of raw quota into the displayed unit, the quantities of
  the key and of the account, and the snapshot that is put together from the parts that could be
  queried.
\<close>

section \<open>Display configuration\<close>

definition newapi_no_unit :: string where
  "newapi_no_unit =
     [CHR 0x4E, CHR 0x65, CHR 0x77, CHR 0x41, CHR 0x50, CHR 0x49, CHR 0x20, CHR 0xE6, CHR 0x98,
      CHR 0xBE, CHR 0xE7, CHR 0xA4, CHR 0xBA, CHR 0xE9, CHR 0x85, CHR 0x8D, CHR 0xE7, CHR 0xBD,
      CHR 0xAE, CHR 0xE7, CHR 0xBC, CHR 0xBA, CHR 0xE5, CHR 0xB0, CHR 0x91, CHR 0xE6, CHR 0x9C,
      CHR 0x89, CHR 0xE6, CHR 0x95, CHR 0x88, CHR 0xE7, CHR 0x9A, CHR 0x84, CHR 0x20, CHR 0x71,
      CHR 0x75, CHR 0x6F, CHR 0x74, CHR 0x61, CHR 0x5F, CHR 0x70, CHR 0x65, CHR 0x72, CHR 0x5F,
      CHR 0x75, CHR 0x6E, CHR 0x69, CHR 0x74, CHR 0xEF, CHR 0xBC, CHR 0x8C, CHR 0xE5, CHR 0xB7,
      CHR 0xB2, CHR 0xE4, CHR 0xBF, CHR 0x9D, CHR 0xE7, CHR 0x95, CHR 0x99, CHR 0xE5, CHR 0x8E,
      CHR 0x9F, CHR 0xE5, CHR 0xA7, CHR 0x8B, CHR 0x20, CHR 0x71, CHR 0x75, CHR 0x6F, CHR 0x74,
      CHR 0x61, CHR 0xEF, CHR 0xBC, CHR 0x8C, CHR 0xE6, CHR 0x9C, CHR 0xAA, CHR 0xE6, CHR 0x8D,
      CHR 0xA2, CHR 0xE7, CHR 0xAE, CHR 0x97, CHR 0xE3, CHR 0x80, CHR 0x82]"

definition newapi_no_rate :: string where
  "newapi_no_rate =
     [CHR 0x4E, CHR 0x65, CHR 0x77, CHR 0x41, CHR 0x50, CHR 0x49, CHR 0x20, CHR 0xE4, CHR 0xBA,
      CHR 0xBA, CHR 0xE6, CHR 0xB0, CHR 0x91, CHR 0xE5, CHR 0xB8, CHR 0x81, CHR 0xE6, CHR 0x98,
      CHR 0xBE, CHR 0xE7, CHR 0xA4, CHR 0xBA, CHR 0xE9, CHR 0x85, CHR 0x8D, CHR 0xE7, CHR 0xBD,
      CHR 0xAE, CHR 0xE7, CHR 0xBC, CHR 0xBA, CHR 0xE5, CHR 0xB0, CHR 0x91, CHR 0xE6, CHR 0x9C,
      CHR 0x89, CHR 0xE6, CHR 0x95, CHR 0x88, CHR 0xE7, CHR 0x9A, CHR 0x84, CHR 0x20, CHR 0x75,
      CHR 0x73, CHR 0x64, CHR 0x5F, CHR 0x65, CHR 0x78, CHR 0x63, CHR 0x68, CHR 0x61, CHR 0x6E,
      CHR 0x67, CHR 0x65, CHR 0x5F, CHR 0x72, CHR 0x61, CHR 0x74, CHR 0x65, CHR 0xEF, CHR 0xBC,
      CHR 0x8C, CHR 0xE5, CHR 0xB7, CHR 0xB2, CHR 0xE4, CHR 0xBF, CHR 0x9D, CHR 0xE7, CHR 0x95,
      CHR 0x99, CHR 0xE5, CHR 0x8E, CHR 0x9F, CHR 0xE5, CHR 0xA7, CHR 0x8B, CHR 0x20, CHR 0x71,
      CHR 0x75, CHR 0x6F, CHR 0x74, CHR 0x61, CHR 0xEF, CHR 0xBC, CHR 0x8C, CHR 0xE6, CHR 0x9C,
      CHR 0xAA, CHR 0xE6, CHR 0x8D, CHR 0xA2, CHR 0xE7, CHR 0xAE, CHR 0x97, CHR 0xE3, CHR 0x80,
      CHR 0x82]"

definition newapi_no_custom :: string where
  "newapi_no_custom =
     [CHR 0x4E, CHR 0x65, CHR 0x77, CHR 0x41, CHR 0x50, CHR 0x49, CHR 0x20, CHR 0xE8, CHR 0x87,
      CHR 0xAA, CHR 0xE5, CHR 0xAE, CHR 0x9A, CHR 0xE4, CHR 0xB9, CHR 0x89, CHR 0xE5, CHR 0xB8,
      CHR 0x81, CHR 0xE7, CHR 0xA7, CHR 0x8D, CHR 0xE9, CHR 0x85, CHR 0x8D, CHR 0xE7, CHR 0xBD,
      CHR 0xAE, CHR 0xE4, CHR 0xB8, CHR 0x8D, CHR 0xE5, CHR 0xAE, CHR 0x8C, CHR 0xE6, CHR 0x95,
      CHR 0xB4, CHR 0xEF, CHR 0xBC, CHR 0x8C, CHR 0xE5, CHR 0xB7, CHR 0xB2, CHR 0xE4, CHR 0xBF,
      CHR 0x9D, CHR 0xE7, CHR 0x95, CHR 0x99, CHR 0xE5, CHR 0x8E, CHR 0x9F, CHR 0xE5, CHR 0xA7,
      CHR 0x8B, CHR 0x20, CHR 0x71, CHR 0x75, CHR 0x6F, CHR 0x74, CHR 0x61, CHR 0xEF, CHR 0xBC,
      CHR 0x8C, CHR 0xE6, CHR 0x9C, CHR 0xAA, CHR 0xE6, CHR 0x8D, CHR 0xA2, CHR 0xE7, CHR 0xAE,
      CHR 0x97, CHR 0xE3, CHR 0x80, CHR 0x82]"

definition newapi_type_open :: string where
  "newapi_type_open =
     [CHR 0x4E, CHR 0x65, CHR 0x77, CHR 0x41, CHR 0x50, CHR 0x49, CHR 0x20, CHR 0xE6, CHR 0x98,
      CHR 0xBE, CHR 0xE7, CHR 0xA4, CHR 0xBA, CHR 0xE7, CHR 0xB1, CHR 0xBB, CHR 0xE5, CHR 0x9E,
      CHR 0x8B, CHR 0x20]"

definition newapi_type_close :: string where
  "newapi_type_close =
     [CHR 0x20, CHR 0xE6, CHR 0x9A, CHR 0x82, CHR 0xE4, CHR 0xB8, CHR 0x8D, CHR 0xE6, CHR 0x94,
      CHR 0xAF, CHR 0xE6, CHR 0x8C, CHR 0x81, CHR 0xEF, CHR 0xBC, CHR 0x8C, CHR 0xE5, CHR 0xB7,
      CHR 0xB2, CHR 0xE4, CHR 0xBF, CHR 0x9D, CHR 0xE7, CHR 0x95, CHR 0x99, CHR 0xE5, CHR 0x8E,
      CHR 0x9F, CHR 0xE5, CHR 0xA7, CHR 0x8B, CHR 0x20, CHR 0x71, CHR 0x75, CHR 0x6F, CHR 0x74,
      CHR 0x61, CHR 0xEF, CHR 0xBC, CHR 0x8C, CHR 0xE6, CHR 0x9C, CHR 0xAA, CHR 0xE6, CHR 0x8D,
      CHR 0xA2, CHR 0xE7, CHR 0xAE, CHR 0x97, CHR 0xE3, CHR 0x80, CHR 0x82]"

definition newapi_key_name :: string where
  "newapi_key_name =
     [CHR 0xE5, CHR 0xBD, CHR 0x93, CHR 0xE5, CHR 0x89, CHR 0x8D, CHR 0x20, CHR 0x4B, CHR 0x65,
      CHR 0x79]"

definition newapi_account_name :: string where
  "newapi_account_name =
     [CHR 0x4E, CHR 0x65, CHR 0x77, CHR 0x41, CHR 0x50, CHR 0x49, CHR 0x20, CHR 0xE8, CHR 0xB4,
      CHR 0xA6, CHR 0xE6, CHR 0x88, CHR 0xB7, CHR 0xE4, CHR 0xBD, CHR 0x99, CHR 0xE9, CHR 0xA2,
      CHR 0x9D]"

definition newapi_status_warning :: string where
  "newapi_status_warning =
     [CHR 0x4E, CHR 0x65, CHR 0x77, CHR 0x41, CHR 0x50, CHR 0x49, CHR 0x20, CHR 0xE6, CHR 0x98,
      CHR 0xBE, CHR 0xE7, CHR 0xA4, CHR 0xBA, CHR 0xE9, CHR 0x85, CHR 0x8D, CHR 0xE7, CHR 0xBD,
      CHR 0xAE, CHR 0xE6, CHR 0x9A, CHR 0x82, CHR 0xE6, CHR 0x97, CHR 0xB6, CHR 0xE6, CHR 0x97,
      CHR 0xA0, CHR 0xE6, CHR 0xB3, CHR 0x95, CHR 0xE6, CHR 0x9F, CHR 0xA5, CHR 0xE8, CHR 0xAF,
      CHR 0xA2, CHR 0xEF, CHR 0xBC, CHR 0x8C, CHR 0xE5, CHR 0xB7, CHR 0xB2, CHR 0xE4, CHR 0xBD,
      CHR 0xBF, CHR 0xE7, CHR 0x94, CHR 0xA8, CHR 0xE5, CHR 0x85, CHR 0xBC, CHR 0xE5, CHR 0xAE,
      CHR 0xB9, CHR 0xE9, CHR 0xBB, CHR 0x98, CHR 0xE8, CHR 0xAE, CHR 0xA4, CHR 0xE5, CHR 0x80,
      CHR 0xBC, CHR 0xE3, CHR 0x80, CHR 0x82]"

definition newapi_pat_warning :: string where
  "newapi_pat_warning =
     [CHR 0xE5, CHR 0xBD, CHR 0x93, CHR 0xE5, CHR 0x89, CHR 0x8D, CHR 0xE4, CHR 0xBB, CHR 0x85,
      CHR 0xE6, CHR 0x98, CHR 0xBE, CHR 0xE7, CHR 0xA4, CHR 0xBA, CHR 0xE8, CHR 0xBF, CHR 0x99,
      CHR 0xE4, CHR 0xB8, CHR 0xAA, CHR 0x20, CHR 0x41, CHR 0x50, CHR 0x49, CHR 0x20, CHR 0x4B,
      CHR 0x65, CHR 0x79, CHR 0x20, CHR 0xE7, CHR 0x9A, CHR 0x84, CHR 0xE9, CHR 0xA2, CHR 0x9D,
      CHR 0xE5, CHR 0xBA, CHR 0xA6, CHR 0xEF, CHR 0xBC, CHR 0x9B, CHR 0xE8, CHR 0xA6, CHR 0x81,
      CHR 0xE6, CHR 0x98, CHR 0xBE, CHR 0xE7, CHR 0xA4, CHR 0xBA, CHR 0x20, CHR 0x4E, CHR 0x65,
      CHR 0x77, CHR 0x41, CHR 0x50, CHR 0x49, CHR 0x20, CHR 0xE8, CHR 0xB4, CHR 0xA6, CHR 0xE6,
      CHR 0x88, CHR 0xB7, CHR 0xE6, CHR 0x80, CHR 0xBB, CHR 0xE9, CHR 0xA2, CHR 0x9D, CHR 0xE5,
      CHR 0xBA, CHR 0xA6, CHR 0xEF, CHR 0xBC, CHR 0x8C, CHR 0xE8, CHR 0xAF, CHR 0xB7, CHR 0xE9,
      CHR 0x85, CHR 0x8D, CHR 0xE7, CHR 0xBD, CHR 0xAE, CHR 0xE7, CHR 0xAE, CHR 0xA1, CHR 0xE7,
      CHR 0x90, CHR 0x86, CHR 0xE5, CHR 0x87, CHR 0xAD, CHR 0xE6, CHR 0x8D, CHR 0xAE]"

definition newapi_account_warning :: string where
  "newapi_account_warning =
     [CHR 0x4E, CHR 0x65, CHR 0x77, CHR 0x41, CHR 0x50, CHR 0x49, CHR 0x20, CHR 0xE8, CHR 0xB4,
      CHR 0xA6, CHR 0xE6, CHR 0x88, CHR 0xB7, CHR 0xE6, CHR 0x80, CHR 0xBB, CHR 0xE9, CHR 0xA2,
      CHR 0x9D, CHR 0xE5, CHR 0xBA, CHR 0xA6, CHR 0xE6, CHR 0x9A, CHR 0x82, CHR 0xE6, CHR 0x97,
      CHR 0xB6, CHR 0xE6, CHR 0x97, CHR 0xA0, CHR 0xE6, CHR 0xB3, CHR 0x95, CHR 0xE6, CHR 0x9F,
      CHR 0xA5, CHR 0xE8, CHR 0xAF, CHR 0xA2, CHR 0xEF, CHR 0xBC, CHR 0x8C, CHR 0xE5, CHR 0xBD,
      CHR 0x93, CHR 0xE5, CHR 0x89, CHR 0x8D, CHR 0xE6, CHR 0x98, CHR 0xBE, CHR 0xE7, CHR 0xA4,
      CHR 0xBA, CHR 0x20, CHR 0x41, CHR 0x50, CHR 0x49, CHR 0x20, CHR 0x4B, CHR 0x65, CHR 0x79,
      CHR 0x20, CHR 0xE9, CHR 0xA2, CHR 0x9D, CHR 0xE5, CHR 0xBA, CHR 0xA6]"

record newAPIQuotaStatus =
  ns_QuotaPerUnit :: f64
  ns_DisplayType :: string
  ns_USDExchangeRate :: f64
  ns_CustomCurrencySymbol :: string
  ns_CustomCurrencyExchangeRate :: f64
  ns_Fallback :: bool

definition defaultNewAPIQuotaStatus :: newAPIQuotaStatus where
  "defaultNewAPIQuotaStatus = \<lparr>ns_QuotaPerUnit = 0, ns_DisplayType = ''quota'', ns_USDExchangeRate = 0,
     ns_CustomCurrencySymbol = [], ns_CustomCurrencyExchangeRate = 0, ns_Fallback = True\<rparr>"

text \<open>A rate of the configuration: the default unless the member is a positive number.\<close>

definition positive_rate :: "string \<Rightarrow> f64 \<Rightarrow> f64" where
  "positive_rate raw dflt =
     (if raw = [] then dflt
      else (case numericValue raw of Some parsed \<Rightarrow> if 0 < parsed then parsed else dflt | None \<Rightarrow> dflt))"

text \<open>The object under \<open>data\<close>, or the whole document.\<close>

definition data_or_root :: "jobj \<Rightarrow> jobj" where
  "data_or_root doc = (case objectValue (Some doc) ''data'' of Some d \<Rightarrow> d | None \<Rightarrow> doc)"

definition parseNewAPIQuotaStatus :: "body \<Rightarrow> string + newAPIQuotaStatus" where
  "parseNewAPIQuotaStatus b =
     (case decode_object b of
        Inl e \<Rightarrow> Inl (''decode NewAPI status response: '' @ e)
      | Inr doc \<Rightarrow>
          let sv = (\<lambda>k. stringValue (Some (data_or_root doc)) [k]) in
          (case numericValue (sv ''quota_per_unit'') of
             None \<Rightarrow> Inr defaultNewAPIQuotaStatus
           | Some perUnit \<Rightarrow>
               if perUnit \<le> 0 then Inr defaultNewAPIQuotaStatus
               else Inr \<lparr>ns_QuotaPerUnit = perUnit,
                 ns_DisplayType = ToUpper (firstNonEmpty [sv ''quota_display_type'', ''USD'']),
                 ns_USDExchangeRate = positive_rate (sv ''usd_exchange_rate'') 1,
                 ns_CustomCurrencySymbol = sv ''custom_currency_symbol'',
                 ns_CustomCurrencyExchangeRate = positive_rate (sv ''custom_currency_exchange_rate'') 0,
                 ns_Fallback = False\<rparr>))"

section \<open>Conversion\<close>

text \<open>The verb \<open>%q\<close> on ASCII; bytes outside ASCII stand for printable characters.\<close>

definition quote_char :: "char \<Rightarrow> string" where
  "quote_char c =
     (if c = CHR 0x22 \<or> c = CHR 0x5C then [CHR 0x5C, c]
      else if c = CHR 0x07 then [CHR 0x5C, CHR ''a''] else if c = CHR 0x08 then [CHR 0x5C, CHR ''b'']
      else if c = CHR 0x0C then [CHR 0x5C, CHR ''f''] else if c = CHR 0x0A then [CHR 0x5C, CHR ''n'']
      else if c = CHR 0x0D then [CHR 0x5C, CHR ''r''] else if c = CHR 0x09 then [CHR 0x5C, CHR ''t'']
      else if c = CHR 0x0B then [CHR 0x5C, CHR ''v'']
      else if control_byte c then
        [CHR 0x5C, CHR ''x'', lower_char (hex_upper (of_char c div 16)), lower_char (hex_upper (of_char c mod 16))]
      else [c])"

definition go_quote :: "string \<Rightarrow> string" where
  "go_quote s = [CHR 0x22] @ concat (map quote_char s) @ [CHR 0x22]"

definition newAPIConversionIssue :: "newAPIQuotaStatus \<Rightarrow> string" where
  "newAPIConversionIssue status =
     (let dt = ToUpper (TrimSpace (ns_DisplayType status)) in
      if ns_QuotaPerUnit status \<le> 0 then newapi_no_unit
      else if dt = ''USD'' \<or> dt = ''TOKENS'' then []
      else if dt = ''CNY'' then (if ns_USDExchangeRate status \<le> 0 then newapi_no_rate else [])
      else if dt = ''CUSTOM'' then
        (if TrimSpace (ns_CustomCurrencySymbol status) = [] \<or> ns_CustomCurrencyExchangeRate status \<le> 0
         then newapi_no_custom else [])
      else newapi_type_open @ go_quote (ns_DisplayType status) @ newapi_type_close)"

definition newAPIAmount :: "string \<Rightarrow> newAPIQuotaStatus \<Rightarrow> string" where
  "newAPIAmount raw status =
     (case numericValue raw of
        None \<Rightarrow> raw
      | Some v \<Rightarrow>
          if newAPIConversionIssue status \<noteq> [] then raw
          else if EqualFold (ns_DisplayType status) ''TOKENS'' then raw
          else let amount = v div ns_QuotaPerUnit status in
            decimalString
              (if EqualFold (ns_DisplayType status) ''CNY'' then amount * ns_USDExchangeRate status
               else if EqualFold (ns_DisplayType status) ''CUSTOM''
               then amount * ns_CustomCurrencyExchangeRate status
               else amount))"

definition newAPIUnit :: "newAPIQuotaStatus \<Rightarrow> string" where
  "newAPIUnit status =
     (if EqualFold (ns_DisplayType status) ''TOKENS'' then ''tokens''
      else if EqualFold (ns_DisplayType status) ''CUSTOM'' \<and> TrimSpace (ns_CustomCurrencySymbol status) \<noteq> []
      then ns_CustomCurrencySymbol status
      else ns_DisplayType status)"

section \<open>Quantities\<close>

definition newapi_key_quantity :: "jobj \<Rightarrow> newAPIQuotaStatus \<Rightarrow> string + quotaQuantity" where
  "newapi_key_quantity data status =
     (let sv = stringValue (Some data);
          rawTotal = sv [''total_granted'', ''total'', ''quota''];
          rawUsed = sv [''total_used'', ''used'', ''usage''];
          rawRemaining = sv [''total_available'', ''remaining'', ''available''];
          unlimited = boolValue (Some data) [''unlimited_quota'', ''unlimited''];
          amount = (\<lambda>raw. if unlimited then [] else newAPIAmount raw status) in
      if rawTotal = [] \<and> rawRemaining = [] then Inl ''NewAPI response contains no quota values''
      else Inr (zero_quantity\<lparr>qq_Name := newapi_key_name, qq_Scope := ''token'',
        qq_Source := ''/api/usage/token/'', qq_Unlimited := unlimited,
        qq_Remaining := amount rawRemaining, qq_Total := amount rawTotal, qq_Used := amount rawUsed,
        qq_Unit := newAPIUnit status, qq_ResetAt := timeValue (Some data) [''reset_at''],
        qq_ExpiresAt := timeValue (Some data) [''expires_at'']\<rparr>))"

definition parseNewAPIKeyQuantity ::
    "body \<Rightarrow> newAPIQuotaStatus \<Rightarrow> string + quotaQuantity \<times> string list" where
  "parseNewAPIKeyQuantity b status =
     (case decode_object b of
        Inl e \<Rightarrow> Inl (''decode NewAPI response: '' @ e)
      | Inr doc \<Rightarrow>
          if EqualFold (stringValue (Some doc) [''code'']) ''false''
          then Inl ''NewAPI token response reports failure''
          else (case newapi_key_quantity (data_or_root doc) status of
              Inl e \<Rightarrow> Inl e
            | Inr q \<Rightarrow>
                Inr (q, let issue = newAPIConversionIssue status in if issue = [] then [] else [issue])))"

definition newAPIAccountQuantityFromData ::
    "jobj \<Rightarrow> newAPIQuotaStatus \<Rightarrow> string + quotaQuantity" where
  "newAPIAccountQuantityFromData data status =
     (let rawRemaining = stringValue (Some data) [''quota'', ''remaining'', ''available''];
          rawUsed = stringValue (Some data) [''used_quota'', ''used'', ''usage''];
          tot = (case (numericValue rawRemaining, numericValue rawUsed) of
              (Some remaining, Some used) \<Rightarrow> newAPIAmount (FormatFloat_shortest (remaining + used)) status
            | _ \<Rightarrow> []) in
      if rawRemaining = [] then Inl ''NewAPI account response contains no quota''
      else Inr (zero_quantity\<lparr>qq_Name := newapi_account_name, qq_Scope := ''account'',
        qq_Source := ''/api/user/self'', qq_Display := ''remaining'',
        qq_Remaining := newAPIAmount rawRemaining status, qq_Total := tot,
        qq_Used := newAPIAmount rawUsed status, qq_Unit := newAPIUnit status\<rparr>))"

section \<open>The snapshot\<close>

text \<open>An account query that was not tried for want of a token is not a failure of the account.\<close>

datatype account_error = PATMissing | AccountFailed string

definition account_error_text :: "account_error \<Rightarrow> string" where
  "account_error_text e =
     (case e of PATMissing \<Rightarrow> ''management credential is not configured'' | AccountFailed t \<Rightarrow> t)"

text \<open>The key's part, then the account's part.\<close>

definition newapi_key_part ::
    "accountSnapshot \<Rightarrow> newAPIQuotaStatus \<Rightarrow> string + body \<Rightarrow> accountSnapshot" where
  "newapi_key_part s status key =
     (case (case key of Inl e \<Rightarrow> Inl e | Inr b \<Rightarrow> parseNewAPIKeyQuantity b status) of
        Inl e \<Rightarrow> s\<lparr>as_Status := statusWarning,
          as_Sections := mput ''key_quota'' (zero_section\<lparr>sec_Status := ''error'',
            sec_ErrorCode := ''UPSTREAM_ERROR'', sec_Message := e\<rparr>) (as_Sections s)\<rparr>
      | Inr (q, warnings) \<Rightarrow> s\<lparr>as_Quantities := as_Quantities s @ [q],
          as_Warnings := as_Warnings s @ warnings\<rparr>)"

definition newapi_account_part ::
    "accountSnapshot \<Rightarrow> account_error + quotaQuantity \<Rightarrow> accountSnapshot" where
  "newapi_account_part s account =
     (case account of
        Inr q \<Rightarrow> s\<lparr>as_Quantities := as_Quantities s @ [q]\<rparr>
      | Inl e \<Rightarrow>
          let section = zero_section\<lparr>sec_Status := ''error'', sec_ErrorCode := ''UPSTREAM_ERROR'',
                sec_Message := account_error_text e\<rparr> in
          (case e of
             PATMissing \<Rightarrow> s\<lparr>as_Sections := mput ''account_quota''
               (section\<lparr>sec_Status := ''missing'', sec_ErrorCode := ''PAT_NOT_CONFIGURED''\<rparr>) (as_Sections s)\<rparr>
           | AccountFailed t \<Rightarrow> s\<lparr>as_Status := statusWarning,
               as_Sections := mput ''account_quota'' section (as_Sections s)\<rparr>))"

definition newAPISnapshotFromParts ::
    "credentialCandidate \<Rightarrow> newAPIQuotaStatus \<Rightarrow> string + body \<Rightarrow> account_error + quotaQuantity
      \<Rightarrow> accountSnapshot" where
  "newAPISnapshotFromParts candidate status key account =
     newapi_account_part
       (newapi_key_part (base_snapshot candidate ''newapi-usage'' kindQuota [''quota'']) status key)
       account"

definition newAPISnapshotDetails ::
    "newAPIQuotaStatus \<Rightarrow> body \<Rightarrow> (string, json) gomap" where
  "newAPISnapshotDetails status keyBody =
     [(''source'', JStr ''/api/usage/token/''),
      (''quota_per_unit'', JNum (ns_QuotaPerUnit status)),
      (''quota_display_type'', JStr (ns_DisplayType status)),
      (''usd_exchange_rate'', JNum (ns_USDExchangeRate status)),
      (''unlimited_quota'', JBool (case parseNewAPIKeyQuantity keyBody status of
         Inr (q, _) \<Rightarrow> qq_Unlimited q | Inl _ \<Rightarrow> False))]"

definition newapi_account_warnings :: "account_error + quotaQuantity \<Rightarrow> string list" where
  "newapi_account_warnings account =
     (case account of
        Inl PATMissing \<Rightarrow> [newapi_pat_warning]
      | Inl (AccountFailed _) \<Rightarrow> [newapi_account_warning]
      | Inr _ \<Rightarrow> [])"

text \<open>The common end of \<open>queryNewAPISnapshot\<close> and \<open>parseNewAPISnapshotWithQuotaStatusContext\<close>.\<close>

definition newapi_finish ::
    "credentialCandidate \<Rightarrow> newAPIQuotaStatus \<Rightarrow> string + body \<Rightarrow> account_error + quotaQuantity
      \<Rightarrow> string list \<Rightarrow> accountSnapshot" where
  "newapi_finish candidate status key account extra =
     (let s = newAPISnapshotFromParts candidate status key account;
          s = s\<lparr>as_Details := newAPISnapshotDetails status (case key of Inr b \<Rightarrow> b | Inl _ \<Rightarrow> nil_body)\<rparr> in
      s\<lparr>as_Warnings := as_Warnings s @ extra @ newapi_account_warnings account\<rparr>)"

end
