(* ===== verification/Adapter_Sub2Api.thy ===== *)
theory Adapter_Sub2Api
  imports Adapter_Common
begin

text \<open>
  The Sub2API adapter of adapters.go: the quota, subscription and rate limit windows, the balance
  of an account without windows, the key status, and the curated details with the billing
  section.
\<close>

section \<open>Windows\<close>

text \<open>
  A period of a subscription.  The first call passes the limit as the remaining amount; with a
  readable usage the window is built a second time, and the code stores into that second window
  without asking whether there is one: the outer \<open>None\<close> is the panic on a nil pointer.
\<close>

definition period_key :: "string \<Rightarrow> string \<Rightarrow> string" where
  "period_key period suffix = period @ suffix"

definition subscription_window :: "jobj \<Rightarrow> string \<Rightarrow> quotaWindow option option" where
  "subscription_window sub period =
     (let sv = (\<lambda>k. stringValue (Some sub) [k]);
          limit = sv (period_key period ''_limit_usd'');
          used = sv (period_key period ''_usage_usd'');
          reset = timeValue (Some sub) [''reset_at''];
          expires = timeValue (Some sub) [''expires_at''] in
      case quotaWindowFromValues period limit limit used ''USD'' reset of
        None \<Rightarrow> Some None
      | Some w \<Rightarrow>
          (case (numericValue used, numericValue limit) of
             (Some usedValue, Some limitValue) \<Rightarrow>
               (case quotaWindowFromValues period (FormatFloat_shortest (limitValue - usedValue))
                   limit used ''USD'' reset of
                  None \<Rightarrow> None
                | Some w' \<Rightarrow> Some (Some (w'\<lparr>qw_ExpiresAt := expires\<rparr>)))
           | _ \<Rightarrow> Some (Some (w\<lparr>qw_ExpiresAt := expires\<rparr>))))"

fun subscription_windows :: "jobj \<Rightarrow> string list \<Rightarrow> quotaWindow list option" where
  "subscription_windows sub [] = Some []"
| "subscription_windows sub (p # ps) =
     (case subscription_window sub p of
        None \<Rightarrow> None
      | Some ow \<Rightarrow>
          (case subscription_windows sub ps of
             None \<Rightarrow> None
           | Some ws \<Rightarrow> Some ((case ow of None \<Rightarrow> [] | Some w \<Rightarrow> [w]) @ ws)))"

definition total_window :: "jobj \<Rightarrow> jobj option \<Rightarrow> string \<Rightarrow> quotaWindow list" where
  "total_window data quota unit =
     (case quota of
        None \<Rightarrow> []
      | Some q \<Rightarrow>
          (case quotaWindowFromValues ''total''
              (stringValue quota [''remaining'', ''available'']) (stringValue quota [''limit'', ''total''])
              (stringValue quota [''used'', ''usage'']) unit
              (firstTimeValue [Some data, quota] [''reset_at'', ''resetAt'']) of
             None \<Rightarrow> []
           | Some w \<Rightarrow>
               [w\<lparr>qw_ExpiresAt := firstTimeValue [Some data, quota] [''expires_at'', ''expiresAt'']\<rparr>]))"

definition rate_limit_windows :: "jobj \<Rightarrow> string \<Rightarrow> quotaWindow list" where
  "rate_limit_windows data unit =
     List.map_filter
       (\<lambda>limit. map_option
          (\<lambda>w. w\<lparr>qw_Unit := firstNonEmpty [qw_Unit w, stringValue (Some data) [''unit''], unit, ''quota'']\<rparr>)
          (quotaWindowFromLimit (Some limit) (stringValue (Some limit) [''window''])))
       (objectArray (Some data) ''rate_limits'')"

text \<open>
  \<open>sub2APIPeriodSnapshot\<close>: \<open>None\<close> is the panic, and \<open>Some None\<close> the second result false.
\<close>

definition sub2APIPeriodSnapshot ::
    "credentialCandidate \<Rightarrow> jobj \<Rightarrow> jobj option \<Rightarrow> string \<Rightarrow> accountSnapshot option option" where
  "sub2APIPeriodSnapshot candidate data quota unit =
     (case (case objectValue (Some data) ''subscription'' of
              None \<Rightarrow> Some []
            | Some sub \<Rightarrow> subscription_windows sub [''daily'', ''weekly'', ''monthly'']) of
        None \<Rightarrow> None
      | Some sub_ws \<Rightarrow>
          let ws = total_window data quota unit @ rate_limit_windows data unit @ sub_ws in
          Some (if ws = [] then None
            else Some ((base_snapshot candidate ''sub2api-usage'' kindPeriodQuota [''rolling_quota''])
              \<lparr>as_Windows := ws\<rparr>)))"

section \<open>The snapshot\<close>

definition sub2api_quantity ::
    "credentialCandidate \<Rightarrow> jobj \<Rightarrow> string \<Rightarrow> string \<Rightarrow> string \<Rightarrow> string \<Rightarrow> accountSnapshot" where
  "sub2api_quantity candidate data remaining tot used unit =
     (let s = (base_snapshot candidate ''sub2api-usage'' kindQuota [''quota''])
            \<lparr>as_Quantities := [zero_quantity\<lparr>qq_Name := ''account'', qq_Remaining := remaining,
               qq_Total := tot, qq_Used := used, qq_Unit := unit,
               qq_ResetAt := timeValue (Some data) [''reset_at''],
               qq_ExpiresAt := timeValue (Some data) [''expires_at'']\<rparr>]\<rparr> in
      if isCurrency (ToUpper unit)
      then s\<lparr>as_Kind := kindBalance, as_Capabilities := [''balance''],
        as_Balances := [\<lparr>mb_Amount = remaining, mb_Currency = ToUpper unit, mb_BalanceType = ''remaining''\<rparr>]\<rparr>
      else s)"

definition nil_dereference :: string where
  "nil_dereference = ''runtime error: invalid memory address or nil pointer dereference''"

definition sub2api_unit :: "jobj \<Rightarrow> jobj option \<Rightarrow> string" where
  "sub2api_unit data quota =
     firstNonEmpty [stringValue (Some data) [''unit''], stringValue quota [''unit''], ''quota'']"

definition sub2api_fallback ::
    "credentialCandidate \<Rightarrow> jobj \<Rightarrow> jobj option \<Rightarrow> string + accountSnapshot" where
  "sub2api_fallback candidate data quota =
     (case sub2APIPeriodSnapshot candidate data quota (sub2api_unit data quota) of
        None \<Rightarrow> Inl nil_dereference
      | Some (Some s) \<Rightarrow> Inr s
      | Some None \<Rightarrow>
          let balance = stringValue (Some data) [''balance'', ''available_balance''] in
          if balance \<noteq> [] then
            Inr (balanceSnapshot candidate ''sub2api-usage''
              (firstNonEmpty [stringValue (Some data) [''currency''], ''USD'']) balance [])
          else Inl ''Sub2API response contains no supported quota values'')"

definition sub2api_periodic :: "jobj \<Rightarrow> bool" where
  "sub2api_periodic data =
     (ToLower (stringValue (Some data) [''mode'']) = ''quota_limited''
      \<or> objectValue (Some data) ''subscription'' \<noteq> None)"

definition parseSub2APISnapshotData :: "credentialCandidate \<Rightarrow> jobj \<Rightarrow> string + accountSnapshot" where
  "parseSub2APISnapshotData candidate data =
     (let quota = objectValue (Some data) ''quota'';
          tot = firstNonEmpty [stringValue (Some data) [''total'', ''limit'', ''quota''],
                  stringValue quota [''total'', ''limit'']];
          direct = stringValue (Some data) [''remaining'', ''available'', ''balance''];
          remaining = (if direct = [] then stringValue quota [''remaining'', ''available''] else direct);
          used = firstNonEmpty [stringValue (Some data) [''used'', ''usage''],
                   stringValue quota [''used'', ''usage'']];
          unit = sub2api_unit data quota;
          plain = sub2api_quantity candidate data remaining tot used unit in
      if remaining \<noteq> [] then
        (if sub2api_periodic data then
           (case sub2APIPeriodSnapshot candidate data quota unit of
              None \<Rightarrow> Inl nil_dereference
            | Some (Some s) \<Rightarrow> Inr s
            | Some None \<Rightarrow> Inr plain)
         else Inr plain)
      else sub2api_fallback candidate data quota)"

section \<open>Key status\<close>

definition key_status_code :: "jobj \<Rightarrow> gotime \<Rightarrow> string" where
  "key_status_code data now =
     (let status = ToLower (TrimSpace (stringValue (Some data)
            [''status'', ''key_status'', ''keyStatus'', ''account_status'', ''accountStatus'']));
          expired = (case timeValue (Some data) [''expires_at'', ''expiresAt''] of
              Some e \<Rightarrow> e \<le> now | None \<Rightarrow> False) in
      if status = ''expired'' then ''KEY_EXPIRED''
      else if status \<in> {''disabled'', ''banned'', ''revoked'', ''suspended'', ''inactive''} then ''KEY_DISABLED''
      else if expired then ''KEY_EXPIRED''
      else if objectBoolValue (Some data) [''isValid'', ''is_valid'', ''valid''] = Some False then ''KEY_INVALID''
      else [])"

definition sub2_key_expired :: string where
  "sub2_key_expired =
     [CHR 0xE4, CHR 0xB8, CHR 0x8A, CHR 0xE6, CHR 0xB8, CHR 0xB8, CHR 0x20, CHR 0x4B, CHR 0x65,
      CHR 0x79, CHR 0x20, CHR 0xE5, CHR 0xB7, CHR 0xB2, CHR 0xE8, CHR 0xBF, CHR 0x87, CHR 0xE6,
      CHR 0x9C, CHR 0x9F, CHR 0xE3, CHR 0x80, CHR 0x82]"

definition sub2_key_disabled :: string where
  "sub2_key_disabled =
     [CHR 0xE4, CHR 0xB8, CHR 0x8A, CHR 0xE6, CHR 0xB8, CHR 0xB8, CHR 0xE5, CHR 0xB7, CHR 0xB2,
      CHR 0xE7, CHR 0xA6, CHR 0x81, CHR 0xE7, CHR 0x94, CHR 0xA8, CHR 0xE8, CHR 0xAF, CHR 0xA5,
      CHR 0x20, CHR 0x4B, CHR 0x65, CHR 0x79, CHR 0x20, CHR 0xE6, CHR 0x88, CHR 0x96, CHR 0xE8,
      CHR 0xB4, CHR 0xA6, CHR 0xE6, CHR 0x88, CHR 0xB7, CHR 0xE3, CHR 0x80, CHR 0x82]"

definition sub2_key_invalid :: string where
  "sub2_key_invalid =
     [CHR 0xE4, CHR 0xB8, CHR 0x8A, CHR 0xE6, CHR 0xB8, CHR 0xB8, CHR 0xE8, CHR 0xBF, CHR 0x94,
      CHR 0xE5, CHR 0x9B, CHR 0x9E, CHR 0xE8, CHR 0xAF, CHR 0xA5, CHR 0x20, CHR 0x4B, CHR 0x65,
      CHR 0x79, CHR 0x20, CHR 0xE6, CHR 0x97, CHR 0xA0, CHR 0xE6, CHR 0x95, CHR 0x88, CHR 0xE3,
      CHR 0x80, CHR 0x82]"

definition sub2_billing_open :: string where
  "sub2_billing_open =
     [CHR 0xE8, CHR 0xAF, CHR 0xA5, CHR 0x20, CHR 0x53, CHR 0x75, CHR 0x62, CHR 0x32, CHR 0x41,
      CHR 0x50, CHR 0x49, CHR 0x20, CHR 0xE5, CHR 0xAE, CHR 0x9E, CHR 0xE4, CHR 0xBE, CHR 0x8B,
      CHR 0xE6, CHR 0x9C, CHR 0xAA, CHR 0xE6, CHR 0x8F, CHR 0x90, CHR 0xE4, CHR 0xBE, CHR 0x9B,
      CHR 0xE8, CHR 0xAE, CHR 0xA1, CHR 0xE8, CHR 0xB4, CHR 0xB9, CHR 0xE8, CHR 0xAF, CHR 0xA6,
      CHR 0xE6, CHR 0x83, CHR 0x85, CHR 0xE6, CHR 0x8E, CHR 0xA5, CHR 0xE5, CHR 0x8F, CHR 0xA3,
      CHR 0xEF, CHR 0xBC, CHR 0x88, CHR 0x48, CHR 0x54, CHR 0x54, CHR 0x50, CHR 0x20]"

definition sub2_billing_close :: string where
  "sub2_billing_close =
     [CHR 0xEF, CHR 0xBC, CHR 0x89, CHR 0xEF, CHR 0xBC, CHR 0x8C, CHR 0xE4, CHR 0xBD, CHR 0x99,
      CHR 0xE9, CHR 0xA2, CHR 0x9D, CHR 0xE4, CHR 0xB8, CHR 0x8E, CHR 0xE7, CHR 0x94, CHR 0xA8,
      CHR 0xE9, CHR 0x87, CHR 0x8F, CHR 0xE6, CHR 0x9F, CHR 0xA5, CHR 0xE8, CHR 0xAF, CHR 0xA2,
      CHR 0xE4, CHR 0xB8, CHR 0x8D, CHR 0xE5, CHR 0x8F, CHR 0x97, CHR 0xE5, CHR 0xBD, CHR 0xB1,
      CHR 0xE5, CHR 0x93, CHR 0x8D, CHR 0xE3, CHR 0x80, CHR 0x82]"

definition key_status_message :: "string \<Rightarrow> string" where
  "key_status_message code =
     (if code = ''KEY_EXPIRED'' then sub2_key_expired
      else if code = ''KEY_DISABLED'' then sub2_key_disabled else sub2_key_invalid)"

definition applySub2APIKeyStatus :: "accountSnapshot \<Rightarrow> jobj \<Rightarrow> gotime \<Rightarrow> accountSnapshot" where
  "applySub2APIKeyStatus s data now =
     (let code = key_status_code data now in
      if code = [] then s
      else s\<lparr>as_Status := statusDisabled,
        as_Error := Some \<lparr>se_Code = code, se_Message = key_status_message code\<rparr>\<rparr>)"

definition parseSub2APISnapshot ::
    "credentialCandidate \<Rightarrow> body \<Rightarrow> gotime \<Rightarrow> string + accountSnapshot" where
  "parseSub2APISnapshot candidate b now =
     (case decode_object b of
        Inl e \<Rightarrow> Inl (''decode Sub2API response: '' @ e)
      | Inr doc \<Rightarrow>
          let data = (case objectValue (Some doc) ''data'' of Some d \<Rightarrow> d | None \<Rightarrow> doc) in
          (case parseSub2APISnapshotData candidate data of
             Inl e \<Rightarrow> Inl e
           | Inr s \<Rightarrow> Inr (applySub2APIKeyStatus s data now)))"

section \<open>Details and billing\<close>

definition curated_keys :: "string list" where
  "curated_keys = [''mode'', ''isValid'', ''is_active'', ''status'', ''planName'', ''plan_name'',
     ''remaining'', ''balance'', ''unit'', ''quota'', ''rate_limits'', ''expires_at'',
     ''days_until_expiry'', ''subscription'', ''usage'', ''daily_usage'', ''model_stats'']"

definition curatedDetails :: "jobj \<Rightarrow> jobj" where
  "curatedDetails doc =
     (let data = (case objectValue (Some doc) ''data'' of Some d \<Rightarrow> d | None \<Rightarrow> doc) in
      List.map_filter (\<lambda>k. map_option (\<lambda>v. (k, sanitizeJSON v 0)) (mget data k)) curated_keys)"

definition applySub2APIBillingResponse ::
    "accountSnapshot \<Rightarrow> string + hostHTTPResponse \<Rightarrow> accountSnapshot" where
  "applySub2APIBillingResponse s response =
     (case response of
        Inl e \<Rightarrow> markSectionError s ''billing'' ''UPSTREAM_REQUEST_FAILED'' e
      | Inr r \<Rightarrow>
          let code = hr_StatusCode r in
          if code = 404 \<or> code = 405 then
            s\<lparr>as_Sections := mput ''billing'' (zero_section\<lparr>sec_Status := ''unsupported'',
                sec_Message := sub2_billing_open @ int_str code @ sub2_billing_close\<rparr>) (as_Sections s)\<rparr>
          else if \<not> ok_status code then
            markSectionError s ''billing'' (''UPSTREAM_HTTP_'' @ int_str code)
              (''Sub2API billing endpoint returned HTTP '' @ int_str code)
          else (case decode_object (hr_Body r) of
              Inl e \<Rightarrow> markSectionError s ''billing'' ''INVALID_RESPONSE''
                ''Sub2API billing response is not valid JSON''
            | Inr doc \<Rightarrow>
                s\<lparr>as_Details := mput ''billing'' (sanitizeJSON (JObj doc) 0) (as_Details s),
                  as_Sections := mput ''billing'' (zero_section\<lparr>sec_Status := ''available''\<rparr>)
                    (as_Sections s)\<rparr>))"

end
