(* ===== verification/Adapter_CommandCode.thy ===== *)
theory Adapter_CommandCode
  imports Adapter_Common Endpoints
begin

text \<open>
  commandcode.go: the parsing of the four Command Code responses, and the snapshot with its
  credit quantities, windows, details and warnings.  A response that could not be fetched is the
  empty body, \<open>None\<close> here.
\<close>

section \<open>Reading\<close>

text \<open>
  \<open>commandCodeNumber\<close> returns a number and whether it is valid; callers that drop the second
  result go on with what \<open>ParseFloat\<close> gave beside its error.
\<close>

fun commandCodeNumber_in :: "jobj \<Rightarrow> string list \<Rightarrow> f64 \<times> bool" where
  "commandCodeNumber_in m [] = (0, False)"
| "commandCodeNumber_in m (k # ks) =
     (case mget m k of
        Some (JNum x) \<Rightarrow> (x, True)
      | Some (JStr s) \<Rightarrow>
          (case numericValue s of Some v \<Rightarrow> (v, True) | None \<Rightarrow> (ParseFloat_value (TrimSpace s), False))
      | _ \<Rightarrow> commandCodeNumber_in m ks)"

definition commandCodeNumber :: "jobj option \<Rightarrow> string list \<Rightarrow> f64 \<times> bool" where
  "commandCodeNumber object keys =
     (case object of None \<Rightarrow> (0, False) | Some m \<Rightarrow> commandCodeNumber_in m keys)"

definition commandCodeQuantityNumber :: "f64 \<Rightarrow> string" where
  "commandCodeQuantityNumber v = TrimRightSet ''.'' (TrimRightSet ''0'' (FormatFloat_f6 v))"

definition normalizeCommandCodeCandidate :: "credentialCandidate \<Rightarrow> credentialCandidate" where
  "normalizeCommandCodeCandidate candidate = candidate\<lparr>cc_BaseURL := commandCodeAPIBase\<rparr>"

record commandCodeIdentity =
  ci_OrgID :: string
  ci_Org :: "jobj option"
  ci_User :: "jobj option"
  ci_OrgLimits :: "jobj list"

definition parseCommandCodeIdentity :: "body \<Rightarrow> string + commandCodeIdentity" where
  "parseCommandCodeIdentity b =
     (case decode_object b of
        Inl e \<Rightarrow> Inl (''decode Command Code account response: '' @ e)
      | Inr doc \<Rightarrow>
          let scope = (case objectValue (Some doc) ''data'' of Some d \<Rightarrow> d | None \<Rightarrow> doc);
              org = objectValue (Some scope) ''org'';
              direct = stringValue org [''id'', ''orgId'', ''_id''];
              limits = objectArray (Some scope) ''orgLimits'' in
          Inr \<lparr>ci_OrgID = (if direct = [] then stringValue (Some scope) [''orgId'', ''organizationId''] else direct),
            ci_Org = org, ci_User = objectValue (Some scope) ''user'',
            ci_OrgLimits = (if limits = [] then objectArray (Some doc) ''orgLimits'' else limits)\<rparr>)"

definition parseCommandCodeCredits :: "body \<Rightarrow> string + jobj" where
  "parseCommandCodeCredits b =
     (case decode_object b of
        Inl e \<Rightarrow> Inl (''decode Command Code credits response: '' @ e)
      | Inr doc \<Rightarrow>
          (case objectValue (objectValue (Some doc) ''data'') ''credits'' of
             Some c \<Rightarrow> Inr c
           | None \<Rightarrow>
               (case objectValue (Some doc) ''credits'' of
                  Some c \<Rightarrow> Inr c
                | None \<Rightarrow> Inl ''Command Code credits response contains no credits object'')))"

definition commandCodeWindowLimits :: "body \<Rightarrow> jobj \<Rightarrow> jobj option" where
  "commandCodeWindowLimits b credits =
     (case objectValue (Some credits) ''windowLimits'' of
        Some w \<Rightarrow> Some w
      | None \<Rightarrow>
          (case decode_object b of
             Inl _ \<Rightarrow> None
           | Inr doc \<Rightarrow>
               (case objectValue (Some doc) ''windowLimits'' of
                  Some w \<Rightarrow> Some w
                | None \<Rightarrow> objectValue (objectValue (Some doc) ''data'') ''windowLimits'')))"

definition parseCommandCodeObject :: "body option \<Rightarrow> jobj option" where
  "parseCommandCodeObject b =
     (case b of
        None \<Rightarrow> None
      | Some b \<Rightarrow>
          if b_Len b = 0 then None
          else (case decode_object b of
              Inl _ \<Rightarrow> None
            | Inr doc \<Rightarrow> Some (case objectValue (Some doc) ''data'' of Some d \<Rightarrow> d | None \<Rightarrow> doc)))"

definition commandCodeSubscriptionActive :: "jobj option \<Rightarrow> bool" where
  "commandCodeSubscriptionActive subscription =
     (case subscription of
        None \<Rightarrow> False
      | Some m \<Rightarrow>
          let status = ToLower (stringValue (Some m) [''status'']) in
          if status \<in> {''active'', ''trialing'', ''trial'', ''current''} then True
          else if status \<in> {''inactive'', ''canceled'', ''cancelled'', ''expired'', ''past_due'', ''unpaid''}
          then False
          else stringValue (Some m) [''planId''] \<noteq> [])"

definition parseCommandCodeSubscription :: "body option \<Rightarrow> jobj option" where
  "parseCommandCodeSubscription b =
     (case parseCommandCodeObject b of
        None \<Rightarrow> None
      | Some doc \<Rightarrow>
          (case objectValue (Some doc) ''subscription'' of
             Some s \<Rightarrow> Some s
           | None \<Rightarrow>
               (case objectArray (Some doc) ''subscriptions'' of
                  s # ss \<Rightarrow>
                    (case List.find (\<lambda>x. commandCodeSubscriptionActive (Some x)) (s # ss) of
                       Some x \<Rightarrow> Some x | None \<Rightarrow> Some s)
                | [] \<Rightarrow>
                    if stringValue (Some doc) [''planId'', ''status'', ''currentPeriodStart''] \<noteq> []
                    then Some doc else None)))"

section \<open>Windows\<close>

definition commandCodeWindow :: "string \<Rightarrow> jobj \<Rightarrow> string + quotaWindow" where
  "commandCodeWindow name m =
     (let (used, usedOK) = commandCodeNumber (Some m) [''used'', ''usage''];
          (cap, capOK) = commandCodeNumber (Some m) [''cap'', ''limit'', ''total''] in
      if \<not> usedOK \<or> \<not> capOK \<or> cap \<le> 0 then
        Inl (''Command Code '' @ name @ '' window cap is missing or invalid'')
      else if used < 0 then Inl (''Command Code '' @ name @ '' window used value is invalid'')
      else
        let remaining = maxFloat (cap - used) 0; fraction = remaining div cap in
        Inr (zero_window\<lparr>qw_Name := name, qw_Source := ''upstream'',
          qw_RemainingFraction := Some fraction, qw_UsedFraction := Some (1 - fraction),
          qw_RemainingAmount := commandCodeQuantityNumber remaining,
          qw_TotalAmount := commandCodeQuantityNumber cap,
          qw_UsedAmount := commandCodeQuantityNumber used, qw_Unit := ''credits'',
          qw_ResetAt := timeValue (Some m) [''resetAt'', ''reset_at'', ''resetsAt'']\<rparr>))"

definition commandCodeDerivedMonthlyWindow ::
    "f64 \<Rightarrow> f64 \<Rightarrow> jobj option \<Rightarrow> quotaWindow option" where
  "commandCodeDerivedMonthlyWindow remaining tot subscription =
     (if tot \<le> 0 then None
      else
        let remaining = maxFloat remaining 0;
            tot = (if tot < remaining then remaining else tot);
            used = maxFloat (tot - remaining) 0 in
        if tot \<le> 0 then None
        else Some (zero_window\<lparr>qw_Name := ''month'', qw_Source := ''derived'',
          qw_RemainingFraction := Some (remaining div tot), qw_UsedFraction := Some (used div tot),
          qw_RemainingAmount := commandCodeQuantityNumber remaining,
          qw_TotalAmount := commandCodeQuantityNumber tot,
          qw_UsedAmount := commandCodeQuantityNumber used, qw_Unit := ''credits'',
          qw_ResetAt := timeValue subscription [''currentPeriodEnd'', ''periodEnd'', ''endsAt'']\<rparr>))"

fun first_object :: "jobj \<Rightarrow> string list \<Rightarrow> jobj option" where
  "first_object m [] = None"
| "first_object m (k # ks) =
     (case objectValue (Some m) k of Some w \<Rightarrow> Some w | None \<Rightarrow> first_object m ks)"

definition window_definitions :: "(string list \<times> string) list" where
  "window_definitions =
     [([''fiveHour'', ''five_hour'', ''fiveHourWindow''], ''fiveHour''),
      ([''weekly'', ''week'', ''weeklyWindow''], ''weekly''),
      ([''month'', ''monthly'', ''monthlyWindow''], ''month'')]"

fun upstream_windows :: "jobj \<Rightarrow> (string list \<times> string) list \<Rightarrow> string + (string, quotaWindow) gomap" where
  "upstream_windows m [] = Inr []"
| "upstream_windows m ((keys, name) # defs) =
     (case first_object m keys of
        None \<Rightarrow> upstream_windows m defs
      | Some w \<Rightarrow>
          (case commandCodeWindow name w of
             Inl e \<Rightarrow> Inl e
           | Inr qw \<Rightarrow>
               (case upstream_windows m defs of Inl e \<Rightarrow> Inl e | Inr ws \<Rightarrow> Inr (mput name qw ws))))"

section \<open>Credits\<close>

record commandCodeCredits =
  cr_Monthly :: f64
  cr_Purchased :: f64
  cr_Free :: f64
  cr_Granted :: f64
  cr_GrantedExplicit :: bool
  cr_TotalKnown :: bool
  cr_PeriodConfirmed :: bool

text \<open>The credit values with their checks.\<close>

definition credit_values :: "jobj \<Rightarrow> string + f64 \<times> f64 \<times> f64" where
  "credit_values credits =
     (let (monthly, monthlyOK) = commandCodeNumber (Some credits) [''monthlyCredits''];
          (purchased, purchasedOK) = commandCodeNumber (Some credits) [''purchasedCredits''];
          (free, freeOK) = commandCodeNumber (Some credits) [''freeCredits''] in
      if \<not> monthlyOK \<and> \<not> purchasedOK \<and> \<not> freeOK then
        Inl ''Command Code credits response contains no credit values''
      else if monthly < 0 \<or> purchased < 0 \<or> free < 0 then
        Inl ''Command Code credits values cannot be negative''
      else Inr (monthly, purchased, free))"

text \<open>The monthly grant: stated by the upstream, or derived from what was spent.\<close>

definition derive_credits ::
    "jobj \<Rightarrow> jobj option \<Rightarrow> jobj option \<Rightarrow> f64 \<times> f64 \<times> f64 \<Rightarrow> commandCodeCredits" where
  "derive_credits credits subscription usage vals =
     (case vals of (monthly, purchased, free) \<Rightarrow>
       let confirmed = commandCodeSubscriptionActive subscription
             \<or> EqualFold (stringValue usage [''periodBasis'']) ''billing-period'';
           (spent, spentOK0) = commandCodeNumber usage [''totalMonthlyCredits''];
           spentOK = (spentOK0 \<and> \<not> spent < 0);
           (granted0, grantedOK) = commandCodeNumber (Some credits) [''monthlyCreditsGranted''];
           explicit = (grantedOK \<and> 0 < granted0);
           granted = (if explicit then granted0
             else if confirmed \<and> spentOK then monthly + spent else monthly);
           granted = (if granted < monthly then monthly else granted) in
       \<lparr>cr_Monthly = monthly, cr_Purchased = purchased, cr_Free = free, cr_Granted = granted,
        cr_GrantedExplicit = explicit, cr_TotalKnown = (explicit \<or> confirmed \<and> spentOK),
        cr_PeriodConfirmed = confirmed\<rparr>)"

definition credits_remaining :: "commandCodeCredits \<Rightarrow> f64" where
  "credits_remaining c = cr_Monthly c + cr_Purchased c + cr_Free c"

definition credits_pool :: "commandCodeCredits \<Rightarrow> f64" where
  "credits_pool c =
     (let pool = cr_Granted c + cr_Purchased c + cr_Free c in
      if pool < credits_remaining c then credits_remaining c else pool)"

definition credit_quantity :: "string \<Rightarrow> string \<Rightarrow> string \<Rightarrow> string \<Rightarrow> string \<Rightarrow> quotaQuantity" where
  "credit_quantity name source remaining tot used =
     zero_quantity\<lparr>qq_Name := name, qq_Scope := ''account'', qq_Source := source,
       qq_Remaining := remaining, qq_Total := tot, qq_Used := used, qq_Unit := ''credits''\<rparr>"

definition credit_quantities :: "commandCodeCredits \<Rightarrow> quotaQuantity list" where
  "credit_quantities c =
     (let q = commandCodeQuantityNumber;
          known = (\<lambda>s. if cr_TotalKnown c then s else []) in
      [credit_quantity ''availableCredits'' ''combined'' (q (credits_remaining c))
         (known (q (credits_pool c))) (known (q (maxFloat (credits_pool c - credits_remaining c) 0))),
       credit_quantity ''monthlyCredits'' ''subscription'' (q (cr_Monthly c))
         (known (q (cr_Granted c))) (known (q (maxFloat (cr_Granted c - cr_Monthly c) 0))),
       credit_quantity ''purchasedCredits'' ''purchased'' (q (cr_Purchased c)) (q (cr_Purchased c)) [],
       credit_quantity ''freeCredits'' ''granted'' (q (cr_Free c)) (q (cr_Free c)) []])"

text \<open>The estimate of the pool from the cost of the period, when the grant is not known.\<close>

definition credit_estimate :: "commandCodeCredits \<Rightarrow> jobj option \<Rightarrow> string \<times> string" where
  "credit_estimate c usage =
     (if \<not> cr_TotalKnown c \<and> usage \<noteq> None then
        (case commandCodeNumber usage [''totalCost'', ''totalCredits''] of
           (cost, ok) \<Rightarrow>
             if ok \<and> 0 \<le> cost
             then (commandCodeQuantityNumber (cost + credits_remaining c), commandCodeQuantityNumber cost)
             else ([], []))
      else ([], []))"

section \<open>The snapshot\<close>

definition cc_window_warning :: string where
  "cc_window_warning =
     [CHR 0x43, CHR 0x6F, CHR 0x6D, CHR 0x6D, CHR 0x61, CHR 0x6E, CHR 0x64, CHR 0x20, CHR 0x43,
      CHR 0x6F, CHR 0x64, CHR 0x65, CHR 0x20, CHR 0xE5, CHR 0xBD, CHR 0x93, CHR 0xE5, CHR 0x89,
      CHR 0x8D, CHR 0xE9, CHR 0xA2, CHR 0x9D, CHR 0xE5, CHR 0xBA, CHR 0xA6, CHR 0xE7, CHR 0xAA,
      CHR 0x97, CHR 0xE5, CHR 0x8F, CHR 0xA3, CHR 0xE5, CHR 0xB7, CHR 0xB2, CHR 0xE8, CHR 0xB6,
      CHR 0x85, CHR 0xE5, CHR 0x87, CHR 0xBA, CHR 0xE9, CHR 0x99, CHR 0x90, CHR 0xE5, CHR 0x88,
      CHR 0xB6, CHR 0xE3, CHR 0x80, CHR 0x82]"

definition cc_below_warning :: string where
  "cc_below_warning =
     [CHR 0x43, CHR 0x6F, CHR 0x6D, CHR 0x6D, CHR 0x61, CHR 0x6E, CHR 0x64, CHR 0x20, CHR 0x43,
      CHR 0x6F, CHR 0x64, CHR 0x65, CHR 0x20, CHR 0x43, CHR 0x72, CHR 0x65, CHR 0x64, CHR 0x69,
      CHR 0x74, CHR 0x73, CHR 0x20, CHR 0xE4, CHR 0xBD, CHR 0x99, CHR 0xE9, CHR 0xA2, CHR 0x9D,
      CHR 0xE4, CHR 0xBD, CHR 0x8E, CHR 0xE4, CHR 0xBA, CHR 0x8E, CHR 0xE8, CHR 0xB4, CHR 0xA6,
      CHR 0xE6, CHR 0x88, CHR 0xB7, CHR 0xE8, CHR 0xAE, CHR 0xBE, CHR 0xE7, CHR 0xBD, CHR 0xAE,
      CHR 0xE7, CHR 0x9A, CHR 0x84, CHR 0xE6, CHR 0x8F, CHR 0x90, CHR 0xE9, CHR 0x86, CHR 0x92,
      CHR 0xE9, CHR 0x98, CHR 0x88, CHR 0xE5, CHR 0x80, CHR 0xBC, CHR 0xE3, CHR 0x80, CHR 0x82]"

definition cc_no_subscription :: string where
  "cc_no_subscription =
     [CHR 0xE5, CHR 0xA5, CHR 0x97, CHR 0xE9, CHR 0xA4, CHR 0x90, CHR 0xE4, CHR 0xBF, CHR 0xA1,
      CHR 0xE6, CHR 0x81, CHR 0xAF, CHR 0xE4, CHR 0xB8, CHR 0x8D, CHR 0xE5, CHR 0x8F, CHR 0xAF,
      CHR 0xE7, CHR 0x94, CHR 0xA8, CHR 0xEF, CHR 0xBC, CHR 0x9B, CHR 0xE5, CHR 0xB7, CHR 0xB2,
      CHR 0xE6, CHR 0xA0, CHR 0xB9, CHR 0xE6, CHR 0x8D, CHR 0xAE, CHR 0x20, CHR 0x43, CHR 0x72,
      CHR 0x65, CHR 0x64, CHR 0x69, CHR 0x74, CHR 0x73, CHR 0x20, CHR 0xE4, CHR 0xB8, CHR 0x8E,
      CHR 0xE6, CHR 0x9C, CHR 0xAC, CHR 0xE5, CHR 0x91, CHR 0xA8, CHR 0xE6, CHR 0x9C, CHR 0x9F,
      CHR 0xE8, CHR 0xB4, CHR 0xB9, CHR 0xE7, CHR 0x94, CHR 0xA8, CHR 0xE4, CHR 0xBC, CHR 0xB0,
      CHR 0xE7, CHR 0xAE, CHR 0x97, CHR 0xE5, CHR 0x8F, CHR 0xAF, CHR 0xE7, CHR 0x94, CHR 0xA8,
      CHR 0xE6, CHR 0xB1, CHR 0xA0, CHR 0xE3, CHR 0x80, CHR 0x82]"

definition cc_no_usage :: string where
  "cc_no_usage =
     [CHR 0xE6, CHR 0x9C, CHR 0xAC, CHR 0xE5, CHR 0x91, CHR 0xA8, CHR 0xE6, CHR 0x9C, CHR 0x9F,
      CHR 0xE7, CHR 0x94, CHR 0xA8, CHR 0xE9, CHR 0x87, CHR 0x8F, CHR 0xE7, CHR 0xBB, CHR 0x9F,
      CHR 0xE8, CHR 0xAE, CHR 0xA1, CHR 0xE6, CHR 0x9A, CHR 0x82, CHR 0xE4, CHR 0xB8, CHR 0x8D,
      CHR 0xE5, CHR 0x8F, CHR 0xAF, CHR 0xE7, CHR 0x94, CHR 0xA8, CHR 0xE3, CHR 0x80, CHR 0x82]"

definition cc_no_limits :: string where
  "cc_no_limits =
     [CHR 0xE7, CHR 0xBB, CHR 0x84, CHR 0xE7, CHR 0xBB, CHR 0x87, CHR 0xE9, CHR 0x99, CHR 0x90,
      CHR 0xE5, CHR 0x88, CHR 0xB6, CHR 0xE4, CHR 0xBF, CHR 0xA1, CHR 0xE6, CHR 0x81, CHR 0xAF,
      CHR 0xE6, CHR 0x9A, CHR 0x82, CHR 0xE4, CHR 0xB8, CHR 0x8D, CHR 0xE5, CHR 0x8F, CHR 0xAF,
      CHR 0xE7, CHR 0x94, CHR 0xA8, CHR 0xE3, CHR 0x80, CHR 0x82]"

definition cc_estimate_basis :: string where
  "cc_estimate_basis =
     [CHR 0xE6, CHR 0x9C, CHR 0xAC, CHR 0xE5, CHR 0x91, CHR 0xA8, CHR 0xE6, CHR 0x9C, CHR 0x9F,
      CHR 0xE8, CHR 0xB4, CHR 0xB9, CHR 0xE7, CHR 0x94, CHR 0xA8, CHR 0x20, CHR 0x2B, CHR 0x20,
      CHR 0xE5, CHR 0xBD, CHR 0x93, CHR 0xE5, CHR 0x89, CHR 0x8D, CHR 0xE5, CHR 0x8F, CHR 0xAF,
      CHR 0xE7, CHR 0x94, CHR 0xA8, CHR 0x20, CHR 0x43, CHR 0x72, CHR 0x65, CHR 0x64, CHR 0x69,
      CHR 0x74, CHR 0x73]"

definition cc_subscription_failed :: string where
  "cc_subscription_failed =
     [CHR 0xE5, CHR 0xA5, CHR 0x97, CHR 0xE9, CHR 0xA4, CHR 0x90, CHR 0xE4, CHR 0xBF, CHR 0xA1,
      CHR 0xE6, CHR 0x81, CHR 0xAF, CHR 0xE6, CHR 0x9A, CHR 0x82, CHR 0xE6, CHR 0x97, CHR 0xB6,
      CHR 0xE4, CHR 0xB8, CHR 0x8D, CHR 0xE5, CHR 0x8F, CHR 0xAF, CHR 0xE7, CHR 0x94, CHR 0xA8,
      CHR 0xEF, CHR 0xBC, CHR 0x9B, CHR 0x43, CHR 0x72, CHR 0x65, CHR 0x64, CHR 0x69, CHR 0x74,
      CHR 0x73, CHR 0x20, CHR 0xE4, CHR 0xBD, CHR 0x99, CHR 0xE9, CHR 0xA2, CHR 0x9D, CHR 0xE4,
      CHR 0xBB, CHR 0x8D, CHR 0xE6, CHR 0x8C, CHR 0x89, CHR 0xE5, CHR 0xB7, CHR 0xB2, CHR 0xE8,
      CHR 0x8E, CHR 0xB7, CHR 0xE5, CHR 0x8F, CHR 0x96, CHR 0xE6, CHR 0x95, CHR 0xB0, CHR 0xE6,
      CHR 0x8D, CHR 0xAE, CHR 0xE5, CHR 0xB1, CHR 0x95, CHR 0xE7, CHR 0xA4, CHR 0xBA, CHR 0xE3,
      CHR 0x80, CHR 0x82]"

definition cc_usage_failed :: string where
  "cc_usage_failed =
     [CHR 0xE6, CHR 0x9C, CHR 0xAC, CHR 0xE5, CHR 0x91, CHR 0xA8, CHR 0xE6, CHR 0x9C, CHR 0x9F,
      CHR 0xE7, CHR 0x94, CHR 0xA8, CHR 0xE9, CHR 0x87, CHR 0x8F, CHR 0xE7, CHR 0xBB, CHR 0x9F,
      CHR 0xE8, CHR 0xAE, CHR 0xA1, CHR 0xE6, CHR 0x9A, CHR 0x82, CHR 0xE6, CHR 0x97, CHR 0xB6,
      CHR 0xE4, CHR 0xB8, CHR 0x8D, CHR 0xE5, CHR 0x8F, CHR 0xAF, CHR 0xE7, CHR 0x94, CHR 0xA8,
      CHR 0xEF, CHR 0xBC, CHR 0x9B, CHR 0xE4, CHR 0xBD, CHR 0x99, CHR 0xE9, CHR 0xA2, CHR 0x9D,
      CHR 0xE4, CHR 0xB8, CHR 0x8E, CHR 0xE7, CHR 0xAA, CHR 0x97, CHR 0xE5, CHR 0x8F, CHR 0xA3,
      CHR 0xE9, CHR 0xA2, CHR 0x9D, CHR 0xE5, CHR 0xBA, CHR 0xA6, CHR 0xE4, CHR 0xBB, CHR 0x8D,
      CHR 0xE6, CHR 0xAD, CHR 0xA3, CHR 0xE5, CHR 0xB8, CHR 0xB8, CHR 0xE5, CHR 0xB1, CHR 0x95,
      CHR 0xE7, CHR 0xA4, CHR 0xBA, CHR 0xE3, CHR 0x80, CHR 0x82]"

definition commandCodePlanNames :: "(string, string) gomap" where
  "commandCodePlanNames =
     [(''individual-go'', ''GO''), (''individual-goat'', ''GOAT''), (''individual-pro'', ''PRO''),
      (''individual-pro-v1'', ''PRO V1''), (''individual-provider'', ''PROVIDER''),
      (''individual-max'', ''MAX''), (''individual-ultra'', ''ULTRA''), (''teams-pro'', ''TEAMS PRO'')]"

definition commandcode_windows ::
    "commandCodeCredits \<Rightarrow> jobj option \<Rightarrow> jobj option \<Rightarrow> string + quotaWindow list" where
  "commandcode_windows c windows subscription =
     (let limited = boolValue windows [''limited''] in
      case (if limited then upstream_windows (the windows) window_definitions else Inr []) of
        Inl e \<Rightarrow> Inl e
      | Inr parsed \<Rightarrow>
          let parsed = (if mget parsed ''month'' = None \<and> cr_TotalKnown c \<and> limited \<and> cr_PeriodConfirmed c
                then (case commandCodeDerivedMonthlyWindow (cr_Monthly c) (cr_Granted c) subscription of
                    Some w \<Rightarrow> mput ''month'' w parsed | None \<Rightarrow> parsed)
                else parsed) in
          Inr (List.map_filter (mget parsed) [''fiveHour'', ''weekly'', ''month'']))"

definition commandcode_plan :: "commandCodeCredits \<Rightarrow> string \<Rightarrow> bool \<Rightarrow> json" where
  "commandcode_plan c planID active =
     (let mapped = mstr commandCodePlanNames (ToLower planID) in
      JObj [(''id'', JStr planID),
        (''name'', JStr (if mapped = [] then ToUpper (TrimSpace planID) else mapped)),
        (''monthlyCredits'', JNum (cr_Granted c)), (''monthlyCreditsGranted'', JNum (cr_Granted c)),
        (''active'', JBool active), (''grantExplicit'', JBool (cr_GrantedExplicit c)),
        (''grantDerived'', JBool (cr_TotalKnown c \<and> \<not> cr_GrantedExplicit c))])"

definition account_scope :: "commandCodeIdentity \<Rightarrow> string" where
  "account_scope ident = (if TrimSpace (ci_OrgID ident) = [] then ''personal'' else ''organization'')"

definition commandcode_details ::
    "commandCodeIdentity \<Rightarrow> jobj \<Rightarrow> commandCodeCredits \<Rightarrow> jobj option \<Rightarrow> jobj option
      \<Rightarrow> (string, json) gomap" where
  "commandcode_details ident credits c subscription usage =
     (let planID = firstNonEmpty [stringValue (Some credits) [''planId''], stringValue subscription [''planId'']];
          (pool, used) = credit_estimate c usage in
      [(''plan'', commandcode_plan c planID (commandCodeSubscriptionActive subscription)),
       (''credits'', JObj credits),
       (''account'', JObj [(''scope'', JStr (account_scope ident)), (''orgId'', JStr (ci_OrgID ident)),
          (''orgLogin'', JStr (stringValue (ci_Org ident) [''login'', ''name'', ''slug''])),
          (''userName'', JStr (stringValue (ci_User ident) [''userName'', ''name'', ''login'', ''email'']))])]
      @ (if pool = [] \<and> used = [] then []
         else [(''estimate'', JObj [(''availableTotal'', JStr pool), (''used'', JStr used),
           (''basis'', JStr cc_estimate_basis)])])
      @ (case subscription of Some m \<Rightarrow> [(''subscription'', JObj m)] | None \<Rightarrow> [])
      @ (case usage of Some m \<Rightarrow> [(''usage'', JObj m)] | None \<Rightarrow> [])
      @ (if ci_OrgLimits ident = [] then [] else [(''org_limits'', JArr (map JObj (ci_OrgLimits ident)))]))"

definition commandcode_warnings ::
    "commandCodeIdentity \<Rightarrow> jobj \<Rightarrow> jobj option \<Rightarrow> jobj option \<Rightarrow> jobj option \<Rightarrow> string list" where
  "commandcode_warnings ident credits windows subscription usage =
     (if boolValue windows [''limited''] \<and> boolValue windows [''exceeded''] then [cc_window_warning] else [])
     @ (if boolValue (Some credits) [''belowThreshold''] then [cc_below_warning] else [])
     @ (if subscription = None then [cc_no_subscription] else [])
     @ (if usage = None then [cc_no_usage] else [])
     @ (if account_scope ident = ''organization'' \<and> ci_OrgLimits ident = [] then [cc_no_limits] else [])"

definition commandcode_snapshot ::
    "credentialCandidate \<Rightarrow> commandCodeIdentity \<Rightarrow> jobj \<Rightarrow> commandCodeCredits \<Rightarrow> jobj option
      \<Rightarrow> jobj option \<Rightarrow> jobj option \<Rightarrow> string + accountSnapshot" where
  "commandcode_snapshot candidate ident credits c windows subscription usage =
     (case commandcode_windows c windows subscription of
        Inl e \<Rightarrow> Inl e
      | Inr ws \<Rightarrow>
          Inr ((base_snapshot candidate ''commandcode-goat'' kindQuota
                 [''credits'', ''subscription_usage'', ''quota_windows'', ''usage_statistics''])
            \<lparr>as_AccountID := cc_AuthIndex candidate, as_BaseURL := commandCodeAPIBase,
             as_Quantities := credit_quantities c, as_Windows := ws,
             as_Details := commandcode_details ident credits c subscription usage,
             as_Warnings := commandcode_warnings ident credits windows subscription usage\<rparr>))"

definition parseCommandCodeSnapshot ::
    "credentialCandidate \<Rightarrow> body \<Rightarrow> body \<Rightarrow> body option \<Rightarrow> body option \<Rightarrow> string + accountSnapshot" where
  "parseCommandCodeSnapshot candidate whoami creditsBody subscriptionBody usageBody =
     (case parseCommandCodeIdentity whoami of
        Inl e \<Rightarrow> Inl e
      | Inr ident \<Rightarrow>
     (case parseCommandCodeCredits creditsBody of
        Inl e \<Rightarrow> Inl e
      | Inr credits \<Rightarrow>
     (case credit_values credits of
        Inl e \<Rightarrow> Inl e
      | Inr vals \<Rightarrow>
          let subscription = parseCommandCodeSubscription subscriptionBody;
              usage = parseCommandCodeObject usageBody in
          commandcode_snapshot (normalizeCommandCodeCandidate candidate) ident credits
            (derive_credits credits subscription usage vals)
            (commandCodeWindowLimits creditsBody credits) subscription usage)))"

definition commandCodeFailureCode :: "string + hostHTTPResponse \<Rightarrow> string" where
  "commandCodeFailureCode r =
     (case r of
        Inl _ \<Rightarrow> ''UPSTREAM_REQUEST_FAILED''
      | Inr resp \<Rightarrow>
          if 0 < hr_StatusCode resp then ''UPSTREAM_HTTP_'' @ int_str (hr_StatusCode resp)
          else ''UPSTREAM_ERROR'')"

text \<open>The failure of an optional part: no text when the part arrived.\<close>

definition part_failure :: "string + hostHTTPResponse \<Rightarrow> string" where
  "part_failure r =
     (case r of
        Inr resp \<Rightarrow> if ok_status (hr_StatusCode resp) then [] else commandCodeFailureCode r
      | Inl _ \<Rightarrow> commandCodeFailureCode r)"

definition part_body :: "string + hostHTTPResponse \<Rightarrow> body option" where
  "part_body r =
     (case r of
        Inr resp \<Rightarrow> if ok_status (hr_StatusCode resp) then Some (hr_Body resp) else None
      | Inl _ \<Rightarrow> None)"

definition mark_part :: "string \<Rightarrow> string \<Rightarrow> string \<Rightarrow> accountSnapshot \<Rightarrow> accountSnapshot" where
  "mark_part section failure message s =
     (if failure = [] then s
      else let s = markSectionError s section failure message in
        s\<lparr>as_Warnings := as_Warnings s @ [message]\<rparr>)"

definition applyCommandCodePartialFailures :: "accountSnapshot \<Rightarrow> string \<Rightarrow> string \<Rightarrow> accountSnapshot" where
  "applyCommandCodePartialFailures s subscriptionFailure usageFailure =
     mark_part ''usage'' usageFailure cc_usage_failed
       (mark_part ''subscription'' subscriptionFailure cc_subscription_failed s)"

end
