(* ===== verification/Adapter_ClinePass.thy ===== *)
theory Adapter_ClinePass
  imports Adapter_CommandCode
begin

text \<open>
  clinepass.go: the envelope of Cline Pass responses, the usage totals of the rolling windows, the
  usage summary per model, and the snapshot.  Instants in the details are written in UTC.
\<close>

definition clinePassAPIBase :: string where
  "clinePassAPIBase = ''https://api.cline.bot''"

definition clinePassUsageUnitsPerUSD :: f64 where
  "clinePassUsageUnitsPerUSD = fnum 100000000"

definition clinePassBalanceUnitsPerUSD :: f64 where
  "clinePassBalanceUnitsPerUSD = fnum 1000000"

definition clinePassBalanceUnitsPerCredit :: f64 where
  "clinePassBalanceUnitsPerCredit = fnum 10000"

definition clinePassUsagePageLimit :: int where "clinePassUsagePageLimit = 100"
definition clinePassUsageMaximumPages :: nat where "clinePassUsageMaximumPages = 10"
definition clinePassUsageLookbackWindowDays :: int where "clinePassUsageLookbackWindowDays = 30"

definition hours :: "int \<Rightarrow> int" where "hours n = n * 3600000000000"

definition clinePassEnvelopeData :: "body \<Rightarrow> string + jobj" where
  "clinePassEnvelopeData b =
     (case decode_object b of
        Inl e \<Rightarrow> Inl (''decode Cline Pass response: '' @ e)
      | Inr doc \<Rightarrow>
          let errorText = TrimSpace (stringValue (Some doc) [''error'']) in
          if errorText \<noteq> [] then Inl (''Cline Pass response error: '' @ errorText)
          else (case objectValue (Some doc) ''data'' of
              Some d \<Rightarrow> Inr d
            | None \<Rightarrow> Inl ''Cline Pass response contains no data''))"

section \<open>Usage\<close>

definition item_created :: "jobj \<Rightarrow> gotime option" where
  "item_created item = timeValue (Some item) [''createdAt'', ''created_at'']"

definition item_number :: "jobj \<Rightarrow> string \<Rightarrow> string \<Rightarrow> f64" where
  "item_number item k1 k2 = fst (commandCodeNumber (Some item) [k1, k2])"

text \<open>The cost of an item that counts for the windows, with its instant.\<close>

definition costed_item :: "jobj \<Rightarrow> (gotime \<times> f64) option" where
  "costed_item item =
     (case (item_created item, commandCodeNumber (Some item) [''costUsd'', ''cost_usd'']) of
        (Some created, (cost, ok)) \<Rightarrow> if \<not> ok \<or> cost < 0 then None else Some (created, cost)
      | _ \<Rightarrow> None)"

definition sum_since :: "gotime \<Rightarrow> (gotime \<times> f64) list \<Rightarrow> f64" where
  "sum_since cutoff xs = foldl (\<lambda>s (created, cost). if cutoff < created then s + cost else s) 0 xs"

definition lookback :: "gotime \<Rightarrow> gotime" where
  "lookback now = now - hours (24 * clinePassUsageLookbackWindowDays)"

definition clinePassUsageTotals :: "jobj list \<Rightarrow> gotime \<Rightarrow> f64 \<times> f64 \<times> f64" where
  "clinePassUsageTotals items now =
     (let xs = List.map_filter costed_item items in
      (sum_since (now - hours 5) xs, sum_since (now - hours (7 * 24)) xs, sum_since (lookback now) xs))"

text \<open>What the summary keeps for one model; counters are int64 and wrap.\<close>

record modelUsage =
  mu_Requests :: int
  mu_CostUSD :: string
  mu_TotalTokens :: int

definition zero_model :: modelUsage where
  "zero_model = \<lparr>mu_Requests = 0, mu_CostUSD = ''0'', mu_TotalTokens = 0\<rparr>"

definition usage_model_name :: "jobj \<Rightarrow> string" where
  "usage_model_name item =
     firstNonEmpty [stringValue (Some item) [''aiModelName'', ''ai_model_name''], ''unknown'']"

definition add_model :: "jobj \<Rightarrow> (string, modelUsage) gomap \<Rightarrow> (string, modelUsage) gomap" where
  "add_model item models =
     (let name = usage_model_name item; m = mgetz zero_model models name;
          cost = item_number item ''costUsd'' ''cost_usd'';
          prior = (case numericValue (mu_CostUSD m) of Some v \<Rightarrow> v
            | None \<Rightarrow> ParseFloat_value (TrimSpace (mu_CostUSD m))) in
      mput name \<lparr>mu_Requests = wrap64 (mu_Requests m + 1),
        mu_CostUSD = decimalString (prior + cost div clinePassUsageUnitsPerUSD),
        mu_TotalTokens = wrap64 (mu_TotalTokens m
          + int64_of_f64 (item_number item ''totalTokens'' ''total_tokens''))\<rparr> models)"

definition recent_items :: "jobj list \<Rightarrow> gotime \<Rightarrow> jobj list" where
  "recent_items items now =
     filter (\<lambda>item. case item_created item of Some c \<Rightarrow> \<not> c < lookback now | None \<Rightarrow> True) items"

definition sum_items :: "jobj list \<Rightarrow> string \<Rightarrow> string \<Rightarrow> f64" where
  "sum_items items k1 k2 = foldl (\<lambda>s item. s + item_number item k1 k2) 0 items"

definition model_before :: "string \<times> modelUsage \<Rightarrow> string \<times> modelUsage \<Rightarrow> bool" where
  "model_before a b =
     (if mu_Requests (snd a) \<noteq> mu_Requests (snd b) then mu_Requests (snd b) < mu_Requests (snd a)
      else fst a < fst b)"

definition model_list :: "jobj list \<Rightarrow> (string \<times> modelUsage) list" where
  "model_list items = sort_by model_before (fold add_model items [])"

definition model_json :: "string \<times> modelUsage \<Rightarrow> json" where
  "model_json nm =
     JObj [(''model'', JStr (fst nm)), (''requests'', JNum (fnum (mu_Requests (snd nm)))),
       (''costUSD'', JStr (mu_CostUSD (snd nm))),
       (''totalTokens'', JNum (fnum (mu_TotalTokens (snd nm))))]"

definition clinePassUsageSummary :: "jobj list \<Rightarrow> gotime \<Rightarrow> json" where
  "clinePassUsageSummary items now =
     (let recent = recent_items items now;
          tokens = (\<lambda>k1 k2. JNum (fnum (int64_of_f64 (sum_items recent k1 k2)))) in
      JObj [(''count'', JNum (fnum (int (length recent)))),
        (''costUSD'', JStr (decimalString (sum_items recent ''costUsd'' ''cost_usd'' div clinePassUsageUnitsPerUSD))),
        (''creditsUsed'', JStr (decimalString
          (sum_items recent ''creditsUsed'' ''credits_used'' div clinePassBalanceUnitsPerCredit))),
        (''promptTokens'', tokens ''promptTokens'' ''prompt_tokens''),
        (''completionTokens'', tokens ''completionTokens'' ''completion_tokens''),
        (''totalTokens'', tokens ''totalTokens'' ''total_tokens''),
        (''models'', JArr (map model_json (model_list recent)))])"

section \<open>The snapshot\<close>

definition time_json :: "gotime option \<Rightarrow> json" where
  "time_json t = (case t of None \<Rightarrow> JNull | Some i \<Rightarrow> JStr (FormatRFC3339Nano i))"

text \<open>A window of a cap; without a cap there is none.\<close>

definition cline_window :: "string \<Rightarrow> f64 \<Rightarrow> f64 \<Rightarrow> quotaWindow option" where
  "cline_window name used cap =
     (if cap \<le> 0 then None
      else
        let capUSD = cap div clinePassUsageUnitsPerUSD; usedUSD = used div clinePassUsageUnitsPerUSD in
        map_option (\<lambda>w. w\<lparr>qw_Source := ''derived''\<rparr>)
          (quotaWindowFromValues name (decimalString (maxFloat (capUSD - usedUSD) 0))
            (decimalString capUSD) (decimalString usedUSD) ''USD'' None))"

definition cline_caps :: "jobj option \<Rightarrow> f64 \<times> f64 \<times> f64" where
  "cline_caps plan =
     (let t = objectValue (objectValue (objectValue plan ''entitlements'') ''cline_pass'') ''inferenceCapThreshold'';
          cap = (\<lambda>k. fst (commandCodeNumber t [k])) in
      (cap ''last5HoursUsageCostUSDPerUser'', cap ''last7daysUsageCostUSDPerUser'',
       cap ''last30daysUsageCostUSDPerUser''))"

definition cline_windows :: "f64 \<times> f64 \<times> f64 \<Rightarrow> f64 \<times> f64 \<times> f64 \<Rightarrow> quotaWindow list" where
  "cline_windows used caps =
     (case (used, caps) of ((u5, u7, u30), (c5, c7, c30)) \<Rightarrow>
        List.map_filter (\<lambda>(name, u, c). cline_window name u c)
          [(''fiveHour'', u5, c5), (''weekly'', u7, c7), (''month'', u30, c30)])"

definition cline_plan_json :: "jobj option \<Rightarrow> jobj \<Rightarrow> json" where
  "cline_plan_json plan planData =
     (let name = firstNonEmpty [stringValue plan [''displayName'', ''name''], ''Cline Pass''];
          (c5, c7, c30) = cline_caps plan;
          usd = (\<lambda>c. JStr (decimalString (c div clinePassUsageUnitsPerUSD))) in
      JObj [(''id'', JStr (stringValue plan [''id'', ''priceId''])), (''name'', JStr name),
        (''displayName'', JStr name), (''interval'', JStr (stringValue plan [''interval''])),
        (''pricePerSeatCents'', (case plan of
            Some m \<Rightarrow> (case mget m ''pricePerSeatCents'' of Some v \<Rightarrow> v | None \<Rightarrow> JNull)
          | None \<Rightarrow> JNull)),
        (''active'', JBool (boolValue plan [''isActive''])),
        (''currentPeriodStart'', time_json (timeValue (Some planData) [''currentPeriodStart''])),
        (''currentPeriodEnd'', time_json (timeValue (Some planData) [''currentPeriodEnd''])),
        (''limits'', JObj [(''fiveHourUSD'', usd c5), (''weeklyUSD'', usd c7), (''monthlyUSD'', usd c30)])])"

definition cline_snapshot ::
    "credentialCandidate \<Rightarrow> jobj \<Rightarrow> f64 \<Rightarrow> jobj \<Rightarrow> jobj list \<Rightarrow> gotime \<Rightarrow> accountSnapshot" where
  "cline_snapshot candidate meData balanceRaw planData items now =
     (let plan = objectValue (Some planData) ''plan'' in
      (base_snapshot candidate ''clinepass-usage'' kindQuota
         [''balance'', ''subscription_usage'', ''quota_windows'', ''usage_statistics''])
      \<lparr>as_BaseURL := clinePassAPIBase,
       as_Balances := [\<lparr>mb_Amount = decimalString (balanceRaw div clinePassBalanceUnitsPerUSD),
         mb_Currency = ''USD'', mb_BalanceType = ''remaining''\<rparr>],
       as_Quantities := [zero_quantity\<lparr>qq_Name := ''Cline Pass Credits'', qq_Scope := ''account'',
         qq_Source := ''balance'', qq_Display := ''remaining'',
         qq_Remaining := decimalString (balanceRaw div clinePassBalanceUnitsPerCredit),
         qq_Unit := ''credits''\<rparr>],
       as_Windows := cline_windows (clinePassUsageTotals items now) (cline_caps plan),
       as_Details := [(''plan'', cline_plan_json plan planData),
         (''usage'', clinePassUsageSummary items now),
         (''account'', JObj [(''userName'', JStr (stringValue (Some meData) [''displayName'', ''email'']))])]\<rparr>)"

definition cline_balance_invalid :: string where
  "cline_balance_invalid = ''Cline Pass '' @
     [CHR 0xE4, CHR 0xBD, CHR 0x99, CHR 0xE9, CHR 0xA2, CHR 0x9D, CHR 0xE5, CHR 0x80, CHR 0xBC,
      CHR 0xE6, CHR 0x97, CHR 0xA0, CHR 0xE6, CHR 0x95, CHR 0x88]"

text \<open>\<open>clock\<close> replaces a zero instant.\<close>

definition parseClinePassSnapshot ::
    "credentialCandidate \<Rightarrow> body \<Rightarrow> body \<Rightarrow> body \<Rightarrow> jobj list \<Rightarrow> gotime \<Rightarrow> gotime
      \<Rightarrow> string + accountSnapshot" where
  "parseClinePassSnapshot candidate meBody balanceBody planBody items now clock =
     (let now = (if IsZero now then clock else now) in
      case clinePassEnvelopeData meBody of
        Inl e \<Rightarrow> Inl e
      | Inr meData \<Rightarrow>
     (case clinePassEnvelopeData balanceBody of
        Inl e \<Rightarrow> Inl e
      | Inr balanceData \<Rightarrow>
     (case clinePassEnvelopeData planBody of
        Inl e \<Rightarrow> Inl e
      | Inr planData \<Rightarrow>
          (case commandCodeNumber (Some balanceData) [''balance''] of
             (balanceRaw, ok) \<Rightarrow>
               if \<not> ok \<or> balanceRaw < 0 then Inl cline_balance_invalid
               else Inr (cline_snapshot candidate meData balanceRaw planData items now)))))"

text \<open>
  The pages of the usage.  \<open>fetch\<close> returns the data of a page for a cursor; \<open>n\<close> pages are left.
\<close>

definition oldest_created :: "jobj list \<Rightarrow> gotime" where
  "oldest_created items =
     foldl (\<lambda>oldest item. case item_created item of
         None \<Rightarrow> oldest
       | Some c \<Rightarrow> if IsZero oldest \<or> c < oldest then c else oldest) zero_time items"

definition usage_page_last :: "jobj \<Rightarrow> gotime \<Rightarrow> bool" where
  "usage_page_last data now =
     (let items = objectArray (Some data) ''items''; oldest = oldest_created items in
      TrimSpace (stringValue (Some data) [''nextToken'']) = [] \<or> items = []
      \<or> \<not> IsZero oldest \<and> oldest < lookback now)"

fun usage_pages ::
    "(string \<Rightarrow> string + jobj) \<Rightarrow> gotime \<Rightarrow> nat \<Rightarrow> string \<Rightarrow> string + jobj list" where
  "usage_pages fetch now 0 cursor = Inr []"
| "usage_pages fetch now (Suc n) cursor =
     (case fetch cursor of
        Inl e \<Rightarrow> Inl e
      | Inr data \<Rightarrow>
          let items = objectArray (Some data) ''items'' in
          if usage_page_last data now then Inr items
          else (case usage_pages fetch now n (TrimSpace (stringValue (Some data) [''nextToken''])) of
              Inl e \<Rightarrow> Inl e
            | Inr rest \<Rightarrow> Inr (items @ rest)))"

end
