(* ===== verification/Adapter_Query.thy ===== *)
theory Adapter_Query
  imports Proxy Adapter_Plans Adapter_NewApi Adapter_Sub2Api Adapter_ClinePass Preferences
begin

text \<open>
  The query of one account (adapters.go): the monitor configuration and the choice of the adapter,
  the token of a credential, and for each adapter the sequence of requests and what is made of
  the responses.  What lies outside the plugin is in \<open>query_env\<close>: the network answers a request
  made through a transport, and the process environment is a function.  A query is a function of
  its candidate and this environment.
\<close>

section \<open>Monitor configuration\<close>

record monitorConfig =
  mc_Adapter :: string
  mc_BaseURL :: string
  mc_ManagementBaseURL :: string
  mc_AllowInternalHTTP :: bool
  mc_APIKeyEnv :: string
  mc_ManagementAPIKeyEnv :: string
  mc_ManagementUserIDEnv :: string
  mc_ProxyMode :: string
  mc_ProxyURL :: string

definition zero_monitor :: monitorConfig where
  "zero_monitor = \<lparr>mc_Adapter = [], mc_BaseURL = [], mc_ManagementBaseURL = [],
     mc_AllowInternalHTTP = False, mc_APIKeyEnv = [], mc_ManagementAPIKeyEnv = [],
     mc_ManagementUserIDEnv = [], mc_ProxyMode = [], mc_ProxyURL = []\<rparr>"

datatype monitor_issue =
    URLNeedsMode
  | InvalidMode proxy_error
  | ModeNeedsURL
  | ModeForbidsURL string
  | InvalidProxyURL proxy_error
  | InvalidBaseURL url_issue
  | InvalidManagementURL url_issue

definition monitor_proxy_issue :: "monitorConfig \<Rightarrow> monitor_issue option" where
  "monitor_proxy_issue c =
     (let mode = TrimSpace (mc_ProxyMode c); url = TrimSpace (mc_ProxyURL c) in
      if mode = [] then (if url \<noteq> [] then Some URLNeedsMode else None)
      else (case normalizeProxyMode (mc_ProxyMode c) of
          None \<Rightarrow> Some (InvalidMode UnknownMode)
        | Some m \<Rightarrow>
            if m = proxyModeURL \<and> url = [] then Some ModeNeedsURL
            else if m \<noteq> proxyModeURL \<and> url \<noteq> [] then Some (ModeForbidsURL m)
            else if m = proxyModeURL then map_option InvalidProxyURL (validateProxyURL (mc_ProxyURL c))
            else None))"

definition monitor_issue :: "monitorConfig \<Rightarrow> monitor_issue option" where
  "monitor_issue c =
     (case monitor_proxy_issue c of
        Some i \<Rightarrow> Some i
      | None \<Rightarrow>
          (case validateConfiguredEndpointURL (mc_BaseURL c) (mc_AllowInternalHTTP c) of
             Some i \<Rightarrow> Some (InvalidBaseURL i)
           | None \<Rightarrow> map_option InvalidManagementURL
               (validateConfiguredEndpointURL (mc_ManagementBaseURL c) (mc_AllowInternalHTTP c))))"

text \<open>The first issue in the order of the keys.\<close>

fun first_issue :: "(string, monitorConfig) gomap \<Rightarrow> string list \<Rightarrow> (string \<times> monitor_issue) option" where
  "first_issue m [] = None"
| "first_issue m (k # ks) =
     (case monitor_issue (mgetz zero_monitor m k) of
        Some i \<Rightarrow> Some (k, i) | None \<Rightarrow> first_issue m ks)"

definition validateMonitorConfigs :: "(string, monitorConfig) gomap \<Rightarrow> (string \<times> monitor_issue) option" where
  "validateMonitorConfigs m = first_issue m (sort_by (<) (mkeys m))"

section \<open>The environment of a query\<close>

record credential_storage =
  st_Raw :: string
  st_Json :: "json option"

definition no_storage :: credential_storage where
  "no_storage = \<lparr>st_Raw = [], st_Json = None\<rparr>"

record request =
  rq_URL :: string
  rq_Authorization :: string
  rq_Headers :: "(string \<times> string) list"

record query_env =
  qe_Monitors :: "(string, monitorConfig) gomap"
  qe_Prefs :: monitorPrefs
  qe_Aead :: aead
  qe_Getenv :: "string \<Rightarrow> string"
  qe_URLError :: "string \<Rightarrow> string"
  qe_Http :: "transport \<Rightarrow> request \<Rightarrow> string + hostHTTPResponse"
  qe_Thresholds :: thresholdConfig
  qe_Now :: gotime
  qe_Latency :: int

fun first_monitor :: "(string, monitorConfig) gomap \<Rightarrow> string list \<Rightarrow> monitorConfig" where
  "first_monitor m [] = zero_monitor"
| "first_monitor m (k # ks) = (case mget m k of Some c \<Rightarrow> c | None \<Rightarrow> first_monitor m ks)"

definition monitorFor :: "query_env \<Rightarrow> credentialCandidate \<Rightarrow> monitorConfig" where
  "monitorFor env candidate =
     (let config = first_monitor (qe_Monitors env)
            [candidateAccountID candidate, cc_AuthIndex candidate, cc_AuthID candidate, cc_Provider candidate];
          adapter = pref_adapter (mp_data (qe_Prefs env)) (candidateAccountID candidate) [] in
      if adapter \<noteq> [] then config\<lparr>mc_Adapter := adapter\<rparr> else config)"

section \<open>The adapter\<close>

definition matchesCommandCode :: "string \<Rightarrow> string \<Rightarrow> bool" where
  "matchesCommandCode provider host =
     (Contains provider ''commandcode'' \<or> Contains provider ''command-code'' \<or> Contains provider ''goat''
      \<or> host = ''api.commandcode.ai'')"

definition matchesClinePass :: "string \<Rightarrow> string \<Rightarrow> bool" where
  "matchesClinePass provider host =
     (let p = ToLower (TrimSpace provider) in
      Contains p ''cline pass'' \<or> Contains p ''clinepass''
      \<or> host = ''api.cline.bot'' \<and> Contains p ''cline-pass'')"

definition matchesDeepSeek :: "credentialCandidate \<Rightarrow> bool" where
  "matchesDeepSeek candidate =
     (let p = ToLower (TrimSpace (cc_Provider candidate)) in
      if p = ''deepseek'' \<or> p = ''deepseek-apikey'' then True
      else if cc_BaseURL candidate = [] then False
      else (case url_Parse (cc_BaseURL candidate) of None \<Rightarrow> False | Some u \<Rightarrow> deepseek_host_ok u))"

text \<open>The adapter that provider and host name suggest.\<close>

definition detect_adapter :: "credentialCandidate \<Rightarrow> string \<Rightarrow> string \<Rightarrow> string" where
  "detect_adapter candidate p host =
     (if matchesCommandCode p host then ''commandcode-goat''
      else if matchesClinePass p host then ''clinepass-usage''
      else if matchesDeepSeek candidate then ''deepseek-balance''
      else if p \<in> {''zai'', ''zhipu'', ''glm''} \<or> host \<in> {''open.bigmodel.cn'', ''api.z.ai''} then ''zai-usage''
      else if p \<in> {''kimi-coding'', ''kimi-for-coding''} \<or> host = ''api.kimi.com'' then ''kimi-coding''
      else if p \<in> {''kimi'', ''moonshot'', ''moonshotai''} \<or> host = ''api.moonshot.cn'' then ''moonshot-balance''
      else if p = ''opencode-go'' \<or> host = ''opencode.ai'' then ''opencode-go''
      else if Contains p ''new-api'' \<or> Contains p ''newapi'' then ''newapi-usage''
      else if Contains p ''sub2api'' \<or> Contains p ''passion'' \<or> HasSuffix host ''.passionapi.com''
        \<or> host = ''passionapi.com'' then ''sub2api-usage''
      else if p = ''codex-api-key'' then ''relay-usage''
      else [])"

text \<open>The candidate with what the monitor configuration says about its addresses and proxy.\<close>

definition configured_candidate :: "monitorConfig \<Rightarrow> credentialCandidate \<Rightarrow> credentialCandidate" where
  "configured_candidate config candidate =
     (let c = candidate\<lparr>
            cc_ManagementBaseURL := firstNonEmpty [mc_ManagementBaseURL config, cc_ManagementBaseURL candidate],
            cc_AllowInternalHTTP := cc_AllowInternalHTTP candidate \<or> mc_AllowInternalHTTP config\<rparr> in
      case normalizeProxyMode (mc_ProxyMode config) of
        None \<Rightarrow> c
      | Some m \<Rightarrow>
          if m = proxyModeDirect then c\<lparr>cc_ProxyMode := proxyModeDirect, cc_ProxyURL := []\<rparr>
          else if m = proxyModeURL then
            c\<lparr>cc_ProxyMode := proxyModeURL, cc_ProxyURL := TrimSpace (mc_ProxyURL config)\<rparr>
          else c)"

definition adapterFor :: "query_env \<Rightarrow> credentialCandidate \<Rightarrow> (string \<times> credentialCandidate) option" where
  "adapterFor env candidate =
     (let p = ToLower (TrimSpace (cc_Provider candidate));
          host = host_of (cc_BaseURL candidate);
          config = monitorFor env candidate;
          c = configured_candidate config candidate in
      if TrimSpace (mc_Adapter config) \<noteq> [] then
        let c = c\<lparr>cc_BaseURL := firstNonEmpty [mc_BaseURL config, cc_BaseURL c]\<rparr>;
            a = ToLower (TrimSpace (mc_Adapter config));
            a = (if a = ''opencode-go'' \<and> matchesCommandCode p host then ''commandcode-goat'' else a) in
        Some (a, if a = ''commandcode-goat'' then normalizeCommandCodeCandidate c else c)
      else
        let a = detect_adapter c p host in
        if a = [] then None
        else Some (a, if a = ''commandcode-goat'' then normalizeCommandCodeCandidate c else c))"

definition isSupportedAdapter :: "string \<Rightarrow> bool" where
  "isSupportedAdapter v =
     (ToLower (TrimSpace v) \<in> {''deepseek-balance'', ''zai-usage'', ''moonshot-balance'', ''kimi-coding'',
        ''opencode-go'', ''newapi-usage'', ''sub2api-usage'', ''relay-usage'', ''commandcode-goat'',
        ''clinepass-usage''})"

section \<open>Tokens\<close>

definition token_keys :: "string list" where
  "token_keys = [''api_key'', ''api-key'', ''access_token'', ''token'', ''key'']"

fun first_attribute :: "(string, string) gomap \<Rightarrow> string list \<Rightarrow> string" where
  "first_attribute m [] = []"
| "first_attribute m (k # ks) =
     (if TrimSpace (mstr m k) \<noteq> [] then TrimSpace (mstr m k) else first_attribute m ks)"

fun first_text :: "jobj \<Rightarrow> string list \<Rightarrow> string" where
  "first_text m [] = []"
| "first_text m (k # ks) =
     (case mget m k of
        Some (JStr v) \<Rightarrow> if TrimSpace v \<noteq> [] then TrimSpace v else first_text m ks
      | _ \<Rightarrow> first_text m ks)"

definition tokenFromCredential :: "credential_storage \<Rightarrow> (string, string) gomap \<Rightarrow> string" where
  "tokenFromCredential storage attributes =
     (let direct = first_attribute attributes token_keys in
      if direct \<noteq> [] then direct
      else (case decodeObject (st_Json storage) of None \<Rightarrow> [] | Some m \<Rightarrow> first_text m token_keys))"

definition tokenForCandidate ::
    "query_env \<Rightarrow> credentialCandidate \<Rightarrow> credential_storage \<Rightarrow> (string, string) gomap \<Rightarrow> string" where
  "tokenForCandidate env candidate storage attributes =
     (let token = tokenFromCredential storage attributes; config = monitorFor env candidate in
      if token \<noteq> [] then token
      else if TrimSpace (mc_APIKeyEnv config) = [] then []
      else TrimSpace (qe_Getenv env (mc_APIKeyEnv config)))"

definition managementCredentialFor :: "query_env \<Rightarrow> credentialCandidate \<Rightarrow> monitorConfig \<Rightarrow> string" where
  "managementCredentialFor env candidate monitor =
     (let v = pref_pat (qe_Aead env) (qe_Prefs env) (candidateAccountID candidate) in
      if v \<noteq> [] then v
      else if mc_ManagementAPIKeyEnv monitor = [] then []
      else TrimSpace (qe_Getenv env (mc_ManagementAPIKeyEnv monitor)))"

section \<open>Requests\<close>

definition perr_mode :: string where
  "perr_mode =
     [CHR 0xE4, CHR 0xBB, CHR 0xA3, CHR 0xE7, CHR 0x90, CHR 0x86, CHR 0xE6, CHR 0xA8, CHR 0xA1,
      CHR 0xE5, CHR 0xBC, CHR 0x8F, CHR 0xE4, CHR 0xBB, CHR 0x85, CHR 0xE6, CHR 0x94, CHR 0xAF,
      CHR 0xE6, CHR 0x8C, CHR 0x81, CHR 0x20, CHR 0x69, CHR 0x6E, CHR 0x68, CHR 0x65, CHR 0x72,
      CHR 0x69, CHR 0x74, CHR 0xE3, CHR 0x80, CHR 0x81, CHR 0x64, CHR 0x69, CHR 0x72, CHR 0x65,
      CHR 0x63, CHR 0x74, CHR 0x20, CHR 0xE6, CHR 0x88, CHR 0x96, CHR 0x20, CHR 0x75, CHR 0x72,
      CHR 0x6C]"

definition perr_direct :: string where
  "perr_direct =
     [CHR 0x64, CHR 0x69, CHR 0x72, CHR 0x65, CHR 0x63, CHR 0x74, CHR 0x20, CHR 0xE6, CHR 0xA8,
      CHR 0xA1, CHR 0xE5, CHR 0xBC, CHR 0x8F, CHR 0xE4, CHR 0xB8, CHR 0x8D, CHR 0xE8, CHR 0x83,
      CHR 0xBD, CHR 0xE9, CHR 0x85, CHR 0x8D, CHR 0xE7, CHR 0xBD, CHR 0xAE, CHR 0x20, CHR 0x70,
      CHR 0x72, CHR 0x6F, CHR 0x78, CHR 0x79, CHR 0x2D, CHR 0x75, CHR 0x72, CHR 0x6C]"

definition perr_missing :: string where
  "perr_missing =
     [CHR 0xE6, CHR 0x8C, CHR 0x87, CHR 0xE5, CHR 0xAE, CHR 0x9A, CHR 0xE4, CHR 0xBB, CHR 0xA3,
      CHR 0xE7, CHR 0x90, CHR 0x86, CHR 0xE6, CHR 0xA8, CHR 0xA1, CHR 0xE5, CHR 0xBC, CHR 0x8F,
      CHR 0xE5, CHR 0xBF, CHR 0x85, CHR 0xE9, CHR 0xA1, CHR 0xBB, CHR 0xE6, CHR 0x8F, CHR 0x90,
      CHR 0xE4, CHR 0xBE, CHR 0x9B, CHR 0x20, CHR 0x70, CHR 0x72, CHR 0x6F, CHR 0x78, CHR 0x79,
      CHR 0x2D, CHR 0x75, CHR 0x72, CHR 0x6C]"

definition perr_unparsable :: string where
  "perr_unparsable =
     [CHR 0xE6, CHR 0x97, CHR 0xA0, CHR 0xE6, CHR 0xB3, CHR 0x95, CHR 0xE8, CHR 0xA7, CHR 0xA3,
      CHR 0xE6, CHR 0x9E, CHR 0x90, CHR 0xE4, CHR 0xBB, CHR 0xA3, CHR 0xE7, CHR 0x90, CHR 0x86,
      CHR 0x20, CHR 0x55, CHR 0x52, CHR 0x4C]"

definition perr_nohost :: string where
  "perr_nohost =
     [CHR 0xE4, CHR 0xBB, CHR 0xA3, CHR 0xE7, CHR 0x90, CHR 0x86, CHR 0x20, CHR 0x55, CHR 0x52,
      CHR 0x4C, CHR 0x20, CHR 0xE7, CHR 0xBC, CHR 0xBA, CHR 0xE5, CHR 0xB0, CHR 0x91, CHR 0xE4,
      CHR 0xB8, CHR 0xBB, CHR 0xE6, CHR 0x9C, CHR 0xBA, CHR 0xE5, CHR 0x90, CHR 0x8D]"

definition perr_scheme :: string where
  "perr_scheme =
     [CHR 0xE4, CHR 0xB8, CHR 0x8D, CHR 0xE6, CHR 0x94, CHR 0xAF, CHR 0xE6, CHR 0x8C, CHR 0x81,
      CHR 0xE7, CHR 0x9A, CHR 0x84, CHR 0xE4, CHR 0xBB, CHR 0xA3, CHR 0xE7, CHR 0x90, CHR 0x86,
      CHR 0xE5, CHR 0x8D, CHR 0x8F, CHR 0xE8, CHR 0xAE, CHR 0xAE, CHR 0x20]"

definition qerr_cline_account :: string where
  "qerr_cline_account =
     [CHR 0xE6, CHR 0x9F, CHR 0xA5, CHR 0xE8, CHR 0xAF, CHR 0xA2, CHR 0x20, CHR 0x43, CHR 0x6C,
      CHR 0x69, CHR 0x6E, CHR 0x65, CHR 0x20, CHR 0x50, CHR 0x61, CHR 0x73, CHR 0x73, CHR 0x20,
      CHR 0xE8, CHR 0xB4, CHR 0xA6, CHR 0xE6, CHR 0x88, CHR 0xB7, CHR 0xE5, CHR 0xA4, CHR 0xB1,
      CHR 0xE8, CHR 0xB4, CHR 0xA5, CHR 0x3A, CHR 0x20]"

definition qerr_cline_no_user :: string where
  "qerr_cline_no_user =
     [CHR 0x43, CHR 0x6C, CHR 0x69, CHR 0x6E, CHR 0x65, CHR 0x20, CHR 0x50, CHR 0x61, CHR 0x73,
      CHR 0x73, CHR 0x20, CHR 0xE8, CHR 0xB4, CHR 0xA6, CHR 0xE6, CHR 0x88, CHR 0xB7, CHR 0xE5,
      CHR 0x93, CHR 0x8D, CHR 0xE5, CHR 0xBA, CHR 0x94, CHR 0xE7, CHR 0xBC, CHR 0xBA, CHR 0xE5,
      CHR 0xB0, CHR 0x91, CHR 0xE7, CHR 0x94, CHR 0xA8, CHR 0xE6, CHR 0x88, CHR 0xB7, CHR 0x20,
      CHR 0x49, CHR 0x44]"

definition qerr_cline_balance :: string where
  "qerr_cline_balance =
     [CHR 0xE6, CHR 0x9F, CHR 0xA5, CHR 0xE8, CHR 0xAF, CHR 0xA2, CHR 0x20, CHR 0x43, CHR 0x6C,
      CHR 0x69, CHR 0x6E, CHR 0x65, CHR 0x20, CHR 0x50, CHR 0x61, CHR 0x73, CHR 0x73, CHR 0x20,
      CHR 0xE4, CHR 0xBD, CHR 0x99, CHR 0xE9, CHR 0xA2, CHR 0x9D, CHR 0xE5, CHR 0xA4, CHR 0xB1,
      CHR 0xE8, CHR 0xB4, CHR 0xA5, CHR 0x3A, CHR 0x20]"

definition qerr_cline_plan :: string where
  "qerr_cline_plan =
     [CHR 0xE6, CHR 0x9F, CHR 0xA5, CHR 0xE8, CHR 0xAF, CHR 0xA2, CHR 0x20, CHR 0x43, CHR 0x6C,
      CHR 0x69, CHR 0x6E, CHR 0x65, CHR 0x20, CHR 0x50, CHR 0x61, CHR 0x73, CHR 0x73, CHR 0x20,
      CHR 0xE5, CHR 0xA5, CHR 0x97, CHR 0xE9, CHR 0xA4, CHR 0x90, CHR 0xE5, CHR 0xA4, CHR 0xB1,
      CHR 0xE8, CHR 0xB4, CHR 0xA5, CHR 0x3A, CHR 0x20]"

definition qerr_cline_usage :: string where
  "qerr_cline_usage =
     [CHR 0xE6, CHR 0x9F, CHR 0xA5, CHR 0xE8, CHR 0xAF, CHR 0xA2, CHR 0x20, CHR 0x43, CHR 0x6C,
      CHR 0x69, CHR 0x6E, CHR 0x65, CHR 0x20, CHR 0x50, CHR 0x61, CHR 0x73, CHR 0x73, CHR 0x20,
      CHR 0xE7, CHR 0x94, CHR 0xA8, CHR 0xE9, CHR 0x87, CHR 0x8F, CHR 0xE5, CHR 0xA4, CHR 0xB1,
      CHR 0xE8, CHR 0xB4, CHR 0xA5, CHR 0x3A, CHR 0x20]"

definition qerr_cc_account :: string where
  "qerr_cc_account =
     [CHR 0xE6, CHR 0x9F, CHR 0xA5, CHR 0xE8, CHR 0xAF, CHR 0xA2, CHR 0x20, CHR 0x43, CHR 0x6F,
      CHR 0x6D, CHR 0x6D, CHR 0x61, CHR 0x6E, CHR 0x64, CHR 0x20, CHR 0x43, CHR 0x6F, CHR 0x64,
      CHR 0x65, CHR 0x20, CHR 0xE8, CHR 0xB4, CHR 0xA6, CHR 0xE6, CHR 0x88, CHR 0xB7, CHR 0xE4,
      CHR 0xBF, CHR 0xA1, CHR 0xE6, CHR 0x81, CHR 0xAF, CHR 0xE5, CHR 0xA4, CHR 0xB1, CHR 0xE8,
      CHR 0xB4, CHR 0xA5, CHR 0x3A, CHR 0x20]"

definition qerr_cc_account_http :: string where
  "qerr_cc_account_http =
     [CHR 0x43, CHR 0x6F, CHR 0x6D, CHR 0x6D, CHR 0x61, CHR 0x6E, CHR 0x64, CHR 0x20, CHR 0x43,
      CHR 0x6F, CHR 0x64, CHR 0x65, CHR 0x20, CHR 0xE8, CHR 0xB4, CHR 0xA6, CHR 0xE6, CHR 0x88,
      CHR 0xB7, CHR 0xE6, CHR 0x8E, CHR 0xA5, CHR 0xE5, CHR 0x8F, CHR 0xA3, CHR 0xE8, CHR 0xBF,
      CHR 0x94, CHR 0xE5, CHR 0x9B, CHR 0x9E, CHR 0x20, CHR 0x48, CHR 0x54, CHR 0x54, CHR 0x50,
      CHR 0x20]"

definition qerr_cc_credits :: string where
  "qerr_cc_credits =
     [CHR 0xE6, CHR 0x9F, CHR 0xA5, CHR 0xE8, CHR 0xAF, CHR 0xA2, CHR 0x20, CHR 0x43, CHR 0x6F,
      CHR 0x6D, CHR 0x6D, CHR 0x61, CHR 0x6E, CHR 0x64, CHR 0x20, CHR 0x43, CHR 0x6F, CHR 0x64,
      CHR 0x65, CHR 0x20, CHR 0x43, CHR 0x72, CHR 0x65, CHR 0x64, CHR 0x69, CHR 0x74, CHR 0x73,
      CHR 0x20, CHR 0xE5, CHR 0xA4, CHR 0xB1, CHR 0xE8, CHR 0xB4, CHR 0xA5, CHR 0x3A, CHR 0x20]"

definition qerr_cc_credits_http :: string where
  "qerr_cc_credits_http =
     [CHR 0x43, CHR 0x6F, CHR 0x6D, CHR 0x6D, CHR 0x61, CHR 0x6E, CHR 0x64, CHR 0x20, CHR 0x43,
      CHR 0x6F, CHR 0x64, CHR 0x65, CHR 0x20, CHR 0x43, CHR 0x72, CHR 0x65, CHR 0x64, CHR 0x69,
      CHR 0x74, CHR 0x73, CHR 0x20, CHR 0xE6, CHR 0x8E, CHR 0xA5, CHR 0xE5, CHR 0x8F, CHR 0xA3,
      CHR 0xE8, CHR 0xBF, CHR 0x94, CHR 0xE5, CHR 0x9B, CHR 0x9E, CHR 0x20, CHR 0x48, CHR 0x54,
      CHR 0x54, CHR 0x50, CHR 0x20]"

definition proxy_error_text :: "proxy_error \<Rightarrow> string" where
  "proxy_error_text e =
     (case e of
        UnknownMode \<Rightarrow> perr_mode | DirectWithURL \<Rightarrow> perr_direct | URLMissing \<Rightarrow> perr_missing
      | URLUnparsable \<Rightarrow> perr_unparsable | URLWithoutHost \<Rightarrow> perr_nohost
      | URLScheme s \<Rightarrow> perr_scheme @ go_quote s)"

text \<open>\<open>queryEndpointWithProxyContext\<close>: the request, the transport, then the network.\<close>

definition query_endpoint ::
    "query_env \<Rightarrow> string \<Rightarrow> string \<Rightarrow> string \<Rightarrow> (string \<times> string) list \<Rightarrow> string + hostHTTPResponse" where
  "query_endpoint env endpoint authorization proxyURL headers =
     (if url_Parse endpoint = None then Inl (qe_URLError env endpoint)
      else (case choose_transport \<lparr>ps_Mode = proxyModeURL, ps_URL = proxyURL\<rparr> of
          Inl e \<Rightarrow> Inl (proxy_error_text e)
        | Inr t \<Rightarrow> qe_Http env t
            \<lparr>rq_URL = endpoint, rq_Authorization = authorization, rq_Headers = headers\<rparr>))"

definition queryEndpointContext ::
    "query_env \<Rightarrow> string \<Rightarrow> string \<Rightarrow> credentialCandidate \<Rightarrow> string + hostHTTPResponse" where
  "queryEndpointContext env endpoint token candidate =
     query_endpoint env endpoint (''Bearer '' @ token) (candidateProxyURL candidate) []"

definition http_failed :: "string \<Rightarrow> hostHTTPResponse \<Rightarrow> string" where
  "http_failed what r = what @ '' returned HTTP '' @ int_str (hr_StatusCode r)"

definition queryJSONContext ::
    "query_env \<Rightarrow> string \<Rightarrow> string \<Rightarrow> credentialCandidate \<Rightarrow> string + body" where
  "queryJSONContext env endpoint token candidate =
     (case queryEndpointContext env endpoint token candidate of
        Inl e \<Rightarrow> Inl e
      | Inr r \<Rightarrow>
          if \<not> ok_status (hr_StatusCode r) then Inl (http_failed ''upstream'' r)
          else if 2 ^ 20 < b_Len (hr_Body r) then Inl ''upstream response exceeds 1 MiB''
          else Inr (hr_Body r))"

end
