(* ===== verification/Adapter_Run.thy ===== *)
theory Adapter_Run
  imports Adapter_Query
begin

text \<open>
  The adapters at work (adapters.go, deepseek.go, clinepass.go, commandcode.go and the DeepSeek
  query of main.go): each asks its endpoints, decides by the status codes and parses the bodies;
  \<open>queryCandidateContext\<close> chooses the adapter and completes the snapshot.
\<close>

type_synonym query_result = "string + accountSnapshot"

section \<open>Single endpoints\<close>

definition queryZaiSnapshot :: "query_env \<Rightarrow> credentialCandidate \<Rightarrow> string \<Rightarrow> query_result" where
  "queryZaiSnapshot env candidate token =
     (case fixedEndpointWithOptions (cc_BaseURL candidate) ''https://open.bigmodel.cn''
         ''/api/monitor/usage/quota/limit'' (plain_options candidate) of
        Inl e \<Rightarrow> Inl e
      | Inr endpoint \<Rightarrow>
          (case query_endpoint env endpoint token (candidateProxyURL candidate) [] of
             Inl e \<Rightarrow> Inl e
           | Inr r \<Rightarrow>
               if hr_StatusCode r = 404 then
                 Inr (unsupportedSnapshot candidate ''zai-usage''
                   ''Z.ai usage quota endpoint is not available for this account'' (qe_Now env))
               else if \<not> ok_status (hr_StatusCode r) then Inl (http_failed ''Z.ai usage endpoint'' r)
               else parseZaiSnapshot candidate (hr_Body r) (qe_Now env)))"

text \<open>Moonshot, Kimi and OpenCode Go: one JSON document from one endpoint.\<close>

definition query_document ::
    "query_env \<Rightarrow> credentialCandidate \<Rightarrow> string \<Rightarrow> string \<Rightarrow> string \<Rightarrow> string + body" where
  "query_document env candidate token defaultBase path =
     (case fixedEndpointWithOptions (cc_BaseURL candidate) defaultBase path (plain_options candidate) of
        Inl e \<Rightarrow> Inl e
      | Inr endpoint \<Rightarrow> queryJSONContext env endpoint token candidate)"

definition queryMoonshotSnapshot :: "query_env \<Rightarrow> credentialCandidate \<Rightarrow> string \<Rightarrow> query_result" where
  "queryMoonshotSnapshot env candidate token =
     (case query_document env candidate token ''https://api.moonshot.cn'' ''/v1/users/me/balance'' of
        Inl e \<Rightarrow> Inl e | Inr b \<Rightarrow> parse_moonshot candidate b)"

definition queryKimiSnapshot :: "query_env \<Rightarrow> credentialCandidate \<Rightarrow> string \<Rightarrow> query_result" where
  "queryKimiSnapshot env candidate token =
     (case query_document env candidate token ''https://api.kimi.com'' ''/coding/v1/usages'' of
        Inl e \<Rightarrow> Inl e | Inr b \<Rightarrow> parse_kimi candidate b)"

definition queryOpenCodeSnapshot :: "query_env \<Rightarrow> credentialCandidate \<Rightarrow> string \<Rightarrow> query_result" where
  "queryOpenCodeSnapshot env candidate token =
     (case query_document env candidate token ''https://opencode.ai'' ''/zen/go/v1/usage'' of
        Inl e \<Rightarrow> Inl e | Inr b \<Rightarrow> parseOpenCodeSnapshot candidate b)"

definition queryDeepSeekSnapshot ::
    "query_env \<Rightarrow> credentialCandidate \<Rightarrow> credential_storage \<Rightarrow> (string, string) gomap \<Rightarrow> query_result" where
  "queryDeepSeekSnapshot env candidate storage attributes =
     (let token = tokenForCandidate env candidate storage attributes in
      if token = [] then Inl ''credential token is unavailable''
      else (case deepSeekURL (cc_BaseURL candidate) of
          Inl e \<Rightarrow> Inl e
        | Inr endpoint \<Rightarrow>
            (case queryEndpointContext env endpoint token candidate of
               Inl e \<Rightarrow> Inl e
             | Inr r \<Rightarrow>
                 if \<not> ok_status (hr_StatusCode r) then Inl (http_failed ''DeepSeek'' r)
                 else (case parseDeepSeekSnapshot candidate (hr_Body r) (qe_Now env) of
                     Inl e \<Rightarrow> Inl e
                   | Inr s \<Rightarrow> Inr (accountSnapshotWithSuccess s (qe_Now env) (qe_Latency env))))))"

section \<open>NewAPI\<close>

definition queryNewAPIQuotaStatus ::
    "query_env \<Rightarrow> credentialCandidate \<Rightarrow> string + newAPIQuotaStatus" where
  "queryNewAPIQuotaStatus env candidate =
     (case newAPIManagementEndpoint candidate ''/api/status'' of
        Inl e \<Rightarrow> Inl e
      | Inr endpoint \<Rightarrow>
          (case query_endpoint env endpoint [] (candidateProxyURL candidate) [] of
             Inl e \<Rightarrow> Inl e
           | Inr r \<Rightarrow>
               if hr_StatusCode r = 404 \<or> hr_StatusCode r = 405 then Inr defaultNewAPIQuotaStatus
               else if \<not> ok_status (hr_StatusCode r) then Inl (http_failed ''NewAPI status endpoint'' r)
               else parseNewAPIQuotaStatus (hr_Body r)))"

definition queryNewAPIAccountQuantity ::
    "query_env \<Rightarrow> credentialCandidate \<Rightarrow> monitorConfig \<Rightarrow> newAPIQuotaStatus \<Rightarrow> string + quotaQuantity" where
  "queryNewAPIAccountQuantity env candidate monitor status =
     (let token = managementCredentialFor env candidate monitor in
      if token = [] then Inl ''management credential is not configured''
      else (case newAPIManagementEndpoint candidate ''/api/user/self'' of
          Inl e \<Rightarrow> Inl e
        | Inr endpoint \<Rightarrow>
            (case query_endpoint env endpoint (''Bearer '' @ token) (candidateProxyURL candidate) [] of
               Inl e \<Rightarrow> Inl e
             | Inr r \<Rightarrow>
                 if \<not> ok_status (hr_StatusCode r) then Inl (http_failed ''NewAPI account endpoint'' r)
                 else (case decode_object (hr_Body r) of
                     Inl e \<Rightarrow> Inl e
                   | Inr doc \<Rightarrow>
                       (case objectValue (Some doc) ''data'' of
                          None \<Rightarrow> Inl ''NewAPI account response contains no data''
                        | Some data \<Rightarrow> newAPIAccountQuantityFromData data status)))))"

text \<open>Without a management credential the account is not asked.\<close>

definition newapi_account ::
    "query_env \<Rightarrow> credentialCandidate \<Rightarrow> newAPIQuotaStatus \<Rightarrow> account_error + quotaQuantity" where
  "newapi_account env candidate status =
     (let monitor = monitorFor env candidate in
      if managementCredentialFor env candidate monitor = [] then Inl PATMissing
      else (case queryNewAPIAccountQuantity env candidate monitor status of
          Inl e \<Rightarrow> Inl (AccountFailed e) | Inr q \<Rightarrow> Inr q))"

definition queryNewAPISnapshot :: "query_env \<Rightarrow> credentialCandidate \<Rightarrow> string \<Rightarrow> query_result" where
  "queryNewAPISnapshot env candidate token =
     (case newAPIManagementEndpoint candidate ''/api/usage/token'' of
        Inl e \<Rightarrow> Inl e
      | Inr endpoint \<Rightarrow>
          let key = (case queryEndpointContext env endpoint token candidate of
                Inl e \<Rightarrow> Inl e
              | Inr r \<Rightarrow> if ok_status (hr_StatusCode r) then Inr (hr_Body r)
                  else Inl (http_failed ''NewAPI token endpoint'' r));
              (status, extra) = (case queryNewAPIQuotaStatus env candidate of
                Inl _ \<Rightarrow> (defaultNewAPIQuotaStatus, [newapi_status_warning])
              | Inr s \<Rightarrow> (s, [])) in
          Inr (newapi_finish candidate status key (newapi_account env candidate status) extra))"

definition parseNewAPISnapshotWithQuotaStatusContext ::
    "query_env \<Rightarrow> credentialCandidate \<Rightarrow> body \<Rightarrow> newAPIQuotaStatus \<Rightarrow> accountSnapshot" where
  "parseNewAPISnapshotWithQuotaStatusContext env candidate b status =
     newapi_finish candidate status (Inr b) (newapi_account env candidate status) []"

section \<open>Sub2API and relays\<close>

definition attachSub2APIDetails ::
    "query_env \<Rightarrow> credentialCandidate \<Rightarrow> string \<Rightarrow> accountSnapshot \<Rightarrow> jobj \<Rightarrow> accountSnapshot" where
  "attachSub2APIDetails env candidate token s doc =
     (let s = s\<lparr>as_Details := curatedDetails doc\<rparr> in
      case fixedEndpointWithOptions (cc_BaseURL candidate) [] ''/v1/sub2api/billing'' (plain_options candidate) of
        Inl e \<Rightarrow> markSectionError s ''billing'' ''INVALID_ENDPOINT'' e
      | Inr endpoint \<Rightarrow> applySub2APIBillingResponse s (queryEndpointContext env endpoint token candidate))"

definition querySub2APISnapshot :: "query_env \<Rightarrow> credentialCandidate \<Rightarrow> string \<Rightarrow> query_result" where
  "querySub2APISnapshot env candidate token =
     (case sub2APIUsageEndpoint candidate of
        Inl e \<Rightarrow> Inl e
      | Inr endpoint \<Rightarrow>
          (case queryJSONContext env endpoint token candidate of
             Inl e \<Rightarrow> Inl e
           | Inr b \<Rightarrow>
               (case parseSub2APISnapshot candidate b (qe_Now env) of
                  Inl e \<Rightarrow> Inl e
                | Inr s \<Rightarrow>
                    (case decode_object b of
                       Inl e \<Rightarrow> Inl (''decode Sub2API response: '' @ e)
                     | Inr doc \<Rightarrow> Inr (attachSub2APIDetails env candidate token s doc)))))"

definition relay_newapi ::
    "query_env \<Rightarrow> credentialCandidate \<Rightarrow> body \<Rightarrow> accountSnapshot" where
  "relay_newapi env candidate b =
     (case queryNewAPIQuotaStatus env candidate of
        Inr status \<Rightarrow> parseNewAPISnapshotWithQuotaStatusContext env candidate b status
      | Inl _ \<Rightarrow>
          let s = parseNewAPISnapshotWithQuotaStatusContext env candidate b defaultNewAPIQuotaStatus in
          s\<lparr>as_Warnings := as_Warnings s @ [newapi_status_warning]\<rparr>)"

definition relay_sub2api :: "query_env \<Rightarrow> credentialCandidate \<Rightarrow> string \<Rightarrow> query_result" where
  "relay_sub2api env candidate token =
     (case sub2APIUsageEndpoint candidate of
        Inl e \<Rightarrow> Inl e
      | Inr endpoint \<Rightarrow>
          (case queryEndpointContext env endpoint token candidate of
             Inl e \<Rightarrow> Inl e
           | Inr r \<Rightarrow>
               if \<not> ok_status (hr_StatusCode r) then Inl (http_failed ''Sub2API usage endpoint'' r)
               else (case parseSub2APISnapshot candidate (hr_Body r) (qe_Now env) of
                   Inl e \<Rightarrow> Inl e
                 | Inr s \<Rightarrow>
                     Inr (case decode_object (hr_Body r) of
                         Inl _ \<Rightarrow> s
                       | Inr doc \<Rightarrow> attachSub2APIDetails env candidate token s doc))))"

definition queryRelaySnapshot :: "query_env \<Rightarrow> credentialCandidate \<Rightarrow> string \<Rightarrow> query_result" where
  "queryRelaySnapshot env candidate token =
     (case newAPIManagementEndpoint candidate ''/api/usage/token'' of
        Inl e \<Rightarrow> Inl e
      | Inr endpoint \<Rightarrow>
          (case queryEndpointContext env endpoint token candidate of
             Inl e \<Rightarrow> Inl e
           | Inr r \<Rightarrow>
               if ok_status (hr_StatusCode r) then Inr (relay_newapi env candidate (hr_Body r))
               else if hr_StatusCode r \<noteq> 404 \<and> hr_StatusCode r \<noteq> 405 then
                 Inl (http_failed ''relay quota endpoint'' r)
               else relay_sub2api env candidate token))"

section \<open>Cline Pass\<close>

definition queryClinePassJSON ::
    "query_env \<Rightarrow> credentialCandidate \<Rightarrow> string \<Rightarrow> string \<Rightarrow> url_values \<Rightarrow> string + body" where
  "queryClinePassJSON env candidate token path query =
     (case fixedEndpointWithOptions (cc_BaseURL candidate) clinePassAPIBase path (strip_options candidate) of
        Inl e \<Rightarrow> Inl e
      | Inr endpoint \<Rightarrow>
          let endpoint = (if query = [] then endpoint else endpoint @ ''?'' @ Values_Encode query) in
          (case query_endpoint env endpoint (''Bearer '' @ token) (candidateProxyURL candidate)
              [(''Accept'', ''application/json'')] of
             Inl e \<Rightarrow> Inl e
           | Inr r \<Rightarrow>
               if \<not> ok_status (hr_StatusCode r) then Inl (http_failed ''Cline Pass endpoint'' r)
               else Inr (hr_Body r)))"

definition cline_usage_page ::
    "query_env \<Rightarrow> credentialCandidate \<Rightarrow> string \<Rightarrow> string \<Rightarrow> string \<Rightarrow> string + jobj" where
  "cline_usage_page env candidate token userID cursor =
     (case queryClinePassJSON env candidate token (''/api/v1/users/'' @ PathEscape userID @ ''/usages'')
         ([(''limit'', [int_str clinePassUsagePageLimit])]
           @ (if cursor = [] then [] else [(''cursor'', [cursor])])) of
        Inl e \<Rightarrow> Inl e
      | Inr b \<Rightarrow> clinePassEnvelopeData b)"

definition queryClinePassUsageItems ::
    "query_env \<Rightarrow> credentialCandidate \<Rightarrow> string \<Rightarrow> string \<Rightarrow> gotime \<Rightarrow> string + jobj list" where
  "queryClinePassUsageItems env candidate token userID now =
     usage_pages (cline_usage_page env candidate token userID) now clinePassUsageMaximumPages []"

definition prefix_error :: "string \<Rightarrow> string + 'a \<Rightarrow> string + 'a" where
  "prefix_error p r = (case r of Inl e \<Rightarrow> Inl (p @ e) | Inr a \<Rightarrow> Inr a)"

definition queryClinePassSnapshot :: "query_env \<Rightarrow> credentialCandidate \<Rightarrow> string \<Rightarrow> query_result" where
  "queryClinePassSnapshot env candidate token =
     (case prefix_error qerr_cline_account (queryClinePassJSON env candidate token ''/api/v1/users/me'' []) of
        Inl e \<Rightarrow> Inl e
      | Inr meBody \<Rightarrow>
     (case clinePassEnvelopeData meBody of
        Inl e \<Rightarrow> Inl e
      | Inr meData \<Rightarrow>
          let userID = TrimSpace (stringValue (Some meData) [''id'', ''uid'', ''userId'']) in
          if userID = [] then Inl qerr_cline_no_user
          else
     (case prefix_error qerr_cline_balance (queryClinePassJSON env candidate token
         (''/api/v1/users/'' @ PathEscape userID @ ''/balance'') []) of
        Inl e \<Rightarrow> Inl e
      | Inr balanceBody \<Rightarrow>
     (case prefix_error qerr_cline_plan
         (queryClinePassJSON env candidate token ''/api/v1/users/me/plan'' []) of
        Inl e \<Rightarrow> Inl e
      | Inr planBody \<Rightarrow>
     (case prefix_error qerr_cline_usage
         (queryClinePassUsageItems env candidate token userID (qe_Now env)) of
        Inl e \<Rightarrow> Inl e
      | Inr items \<Rightarrow>
          parseClinePassSnapshot candidate meBody balanceBody planBody items (qe_Now env) (qe_Now env))))))"

section \<open>Command Code\<close>

definition commandCodeCLIVersion :: string where
  "commandCodeCLIVersion = ''1.56.0''"

definition queryCommandCodeEndpoint ::
    "query_env \<Rightarrow> string \<Rightarrow> string \<Rightarrow> string \<Rightarrow> string + hostHTTPResponse" where
  "queryCommandCodeEndpoint env endpoint token proxyURL =
     query_endpoint env endpoint (''Bearer '' @ token) proxyURL
       [(''User-Agent'', ''commandcode-quota/'' @ commandCodeCLIVersion),
        (''x-command-code-version'', commandCodeCLIVersion),
        (''x-cli-environment'', ''production'')]"

text \<open>The three requests of the code run at the same time and do not depend on each other.\<close>

definition commandcode_part ::
    "query_env \<Rightarrow> credentialCandidate \<Rightarrow> string \<Rightarrow> string \<Rightarrow> string \<Rightarrow> string + hostHTTPResponse" where
  "commandcode_part env candidate token orgID path =
     queryCommandCodeEndpoint env
       (commandCodeEndpoint (cc_BaseURL candidate) path
         (if TrimSpace orgID = [] then [] else [(''orgId'', [orgID])]))
       token (candidateProxyURL candidate)"

definition commandcode_whoami ::
    "query_env \<Rightarrow> credentialCandidate \<Rightarrow> string \<Rightarrow> string + body" where
  "commandcode_whoami env candidate token =
     (case queryCommandCodeEndpoint env
         (commandCodeEndpoint (cc_BaseURL candidate) ''/alpha/whoami'' [(''limits'', [''1''])])
         token (candidateProxyURL candidate) of
        Inl e \<Rightarrow> Inl (qerr_cc_account @ e)
      | Inr r \<Rightarrow>
          if ok_status (hr_StatusCode r) then Inr (hr_Body r)
          else Inl (qerr_cc_account_http @ int_str (hr_StatusCode r)))"

definition queryCommandCodeSnapshot :: "query_env \<Rightarrow> credentialCandidate \<Rightarrow> string \<Rightarrow> query_result" where
  "queryCommandCodeSnapshot env candidate0 token =
     (let candidate = normalizeCommandCodeCandidate candidate0 in
      case commandcode_whoami env candidate token of
        Inl e \<Rightarrow> Inl e
      | Inr whoami \<Rightarrow>
     (case parseCommandCodeIdentity whoami of
        Inl e \<Rightarrow> Inl e
      | Inr ident \<Rightarrow>
          let part = commandcode_part env candidate token (ci_OrgID ident);
              subscription = part ''/alpha/billing/subscriptions'';
              usage = part ''/alpha/usage/summary'' in
     (case part ''/alpha/billing/credits'' of
        Inl e \<Rightarrow> Inl (qerr_cc_credits @ e)
      | Inr credits \<Rightarrow>
          if \<not> ok_status (hr_StatusCode credits) then
            Inl (qerr_cc_credits_http @ int_str (hr_StatusCode credits))
          else (case parseCommandCodeSnapshot candidate whoami (hr_Body credits)
                  (part_body subscription) (part_body usage) of
              Inl e \<Rightarrow> Inl e
            | Inr s \<Rightarrow>
                Inr (applyCommandCodePartialFailures s (part_failure subscription) (part_failure usage))))))"

section \<open>One account\<close>

definition run_adapter ::
    "query_env \<Rightarrow> string \<Rightarrow> credentialCandidate \<Rightarrow> string \<Rightarrow> credential_storage
      \<Rightarrow> (string, string) gomap \<Rightarrow> query_result" where
  "run_adapter env adapter candidate token storage attributes =
     (if adapter = ''deepseek-balance'' then queryDeepSeekSnapshot env candidate storage attributes
      else if adapter = ''zai-usage'' then queryZaiSnapshot env candidate token
      else if adapter = ''moonshot-balance'' then queryMoonshotSnapshot env candidate token
      else if adapter = ''kimi-coding'' then queryKimiSnapshot env candidate token
      else if adapter = ''opencode-go'' then queryOpenCodeSnapshot env candidate token
      else if adapter = ''newapi-usage'' then queryNewAPISnapshot env candidate token
      else if adapter = ''sub2api-usage'' then querySub2APISnapshot env candidate token
      else if adapter = ''relay-usage'' then queryRelaySnapshot env candidate token
      else if adapter = ''commandcode-goat'' then queryCommandCodeSnapshot env candidate token
      else if adapter = ''clinepass-usage'' then queryClinePassSnapshot env candidate token
      else Inl (''adapter '' @ go_quote adapter @ '' is not implemented''))"

text \<open>The candidate as it is queried: its name, its proxy and its base URL.\<close>

definition named_candidate ::
    "query_env \<Rightarrow> credentialCandidate \<Rightarrow> credential_storage \<Rightarrow> credentialCandidate" where
  "named_candidate env candidate storage =
     applyCredentialProxy
       (candidate\<lparr>cc_Name := pref_name (mp_data (qe_Prefs env)) (candidateAccountID candidate) (cc_Name candidate)\<rparr>)
       (st_Json storage)"

definition complete_snapshot ::
    "query_env \<Rightarrow> string \<Rightarrow> string \<Rightarrow> accountSnapshot \<Rightarrow> accountSnapshot" where
  "complete_snapshot env accountID adapter s =
     applyThresholds (qe_Thresholds env)
       (accountSnapshotWithSuccess
         (s\<lparr>as_AccountID := accountID, as_AdapterID := adapter, as_CheckedAt := qe_Now env\<rparr>)
         (qe_Now env) (qe_Latency env))"

definition queryCandidateContext ::
    "query_env \<Rightarrow> credentialCandidate \<Rightarrow> credential_storage \<Rightarrow> (string, string) gomap \<Rightarrow> query_result" where
  "queryCandidateContext env candidate0 storage attributes =
     (let accountID = candidateAccountID candidate0; candidate = named_candidate env candidate0 storage in
      case adapterFor env candidate of
        None \<Rightarrow> Inl (''no adapter matches provider '' @ go_quote (cc_Provider candidate))
      | Some (adapter, candidate) \<Rightarrow>
          let candidate = (if cc_BaseURL candidate = []
                then candidate\<lparr>cc_BaseURL := TrimSpace (mstr attributes ''base_url'')\<rparr> else candidate);
              token = tokenForCandidate env candidate storage attributes in
          if token = [] then Inl ''credential token is unavailable''
          else (case run_adapter env adapter candidate token storage attributes of
              Inl e \<Rightarrow> Inl e
            | Inr s \<Rightarrow> Inr (complete_snapshot env accountID adapter s)))"

end
