(* ===== verification/Plugin_State.thy ===== *)
theory Plugin_State
  imports Adapter_Run Pref_Identity Snapshot_Cache Report
begin

text \<open>
  The state of the plugin (main.go): its configuration with the defaults that \<open>configure\<close> fills
  in, the snapshot store and the preferences with their files, the refresh jobs and the account
  directory; and the operations on it that need no discovery: the report with the dismissed
  alerts, the read token, and the small helpers of the handlers.
  What is outside the plugin is in \<open>outside\<close>; within one call all clock readings are equal.
\<close>

section \<open>Configuration\<close>

record pluginConfig =
  cf_Enabled :: bool
  cf_CacheTTLSeconds :: int
  cf_SyncIntervalSeconds :: int
  cf_RequestTimeoutSecond :: int
  cf_AccountTimeoutSecond :: int
  cf_ReadTokenEnv :: string
  cf_Monitors :: "(string, monitorConfig) gomap"
  cf_SourceConfigPath :: string
  cf_CachePath :: string
  cf_PreferencesPath :: string
  cf_Thresholds :: thresholdConfig

definition positive_or :: "int \<Rightarrow> int \<Rightarrow> int" where
  "positive_or d n = (if n \<le> 0 then d else n)"

definition text_or :: "string \<Rightarrow> string \<Rightarrow> string" where
  "text_or d s = (if TrimSpace s = [] then d else s)"

definition default_percentages :: "thresholdConfig \<Rightarrow> thresholdConfig" where
  "default_percentages t =
     (let t = (if tc_WarningPercent t \<le> 0 \<or> fnum 100 < tc_WarningPercent t
            then t\<lparr>tc_WarningPercent := fnum 20\<rparr> else t) in
      if tc_CriticalPercent t \<le> 0 \<or> tc_WarningPercent t \<le> tc_CriticalPercent t
      then t\<lparr>tc_CriticalPercent := fnum 10\<rparr> else t)"

definition default_config :: "pluginConfig \<Rightarrow> pluginConfig" where
  "default_config c =
     c\<lparr>cf_CacheTTLSeconds := positive_or 300 (cf_CacheTTLSeconds c),
       cf_SyncIntervalSeconds := positive_or 60 (cf_SyncIntervalSeconds c),
       cf_RequestTimeoutSecond := positive_or 8 (cf_RequestTimeoutSecond c),
       cf_AccountTimeoutSecond := positive_or 30 (cf_AccountTimeoutSecond c),
       cf_ReadTokenEnv := text_or ''UPSTREAM_MONITOR_READ_TOKEN'' (cf_ReadTokenEnv c),
       cf_SourceConfigPath := text_or ''/CLIProxyAPI/config.yaml'' (cf_SourceConfigPath c),
       cf_CachePath := text_or ''/CLIProxyAPI/data/upstream-monitor-snapshots.json'' (cf_CachePath c),
       cf_PreferencesPath := text_or ''/CLIProxyAPI/data/upstream-monitor-preferences.json''
         (cf_PreferencesPath c),
       cf_Thresholds := default_percentages (cf_Thresholds c)\<rparr>"

datatype config_error =
    YAMLError
  | CurrencyThresholds threshold_error
  | AccountThresholds threshold_error
  | MonitorIssue string monitor_issue
  | PreferencesError pref_error

text \<open>The configuration that passes the checks, or the first of the errors.\<close>

definition checked_config :: "pluginConfig \<Rightarrow> config_error + pluginConfig" where
  "checked_config raw =
     (let c = default_config raw; t = cf_Thresholds c in
      case normalizeCashThresholds (tc_CashByCurrency t) of
        Inl e \<Rightarrow> Inl (CurrencyThresholds e)
      | Inr byCurrency \<Rightarrow>
     (case normalizeAccountCashThresholds (tc_CashByAccount t) of
        Inl e \<Rightarrow> Inl (AccountThresholds e)
      | Inr byAccount \<Rightarrow>
     (case validateMonitorConfigs (cf_Monitors c) of
        Some (k, i) \<Rightarrow> Inl (MonitorIssue k i)
      | None \<Rightarrow>
          Inr (c\<lparr>cf_Thresholds := t\<lparr>tc_CashByCurrency := byCurrency, tc_CashByAccount := byAccount\<rparr>\<rparr>))))"

section \<open>State\<close>

record accountRefreshResult =
  ar_AccountID :: string
  ar_Status :: string
  ar_ErrorCode :: string
  ar_Error :: string

record accountRefreshJob =
  jb_ID :: string
  jb_Status :: string
  jb_AccountIDs :: "string list"
  jb_Total :: int
  jb_Completed :: int
  jb_Failed :: int
  jb_Skipped :: int
  jb_Results :: "accountRefreshResult list"
  jb_Error :: string
  jb_StartedAt :: "gotime option"
  jb_FinishedAt :: "gotime option"

record refreshJobStore =
  js_sequence :: nat
  js_jobs :: "(string, accountRefreshJob) gomap"

definition newRefreshJobStore :: refreshJobStore where
  "newRefreshJobStore = \<lparr>js_sequence = 0, js_jobs = []\<rparr>"

record providerView =
  pv_ID :: string
  pv_Name :: string
  pv_DefaultName :: string
  pv_CustomName :: string
  pv_Provider :: string
  pv_BaseURL :: string
  pv_ProxyMode :: string
  pv_ProxyConfigured :: bool
  pv_Adapter :: string
  pv_AdapterOverride :: string
  pv_Monitored :: bool
  pv_ManagementPATConfigured :: bool
  pv_FirstSeenAt :: "gotime option"
  pv_KeyHint :: string
  pv_Latest :: "accountSnapshot option"

record refreshInfo =
  ri_running :: bool
  ri_started :: "gotime option"
  ri_finished :: "gotime option"
  ri_lastErr :: string

record pluginState =
  g_cfg :: pluginConfig
  g_store :: snapshotStore
  g_cacheFile :: cache_file
  g_prefs :: prefs_world
  g_jobs :: refreshJobStore
  g_schemaVersion :: int
  g_directoryViews :: "providerView list"
  g_directoryAttemptAt :: "gotime option"
  g_directorySuccessAt :: "gotime option"
  g_directoryError :: string
  g_lastRefresh :: gotime
  g_refresh :: refreshInfo
  g_background :: bool
  g_wake :: bool

abbreviation g_data :: "pluginState \<Rightarrow> persistedMonitorPrefs" where
  "g_data st \<equiv> mp_data (fst (g_prefs st))"

text \<open>The files of the host: an auth file entry, and what reading its credential gives.\<close>

record hostAuthFileEntry =
  ha_ID :: string
  ha_AuthIndex :: string
  ha_Name :: string
  ha_Label :: string
  ha_Provider :: string
  ha_Type :: string
  ha_BaseURL :: string
  ha_Disabled :: bool

datatype host_auth = AuthReadError string | AuthDecodeError string | AuthStorage credential_storage

text \<open>The part of the CPA configuration that the plugin reads.\<close>

record cpaAPIKeyEntry =
  ke_APIKey :: string
  ke_ProxyMode :: string
  ke_ProxyURL :: string

record cpaCompatibility =
  co_Name :: string
  co_BaseURL :: string
  co_ProxyMode :: string
  co_ProxyURL :: string
  co_Disabled :: bool
  co_APIKeyEntries :: "cpaAPIKeyEntry list"

record cpaGenericAPIKey =
  gk_APIKey :: string
  gk_BaseURL :: string
  gk_ProxyMode :: string
  gk_ProxyURL :: string
  gk_Disabled :: bool

record cpaConfig =
  cpa_OpenAICompatibility :: "cpaCompatibility list"
  cpa_CodexAPIKeys :: "cpaGenericAPIKey list"
  cpa_ClaudeAPIKeys :: "cpaGenericAPIKey list"
  cpa_GeminiAPIKeys :: "cpaGenericAPIKey list"
  cpa_InteractionsAPIKeys :: "cpaGenericAPIKey list"
  cpa_XAIAPIKeys :: "cpaGenericAPIKey list"
  cpa_VertexAPIKeys :: "cpaGenericAPIKey list"

record outside =
  ev_Now :: gotime
  ev_Latency :: int
  ev_Aead :: aead
  ev_Getenv :: "string \<Rightarrow> string"
  ev_URLError :: "string \<Rightarrow> string"
  ev_Http :: "transport \<Rightarrow> request \<Rightarrow> string + hostHTTPResponse"
  ev_HostList :: "string + hostAuthFileEntry list"
  ev_HostGet :: "string \<Rightarrow> host_auth"
  ev_Source :: "string \<Rightarrow> string + cpaConfig"
  ev_StorageJSON :: "string \<Rightarrow> string"
  ev_WritePrefs :: "persistedMonitorPrefs \<Rightarrow> write_outcome"
  ev_WriteCache :: "persistedSnapshotCache \<Rightarrow> write_outcome"
  ev_Randoms :: "nat \<Rightarrow> int list option \<times> int list option"
  ev_Nonces :: "nat \<Rightarrow> int list option"
  ev_CtxErr :: "string option"

definition query_env_of :: "outside \<Rightarrow> pluginState \<Rightarrow> query_env" where
  "query_env_of ev st = \<lparr>qe_Monitors = cf_Monitors (g_cfg st), qe_Prefs = fst (g_prefs st),
     qe_Aead = ev_Aead ev, qe_Getenv = ev_Getenv ev, qe_URLError = ev_URLError ev,
     qe_Http = ev_Http ev,
     qe_Thresholds = effectiveThresholds (g_data st) (cf_Thresholds (g_cfg st)),
     qe_Now = ev_Now ev, qe_Latency = ev_Latency ev\<rparr>"

text \<open>\<open>effectiveThresholds\<close> of the plugin state: the stored ones, else the configured ones.\<close>

definition state_thresholds :: "pluginState \<Rightarrow> thresholdConfig" where
  "state_thresholds st = effectiveThresholds (g_data st) (cf_Thresholds (g_cfg st))"

text \<open>A commit of a preference change, and a save of the snapshots.\<close>

definition commit_prefs :: "outside \<Rightarrow> mutator \<Rightarrow> pluginState \<Rightarrow> pref_error option \<times> pluginState" where
  "commit_prefs ev mutate st =
     (case commitAtRevision (ev_WritePrefs ev) None mutate (g_prefs st) of
        ((_, err), w) \<Rightarrow> (err, st\<lparr>g_prefs := w\<rparr>))"

definition save_store :: "outside \<Rightarrow> pluginState \<Rightarrow> cache_error option \<times> pluginState" where
  "save_store ev st =
     (case store_save (cf_CachePath (g_cfg st)) (ev_WriteCache ev) (g_cacheFile st) (g_store st) of
        (err, file', s) \<Rightarrow> (err, st\<lparr>g_store := s, g_cacheFile := file'\<rparr>))"

definition on_store :: "(snapshotStore \<Rightarrow> snapshotStore) \<Rightarrow> pluginState \<Rightarrow> pluginState" where
  "on_store f st = st\<lparr>g_store := f (g_store st)\<rparr>"

definition invalidateRefresh :: "pluginState \<Rightarrow> pluginState" where
  "invalidateRefresh st = st\<lparr>g_lastRefresh := zero_time\<rparr>"

definition setSchemaVersion :: "int \<Rightarrow> pluginState \<Rightarrow> pluginState" where
  "setSchemaVersion hostVersion st =
     st\<lparr>g_schemaVersion := (if hostVersion = 0 \<or> 5 < hostVersion then 5 else hostVersion)\<rparr>"

text \<open>The background scheduler: its loop is in theory Scheduler.\<close>

definition wakeBackgroundScheduler :: "pluginState \<Rightarrow> pluginState" where
  "wakeBackgroundScheduler st = st\<lparr>g_wake := True\<rparr>"

definition stopBackgroundScheduler :: "pluginState \<Rightarrow> pluginState" where
  "stopBackgroundScheduler st = st\<lparr>g_background := False\<rparr>"

text \<open>A scheduler that is running is only woken: it keeps its interval.\<close>

definition startBackgroundScheduler :: "pluginState \<Rightarrow> pluginState" where
  "startBackgroundScheduler st =
     (if \<not> cf_Enabled (g_cfg st) then stopBackgroundScheduler st
      else if g_background st then wakeBackgroundScheduler st
      else st\<lparr>g_background := True\<rparr>)"

text \<open>
  \<open>configure\<close>: no bytes change nothing (\<open>None\<close>); the decoded configuration is checked, the
  preferences are read, the cache is loaded, the configuration is installed, and the scheduler
  starts again with it.
\<close>

record config_files =
  fi_Prefs :: prefs_file
  fi_Key :: key_file
  fi_Random :: "int list option"
  fi_KeyWritten :: bool
  fi_Cache :: cache_file

definition prefs_on_disk :: "config_files \<Rightarrow> string \<Rightarrow> prefs_world \<Rightarrow> persistedMonitorPrefs option" where
  "prefs_on_disk files path w =
     (if mp_path (fst w) = TrimSpace path \<and> mp_loaded (fst w) then snd w
      else (case fi_Prefs files of PDoc d \<Rightarrow> Some d | _ \<Rightarrow> None))"

definition install_config :: "config_files \<Rightarrow> pluginConfig \<Rightarrow> pluginState \<Rightarrow> config_error option \<times> pluginState" where
  "install_config files c st =
     (case pref_configure (cf_PreferencesPath c) (fi_Prefs files) (fi_Key files) (fi_Random files)
         (fi_KeyWritten files) (fst (g_prefs st)) of
        (Some e, p, _) \<Rightarrow> (Some (PreferencesError e), st)
      | (None, p, _) \<Rightarrow>
          (None, startBackgroundScheduler (stopBackgroundScheduler
             (st\<lparr>g_prefs := (p, prefs_on_disk files (cf_PreferencesPath c) (g_prefs st)),
                g_store := snd (store_load (cf_CachePath c) (fi_Cache files) (g_store st)),
                g_cacheFile := fi_Cache files, g_cfg := c\<rparr>))))"

definition configure ::
    "config_files \<Rightarrow> (unit + pluginConfig) option \<Rightarrow> pluginState \<Rightarrow> config_error option \<times> pluginState" where
  "configure files raw st =
     (case raw of
        None \<Rightarrow> (None, st)
      | Some (Inl _) \<Rightarrow> (Some YAMLError, st)
      | Some (Inr decoded) \<Rightarrow>
          (case checked_config decoded of
             Inl e \<Rightarrow> (Some e, st)
           | Inr c \<Rightarrow> install_config files c st))"

section \<open>The report\<close>

text \<open>
  \<open>filterDismissedAlerts\<close>: dismissals of alerts that are gone are forgotten, then the dismissed
  alerts are left out.
\<close>

definition filterDismissedAlerts :: "outside \<Rightarrow> report \<Rightarrow> pluginState \<Rightarrow> report \<times> pluginState" where
  "filterDismissedAlerts ev out st =
     (let st = snd (commit_prefs ev (reconcile_dismissed (active_alert_ids (rp_Alerts out))) st) in
      (drop_dismissed (pp_DismissedAlerts (g_data st)) out, st))"

definition monitored_snapshots :: "pluginState \<Rightarrow> accountSnapshot list" where
  "monitored_snapshots st =
     filter (\<lambda>a. isMonitored (g_data st) (as_AccountID a) True) (store_list (g_store st))"

definition buildReport :: "outside \<Rightarrow> pluginState \<Rightarrow> report \<times> pluginState" where
  "buildReport ev st =
     filterDismissedAlerts ev
       (buildReportFromAccounts (state_thresholds st) (ev_Now ev) (monitored_snapshots st)) st"

section \<open>Helpers of the handlers\<close>

definition queryValue :: "(string, string list) gomap \<Rightarrow> string \<Rightarrow> string" where
  "queryValue values key = (case mgetz [] values key of [] \<Rightarrow> [] | v # _ \<Rightarrow> TrimSpace v)"

text \<open>\<open>headers.Get\<close> on canonical names; the token comes from the environment.\<close>

definition validReadToken :: "outside \<Rightarrow> pluginState \<Rightarrow> string \<Rightarrow> bool" where
  "validReadToken ev st authorization =
     (let want = TrimSpace (ev_Getenv ev (cf_ReadTokenEnv (g_cfg st))); raw = TrimSpace authorization in
      if want = [] then False
      else if \<not> HasPrefix raw ''Bearer '' then False
      else let got = TrimSpace (TrimPrefix raw ''Bearer '') in
        if got = [] \<or> length got \<noteq> length want then False else got = want)"

definition maskCredential :: "string \<Rightarrow> string" where
  "maskCredential v =
     (let v = TrimSpace v in
      if v = [] then [] else if length v \<le> 4 then ''****'' else ''****'' @ drop (length v - 4) v)"

definition accountCandidateLess :: "credentialCandidate \<Rightarrow> credentialCandidate \<Rightarrow> bool" where
  "accountCandidateLess left right =
     (let l = ToLower (TrimSpace (cc_Name left)); r = ToLower (TrimSpace (cc_Name right)) in
      if l \<noteq> r then l < r else cc_AuthIndex left < cc_AuthIndex right)"

text \<open>The legacy snapshots of an account move to its stable id, and are saved until that works.\<close>

definition migrateLegacySnapshot :: "outside \<Rightarrow> string \<Rightarrow> string \<Rightarrow> pluginState \<Rightarrow> pluginState" where
  "migrateLegacySnapshot ev oldID newID st =
     (let st = on_store (\<lambda>s. snd (migrateAccount oldID newID s)) st in
      if hasPendingMigration (g_store st) then snd (save_store ev st) else st)"

text \<open>
  \<open>errorSnapshot\<close>: a failure keeps the data of the previous snapshot, marked stale.
\<close>

definition errorSnapshot ::
    "outside \<Rightarrow> pluginState \<Rightarrow> credentialCandidate \<Rightarrow> string \<Rightarrow> string \<Rightarrow> accountSnapshot" where
  "errorSnapshot ev st candidate0 code message =
     (let now = ev_Now ev; accountID = candidateAccountID candidate0;
          candidate = candidate0\<lparr>cc_Name := pref_name (g_data st) accountID (cc_Name candidate0)\<rparr>;
          (adapter, normalized) = (case adapterFor (query_env_of ev st) candidate of
            Some an \<Rightarrow> an
          | None \<Rightarrow> ([], configured_candidate (monitorFor (query_env_of ev st) candidate) candidate));
          failure = Some \<lparr>se_Code = code, se_Message = message\<rparr> in
      case store_get (g_store st) accountID of
        Some previous \<Rightarrow>
          (markStale previous now)\<lparr>as_LastAttemptAt := now, as_Status := statusError, as_Error := failure\<rparr>
      | None \<Rightarrow>
          zero_snapshot\<lparr>as_AccountID := accountID,
            as_AccountName := firstNonEmpty [cc_Name candidate, cc_Name normalized, cc_AuthID candidate],
            as_Provider := firstNonEmpty [cc_Provider candidate, cc_Provider normalized],
            as_AdapterID := firstNonEmpty [adapter, ''unknown''],
            as_BaseURL := firstNonEmpty [cc_BaseURL candidate, cc_BaseURL normalized],
            as_Kind := kindUnsupported, as_Status := statusError, as_CheckedAt := now,
            as_LastAttemptAt := now, as_Error := failure\<rparr>)"

text \<open>\<open>snapshotNeedsRefresh\<close>; \<open>ttl\<close> is in nanoseconds.\<close>

definition snapshotNeedsRefresh :: "pluginState \<Rightarrow> string \<Rightarrow> int \<Rightarrow> gotime \<Rightarrow> bool" where
  "snapshotNeedsRefresh st aid ttl now =
     (case store_get (g_store st) aid of
        None \<Rightarrow> True
      | Some s \<Rightarrow>
          (case as_LastSuccessAt s of
             None \<Rightarrow> True
           | Some t \<Rightarrow> as_ConfigRevision s \<noteq> queryRevision (g_data st) aid \<or> ttl \<le> time_sub now t))"

text \<open>Seconds as a \<open>time.Duration\<close>.\<close>

definition seconds :: "int \<Rightarrow> int" where "seconds n = wrap64 (n * 1000000000)"

definition cache_ttl :: "pluginState \<Rightarrow> int" where
  "cache_ttl st = seconds (cf_CacheTTLSeconds (g_cfg st))"

end
