(* ===== verification/Discovery.thy ===== *)
theory Discovery
  imports Plugin_State
begin

text \<open>
  The discovery of accounts (main.go): the auth files of the host, the keys of the CPA
  configuration, the assignment of stable ids, the union of both, and the views of the accounts
  that the management interface shows.
\<close>

record staticAccount =
  sa_candidate :: credentialCandidate
  sa_storage :: credential_storage
  sa_loadError :: "string option"
  sa_errorCode :: string

abbreviation account_id :: "staticAccount \<Rightarrow> string" where
  "account_id a \<equiv> candidateAccountID (sa_candidate a)"

section \<open>Stable ids\<close>

text \<open>The fingerprint of a credential that has no id of the host.\<close>

definition fingerprinted :: "int list \<Rightarrow> staticAccount \<Rightarrow> credentialCandidate" where
  "fingerprinted key a =
     (let c = sa_candidate a; secret = tokenFromCredential (sa_storage a) [] in
      if length key = 32 \<and> \<not> (cc_Source c = ''host'' \<and> cc_SourceID c \<noteq> []) \<and> secret \<noteq> []
      then c\<lparr>cc_Fingerprint := credentialIdentityFingerprint key (cc_Source c) (cc_SourceID c)
        (cc_BaseURL c) secret\<rparr>
      else c)"

fun migrate_snapshots ::
    "outside \<Rightarrow> (credentialCandidate \<times> string) list \<Rightarrow> pluginState \<Rightarrow> pluginState" where
  "migrate_snapshots ev [] st = st"
| "migrate_snapshots ev ((c, aid) # rest) st =
     migrate_snapshots ev rest
       (if canMigrateLegacySnapshot (g_data st) c aid
        then migrateLegacySnapshot ev (cc_LegacyID c) aid st else st)"

definition with_identity :: "staticAccount \<Rightarrow> credentialCandidate \<Rightarrow> string \<Rightarrow> staticAccount" where
  "with_identity a c aid =
     a\<lparr>sa_candidate := (sa_candidate a)\<lparr>cc_AccountID := aid, cc_Fingerprint := cc_Fingerprint c\<rparr>\<rparr>"

definition identity_failed :: string where
  "identity_failed = ''account identities could not be resolved''"

definition assignStableAccountIDs ::
    "outside \<Rightarrow> staticAccount list \<Rightarrow> pluginState \<Rightarrow> (string + staticAccount list) \<times> pluginState" where
  "assignStableAccountIDs ev accounts st =
     (if accounts = [] then (Inr [], st)
      else
        let candidates = map (fingerprinted (mp_key (fst (g_prefs st)))) accounts in
        (case resolveIdentities (ev_Aead ev) (ev_Randoms ev) (ev_Now ev) (ev_WritePrefs ev) candidates
            (g_prefs st) of
           (Inl e, w) \<Rightarrow> (Inl identity_failed, st\<lparr>g_prefs := w\<rparr>)
         | (Inr ids, w) \<Rightarrow>
             (Inr (map (\<lambda>(a, c, aid). with_identity a c aid) (zip accounts (zip candidates ids))),
              migrate_snapshots ev (zip candidates ids) (st\<lparr>g_prefs := w\<rparr>))))"

section \<open>Accounts of the host\<close>

definition host_candidate :: "hostAuthFileEntry \<Rightarrow> credentialCandidate" where
  "host_candidate e =
     zero_candidate\<lparr>cc_LegacyID := ha_AuthIndex e, cc_AuthIndex := ha_AuthIndex e, cc_AuthID := ha_ID e,
       cc_Name := firstNonEmpty [ha_Label e, ha_Name e, ha_ID e],
       cc_Provider := firstNonEmpty [ha_Provider e, ha_Type e], cc_BaseURL := ha_BaseURL e,
       cc_Source := ''host'', cc_SourceID := ha_ID e\<rparr>"

definition loaded_account :: "outside \<Rightarrow> bool \<Rightarrow> credentialCandidate \<Rightarrow> staticAccount" where
  "loaded_account ev loadStorage c =
     (let a = \<lparr>sa_candidate = c, sa_storage = no_storage, sa_loadError = None, sa_errorCode = []\<rparr> in
      if \<not> loadStorage then a
      else (case ev_HostGet ev (cc_AuthIndex c) of
          AuthReadError e \<Rightarrow> a\<lparr>sa_loadError := Some e, sa_errorCode := ''CREDENTIAL_READ_ERROR''\<rparr>
        | AuthDecodeError e \<Rightarrow> a\<lparr>sa_loadError := Some e, sa_errorCode := ''CREDENTIAL_DECODE_ERROR''\<rparr>
        | AuthStorage storage \<Rightarrow>
            a\<lparr>sa_storage := storage, sa_candidate := applyCredentialProxy c (st_Json storage)\<rparr>))"

fun host_accounts ::
    "outside \<Rightarrow> query_env \<Rightarrow> bool \<Rightarrow> string list \<Rightarrow> hostAuthFileEntry list \<Rightarrow> staticAccount list" where
  "host_accounts ev env loadStorage seen [] = []"
| "host_accounts ev env loadStorage seen (e # es) =
     (let c = host_candidate e in
      if ha_Disabled e \<or> TrimSpace (ha_AuthIndex e) = [] \<or> adapterFor env c = None
         \<or> cc_AuthIndex c \<in> set seen
      then host_accounts ev env loadStorage seen es
      else loaded_account ev loadStorage c # host_accounts ev env loadStorage (cc_AuthIndex c # seen) es)"

definition account_less :: "staticAccount \<Rightarrow> staticAccount \<Rightarrow> bool" where
  "account_less a b = accountCandidateLess (sa_candidate a) (sa_candidate b)"

text \<open>An account whose credential could not be read gets an error snapshot.\<close>

fun record_load_errors :: "outside \<Rightarrow> staticAccount list \<Rightarrow> pluginState \<Rightarrow> pluginState" where
  "record_load_errors ev [] st = st"
| "record_load_errors ev (a # as) st =
     record_load_errors ev as
       (case sa_loadError a of
          None \<Rightarrow> st
        | Some e \<Rightarrow> on_store (store_put (errorSnapshot ev st (sa_candidate a) (sa_errorCode a) e)) st)"

definition discoverHostAccounts ::
    "outside \<Rightarrow> bool \<Rightarrow> pluginState \<Rightarrow> (string + staticAccount list) \<times> pluginState" where
  "discoverHostAccounts ev loadStorage st =
     (case ev_HostList ev of
        Inl e \<Rightarrow> (Inl e, st)
      | Inr files \<Rightarrow>
          (case assignStableAccountIDs ev
              (sort_by account_less (host_accounts ev (query_env_of ev st) loadStorage [] files)) st of
             (Inl e, st) \<Rightarrow> (Inl e, st)
           | (Inr accounts, st) \<Rightarrow> (Inr accounts, record_load_errors ev accounts st)))"

section \<open>Accounts of the configuration\<close>

definition static_account ::
    "outside \<Rightarrow> string \<Rightarrow> string \<Rightarrow> string \<Rightarrow> string \<Rightarrow> string \<times> string \<Rightarrow> string \<Rightarrow> staticAccount" where
  "static_account ev legacyID name provider baseURL proxy key =
     \<lparr>sa_candidate = zero_candidate\<lparr>cc_LegacyID := legacyID, cc_AuthIndex := legacyID, cc_AuthID := name,
        cc_Name := name, cc_Provider := provider, cc_BaseURL := baseURL, cc_ProxyMode := fst proxy,
        cc_ProxyURL := snd proxy, cc_Source := ''static''\<rparr>,
      sa_storage = \<lparr>st_Raw = ev_StorageJSON ev key, st_Json = Some (JObj [(''api_key'', JStr key)])\<rparr>,
      sa_loadError = None, sa_errorCode = []\<rparr>"

definition numbered :: "string \<Rightarrow> int \<Rightarrow> string" where
  "numbered name i = name @ '' #'' @ int_str (i + 1)"

definition compat_name :: "cpaCompatibility \<Rightarrow> int \<Rightarrow> string" where
  "compat_name p ki =
     (let name = firstNonEmpty [co_Name p, host_of (co_BaseURL p), ''OpenAI-compatible''] in
      if 1 < length (co_APIKeyEntries p) then numbered name ki else name)"

text \<open>The keys of one compatible provider; a proxy that does not resolve is an error.\<close>

fun compat_accounts ::
    "outside \<Rightarrow> int \<Rightarrow> cpaCompatibility \<Rightarrow> int \<Rightarrow> cpaAPIKeyEntry list \<Rightarrow> string + staticAccount list" where
  "compat_accounts ev pidx p ki [] = Inr []"
| "compat_accounts ev pidx p ki (e # es) =
     (let key = TrimSpace (ke_APIKey e) in
      if key = [] then compat_accounts ev pidx p (ki + 1) es
      else (case resolveStaticProxy (ke_ProxyMode e) (ke_ProxyURL e) (co_ProxyMode p) (co_ProxyURL p) of
          Inl err \<Rightarrow> Inl (''OpenAI-compatible provider '' @ go_quote (co_Name p) @ '' key '' @ int_str (ki + 1)
            @ '' proxy configuration: '' @ proxy_error_text err)
        | Inr proxy \<Rightarrow>
            (case compat_accounts ev pidx p (ki + 1) es of
               Inl err \<Rightarrow> Inl err
             | Inr rest \<Rightarrow> Inr (static_account ev
                 (''config:openai-compatibility:'' @ int_str pidx @ '':'' @ int_str ki) (compat_name p ki)
                 (co_Name p) (co_BaseURL p) proxy key # rest))))"

fun compat_all :: "outside \<Rightarrow> int \<Rightarrow> cpaCompatibility list \<Rightarrow> string + staticAccount list" where
  "compat_all ev pidx [] = Inr []"
| "compat_all ev pidx (p # ps) =
     (case (if co_Disabled p \<or> TrimSpace (co_BaseURL p) = [] then Inr []
            else compat_accounts ev pidx p 0 (co_APIKeyEntries p)) of
        Inl e \<Rightarrow> Inl e
      | Inr here \<Rightarrow> (case compat_all ev (pidx + 1) ps of Inl e \<Rightarrow> Inl e | Inr rest \<Rightarrow> Inr (here @ rest)))"

text \<open>
  The keys of a group; \<open>needs_url\<close> skips a key without a base URL (Codex), and the base URL is
  the entry's.
\<close>

fun generic_accounts ::
    "outside \<Rightarrow> string \<Rightarrow> string \<Rightarrow> bool \<Rightarrow> int \<Rightarrow> cpaGenericAPIKey list \<Rightarrow> string + staticAccount list" where
  "generic_accounts ev grp label needs_url i [] = Inr []"
| "generic_accounts ev grp label needs_url i (e # es) =
     (let key = TrimSpace (gk_APIKey e) in
      if gk_Disabled e \<or> key = [] \<or> needs_url \<and> TrimSpace (gk_BaseURL e) = []
      then generic_accounts ev grp label needs_url (i + 1) es
      else (case resolveStaticProxy (gk_ProxyMode e) (gk_ProxyURL e) [] [] of
          Inl err \<Rightarrow> Inl ((if needs_url then ''Codex API key '' else label @ '' '') @ int_str (i + 1)
            @ '' proxy configuration: '' @ proxy_error_text err)
        | Inr proxy \<Rightarrow>
            (case generic_accounts ev grp label needs_url (i + 1) es of
               Inl err \<Rightarrow> Inl err
             | Inr rest \<Rightarrow> Inr (static_account ev (''config:'' @ grp @ '':'' @ int_str i)
                 (numbered label i) grp (gk_BaseURL e) proxy key # rest))))"

fun concat_results :: "(string + 'a list) list \<Rightarrow> string + 'a list" where
  "concat_results [] = Inr []"
| "concat_results (r # rs) =
     (case r of
        Inl e \<Rightarrow> Inl e
      | Inr xs \<Rightarrow> (case concat_results rs of Inl e \<Rightarrow> Inl e | Inr ys \<Rightarrow> Inr (xs @ ys)))"

definition configured_accounts :: "outside \<Rightarrow> cpaConfig \<Rightarrow> string + staticAccount list" where
  "configured_accounts ev c =
     concat_results
       [compat_all ev 0 (cpa_OpenAICompatibility c),
        generic_accounts ev ''codex-api-key'' ''Codex API'' True 0 (cpa_CodexAPIKeys c),
        generic_accounts ev ''claude-api-key'' ''Claude API Key'' False 0 (cpa_ClaudeAPIKeys c),
        generic_accounts ev ''gemini-api-key'' ''Gemini API Key'' False 0 (cpa_GeminiAPIKeys c),
        generic_accounts ev ''interactions-api-key'' ''Interactions API Key'' False 0 (cpa_InteractionsAPIKeys c),
        generic_accounts ev ''xai-api-key'' ''xAI API Key'' False 0 (cpa_XAIAPIKeys c),
        generic_accounts ev ''vertex-api-key'' ''Vertex API Key'' False 0 (cpa_VertexAPIKeys c)]"

definition discoverStaticAccounts ::
    "outside \<Rightarrow> pluginState \<Rightarrow> (string + staticAccount list) \<times> pluginState" where
  "discoverStaticAccounts ev st =
     (case ev_Source ev (cf_SourceConfigPath (g_cfg st)) of
        Inl e \<Rightarrow> (Inl e, st)
      | Inr c \<Rightarrow>
          (case configured_accounts ev c of
             Inl e \<Rightarrow> (Inl e, st)
           | Inr accounts \<Rightarrow> assignStableAccountIDs ev accounts st))"

section \<open>All accounts\<close>

fun add_new_accounts :: "string list \<Rightarrow> staticAccount list \<Rightarrow> staticAccount list" where
  "add_new_accounts seen [] = []"
| "add_new_accounts seen (a # as) =
     (if account_id a \<in> set seen then add_new_accounts seen as
      else a # add_new_accounts (account_id a # seen) as)"

text \<open>
  The union of both sources, the host first; a failing host is tolerated without a callback.
\<close>

definition discover_both ::
    "outside \<Rightarrow> string \<Rightarrow> bool \<Rightarrow> pluginState \<Rightarrow> (string + staticAccount list) \<times> pluginState" where
  "discover_both ev callbackID loadStorage st =
     (case discoverHostAccounts ev loadStorage st of
        (host, st) \<Rightarrow>
          (case (host, TrimSpace callbackID \<noteq> []) of
             (Inl e, True) \<Rightarrow> (Inl e, st)
           | _ \<Rightarrow>
               let accounts = (case host of Inl _ \<Rightarrow> [] | Inr as \<Rightarrow> as) in
               (case discoverStaticAccounts ev st of
                  (Inl e, st) \<Rightarrow> (Inl e, st)
                | (Inr static, st) \<Rightarrow>
                    (Inr (accounts @ add_new_accounts (map account_id accounts) static), st))))"

definition discoverAllAccounts ::
    "outside \<Rightarrow> string \<Rightarrow> pluginState \<Rightarrow> (string + staticAccount list) \<times> pluginState" where
  "discoverAllAccounts ev callbackID st =
     (case discover_both ev callbackID True st of
        (Inl e, st) \<Rightarrow> (Inl e, st)
      | (Inr accounts, st) \<Rightarrow> (Inr (sort_by account_less accounts), st))"

section \<open>Views\<close>

definition provider_view :: "outside \<Rightarrow> pluginState \<Rightarrow> staticAccount \<Rightarrow> providerView" where
  "provider_view ev st a =
     (let c = sa_candidate a; aid = account_id a; env = query_env_of ev st; d = g_data st;
          found = adapterFor env c;
          (adapter, normalized) = (case found of
              Some an \<Rightarrow> an | None \<Rightarrow> ([], configured_candidate (monitorFor env c) c));
          defaultName = firstNonEmpty [cc_Name normalized, cc_Name c];
          customName = pref_name d aid [] in
      \<lparr>pv_ID = aid, pv_Name = firstNonEmpty [customName, defaultName], pv_DefaultName = defaultName,
       pv_CustomName = customName, pv_Provider = firstNonEmpty [cc_Provider normalized, cc_Provider c],
       pv_BaseURL = firstNonEmpty [cc_BaseURL normalized, cc_BaseURL c],
       pv_ProxyMode = normalizedProxyMode (cc_ProxyMode c) (cc_ProxyURL c),
       pv_ProxyConfigured = proxyIsConfigured (cc_ProxyMode c) (cc_ProxyURL c),
       pv_Adapter = adapter, pv_AdapterOverride = pref_adapter d aid [],
       pv_Monitored = (found \<noteq> None \<and> isMonitored d aid True),
       pv_ManagementPATConfigured = patConfigured d aid, pv_FirstSeenAt = pref_firstSeen d aid,
       pv_KeyHint = maskCredential (tokenFromCredential (sa_storage a) []),
       pv_Latest = store_get (g_store st) aid\<rparr>)"

text \<open>The position of an id in the saved order (the last one, were it there twice).\<close>

definition order_index :: "string list \<Rightarrow> string \<Rightarrow> nat option" where
  "order_index order aid =
     foldl (\<lambda>r (i, x). if x = aid then Some i else r) None (zip [0..<length order] order)"

definition view_less :: "string list \<Rightarrow> providerView \<Rightarrow> providerView \<Rightarrow> bool" where
  "view_less order a b =
     (let l = ToLower (TrimSpace (pv_Name a)); r = ToLower (TrimSpace (pv_Name b));
          byName = (if l \<noteq> r then l < r else pv_ID a < pv_ID b) in
      case (order_index order (pv_ID a), order_index order (pv_ID b)) of
        (Some i, Some j) \<Rightarrow> if i \<noteq> j then i < j else byName
      | (Some i, None) \<Rightarrow> True
      | (None, Some j) \<Rightarrow> False
      | (None, None) \<Rightarrow> byName)"

definition discoverProviderViews ::
    "outside \<Rightarrow> string \<Rightarrow> pluginState \<Rightarrow> (string + providerView list) \<times> pluginState" where
  "discoverProviderViews ev callbackID st =
     (case discoverAllAccounts ev callbackID st of
        (Inl e, st) \<Rightarrow> (Inl e, st)
      | (Inr accounts, st) \<Rightarrow>
          (Inr (sort_by (view_less (pp_AccountOrder (g_data st)))
             (map (provider_view ev st) (add_new_accounts [] accounts))), st))"

end
