(* ===== verification/Refresh.thy ===== *)
theory Refresh
  imports Discovery
begin

text \<open>
  The refresh of the accounts (main.go): the key under which equal refreshes share one query, the
  group that does the sharing, the worker of one account in the steps at which other activities
  can come in between, and the whole run \<open>refreshAccountsDetailedContext\<close>, with its workers one
  after the other.  The refresh jobs follow.
\<close>

section \<open>Equal refreshes\<close>

record accountRefreshKey =
  rk_accountID :: string
  rk_revision :: int
  rk_signature :: string

text \<open>What is hashed: each part with its length before it, then the storage.\<close>

definition key_part :: "string \<Rightarrow> string" where
  "key_part v = int_str (int (length v)) @ '':'' @ v"

definition FormatBool :: "bool \<Rightarrow> string" where
  "FormatBool b = (if b then ''true'' else ''false'')"

definition key_parts :: "string \<Rightarrow> int \<Rightarrow> credentialCandidate \<Rightarrow> string list" where
  "key_parts aid revn c =
     [aid, int_str revn, cc_AccountID c, cc_LegacyID c, cc_AuthIndex c, cc_AuthID c, cc_Provider c,
      cc_BaseURL c, cc_ManagementBaseURL c, cc_ProxyMode c, cc_ProxyURL c, cc_Source c, cc_SourceID c,
      cc_Fingerprint c, FormatBool (cc_AllowInternalHTTP c)]"

definition key_material :: "string \<Rightarrow> int \<Rightarrow> credentialCandidate \<Rightarrow> string \<Rightarrow> string" where
  "key_material aid revn c storage = concat (map key_part (key_parts aid revn c)) @ storage"

definition newAccountRefreshKey :: "string \<Rightarrow> int \<Rightarrow> credentialCandidate \<Rightarrow> string \<Rightarrow> accountRefreshKey" where
  "newAccountRefreshKey aid revn c storage =
     \<lparr>rk_accountID = aid, rk_revision = revn,
      rk_signature = hex_encode (sha256_bytes (bytes_of (key_material aid revn c storage)))\<rparr>"

text \<open>
  \<open>accountRefreshGroup.do\<close> in two steps.  The first caller of a key leads and runs the query; a
  later one waits for it.  When the query ends the key is free again, and all get its result.
\<close>

record accountRefreshGroup =
  rg_calls :: "(accountRefreshKey, nat list) gomap"
  rg_queries :: nat
  rg_results :: "(nat \<times> nat) list"

definition group_enter :: "nat \<Rightarrow> accountRefreshKey \<Rightarrow> accountRefreshGroup \<Rightarrow> bool \<times> accountRefreshGroup" where
  "group_enter caller key g =
     (case mget (rg_calls g) key of
        Some waiting \<Rightarrow> (False, g\<lparr>rg_calls := mput key (waiting @ [caller]) (rg_calls g)\<rparr>)
      | None \<Rightarrow> (True, g\<lparr>rg_calls := mput key [caller] (rg_calls g), rg_queries := Suc (rg_queries g)\<rparr>))"

definition group_finish :: "accountRefreshKey \<Rightarrow> nat \<Rightarrow> accountRefreshGroup \<Rightarrow> accountRefreshGroup" where
  "group_finish key answer g =
     (case mget (rg_calls g) key of
        None \<Rightarrow> g
      | Some waiting \<Rightarrow>
          g\<lparr>rg_calls := mdel key (rg_calls g),
            rg_results := rg_results g @ map (\<lambda>c. (c, answer)) waiting\<rparr>)"

section \<open>One worker\<close>

type_synonym query_answer = "string + accountSnapshot"

definition refresh_skipped :: "string \<Rightarrow> accountRefreshResult" where
  "refresh_skipped aid = \<lparr>ar_AccountID = aid, ar_Status = ''skipped'', ar_ErrorCode = ''REFRESH_SKIPPED'',
     ar_Error = ''monitor configuration changed''\<rparr>"

definition worker_query :: "outside \<Rightarrow> pluginState \<Rightarrow> staticAccount \<Rightarrow> query_answer" where
  "worker_query ev st a =
     queryCandidateContext (query_env_of ev st) (sa_candidate a) (sa_storage a) []"

definition worker_check :: "pluginState \<Rightarrow> string list \<Rightarrow> string \<Rightarrow> int \<Rightarrow> bool" where
  "worker_check st keep aid revn = (aid \<in> set keep \<and> canCommitQueryResult (g_data st) aid revn)"

definition worker_put ::
    "outside \<Rightarrow> staticAccount \<Rightarrow> int \<Rightarrow> query_answer \<Rightarrow> pluginState \<Rightarrow> accountRefreshResult \<times> pluginState" where
  "worker_put ev a revn answer st =
     (let aid = account_id a in
      case answer of
        Inl e \<Rightarrow>
          (\<lparr>ar_AccountID = aid, ar_Status = ''failed'', ar_ErrorCode = ''UPSTREAM_REQUEST_FAILED'', ar_Error = e\<rparr>,
           on_store (store_put
             ((errorSnapshot ev st (sa_candidate a) ''UPSTREAM_REQUEST_FAILED'' e)\<lparr>as_ConfigRevision := revn\<rparr>)) st)
      | Inr s \<Rightarrow>
          (\<lparr>ar_AccountID = aid, ar_Status = ''success'', ar_ErrorCode = [], ar_Error = []\<rparr>,
           on_store (store_put (s\<lparr>as_ConfigRevision := revn\<rparr>)) st))"

text \<open>The steps of a worker, without anything in between.\<close>

definition refresh_one ::
    "outside \<Rightarrow> string list \<Rightarrow> staticAccount \<Rightarrow> pluginState \<Rightarrow> accountRefreshResult \<times> pluginState" where
  "refresh_one ev keep a st =
     (let aid = account_id a; revn = queryRevision (g_data st) aid; answer = worker_query ev st a in
      if \<not> worker_check st keep aid revn then (refresh_skipped aid, st)
      else worker_put ev a revn answer st)"

section \<open>A run\<close>

record refreshRunResult =
  rr_Results :: "accountRefreshResult list"
  rr_Succeeded :: int
  rr_Failed :: int
  rr_Skipped :: int

definition empty_run :: refreshRunResult where
  "empty_run = \<lparr>rr_Results = [], rr_Succeeded = 0, rr_Failed = 0, rr_Skipped = 0\<rparr>"

definition count_status :: "string \<Rightarrow> accountRefreshResult list \<Rightarrow> int" where
  "count_status status rs = int (length (filter (\<lambda>r. ar_Status r = status) rs))"

definition count_run :: "accountRefreshResult list \<Rightarrow> refreshRunResult" where
  "count_run rs = \<lparr>rr_Results = rs, rr_Succeeded = count_status ''success'' rs,
     rr_Failed = count_status ''failed'' rs, rr_Skipped = count_status ''skipped'' rs\<rparr>"

text \<open>The accounts that have an adapter and are monitored, and those of them that are asked for.\<close>

definition refreshable :: "outside \<Rightarrow> pluginState \<Rightarrow> staticAccount list \<Rightarrow> staticAccount list" where
  "refreshable ev st accounts =
     filter (\<lambda>a. adapterFor (query_env_of ev st) (sa_candidate a) \<noteq> None
                 \<and> isMonitored (g_data st) (account_id a) True) accounts"

definition selected_accounts :: "string list \<Rightarrow> staticAccount list \<Rightarrow> staticAccount list" where
  "selected_accounts requested accounts =
     (if requested = [] then accounts else filter (\<lambda>a. account_id a \<in> set requested) accounts)"

definition missing_request :: "string list \<Rightarrow> staticAccount list \<Rightarrow> string option" where
  "missing_request requested accounts =
     List.find (\<lambda>aid. aid \<notin> set (map account_id accounts)) requested"

definition not_due :: "string \<Rightarrow> accountRefreshResult" where
  "not_due aid = \<lparr>ar_AccountID = aid, ar_Status = ''skipped'', ar_ErrorCode = [], ar_Error = []\<rparr>"

definition zero_result :: accountRefreshResult where
  "zero_result = \<lparr>ar_AccountID = [], ar_Status = [], ar_ErrorCode = [], ar_Error = []\<rparr>"

text \<open>
  Whether an account is due is decided before any worker starts changing the store, so against
  the state \<open>st0\<close>; a cancelled context leaves the worker's result empty.
\<close>

fun run_workers ::
    "outside \<Rightarrow> bool \<Rightarrow> pluginState \<Rightarrow> string list \<Rightarrow> staticAccount list \<Rightarrow> pluginState
      \<Rightarrow> accountRefreshResult list \<times> pluginState" where
  "run_workers ev force st0 keep [] st = ([], st)"
| "run_workers ev force st0 keep (a # as) st =
     (let (r, st) =
        (if \<not> force \<and> \<not> snapshotNeedsRefresh st0 (account_id a) (cache_ttl st0) (ev_Now ev)
         then (not_due (account_id a), st)
         else if ev_CtxErr ev \<noteq> None then (zero_result, st)
         else refresh_one ev keep a st);
        (rs, st) = run_workers ev force st0 keep as st in
      (r # rs, st))"

definition finish_run ::
    "outside \<Rightarrow> string list \<Rightarrow> accountRefreshResult list \<Rightarrow> pluginState
      \<Rightarrow> (refreshRunResult \<times> string option) \<times> pluginState" where
  "finish_run ev keep rs st =
     (case ev_CtxErr ev of
        Some e \<Rightarrow> ((count_run rs, Some e), st)
      | None \<Rightarrow>
          ((count_run rs, None),
           snd (save_store ev ((on_store (store_prune keep) st)\<lparr>g_lastRefresh := ev_Now ev\<rparr>))))"

definition monitored_not_found :: "string \<Rightarrow> string" where
  "monitored_not_found aid = ''monitored account '' @ go_quote aid @ '' was not found''"

definition refresh_accounts ::
    "outside \<Rightarrow> bool \<Rightarrow> string list \<Rightarrow> staticAccount list \<Rightarrow> pluginState
      \<Rightarrow> (refreshRunResult \<times> string option) \<times> pluginState" where
  "refresh_accounts ev force requested accounts st =
     (let st = snd (commit_prefs ev
            (reconcileDefaults_mutator (ev_Now ev) (map (\<lambda>a. (account_id a, False)) accounts)) st);
          candidates = refreshable ev st accounts;
          keep = map account_id candidates in
      case missing_request requested candidates of
        Some aid \<Rightarrow> ((empty_run, Some (monitored_not_found aid)), st)
      | None \<Rightarrow>
          let (rs, st) = run_workers ev force st keep (selected_accounts requested candidates) st in
          finish_run ev keep rs st)"

text \<open>The status of the refresh that the interface shows, set at the begin and at the end.\<close>

definition refresh_started :: "outside \<Rightarrow> pluginState \<Rightarrow> pluginState" where
  "refresh_started ev st =
     st\<lparr>g_refresh := (g_refresh st)\<lparr>ri_running := True, ri_started := Some (ev_Now ev), ri_lastErr := []\<rparr>\<rparr>"

definition refresh_finished :: "outside \<Rightarrow> string option \<Rightarrow> pluginState \<Rightarrow> pluginState" where
  "refresh_finished ev err st =
     st\<lparr>g_refresh := (g_refresh st)\<lparr>ri_running := False, ri_finished := Some (ev_Now ev),
        ri_lastErr := (case err of Some e \<Rightarrow> e | None \<Rightarrow> ri_lastErr (g_refresh st))\<rparr>\<rparr>"

definition refreshAccountsDetailedContext ::
    "outside \<Rightarrow> string \<Rightarrow> bool \<Rightarrow> string list \<Rightarrow> pluginState
      \<Rightarrow> (refreshRunResult \<times> string option) \<times> pluginState" where
  "refreshAccountsDetailedContext ev callbackID force requested st =
     (case discover_both ev callbackID True (refresh_started ev st) of
        (Inl e, st) \<Rightarrow> ((empty_run, Some e), refresh_finished ev (Some e) st)
      | (Inr accounts, st) \<Rightarrow>
          (case refresh_accounts ev force requested accounts st of
             ((run, err), st) \<Rightarrow> ((run, err), refresh_finished ev err st)))"

section \<open>Jobs\<close>

definition job_id :: "gotime \<Rightarrow> nat \<Rightarrow> string" where
  "job_id now n = ''refresh_'' @ int_str now @ ''_'' @ int_str (int n)"

definition job_create :: "gotime \<Rightarrow> string list \<Rightarrow> refreshJobStore \<Rightarrow> accountRefreshJob \<times> refreshJobStore" where
  "job_create now ids s =
     (let n = Suc (js_sequence s);
          job = \<lparr>jb_ID = job_id now n, jb_Status = ''queued'', jb_AccountIDs = ids,
            jb_Total = int (length ids), jb_Completed = 0, jb_Failed = 0, jb_Skipped = 0, jb_Results = [],
            jb_Error = [], jb_StartedAt = Some now, jb_FinishedAt = None\<rparr> in
      (job, s\<lparr>js_sequence := n, js_jobs := mput (jb_ID job) job (js_jobs s)\<rparr>))"

definition job_update ::
    "string \<Rightarrow> (accountRefreshJob \<Rightarrow> accountRefreshJob) \<Rightarrow> refreshJobStore \<Rightarrow> refreshJobStore" where
  "job_update jid f s =
     (case mget (js_jobs s) jid of
        None \<Rightarrow> s | Some job \<Rightarrow> s\<lparr>js_jobs := mput jid (f job) (js_jobs s)\<rparr>)"

definition job_get :: "string \<Rightarrow> refreshJobStore \<Rightarrow> accountRefreshJob option" where
  "job_get jid s = mget (js_jobs s) jid"

definition job_running :: "gotime \<Rightarrow> accountRefreshJob \<Rightarrow> accountRefreshJob" where
  "job_running now job = job\<lparr>jb_Status := ''running'', jb_StartedAt := Some now\<rparr>"

definition job_done ::
    "gotime \<Rightarrow> nat \<Rightarrow> refreshRunResult \<times> string option \<Rightarrow> accountRefreshJob \<Rightarrow> accountRefreshJob" where
  "job_done now asked outcome job =
     (case outcome of (run, err) \<Rightarrow>
       let job = job\<lparr>jb_FinishedAt := Some now, jb_Total := int (length (rr_Results run)),
             jb_Completed := rr_Succeeded run, jb_Failed := rr_Failed run, jb_Skipped := rr_Skipped run,
             jb_Results := rr_Results run\<rparr> in
       (case err of
          None \<Rightarrow> job\<lparr>jb_Status := ''completed''\<rparr>
        | Some e \<Rightarrow>
            job\<lparr>jb_Status := ''failed'', jb_Error := e,
              jb_Failed := (if jb_Failed job = 0 \<and> jb_Total job = 0 then int asked else jb_Failed job)\<rparr>))"

definition on_jobs :: "(refreshJobStore \<Rightarrow> refreshJobStore) \<Rightarrow> pluginState \<Rightarrow> pluginState" where
  "on_jobs f st = st\<lparr>g_jobs := f (g_jobs st)\<rparr>"

text \<open>The goroutine of a job, run to its end.\<close>

definition run_job ::
    "outside \<Rightarrow> string \<Rightarrow> bool \<Rightarrow> string list \<Rightarrow> string \<Rightarrow> pluginState \<Rightarrow> pluginState" where
  "run_job ev callbackID force ids jid st =
     (let st = on_jobs (job_update jid (job_running (ev_Now ev))) st in
      case refreshAccountsDetailedContext ev callbackID force ids st of
        (outcome, st) \<Rightarrow> on_jobs (job_update jid (job_done (ev_Now ev) (length ids) outcome)) st)"

definition startRefreshJob ::
    "outside \<Rightarrow> string list \<Rightarrow> pluginState \<Rightarrow> accountRefreshJob \<times> pluginState" where
  "startRefreshJob ev ids st =
     (case job_create (ev_Now ev) ids (g_jobs st) of (job, js) \<Rightarrow> (job, st\<lparr>g_jobs := js\<rparr>))"

end
