(* ===== verification/Scheduler.thy ===== *)
theory Scheduler
  imports Refresh
begin

text \<open>
  background.go: when the background refresh runs next.  The scheduler is running or not, and its
  wake channel holds a signal or not (\<open>g_background\<close>, \<open>g_wake\<close>).  Durations are in nanoseconds;
  the jitter is an argument, drawn from the range the code asks for.
\<close>

definition minute :: int where "minute = 60000000000"

section \<open>Starting and waking\<close>

text \<open>The interval of the loop: the synchronisation interval, at most the lifetime of the cache.\<close>

definition background_interval :: "pluginConfig \<Rightarrow> int" where
  "background_interval c =
     (let ttl = seconds (cf_CacheTTLSeconds c); sync = seconds (cf_SyncIntervalSeconds c);
          ttl = (if ttl \<le> 0 then 5 * minute else ttl);
          sync = (if sync \<le> 0 then minute else sync) in
      if ttl < sync then ttl else sync)"

definition maybeStartBackgroundRefresh :: "pluginState \<Rightarrow> pluginState" where
  "maybeStartBackgroundRefresh st = wakeBackgroundScheduler (startBackgroundScheduler st)"

section \<open>The delay\<close>

definition backoff :: "int \<Rightarrow> int \<Rightarrow> int" where
  "backoff interval failures =
     (let interval = (if interval \<le> 0 then minute else interval);
          shift = (if 4 < failures then 4 else failures);
          interval = (if 0 < failures then wrap64 (interval * 2 ^ nat shift) else interval) in
      if 15 * minute < interval then 15 * minute else interval)"

text \<open>Division of Go truncates towards zero.\<close>

definition quot10 :: "int \<Rightarrow> int" where
  "quot10 n = (if n < 0 then - (- n div 10) else n div 10)"

definition jitter_range :: "int \<Rightarrow> int" where
  "jitter_range interval = quot10 interval * 2 + 1"

definition nextBackgroundDelay :: "int \<Rightarrow> int \<Rightarrow> int \<Rightarrow> int" where
  "nextBackgroundDelay interval failures draw =
     (let interval = backoff interval failures; jitter = quot10 interval in
      if jitter \<le> 0 then interval else interval - jitter + draw)"

text \<open>Whether anything waits for a refresh: a monitored snapshot that is due, or a view without one.\<close>

definition hasPendingBackgroundWork :: "outside \<Rightarrow> pluginState \<Rightarrow> bool \<times> pluginState" where
  "hasPendingBackgroundWork ev st =
     (let ttl = (if cache_ttl st \<le> 0 then 5 * minute else cache_ttl st) in
      if list_ex (\<lambda>s. isMonitored (g_data st) (as_AccountID s) False
           \<and> snapshotNeedsRefresh st (as_AccountID s) ttl (ev_Now ev)) (store_list (g_store st))
      then (True, st)
      else (case discoverProviderViews ev [] st of
          (Inl _, st) \<Rightarrow> (True, st)
        | (Inr views, st) \<Rightarrow> (list_ex (\<lambda>v. pv_Monitored v \<and> pv_Latest v = None) views, st)))"

definition loop_delay :: "outside \<Rightarrow> int \<Rightarrow> int \<Rightarrow> int \<Rightarrow> pluginState \<Rightarrow> int \<times> pluginState" where
  "loop_delay ev interval failures draw st =
     (case hasPendingBackgroundWork ev st of
        (pending, st) \<Rightarrow> (if pending then 0 else nextBackgroundDelay interval failures draw, st))"

text \<open>The refresh of the scheduler: it fails as well when a snapshot is an error afterwards.\<close>

definition scheduled_refresh :: "outside \<Rightarrow> pluginState \<Rightarrow> bool \<times> pluginState" where
  "scheduled_refresh ev st =
     (case refreshAccountsDetailedContext ev [] False [] st of
        ((_, Some _), st) \<Rightarrow> (False, st)
      | ((_, None), st) \<Rightarrow>
          (list_all (\<lambda>s. as_Status s \<noteq> statusError \<and> as_Error s = None) (store_list (g_store st)), st))"

text \<open>
  The loop as a step relation.  Its state is the number of failures, whether a timer with some
  delay is set, and the plugin's state; what the rest of the plugin does in between is any
  change that leaves the scheduler's own fields to it.
\<close>

datatype loop_phase = Planning | Sleeping int | Stopped

inductive loop_step ::
    "int \<Rightarrow> loop_phase \<times> int \<times> pluginState \<Rightarrow> loop_phase \<times> int \<times> pluginState \<Rightarrow> bool"
  for interval :: int
where
  Plan: "0 \<le> draw \<Longrightarrow> draw < jitter_range (backoff interval failures) \<or> draw = 0 \<Longrightarrow>
      loop_delay ev interval failures draw st = (delay, st') \<Longrightarrow>
      loop_step interval (Planning, failures, st) (Sleeping delay, failures, st')"
| Cancel: "loop_step interval (Sleeping delay, failures, st) (Stopped, failures, st\<lparr>g_background := False\<rparr>)"
| Wake: "g_wake st \<Longrightarrow>
      loop_step interval (Sleeping delay, failures, st) (Planning, failures, st\<lparr>g_wake := False\<rparr>)"
| FireOK: "scheduled_refresh ev st = (True, st') \<Longrightarrow>
      loop_step interval (Sleeping delay, failures, st) (Planning, 0, st')"
| FireFailed: "scheduled_refresh ev st = (False, st') \<Longrightarrow>
      loop_step interval (Sleeping delay, failures, st) (Planning, failures + 1, st')"
| Others: "g_background st' = g_background st \<Longrightarrow>
      loop_step interval (phase, failures, st) (phase, failures, st')"

end
