(* ===== verification/Routes.thy ===== *)
theory Routes
  imports Scheduler
begin

text \<open>
  The management routes of main.go: the state of the interface, refresh, provider configuration,
  cleanup, history, settings, alert dismissal, and the dispatch with the read token.  A request
  body is what \<open>encoding/json\<close> makes of it for the type that the route decodes (\<open>None\<close> is its
  error).  A response is its status with a payload.
\<close>

section \<open>Requests and responses\<close>

record providerMutation =
  pr_ID :: string
  pr_CustomName :: "string option"
  pr_Monitored :: "bool option"
  pr_Adapter :: string
  pr_ClearAdapter :: bool
  pr_PATAction :: string
  pr_ManagementPAT :: string
  pr_ClearManagementPAT :: bool
  pr_CashThreshold :: "cashThreshold option"
  pr_ClearCashThreshold :: bool

record accountRefreshRequest =
  rf_AccountIDs :: "string list"
  rf_Scope :: string
  rf_Force :: bool
  rf_Async :: bool

record configRequest =
  cq_BaseRevision :: "int option"
  cq_WarningPercent :: "f64 option"
  cq_CriticalPercent :: "f64 option"
  cq_CashByCurrency :: "(string, cashThreshold) gomap option"
  cq_CashByAccount :: "(string, cashThreshold) gomap option"

record requestBody =
  rb_Empty :: bool
  rb_Providers :: "(int option \<times> providerMutation list) option"
  rb_Refresh :: "accountRefreshRequest option"
  rb_Cleanup :: "string list option"
  rb_Config :: "configRequest option"
  rb_Dismiss :: "string option"

record managementRequest =
  mr_Method :: string
  mr_Path :: string
  mr_Authorization :: string
  mr_Query :: "(string, string list) gomap"
  mr_Body :: requestBody
  mr_CallbackID :: string

record directorySyncStatus =
  dy_Status :: string
  dy_LastAttemptAt :: "gotime option"
  dy_LastSuccessAt :: "gotime option"
  dy_Error :: string

record monitorUIState =
  ui_GeneratedAt :: gotime
  ui_Revision :: int
  ui_Refreshing :: bool
  ui_LastRefresh :: "gotime option"
  ui_LastError :: string
  ui_Warnings :: "string list"
  ui_DirectorySync :: directorySyncStatus
  ui_Providers :: "providerView list"
  ui_RefreshJob :: "accountRefreshJob option"
  ui_Report :: report
  ui_Config :: "int \<times> int \<times> int \<times> int \<times> thresholdConfig"

datatype payload =
    PError string
  | PConflict int int
  | PHealth gotime
  | PReport report
  | PState monitorUIState
  | PJob accountRefreshJob
  | PHistory "accountSnapshot list"
  | PPage

type_synonym response = "int \<times> payload"

definition bad :: "int \<Rightarrow> string \<Rightarrow> pluginState \<Rightarrow> response \<times> pluginState" where
  "bad code text st = ((code, PError text), st)"

definition not_allowed :: "pluginState \<Rightarrow> response \<times> pluginState" where
  "not_allowed st = bad 405 ''method not allowed'' st"

section \<open>The state of the interface\<close>

definition warn_load :: string where
  "warn_load =
     [CHR 0xE5, CHR 0xBF, CHR 0xAB, CHR 0xE7, CHR 0x85, CHR 0xA7, CHR 0xE7, CHR 0xBC, CHR 0x93,
      CHR 0xE5, CHR 0xAD, CHR 0x98, CHR 0xE6, CHR 0x81, CHR 0xA2, CHR 0xE5, CHR 0xA4, CHR 0x8D,
      CHR 0xE5, CHR 0xA4, CHR 0xB1, CHR 0xE8, CHR 0xB4, CHR 0xA5, CHR 0xEF, CHR 0xBC, CHR 0x8C,
      CHR 0xE5, CHR 0xB7, CHR 0xB2, CHR 0xE4, CHR 0xBF, CHR 0x9D, CHR 0xE7, CHR 0x95, CHR 0x99,
      CHR 0xE5, CHR 0x8E, CHR 0x9F, CHR 0xE6, CHR 0x96, CHR 0x87, CHR 0xE4, CHR 0xBB, CHR 0xB6,
      CHR 0xE5, CHR 0xB9, CHR 0xB6, CHR 0xE5, CHR 0x81, CHR 0x9C, CHR 0xE6, CHR 0xAD, CHR 0xA2,
      CHR 0xE8, CHR 0x87, CHR 0xAA, CHR 0xE5, CHR 0x8A, CHR 0xA8, CHR 0xE8, CHR 0xA6, CHR 0x86,
      CHR 0xE7, CHR 0x9B, CHR 0x96, CHR 0xEF, CHR 0xBC, CHR 0x9A]"

definition warn_migration :: string where
  "warn_migration =
     [CHR 0xE5, CHR 0xBF, CHR 0xAB, CHR 0xE7, CHR 0x85, CHR 0xA7, CHR 0xE8, CHR 0xBF, CHR 0x81,
      CHR 0xE7, CHR 0xA7, CHR 0xBB, CHR 0xE5, CHR 0xB7, CHR 0xB2, CHR 0xE5, CHR 0xBA, CHR 0x94,
      CHR 0xE7, CHR 0x94, CHR 0xA8, CHR 0xEF, CHR 0xBC, CHR 0x8C, CHR 0xE4, CHR 0xBD, CHR 0x86,
      CHR 0xE6, CHR 0x8C, CHR 0x81, CHR 0xE4, CHR 0xB9, CHR 0x85, CHR 0xE5, CHR 0x8C, CHR 0x96,
      CHR 0xE5, CHR 0xA4, CHR 0xB1, CHR 0xE8, CHR 0xB4, CHR 0xA5, CHR 0xEF, CHR 0xBC, CHR 0x8C,
      CHR 0xE5, CHR 0xB0, CHR 0x86, CHR 0xE5, CHR 0x9C, CHR 0xA8, CHR 0xE5, CHR 0x90, CHR 0x8E,
      CHR 0xE7, CHR 0xBB, CHR 0xAD, CHR 0xE5, CHR 0x90, CHR 0x8C, CHR 0xE6, CHR 0xAD, CHR 0xA5,
      CHR 0xE4, CHR 0xB8, CHR 0xAD, CHR 0xE7, CHR 0xBB, CHR 0xA7, CHR 0xE7, CHR 0xBB, CHR 0xAD,
      CHR 0xE9, CHR 0x87, CHR 0x8D, CHR 0xE8, CHR 0xAF, CHR 0x95, CHR 0xEF, CHR 0xBC, CHR 0x9A]"

definition warn_config_saved :: string where
  "warn_config_saved =
     [CHR 0xE7, CHR 0x9B, CHR 0x91, CHR 0xE6, CHR 0x8E, CHR 0xA7, CHR 0xE8, CHR 0xAE, CHR 0xBE,
      CHR 0xE7, CHR 0xBD, CHR 0xAE, CHR 0xE5, CHR 0xB7, CHR 0xB2, CHR 0xE4, CHR 0xBF, CHR 0x9D,
      CHR 0xE5, CHR 0xAD, CHR 0x98, CHR 0xEF, CHR 0xBC, CHR 0x8C, CHR 0xE4, CHR 0xBD, CHR 0x86,
      CHR 0xE5, CHR 0xBF, CHR 0xAB, CHR 0xE7, CHR 0x85, CHR 0xA7, CHR 0xE6, CHR 0x8C, CHR 0x81,
      CHR 0xE4, CHR 0xB9, CHR 0x85, CHR 0xE5, CHR 0x8C, CHR 0x96, CHR 0xE5, CHR 0xA4, CHR 0xB1,
      CHR 0xE8, CHR 0xB4, CHR 0xA5, CHR 0xEF, CHR 0xBC, CHR 0x9A]"

definition warn_provider_saved :: string where
  "warn_provider_saved =
     [CHR 0xE9, CHR 0x85, CHR 0x8D, CHR 0xE7, CHR 0xBD, CHR 0xAE, CHR 0xE5, CHR 0xB7, CHR 0xB2,
      CHR 0xE4, CHR 0xBF, CHR 0x9D, CHR 0xE5, CHR 0xAD, CHR 0x98, CHR 0xEF, CHR 0xBC, CHR 0x8C,
      CHR 0xE4, CHR 0xBD, CHR 0x86, CHR 0xE5, CHR 0xBF, CHR 0xAB, CHR 0xE7, CHR 0x85, CHR 0xA7,
      CHR 0xE6, CHR 0x8C, CHR 0x81, CHR 0xE4, CHR 0xB9, CHR 0x85, CHR 0xE5, CHR 0x8C, CHR 0x96,
      CHR 0xE5, CHR 0xA4, CHR 0xB1, CHR 0xE8, CHR 0xB4, CHR 0xA5, CHR 0xEF, CHR 0xBC, CHR 0x9A]"

text \<open>The text of an error of the store or of the preferences is left to the reader of the error.\<close>

definition cache_error_text :: "cache_error \<Rightarrow> string" where
  "cache_error_text e =
     (case e of ReadCache \<Rightarrow> ''read snapshot cache'' | DecodeJSON \<Rightarrow> ''decode snapshot cache''
      | PersistCache \<Rightarrow> ''persist snapshot cache'' | _ \<Rightarrow> ''snapshot cache'')"

definition monitorStateNeedsRefresh :: "pluginState \<Rightarrow> providerView list \<Rightarrow> bool" where
  "monitorStateNeedsRefresh st views =
     (list_ex (\<lambda>v. pv_Monitored v \<and> pv_Latest v = None) views
      \<or> list_ex (\<lambda>s. as_AccountID s \<notin> set (map pv_ID views)) (store_list (g_store st)))"

text \<open>The directory is kept from the last discovery that worked.\<close>

definition update_directory ::
    "outside \<Rightarrow> string + providerView list \<Rightarrow> pluginState \<Rightarrow> providerView list \<times> pluginState" where
  "update_directory ev found st =
     (let st = st\<lparr>g_directoryAttemptAt := Some (ev_Now ev)\<rparr> in
      case found of
        Inl e \<Rightarrow> (g_directoryViews st, st\<lparr>g_directoryError := e\<rparr>)
      | Inr views \<Rightarrow> (views, st\<lparr>g_directoryViews := views, g_directorySuccessAt := Some (ev_Now ev),
          g_directoryError := []\<rparr>))"

definition sync_status :: "string + providerView list \<Rightarrow> pluginState \<Rightarrow> directorySyncStatus" where
  "sync_status found st =
     \<lparr>dy_Status = (case found of Inl _ \<Rightarrow> ''error'' | Inr _ \<Rightarrow> ''ok''),
      dy_LastAttemptAt = g_directoryAttemptAt st, dy_LastSuccessAt = g_directorySuccessAt st,
      dy_Error = g_directoryError st\<rparr>"

definition store_warnings :: "pluginState \<Rightarrow> string list" where
  "store_warnings st =
     (case ss_loadErr (g_store st) of Some e \<Rightarrow> [warn_load @ cache_error_text e] | None \<Rightarrow> [])
     @ (case ss_migrationErr (g_store st) of Some e \<Rightarrow> [warn_migration @ cache_error_text e] | None \<Rightarrow> [])"

definition config_view :: "pluginState \<Rightarrow> int \<times> int \<times> int \<times> int \<times> thresholdConfig" where
  "config_view st =
     (let c = g_cfg st in
      (cf_CacheTTLSeconds c, cf_SyncIntervalSeconds c, cf_RequestTimeoutSecond c,
       cf_AccountTimeoutSecond c, state_thresholds st))"

definition buildMonitorUIState :: "outside \<Rightarrow> string \<Rightarrow> pluginState \<Rightarrow> monitorUIState \<times> pluginState" where
  "buildMonitorUIState ev callbackID st =
     (case discoverProviderViews ev callbackID st of
        (found, st) \<Rightarrow>
     (case update_directory ev found st of
        (views, st) \<Rightarrow>
          let sync = sync_status found st;
              st = (if monitorStateNeedsRefresh st views
                then maybeStartBackgroundRefresh (invalidateRefresh st) else st);
              cfg = config_view st; ri = g_refresh st; warnings = store_warnings st;
              revision = pp_Revision (g_data st) in
          (case buildReport ev st of
             (rep, st) \<Rightarrow>
               (\<lparr>ui_GeneratedAt = ev_Now ev, ui_Revision = revision, ui_Refreshing = ri_running ri,
                 ui_LastRefresh = ri_finished ri, ui_LastError = ri_lastErr ri, ui_Warnings = warnings,
                 ui_DirectorySync = sync, ui_Providers = views, ui_RefreshJob = None, ui_Report = rep,
                 ui_Config = cfg\<rparr>, st))))"

section \<open>Refresh\<close>

text \<open>\<open>decodeRefreshRequest\<close>: the scope, and the ids trimmed, without repetitions.\<close>

fun request_ids :: "string list \<Rightarrow> string list \<Rightarrow> string list option" where
  "request_ids seen [] = Some []"
| "request_ids seen (raw # rest) =
     (let aid = TrimSpace raw in
      if aid = [] then None
      else if aid \<in> set seen then request_ids seen rest
      else map_option ((#) aid) (request_ids (aid # seen) rest))"

definition decodeRefreshRequest :: "requestBody \<Rightarrow> string + accountRefreshRequest" where
  "decodeRefreshRequest b =
     (if rb_Empty b then Inr \<lparr>rf_AccountIDs = [], rf_Scope = [], rf_Force = False, rf_Async = False\<rparr>
      else (case rb_Refresh b of
          None \<Rightarrow> Inl ''invalid refresh request''
        | Some r \<Rightarrow>
            let scope = ToLower (TrimSpace (rf_Scope r)) in
            if scope = ''all'' \<and> rf_AccountIDs r \<noteq> [] then Inl ''scope all cannot include account_ids''
            else if scope \<noteq> [] \<and> scope \<noteq> ''all'' then Inl (''unsupported refresh scope '' @ go_quote scope)
            else (case request_ids [] (rf_AccountIDs r) of
                None \<Rightarrow> Inl ''account_ids cannot contain an empty id''
              | Some ids \<Rightarrow> Inr (r\<lparr>rf_Scope := scope, rf_AccountIDs := ids\<rparr>))))"

definition validateRefreshAccountIDs ::
    "outside \<Rightarrow> string \<Rightarrow> string list \<Rightarrow> pluginState \<Rightarrow> string option \<times> pluginState" where
  "validateRefreshAccountIDs ev callbackID ids st =
     (case discover_both ev callbackID False st of
        (Inl e, st) \<Rightarrow> (Some e, st)
      | (Inr accounts, st) \<Rightarrow>
          (map_option monitored_not_found
             (List.find (\<lambda>aid. aid \<notin> set (map account_id accounts) \<or> \<not> isMonitored (g_data st) aid False) ids),
           st))"

definition refresh_post :: "outside \<Rightarrow> string \<Rightarrow> accountRefreshRequest \<Rightarrow> pluginState \<Rightarrow> response \<times> pluginState" where
  "refresh_post ev callbackID r st =
     (case (if rf_AccountIDs r = [] then (None, st)
            else validateRefreshAccountIDs ev callbackID (rf_AccountIDs r) st) of
        (Some e, st) \<Rightarrow> bad 400 e st
      | (None, st) \<Rightarrow>
          if rf_Async r then
            (case startRefreshJob ev (rf_AccountIDs r) st of (job, st) \<Rightarrow> ((202, PJob job), st))
          else (case refreshAccountsDetailedContext ev callbackID (rf_Force r) (rf_AccountIDs r) st of
              ((_, Some e), st) \<Rightarrow> bad 502 e st
            | ((_, None), st) \<Rightarrow> (case buildReport ev st of (rep, st) \<Rightarrow> ((200, PReport rep), st))))"

definition handleRefreshRoute :: "outside \<Rightarrow> managementRequest \<Rightarrow> pluginState \<Rightarrow> response \<times> pluginState" where
  "handleRefreshRoute ev req st =
     (if mr_Method req = ''GET'' then
        let jid = queryValue (mr_Query req) ''job_id'' in
        if jid = [] then bad 400 ''job_id is required'' st
        else (case job_get jid (g_jobs st) of
            None \<Rightarrow> bad 404 ''refresh job was not found'' st
          | Some job \<Rightarrow> ((200, PJob job), st))
      else if mr_Method req \<noteq> ''POST'' then not_allowed st
      else (case decodeRefreshRequest (mr_Body req) of
          Inl e \<Rightarrow> bad 400 e st
        | Inr r \<Rightarrow> refresh_post ev (mr_CallbackID req) r st))"

section \<open>Provider configuration\<close>

definition normalizeProviderPATAction :: "providerMutation \<Rightarrow> string + string" where
  "normalizeProviderPATAction m =
     (let action = ToLower (TrimSpace (pr_PATAction m));
          hasReplacement = (TrimSpace (pr_ManagementPAT m) \<noteq> []); clear = pr_ClearManagementPAT m in
      if action = [] then
        (if clear \<and> hasReplacement then Inl ''management PAT cannot be both cleared and replaced''
         else if clear then Inr patActionClear
         else if hasReplacement then Inr patActionReplace
         else Inr patActionKeep)
      else if action = patActionKeep then
        (if clear \<or> hasReplacement then Inl ''pat_action keep cannot include a replacement or clear flag''
         else Inr action)
      else if action = patActionReplace then
        (if clear then Inl ''pat_action replace cannot include a clear flag''
         else if \<not> hasReplacement then Inl ''pat_action replace requires a management PAT''
         else Inr action)
      else if action = patActionClear then
        (if hasReplacement then Inl ''pat_action clear cannot include a management PAT'' else Inr action)
      else Inl (''unsupported pat_action '' @ go_quote (pr_PATAction m)))"

text \<open>
  The thresholds that a request edits.  As long as none are stored, the map per account is the one
  of the configuration itself, not a copy: then \<open>ed_live\<close> holds it, and editing it edits the
  configuration at once.
\<close>

record thresholdEdit =
  ed_Thresholds :: thresholdConfig
  ed_Changed :: bool
  ed_Live :: "(string, cashThreshold) gomap option"

definition begin_edit :: "pluginState \<Rightarrow> thresholdEdit" where
  "begin_edit st =
     \<lparr>ed_Thresholds = state_thresholds st, ed_Changed = False,
      ed_Live = (case pp_Thresholds (g_data st) of
          None \<Rightarrow> tc_CashByAccount (cf_Thresholds (g_cfg st)) | Some _ \<Rightarrow> None)\<rparr>"

definition edit_map ::
    "((string, cashThreshold) gomap \<Rightarrow> (string, cashThreshold) gomap) \<Rightarrow> thresholdEdit \<Rightarrow> thresholdEdit" where
  "edit_map f ed =
     (let m = cash_map (tc_CashByAccount (ed_Thresholds ed)) in
      ed\<lparr>ed_Thresholds := (ed_Thresholds ed)\<lparr>tc_CashByAccount := Some (f m)\<rparr>, ed_Changed := True,
         ed_Live := map_option (\<lambda>_. f m) (ed_Live ed)\<rparr>)"

definition drop_empty_map :: "thresholdEdit \<Rightarrow> thresholdEdit" where
  "drop_empty_map ed =
     (if tc_CashByAccount (ed_Thresholds ed) = Some []
      then ed\<lparr>ed_Thresholds := (ed_Thresholds ed)\<lparr>tc_CashByAccount := None\<rparr>\<rparr> else ed)"

definition edit_threshold :: "string \<Rightarrow> providerMutation \<Rightarrow> thresholdEdit \<Rightarrow> string + thresholdEdit" where
  "edit_threshold aid m ed =
     (case pr_CashThreshold m of
        Some rule \<Rightarrow>
          (case normalizeAccountCashThresholds (Some [(aid, rule)]) of
             Inl _ \<Rightarrow> Inl ''invalid cash threshold''
           | Inr normalized \<Rightarrow> Inr (edit_map (mput aid (mgetz zero_cash (cash_map normalized) aid)) ed))
      | None \<Rightarrow>
          if pr_ClearCashThreshold m
              \<and> mhas (cash_map (tc_CashByAccount (ed_Thresholds ed))) aid
          then Inr (drop_empty_map (edit_map (mdel aid) ed))
          else Inr ed)"

definition preference_mutation :: "string \<Rightarrow> providerMutation \<Rightarrow> string \<Rightarrow> providerPreferenceMutation" where
  "preference_mutation aid m action =
     \<lparr>pm_ID = aid, pm_Monitored = pr_Monitored m,
      pm_Adapter = (if pr_Adapter m = ''auto'' then [] else pr_Adapter m),
      pm_ClearAdapter = (pr_ClearAdapter m \<or> pr_Adapter m = ''auto''), pm_PATAction = action,
      pm_PAT = pr_ManagementPAT m, pm_CustomName = pr_CustomName m\<rparr>"

text \<open>The first pass: all mutations are checked, the thresholds edited on the way.\<close>

definition check_mutation ::
    "string list \<Rightarrow> providerMutation \<Rightarrow> thresholdEdit
      \<Rightarrow> (string + providerPreferenceMutation) \<times> thresholdEdit" where
  "check_mutation known m ed =
     (let aid = TrimSpace (pr_ID m) in
      if aid \<notin> set known then (Inl ''provider is not present in CPA'', ed)
      else if pr_Adapter m \<noteq> ''auto'' \<and> pr_Adapter m \<noteq> [] \<and> \<not> isSupportedAdapter (pr_Adapter m)
      then (Inl ''unsupported adapter'', ed)
      else if pr_CashThreshold m \<noteq> None \<and> pr_ClearCashThreshold m
      then (Inl ''cash threshold cannot be both set and cleared'', ed)
      else (case edit_threshold aid m ed of
          Inl e \<Rightarrow> (Inl e, ed)
        | Inr ed \<Rightarrow>
            (case normalizeProviderPATAction m of
               Inl e \<Rightarrow> (Inl e, ed)
             | Inr action \<Rightarrow> (Inr (preference_mutation aid m action), ed))))"

fun check_mutations ::
    "string list \<Rightarrow> providerMutation list \<Rightarrow> thresholdEdit
      \<Rightarrow> (string + providerPreferenceMutation list) \<times> thresholdEdit" where
  "check_mutations known [] ed = (Inr [], ed)"
| "check_mutations known (m # ms) ed =
     (case check_mutation known m ed of
        (Inl e, ed) \<Rightarrow> (Inl e, ed)
      | (Inr pm, ed) \<Rightarrow>
          (case check_mutations known ms ed of
             (Inl e, ed) \<Rightarrow> (Inl e, ed) | (Inr pms, ed) \<Rightarrow> (Inr (pm # pms), ed)))"

definition install_live :: "thresholdEdit \<Rightarrow> pluginState \<Rightarrow> pluginState" where
  "install_live ed st =
     (case ed_Live ed of
        None \<Rightarrow> st
      | Some m \<Rightarrow> st\<lparr>g_cfg := (g_cfg st)\<lparr>cf_Thresholds :=
          (cf_Thresholds (g_cfg st))\<lparr>tc_CashByAccount := Some m\<rparr>\<rparr>\<rparr>)"

text \<open>After the commit: names and active snapshots follow the new preferences.\<close>

definition follow_mutation ::
    "(string \<times> string) list \<Rightarrow> providerMutation \<Rightarrow> bool \<Rightarrow> pluginState \<Rightarrow> pluginState" where
  "follow_mutation defaults m was st =
     (let aid = TrimSpace (pr_ID m);
          st = (if pr_CustomName m \<noteq> None
            then on_store (store_rename aid (pref_name (g_data st) aid (mstr defaults aid))) st else st) in
      case pr_Monitored m of
        Some False \<Rightarrow> on_store (store_removeActive aid) st
      | Some True \<Rightarrow> if \<not> was \<or> store_missing (g_store st) aid then invalidateRefresh st else st
      | None \<Rightarrow> st)"

fun follow_mutations ::
    "(string \<times> string) list \<Rightarrow> (providerMutation \<times> bool) list \<Rightarrow> pluginState \<Rightarrow> pluginState" where
  "follow_mutations defaults [] st = st"
| "follow_mutations defaults ((m, was) # rest) st =
     follow_mutations defaults rest (follow_mutation defaults m was st)"

definition pref_error_response :: "pref_error \<Rightarrow> response" where
  "pref_error_response e =
     (case e of
        RevisionConflict expected actual \<Rightarrow> (409, PConflict expected actual)
      | EncodePrefs \<Rightarrow> (500, PError ''encode monitor preferences'')
      | PersistPrefs \<Rightarrow> (500, PError ''persist monitor preferences'')
      | _ \<Rightarrow> (400, PError ''invalid preferences''))"

text \<open>The ids whose query revision the request has changed, in its order.\<close>

definition changed_ids ::
    "persistedMonitorPrefs \<Rightarrow> persistedMonitorPrefs \<Rightarrow> providerMutation list \<Rightarrow> string list" where
  "changed_ids before after ms =
     filter (\<lambda>aid. queryRevision after aid \<noteq> queryRevision before aid) (map (\<lambda>m. TrimSpace (pr_ID m)) ms)"

definition answer_providers ::
    "outside \<Rightarrow> string \<Rightarrow> string list \<Rightarrow> pluginState \<Rightarrow> response \<times> pluginState" where
  "answer_providers ev callbackID refreshIDs st =
     (case buildMonitorUIState ev callbackID st of
        (ui, st) \<Rightarrow>
     (case save_store ev st of
        (err, st) \<Rightarrow>
          let ui = (case err of None \<Rightarrow> ui
                | Some e \<Rightarrow> ui\<lparr>ui_Warnings := ui_Warnings ui @ [warn_provider_saved @ cache_error_text e]\<rparr>) in
          if refreshIDs = [] then ((200, PState ui), st)
          else (case startRefreshJob ev refreshIDs st of
              (job, st) \<Rightarrow> ((200, PState (ui\<lparr>ui_RefreshJob := Some job\<rparr>)), st))))"

definition apply_providers ::
    "outside \<Rightarrow> string \<Rightarrow> int option \<Rightarrow> providerMutation list \<Rightarrow> (string \<times> string) list
      \<Rightarrow> providerPreferenceMutation list \<Rightarrow> thresholdEdit \<Rightarrow> pluginState \<Rightarrow> response \<times> pluginState" where
  "apply_providers ev callbackID base ms defaults pms ed st =
     (let before = g_data st;
          was = map (\<lambda>m. isMonitored before (TrimSpace (pr_ID m)) False) ms in
      case updateBatchAndThresholdsAtRevision (ev_Aead ev) (ev_Nonces ev) (ev_Now ev) (ev_WritePrefs ev)
          base pms (if ed_Changed ed then Some (ed_Thresholds ed) else None) (g_prefs st) of
        ((_, Some e), w) \<Rightarrow> (pref_error_response e, st\<lparr>g_prefs := w\<rparr>)
      | ((_, None), w) \<Rightarrow>
          let st = follow_mutations defaults (zip ms was) (st\<lparr>g_prefs := w\<rparr>) in
          answer_providers ev callbackID (changed_ids before (g_data st) ms) st)"

definition handleProviderConfigRoute ::
    "outside \<Rightarrow> managementRequest \<Rightarrow> pluginState \<Rightarrow> response \<times> pluginState" where
  "handleProviderConfigRoute ev req st =
     (if mr_Method req \<noteq> ''PUT'' then not_allowed st
      else (case rb_Providers (mr_Body req) of
          None \<Rightarrow> bad 400 ''invalid provider configuration'' st
        | Some (base, ms) \<Rightarrow>
            (case discoverProviderViews ev (mr_CallbackID req) st of
               (Inl e, st) \<Rightarrow> bad 500 e st
             | (Inr views, st) \<Rightarrow>
                 (case check_mutations (map pv_ID views) ms (begin_edit st) of
                    (Inl e, ed) \<Rightarrow> bad 400 e (install_live ed st)
                  | (Inr pms, ed) \<Rightarrow>
                      apply_providers ev (mr_CallbackID req) base ms
                        (map (\<lambda>v. (pv_ID v, pv_DefaultName v)) views) pms ed (install_live ed st)))))"

section \<open>Cleanup, history, settings, alerts\<close>

definition handleCleanupRoute :: "outside \<Rightarrow> managementRequest \<Rightarrow> pluginState \<Rightarrow> response \<times> pluginState" where
  "handleCleanupRoute ev req st =
     (if mr_Method req \<noteq> ''POST'' then not_allowed st
      else (case rb_Cleanup (mr_Body req) of
          None \<Rightarrow> bad 400 ''invalid cleanup request'' st
        | Some ids \<Rightarrow>
            (case invalidateQueryResults (ev_WritePrefs ev) ids (g_prefs st) of
               (Some e, w) \<Rightarrow> bad 500 ''invalidate query results'' (st\<lparr>g_prefs := w\<rparr>)
             | (None, w) \<Rightarrow>
                 let st = on_store (fold (\<lambda>aid. store_delete (TrimSpace aid)) ids) (st\<lparr>g_prefs := w\<rparr>) in
                 (case save_store ev st of
                    (Some e, st) \<Rightarrow> bad 500 (cache_error_text e) st
                  | (None, st) \<Rightarrow> (case buildReport ev st of (rep, st) \<Rightarrow> ((200, PReport rep), st))))))"

text \<open>\<open>fmt.Sscanf\<close> with \<open>%d\<close>: a sign and digits; what follows them is ignored.\<close>

definition Sscanf_d :: "string \<Rightarrow> int option" where
  "Sscanf_d s =
     (let (neg, r) = drop_sign s; ds = takeWhile is_digit r in
      if ds = [] then None
      else let n = foldl (\<lambda>v c. 10 * v + digit_val c) 0 ds; i = (if neg then - n else n) in
        if - (2 ^ 63) \<le> i \<and> i < 2 ^ 63 then Some i else None)"

definition handleHistoryRoute :: "managementRequest \<Rightarrow> pluginState \<Rightarrow> response \<times> pluginState" where
  "handleHistoryRoute req st =
     (if mr_Method req \<noteq> ''GET'' then not_allowed st
      else
        let aid = queryValue (mr_Query req) ''account_id''; raw = queryValue (mr_Query req) ''limit'' in
        if aid = [] then bad 400 ''account_id is required'' st
        else if raw = [] then ((200, PHistory (store_historyFor (g_store st) aid 50)), st)
        else (case Sscanf_d raw of
            None \<Rightarrow> bad 400 ''limit must be between 1 and 50'' st
          | Some n \<Rightarrow>
              if n < 1 \<or> int snapshotHistoryLimit < n then bad 400 ''limit must be between 1 and 50'' st
              else ((200, PHistory (store_historyFor (g_store st) aid n)), st)))"

definition requested_thresholds :: "configRequest \<Rightarrow> thresholdConfig \<Rightarrow> threshold_error + thresholdConfig" where
  "requested_thresholds r t =
     (let t = (case cq_WarningPercent r of None \<Rightarrow> t | Some p \<Rightarrow> t\<lparr>tc_WarningPercent := p\<rparr>);
          t = (case cq_CriticalPercent r of None \<Rightarrow> t | Some p \<Rightarrow> t\<lparr>tc_CriticalPercent := p\<rparr>) in
      case (case cq_CashByCurrency r of
              None \<Rightarrow> Inr t
            | Some m \<Rightarrow> (case normalizeCashThresholds (Some m) of
                Inl e \<Rightarrow> Inl e | Inr n \<Rightarrow> Inr (t\<lparr>tc_CashByCurrency := n\<rparr>))) of
        Inl e \<Rightarrow> Inl e
      | Inr t \<Rightarrow>
     (case (case cq_CashByAccount r of
              None \<Rightarrow> Inr t
            | Some m \<Rightarrow> (case normalizeAccountCashThresholds (Some m) of
                Inl e \<Rightarrow> Inl e | Inr n \<Rightarrow> Inr (t\<lparr>tc_CashByAccount := n\<rparr>))) of
        Inl e \<Rightarrow> Inl e
      | Inr t \<Rightarrow> (case validateThresholdPercentages t of Some e \<Rightarrow> Inl e | None \<Rightarrow> Inr t)))"

definition config_put :: "outside \<Rightarrow> string \<Rightarrow> configRequest \<Rightarrow> pluginState \<Rightarrow> response \<times> pluginState" where
  "config_put ev callbackID r st =
     (case requested_thresholds r (state_thresholds st) of
        Inl e \<Rightarrow> bad 400 ''invalid thresholds'' st
      | Inr t \<Rightarrow>
          (case updateThresholdsAtRevision (ev_WritePrefs ev) (cq_BaseRevision r) t (g_prefs st) of
             ((_, Some e), w) \<Rightarrow> (pref_error_response e, st\<lparr>g_prefs := w\<rparr>)
           | ((_, None), w) \<Rightarrow>
               let st = st\<lparr>g_prefs := w\<rparr>;
                   st = on_store (store_reapplyActive (applyThresholds (state_thresholds st))) st in
               (case buildMonitorUIState ev callbackID st of
                  (ui, st) \<Rightarrow>
                    (case save_store ev st of
                       (None, st) \<Rightarrow> ((200, PState ui), st)
                     | (Some e, st) \<Rightarrow>
                         ((200, PState (ui\<lparr>ui_Warnings := ui_Warnings ui @ [warn_config_saved @ cache_error_text e]\<rparr>)), st)))))"

definition handleConfigRoute :: "outside \<Rightarrow> managementRequest \<Rightarrow> pluginState \<Rightarrow> response \<times> pluginState" where
  "handleConfigRoute ev req st =
     (if mr_Method req = ''PUT'' then
        (case rb_Config (mr_Body req) of
           None \<Rightarrow> bad 400 ''invalid monitor settings'' st
         | Some r \<Rightarrow> config_put ev (mr_CallbackID req) r st)
      else if mr_Method req \<noteq> ''GET'' then not_allowed st
      else (case buildMonitorUIState ev (mr_CallbackID req) st of (ui, st) \<Rightarrow> ((200, PState ui), st)))"

definition handleAlertDismissRoute :: "outside \<Rightarrow> managementRequest \<Rightarrow> pluginState \<Rightarrow> response \<times> pluginState" where
  "handleAlertDismissRoute ev req st =
     (if mr_Method req \<noteq> ''POST'' then not_allowed st
      else (case rb_Dismiss (mr_Body req) of
          None \<Rightarrow> bad 400 ''invalid alert dismissal'' st
        | Some alertID \<Rightarrow>
            (case dismissAlert (ev_WritePrefs ev) alertID (g_prefs st) of
               (Some e, w) \<Rightarrow> bad 400 ''alert was not dismissed'' (st\<lparr>g_prefs := w\<rparr>)
             | (None, w) \<Rightarrow>
                 (case buildMonitorUIState ev (mr_CallbackID req) (st\<lparr>g_prefs := w\<rparr>) of
                    (ui, st) \<Rightarrow> ((200, PState ui), st)))))"

section \<open>Dispatch\<close>

definition resource_path :: "string \<Rightarrow> string" where
  "resource_path p = ''/v0/resource/plugins/upstream-monitor'' @ p"

definition management_path :: "string \<Rightarrow> string" where
  "management_path p = ''/v0/management/upstream-monitor'' @ p"

definition report_route :: "outside \<Rightarrow> managementRequest \<Rightarrow> pluginState \<Rightarrow> response \<times> pluginState" where
  "report_route ev req st =
     (case (if queryValue (mr_Query req) ''refresh'' = ''1''
            then (case refreshAccountsDetailedContext ev (mr_CallbackID req) True [] st of
                ((_, e), st) \<Rightarrow> (e, st))
            else (None, st)) of
        (Some e, st) \<Rightarrow> bad 502 e st
      | (None, st) \<Rightarrow> (case buildReport ev st of (rep, st) \<Rightarrow> ((200, PReport rep), st)))"

definition handleManagement :: "outside \<Rightarrow> managementRequest \<Rightarrow> pluginState \<Rightarrow> response \<times> pluginState" where
  "handleManagement ev req st =
     (let path = mr_Path req; authorised = validReadToken ev st (mr_Authorization req) in
      if path = resource_path ''/api/v1/health'' then
        (if \<not> authorised then bad 401 ''unauthorized'' st else ((200, PHealth (ev_Now ev)), st))
      else if path = resource_path ''/api/v1/report'' then
        (if \<not> authorised then bad 401 ''unauthorized'' st else report_route ev req st)
      else if path = management_path ''/summary'' then
        (case buildReport ev st of (rep, st) \<Rightarrow> ((200, PReport rep), st))
      else if path = management_path ''/state'' then
        (case buildMonitorUIState ev (mr_CallbackID req) (maybeStartBackgroundRefresh st) of
           (ui, st) \<Rightarrow> ((200, PState ui), st))
      else if path = management_path ''/refresh'' then handleRefreshRoute ev req st
      else if path = management_path ''/providers'' then handleProviderConfigRoute ev req st
      else if path = management_path ''/cleanup'' then handleCleanupRoute ev req st
      else if path = management_path ''/history'' then handleHistoryRoute req st
      else if path = management_path ''/config'' then handleConfigRoute ev req st
      else if path = management_path ''/alerts/dismiss'' then handleAlertDismissRoute ev req st
      else if path = resource_path ''/ui'' then ((200, PPage), st)
      else bad 404 ''not found'' st)"

section \<open>Quotas for the host\<close>

record quotaFetchRequest =
  qf_AuthIndex :: string
  qf_AuthID :: string
  qf_Provider :: string
  qf_Attributes :: "(string, string) gomap"
  qf_Storage :: credential_storage

record quotaBucket =
  qb_Window :: string
  qb_RemainingFraction :: f64
  qb_ResetTime :: string

datatype quota_response = QuotaError string string | QuotaGroups "quotaBucket list list"

definition reset_text :: "gotime option \<Rightarrow> string" where
  "reset_text t = (case t of None \<Rightarrow> [] | Some i \<Rightarrow> FormatRFC3339 i)"

definition window_bucket :: "quotaWindow \<Rightarrow> quotaBucket option" where
  "window_bucket w =
     map_option (\<lambda>r. \<lparr>qb_Window = qw_Name w, qb_RemainingFraction = r, qb_ResetTime = reset_text (qw_ResetAt w)\<rparr>)
       (qw_RemainingFraction w)"

definition quantity_bucket :: "quotaQuantity \<Rightarrow> quotaBucket option" where
  "quantity_bucket q =
     (case (numericValue (qq_Remaining q), numericValue (qq_Total q)) of
        (Some remaining, Some tot) \<Rightarrow>
          if tot \<le> 0 then None
          else Some \<lparr>qb_Window = qq_Name q, qb_RemainingFraction = remaining div tot,
            qb_ResetTime = reset_text (qq_ResetAt q)\<rparr>
      | _ \<Rightarrow> None)"

definition quotaResponseFromSnapshot :: "accountSnapshot \<Rightarrow> quotaBucket list list" where
  "quotaResponseFromSnapshot s =
     (let buckets = List.map_filter window_bucket (as_Windows s)
            @ List.map_filter quantity_bucket (as_Quantities s) in
      if buckets = [] then [] else [buckets])"

definition quota_candidate :: "int list \<Rightarrow> quotaFetchRequest \<Rightarrow> credentialCandidate" where
  "quota_candidate key q =
     (let c = zero_candidate\<lparr>cc_LegacyID := qf_AuthIndex q, cc_AuthIndex := qf_AuthIndex q,
            cc_AuthID := qf_AuthID q, cc_Provider := qf_Provider q, cc_Source := ''host'',
            cc_SourceID := qf_AuthID q, cc_BaseURL := TrimSpace (mstr (qf_Attributes q) ''base_url'')\<rparr>;
          secret = tokenFromCredential (qf_Storage q) (qf_Attributes q) in
      if length key = 32 \<and> TrimSpace (cc_SourceID c) = [] \<and> secret \<noteq> []
      then c\<lparr>cc_Fingerprint := credentialIdentityFingerprint key (cc_Source c) (cc_SourceID c)
        (cc_BaseURL c) secret\<rparr>
      else c)"

definition quota_query ::
    "outside \<Rightarrow> quotaFetchRequest \<Rightarrow> credentialCandidate \<Rightarrow> pluginState \<Rightarrow> quota_response \<times> pluginState" where
  "quota_query ev q c st =
     (if adapterFor (query_env_of ev st) c = None
      then (QuotaError ''unsupported_provider'' ''no adapter is registered for this provider'', st)
      else (case queryCandidateContext (query_env_of ev st) c (qf_Storage q) (qf_Attributes q) of
          Inl e \<Rightarrow> (QuotaError ''upstream_request_failed'' e, st)
        | Inr s \<Rightarrow> (QuotaGroups (quotaResponseFromSnapshot s), on_store (store_put s) st)))"

definition handleQuotaFetch :: "outside \<Rightarrow> quotaFetchRequest \<Rightarrow> pluginState \<Rightarrow> quota_response \<times> pluginState" where
  "handleQuotaFetch ev q st =
     (let c = quota_candidate (mp_key (fst (g_prefs st))) q in
      case resolveIdentities (ev_Aead ev) (ev_Randoms ev) (ev_Now ev) (ev_WritePrefs ev) [c] (g_prefs st) of
        (Inl _, w) \<Rightarrow> (QuotaError ''identity_resolution_failed'' identity_failed, st\<lparr>g_prefs := w\<rparr>)
      | (Inr ids, w) \<Rightarrow>
          let aid = hd ids; st = st\<lparr>g_prefs := w\<rparr>;
              st = (if canMigrateLegacySnapshot (g_data st) c aid
                then migrateLegacySnapshot ev (cc_LegacyID c) aid st else st) in
          quota_query ev q (c\<lparr>cc_AccountID := aid\<rparr>) st)"

end
