(* ===== verification/Plugin.thy ===== *)
theory Plugin
  imports Routes
begin

text \<open>
  The plugin as the host sees it (main.go): \<open>handleMethod\<close> with the registration, the life cycle,
  the quota methods and the management interface.  The bytes of a request are what
  \<open>encoding/json\<close> makes of them for the type that the method decodes; the names of the methods are
  those of the host's package pluginabi.
\<close>

section \<open>Registration\<close>

definition pluginName :: string where "pluginName = ''upstream-monitor''"
definition pluginVersion :: string where "pluginVersion = ''0.6.2''"

definition repositoryURL :: string where
  "repositoryURL = ''https://github.com/deepfry666/cpa-upstream-account-monitor''"

datatype config_field_type = FieldBoolean | FieldInteger | FieldString | FieldObject

record registration =
  rn_SchemaVersion :: int
  rn_Name :: string
  rn_Version :: string
  rn_Author :: string
  rn_Repository :: string
  rn_ConfigFields :: "(string \<times> config_field_type \<times> string) list"
  rn_ManagementAPI :: bool
  rn_QuotaProvider :: bool

definition config_fields :: "(string \<times> config_field_type \<times> string) list" where
  "config_fields =
     [(''enabled'', FieldBoolean, ''Enable the monitor.''),
      (''cache_ttl_seconds'', FieldInteger, ''Cache lifetime for successful snapshots.''),
      (''sync_interval_seconds'', FieldInteger, ''CPA discovery and background scheduling interval.''),
      (''request_timeout_seconds'', FieldInteger, ''Timeout for one upstream query.''),
      (''account_timeout_seconds'', FieldInteger, ''Total timeout for refreshing one account.''),
      (''read_token_env'', FieldString, ''Environment variable containing the Hermes read-only token.''),
      (''source_config_path'', FieldString,
       ''CPA config path used to discover static API-key providers.''),
      (''cache_path'', FieldString, ''Path for the redacted snapshot cache.''),
      (''preferences_path'', FieldString,
       ''Path for encrypted monitoring selections and NewAPI management PATs.''),
      (''thresholds'', FieldObject, ''Warning and critical quota thresholds as percentages.'')]"

definition pluginRegistration :: "pluginState \<Rightarrow> registration" where
  "pluginRegistration st =
     \<lparr>rn_SchemaVersion = g_schemaVersion st, rn_Name = pluginName, rn_Version = pluginVersion,
      rn_Author = ''deepfry666'', rn_Repository = repositoryURL, rn_ConfigFields = config_fields,
      rn_ManagementAPI = True, rn_QuotaProvider = True\<rparr>"

definition plugin_display_name :: string where
  "plugin_display_name =
     [CHR 0xE4, CHR 0xB8, CHR 0x8A, CHR 0xE6, CHR 0xB8, CHR 0xB8, CHR 0xE8, CHR 0xB4, CHR 0xA6,
      CHR 0xE6, CHR 0x88, CHR 0xB7, CHR 0xE7, CHR 0x9B, CHR 0x91, CHR 0xE6, CHR 0x8E, CHR 0xA7]"

definition plugin_ui_description :: string where
  "plugin_ui_description =
     [CHR 0xE6, CHR 0x9F, CHR 0xA5, CHR 0xE7, CHR 0x9C, CHR 0x8B, CHR 0xE4, CHR 0xB8, CHR 0x8A,
      CHR 0xE6, CHR 0xB8, CHR 0xB8, CHR 0xE8, CHR 0xB4, CHR 0xA6, CHR 0xE6, CHR 0x88, CHR 0xB7,
      CHR 0xE4, CHR 0xBD, CHR 0x99, CHR 0xE9, CHR 0xA2, CHR 0x9D, CHR 0xE3, CHR 0x80, CHR 0x81,
      CHR 0xE9, CHR 0xA2, CHR 0x9D, CHR 0xE5, CHR 0xBA, CHR 0xA6, CHR 0xE4, CHR 0xB8, CHR 0x8E,
      CHR 0xE7, CHR 0x94, CHR 0xA8, CHR 0xE9, CHR 0x87, CHR 0x8F, CHR 0xE3, CHR 0x80, CHR 0x82]"

definition supported_providers :: "string list" where
  "supported_providers =
     [''deepseek'', ''zai'', ''zhipu'', ''glm'', ''kimi'', ''kimi-coding'', ''kimi-for-coding'',
      ''moonshot'', ''moonshotai'', ''openai-compatibility'', ''new-api'', ''newapi'',
      ''sub2api'', ''passion'', ''opencode-go'', ''commandcode'', ''command-code'', ''goat'']"

definition management_routes :: "(string \<times> string) list" where
  "management_routes =
     [(''GET'', ''/upstream-monitor/summary''), (''POST'', ''/upstream-monitor/refresh''),
      (''GET'', ''/upstream-monitor/refresh''), (''GET'', ''/upstream-monitor/config''),
      (''PUT'', ''/upstream-monitor/config''), (''POST'', ''/upstream-monitor/alerts/dismiss''),
      (''GET'', ''/upstream-monitor/state''), (''PUT'', ''/upstream-monitor/providers''),
      (''POST'', ''/upstream-monitor/cleanup''), (''GET'', ''/upstream-monitor/history'')]"

text \<open>Path, menu and description.\<close>

definition resource_routes :: "(string \<times> string \<times> string) list" where
  "resource_routes =
     [(''/ui'', plugin_display_name, plugin_ui_description),
      (''/api/v1/report'', [], ''Read-only machine report for Hermes.''),
      (''/api/v1/health'', [], ''Read-only health status for Hermes.'')]"

section \<open>Methods\<close>

record lifecycleRequest =
  lc_ConfigYAML :: "(unit + pluginConfig) option"
  lc_SchemaVersion :: int

text \<open>A request: \<open>None\<close> is an undecodable document, the empty one is \<open>hm_Empty\<close>.\<close>

record methodRequest =
  hm_Empty :: bool
  hm_Lifecycle :: "lifecycleRequest option"
  hm_Quota :: "quotaFetchRequest option"
  hm_Management :: "managementRequest option"

datatype method_error = BadDocument | ConfigRejected config_error

datatype method_result =
    MRegistered registration
  | MIdentifier string
  | MDescribed string "string list" bool
  | MQuota quota_response
  | MReset bool string
  | MRoutes "(string \<times> string) list" "(string \<times> string \<times> string) list"
  | MResponse response
  | MUnknown string

definition empty_body :: requestBody where
  "empty_body = \<lparr>rb_Empty = True, rb_Providers = None, rb_Refresh = None, rb_Cleanup = None,
     rb_Config = None, rb_Dismiss = None\<rparr>"

definition empty_management_request :: managementRequest where
  "empty_management_request = \<lparr>mr_Method = [], mr_Path = [], mr_Authorization = [], mr_Query = [],
     mr_Body = empty_body, mr_CallbackID = []\<rparr>"

definition register_plugin ::
    "config_files \<Rightarrow> methodRequest \<Rightarrow> pluginState \<Rightarrow> (method_error + method_result) \<times> pluginState" where
  "register_plugin files req st =
     (let done = (\<lambda>version st. let st = setSchemaVersion version st in
            (Inr (MRegistered (pluginRegistration st)), st)) in
      if hm_Empty req then done 0 st
      else (case hm_Lifecycle req of
          None \<Rightarrow> (Inl BadDocument, st)
        | Some lc \<Rightarrow>
            (case configure files (lc_ConfigYAML lc) st of
               (Some e, st) \<Rightarrow> (Inl (ConfigRejected e), st)
             | (None, st) \<Rightarrow> done (lc_SchemaVersion lc) st)))"

definition handleMethod ::
    "outside \<Rightarrow> config_files \<Rightarrow> string \<Rightarrow> methodRequest \<Rightarrow> pluginState
      \<Rightarrow> (method_error + method_result) \<times> pluginState" where
  "handleMethod ev files method req st =
     (if method = ''plugin.register'' \<or> method = ''plugin.reconfigure'' then register_plugin files req st
      else if method = ''quota.identifier'' then (Inr (MIdentifier pluginName), st)
      else if method = ''quota.describe'' then
        (Inr (MDescribed plugin_display_name supported_providers False), st)
      else if method = ''quota.fetch'' then
        (case hm_Quota req of
           None \<Rightarrow> (Inl BadDocument, st)
         | Some q \<Rightarrow> (case handleQuotaFetch ev q st of (r, st) \<Rightarrow> (Inr (MQuota r), st)))
      else if method = ''quota.reset'' then (Inr (MReset False ''quota reset is not supported''), st)
      else if method = ''management.register'' then (Inr (MRoutes management_routes resource_routes), st)
      else if method = ''management.handle'' then
        (case (if hm_Empty req then Some empty_management_request else hm_Management req) of
           None \<Rightarrow> (Inl BadDocument, st)
         | Some r \<Rightarrow> (case handleManagement ev r st of (resp, st) \<Rightarrow> (Inr (MResponse resp), st)))
      else (Inr (MUnknown method), st))"

text \<open>\<open>cliproxyPluginShutdown\<close>.\<close>

definition plugin_shutdown :: "pluginState \<Rightarrow> pluginState" where
  "plugin_shutdown st = stopBackgroundScheduler st"

text \<open>The state in which the plugin is loaded.\<close>

definition initial_config :: pluginConfig where
  "initial_config = \<lparr>cf_Enabled = True, cf_CacheTTLSeconds = 300, cf_SyncIntervalSeconds = 60,
     cf_RequestTimeoutSecond = 8, cf_AccountTimeoutSecond = 30,
     cf_ReadTokenEnv = ''UPSTREAM_MONITOR_READ_TOKEN'', cf_Monitors = [],
     cf_SourceConfigPath = ''/CLIProxyAPI/config.yaml'',
     cf_CachePath = ''/CLIProxyAPI/data/upstream-monitor-snapshots.json'', cf_PreferencesPath = [],
     cf_Thresholds = \<lparr>tc_WarningPercent = fnum 20, tc_CriticalPercent = fnum 10,
       tc_CashByCurrency = None, tc_CashByAccount = None\<rparr>\<rparr>"

definition initial_state :: "cache_file \<Rightarrow> pluginState" where
  "initial_state file =
     \<lparr>g_cfg = initial_config, g_store = newSnapshotStore, g_cacheFile = file,
      g_prefs = (newMonitorPrefs, None), g_jobs = newRefreshJobStore, g_schemaVersion = 5,
      g_directoryViews = [], g_directoryAttemptAt = None, g_directorySuccessAt = None,
      g_directoryError = [], g_lastRefresh = zero_time,
      g_refresh = \<lparr>ri_running = False, ri_started = None, ri_finished = None, ri_lastErr = []\<rparr>,
      g_background = False, g_wake = False\<rparr>"

end
