(* ===== verification/Refresh_Theorems.thy ===== *)
theory Refresh_Theorems
  imports Plugin Cache_Properties
begin

text \<open>
  What a refresh promises: the outcome of a run for every account, the text under which equal
  refreshes share one query, the sharing itself, and the delays of the background loop.
\<close>

section \<open>The outcome of a run\<close>

























lemma commit_prefs_keeps [simp]: "g_store (snd (commit_prefs ev m st)) = g_store st"
  by (simp add: commit_prefs_def split: prod.splits)









end
