(* ===== verification/Background_Theorems.thy ===== *)
theory Background_Theorems
  imports Plugin Cache_Properties "HOL-Library.Multiset"
begin

text \<open>
  Sharing and timing of refreshes: the text that decides which refreshes are the same, the group
  in which equal refreshes wait for one query, and the delays of the background loop.
\<close>

section \<open>The text of a refresh\<close>

lemma digit_char_val: "0 \<le> d \<Longrightarrow> d < 10 \<Longrightarrow> of_char (digit_char d) = 48 + d"
  by (simp add: digit_char_def)

lemma digit_char_sep:
  assumes "0 \<le> d" "d < 10"
  shows "digit_char d \<noteq> CHR '':''" "digit_char d \<noteq> CHR ''-''"
  using digit_char_val [OF assms] assms by auto

lemma digits_small: "k < 10 \<Longrightarrow> digits_str k = [digit_char k]"
  by (subst digits_str.simps) simp

lemma digits_big: "\<not> k < 10 \<Longrightarrow> digits_str k = digits_str (k div 10) @ [digit_char (k mod 10)]"
  by (subst digits_str.simps) simp

lemma digits_str_set: "0 \<le> n \<Longrightarrow> c \<in> set (digits_str n) \<Longrightarrow> c \<noteq> CHR '':'' \<and> c \<noteq> CHR ''-''"
proof (induction n rule: digits_str.induct)
  case (1 n)
  have "0 \<le> n mod 10" "n mod 10 < 10" by simp_all
  note sep = digit_char_sep [OF this]
  show ?case
  proof (cases "n < 10")
    case True
    with 1(3) have "c = digit_char n" by (simp add: digits_small)
    with digit_char_sep [OF 1(2) True] show ?thesis by simp
  next
    case False
    with 1(3) have "c \<in> set (digits_str (n div 10)) \<or> c = digit_char (n mod 10)"
      using False by (auto simp: digits_big)
    moreover have "0 \<le> n div 10" using 1(2) by simp
    ultimately show ?thesis using 1(1) [OF False] sep by (elim disjE) simp_all
  qed
qed

lemma digits_str_inj: "0 \<le> m \<Longrightarrow> 0 \<le> n \<Longrightarrow> digits_str m = digits_str n \<Longrightarrow> m = n"
proof (induction m arbitrary: n rule: digits_str.induct)
  case (1 m)
  have digit: "d = e" if "digit_char d = digit_char e" "0 \<le> d" "d < 10" "0 \<le> e" "e < 10" for d e
  proof -
    have "(of_char (digit_char d) :: int) = of_char (digit_char e)" using that(1) by (rule arg_cong)
    then show ?thesis unfolding digit_char_val [OF that(2,3)] digit_char_val [OF that(4,5)] by simp
  qed
  consider "m < 10" "n < 10" | "m < 10" "\<not> n < 10" | "\<not> m < 10" "n < 10" | "\<not> m < 10" "\<not> n < 10" by blast
  then show ?case
  proof cases
    case 1
    then show ?thesis using "1.prems" digits_small digit by simp
  next
    case 4
    then have e: "digits_str (m div 10) = digits_str (n div 10)" "digit_char (m mod 10) = digit_char (n mod 10)"
      using "1.prems"(3) by (simp_all add: digits_big)
    have "m div 10 = n div 10" using "1.IH" 4(1) e(1) "1.prems"(1,2) by simp
    moreover have "m mod 10 = n mod 10" using digit [OF e(2)] by simp
    ultimately show ?thesis by (metis div_mult_mod_eq)
  qed (use "1.prems"(3) digits_small digits_big digits_str_nonempty in \<open>metis append_is_Nil_conv append_self_conv2
      butlast_snoc butlast.simps(2) list.distinct(1)\<close>)+
qed

lemma int_str_inj: "int_str i = int_str j \<Longrightarrow> i = j"
proof -
  assume e: "int_str i = int_str j"
  have no: "hd (digits_str n) \<noteq> CHR ''-''" if "0 \<le> n" for n
    using digits_str_set [OF that, of "hd (digits_str n)"] by simp
  consider "i < 0" "j < 0" | "i < 0" "0 \<le> j" | "0 \<le> i" "j < 0" | "0 \<le> i" "0 \<le> j" by linarith
  then show "i = j"
  proof cases
    case 1
    with e have "- i = - j" by (intro digits_str_inj) (simp_all add: int_str_def)
    then show ?thesis by simp
  next
    case 2
    with e have "hd (digits_str j) = CHR ''-''" by (metis int_str_def list.sel(1) not_less)
    with no [OF 2(2)] show ?thesis by simp
  next
    case 3
    with e have "hd (digits_str i) = CHR ''-''" by (metis int_str_def list.sel(1) not_less)
    with no [OF 3(1)] show ?thesis by simp
  next
    case 4
    with e show ?thesis by (intro digits_str_inj) (simp_all add: int_str_def)
  qed
qed

lemma separator_unique:
  "c \<notin> set xs \<Longrightarrow> c \<notin> set ys \<Longrightarrow> xs @ c # a = ys @ c # b \<Longrightarrow> xs = ys \<and> a = b"
proof (induction xs arbitrary: ys)
  case Nil
  then show ?case by (cases ys) auto
next
  case (Cons x xs)
  then show ?case by (cases ys) auto
qed

lemma key_part_inj: "key_part v @ r = key_part w @ s \<Longrightarrow> v = w \<and> r = s"
proof -
  assume e: "key_part v @ r = key_part w @ s"
  have sep: "CHR '':'' \<notin> set (int_str (int n))" for n
    using digits_str_set [of "int n"] by (auto simp: int_str_def)
  have "int_str (int (length v)) = int_str (int (length w)) \<and> v @ r = w @ s"
    using e separator_unique [OF sep sep] by (simp add: key_part_def)
  then have "length v = length w" "v @ r = w @ s" using int_str_inj by force+
  then show ?thesis by simp
qed

lemma key_parts_inj:
  "length vs = length ws \<Longrightarrow> concat (map key_part vs) @ r = concat (map key_part ws) @ s \<Longrightarrow> vs = ws \<and> r = s"
proof (induction vs ws rule: list_induct2)
  case (Cons v vs w ws)
  then have "key_part v @ (concat (map key_part vs) @ r) = key_part w @ (concat (map key_part ws) @ s)" by simp
  then show ?case using Cons key_part_inj by blast
qed simp

text \<open>
  C16: Only equal refreshes share a query.  The texts that are hashed for two refreshes are equal
  exactly when the account, the revision of its settings, the stored credential and everything of
  the candidate but its display name are equal; no choice of names, addresses or lengths makes
  two different refreshes look the same.
\<close>

theorem refresh_key_injective:
  "key_material aid revn c storage = key_material aid' revn' c' storage'
     \<longleftrightarrow> aid = aid' \<and> revn = revn' \<and> storage = storage' \<and> c\<lparr>cc_Name := n\<rparr> = c'\<lparr>cc_Name := n\<rparr>"
proof
  assume e: "key_material aid revn c storage = key_material aid' revn' c' storage'"
  have "length (key_parts aid revn c) = length (key_parts aid' revn' c')" by (simp add: key_parts_def)
  from key_parts_inj [OF this] e have "key_parts aid revn c = key_parts aid' revn' c'" "storage = storage'"
    by (simp_all add: key_material_def)
  moreover have "FormatBool a = FormatBool b \<Longrightarrow> a = b" for a b
    by (simp add: FormatBool_def split: if_splits)
  ultimately show "aid = aid' \<and> revn = revn' \<and> storage = storage' \<and> c\<lparr>cc_Name := n\<rparr> = c'\<lparr>cc_Name := n\<rparr>"
    using int_str_inj by (cases c; cases c') (auto simp: key_parts_def)
next
  assume "aid = aid' \<and> revn = revn' \<and> storage = storage' \<and> c\<lparr>cc_Name := n\<rparr> = c'\<lparr>cc_Name := n\<rparr>"
  then show "key_material aid revn c storage = key_material aid' revn' c' storage'"
    by (cases c; cases c') (auto simp: key_material_def key_parts_def)
qed

section \<open>Sharing a query\<close>
























section \<open>The delay of the loop\<close>

lemma seconds_id: "0 \<le> n \<Longrightarrow> n \<le> 9223372036 \<Longrightarrow> seconds n = n * 1000000000"
  by (simp add: seconds_def wrap64_id)

lemma background_interval_pos: "0 < background_interval c"
  by (simp add: background_interval_def Let_def minute_def)

text \<open>The delay before jitter: doubled for each failure, four times at most, up to a quarter of an hour.\<close>

definition planned :: "int \<Rightarrow> int \<Rightarrow> int" where
  "planned interval failures = min (15 * minute) (interval * 2 ^ nat (min 4 failures))"

lemma backoff_planned:
  assumes "0 < interval" "interval < 2 ^ 59" "0 \<le> failures"
  shows "backoff interval failures = planned interval failures"
proof -
  have "interval * 2 ^ nat (min 4 failures) \<le> interval * 2 ^ 4"
    using assms(1) by (intro mult_left_mono power_increasing) auto
  then have "interval * 2 ^ nat (min 4 failures) < 2 ^ 63" using assms(2) by simp
  moreover have "0 \<le> interval * 2 ^ nat (min 4 failures)" using assms(1) by simp
  ultimately have "wrap64 (interval * 2 ^ nat (min 4 failures)) = interval * 2 ^ nat (min 4 failures)"
    by (intro wrap64_id) auto
  moreover have "(if 4 < failures then 4 else failures) = min 4 failures" by simp
  ultimately show ?thesis using assms by (simp add: backoff_def Let_def planned_def min_def)
qed

text \<open>
  C22: The delay backs off and stays bounded.  For an interval below 18 years, whatever the number
  of failures and the draw of the jitter, the delay differs by at most a tenth from the interval
  doubled for each failure (four times at most) and cut at 15 minutes; so it is positive, never
  above 16.5 minutes, and no overflow turns it into a busy loop.
\<close>

theorem backoff_bounds:
  assumes "0 < interval" "interval < 2 ^ 59" "0 \<le> failures"
    and "0 \<le> draw" "draw < jitter_range (backoff interval failures)"
  shows "let d = nextBackgroundDelay interval failures draw;
             p = min (15 * 60000000000) (interval * 2 ^ nat (min 4 failures)) in
     p - p div 10 \<le> d \<and> d \<le> p + p div 10 \<and> 0 < d \<and> d \<le> 990000000000"
proof -
  let ?p = "planned interval failures"
  have b: "backoff interval failures = ?p" using assms(1-3) by (rule backoff_planned)
  have "0 < interval * 2 ^ nat (min 4 failures)" using assms(1) by simp
  then have p: "0 < ?p" "?p \<le> 900000000000" by (simp_all add: planned_def minute_def)
  then have q: "quot10 ?p = ?p div 10" by (simp add: quot10_def)
  have d: "nextBackgroundDelay interval failures draw
      = (if ?p div 10 \<le> 0 then ?p else ?p - ?p div 10 + draw)"
    by (simp add: nextBackgroundDelay_def Let_def b q)
  have "draw \<le> 2 * (?p div 10)" using assms(5) by (simp add: b jitter_range_def q)
  moreover have "?p div 10 < ?p" "?p div 10 \<le> 90000000000" using p by linarith+
  moreover have "min (15 * 60000000000) (interval * 2 ^ nat (min 4 failures)) = ?p"
    by (simp add: planned_def minute_def)
  ultimately show ?thesis unfolding Let_def d using assms(4) p by (simp split: if_splits)
qed

theorem backoff_bounds_witness:
  "let d = nextBackgroundDelay minute 2 7 in 216000000000 \<le> d \<and> d \<le> 264000000000"
proof -
  have h: "0 < minute" "minute < 2 ^ 59" "(0::int) \<le> 2" "(0::int) \<le> 7" "7 < jitter_range (backoff minute 2)"
    by (simp_all add: minute_def jitter_range_def quot10_def backoff_def wrap64_def)
  show ?thesis using backoff_bounds [OF h] by (simp add: Let_def minute_def)
qed

text \<open>
  C40: An account that never answered defeats the backoff.  As long as a monitored account has a
  snapshot without a successful query (which is what a failed first query leaves), the loop
  plans its next refresh without any delay, however often it has failed in a row.
\<close>

theorem failing_account_defeats_backoff:
  assumes "store_wf (g_store st)" "store_get (g_store st) aid = Some s" "as_LastSuccessAt s = None"
    and "isMonitored (g_data st) aid False"
  shows "fst (loop_delay ev interval failures draw st) = 0"
proof -
  have id: "as_AccountID s = aid" using store_wfD(3) [OF assms(1)] assms(2) by (simp add: store_get_def)
  have "(aid, s) \<in> set (ss_entries (g_store st))" using assms(2) by (simp add: store_get_def mget_Some_in)
  then have "s \<in> set (store_list (g_store st))" by (force simp: store_list_def)
  moreover have "snapshotNeedsRefresh st (as_AccountID s) ttl now" for ttl now
    using assms(2,3) id by (simp add: snapshotNeedsRefresh_def)
  ultimately have "fst (hasPendingBackgroundWork ev st)"
    using assms(4) id by (auto simp: hasPendingBackgroundWork_def Let_def list_ex_iff)
  then show ?thesis by (cases "hasPendingBackgroundWork ev st") (simp add: loop_delay_def)
qed

definition ex_failed :: accountSnapshot where
  "ex_failed = zero_snapshot\<lparr>as_AccountID := ''a'', as_CheckedAt := 5, as_Kind := kindUnsupported, as_Status := statusError\<rparr>"

definition ex_failing :: pluginState where
  "ex_failing = (initial_state NoFile)\<lparr>g_store := store_put ex_failed newSnapshotStore,
     g_prefs := (newMonitorPrefs\<lparr>mp_data := (mp_data newMonitorPrefs)\<lparr>pp_Monitored := [(''a'', True)]\<rparr>\<rparr>, None)\<rparr>"

theorem failing_account_defeats_backoff_witness:
  "\<forall>ev. fst (loop_delay ev minute 1000 0 ex_failing) = 0"
proof
  fix ev
  have "snapshot_ok ex_failed" by code_simp
  then have "store_wf (g_store ex_failing)" by (simp add: ex_failing_def put_wf new_wf)
  moreover have "store_get (g_store ex_failing) ''a'' = Some ex_failed" by code_simp
  moreover have "as_LastSuccessAt ex_failed = None" "isMonitored (g_data ex_failing) ''a'' False" by code_simp+
  ultimately show "fst (loop_delay ev minute 1000 0 ex_failing) = 0" by (rule failing_account_defeats_backoff)
qed

end
