(* ===== verification/Adapter_Theorems.thy ===== *)
theory Adapter_Theorems
  imports Adapter_Run
begin

text \<open>
  What the adapters promise about the data they produce: the fractions of a quota window and the
  pages of a usage query.
\<close>

section \<open>Fractions\<close>

definition unit_f64 :: "f64 \<Rightarrow> bool" where
  "unit_f64 x = (0 \<le> x \<and> x \<le> 1)"

lemma one_less_max_mag: "(1 :: rat) < max_mag"
proof -
  have "(1 :: int) < 2 ^ 1024" by (rule one_less_power) simp_all
  then have "(of_int 1 :: rat) < of_int (2 ^ 1024)" by (simp only: of_int_less_iff)
  then show ?thesis by (simp only: max_mag_def of_int_1)
qed

lemma unit_Fin: "0 \<le> fval (Fin s m) \<Longrightarrow> fval (Fin s m) \<le> 1 \<Longrightarrow> unit_f64 (Fin s m)"
  by (auto simp: unit_f64_def f64_arith_defs)

lemma unit_f64_cases: "unit_f64 x \<Longrightarrow> \<exists>s m. x = Fin s m \<and> 0 \<le> fval x \<and> fval x \<le> 1"
  by (cases x) (auto simp: unit_f64_def f64_arith_defs split: if_splits)

lemma mkfin_unit: "m \<le> 1 \<Longrightarrow> \<not> s \<or> m \<le> 0 \<Longrightarrow> unit_f64 (mkfin s m)"
proof -
  assume m: "m \<le> 1" "\<not> s \<or> m \<le> 0"
  have "rnd_mag m < max_mag" using rnd_mag_le_1 [OF m(1)] one_less_max_mag by simp
  then have "mkfin s m = Fin s (rnd_mag m)" by (simp add: mkfin_def)
  moreover have "m \<le> 0 \<Longrightarrow> rnd_mag m = 0" by (simp add: rnd_mag_def)
  ultimately show ?thesis using m rnd_mag_le_1 [OF m(1)] rnd_mag_nonneg [of m] by (auto intro: unit_Fin)
qed

lemma unit_complement: "unit_f64 x \<Longrightarrow> unit_f64 (1 - x)"
proof -
  assume "unit_f64 x"
  then obtain s m where x: "x = Fin s m" "0 \<le> fval x" "fval x \<le> 1" using unit_f64_cases by blast
  let ?r = "1 - fval x"
  have "1 - x = (if ?r = 0 then Fin (False \<and> \<not> s) 0 else fl ?r)"
    using x(1) by (auto simp: f64_arith_defs Let_def)
  moreover have "unit_f64 (Fin t 0)" for t by (rule unit_Fin) simp_all
  moreover have "unit_f64 (fl ?r)" using x(2,3) by (auto simp: fl_def intro: mkfin_unit)
  ultimately show ?thesis by simp
qed

lemma unit_quotient:
  assumes "0 \<le> a" "a \<le> b" "0 < b" "b \<noteq> Infty False"
  shows "unit_f64 (a div b)"
proof -
  obtain s m t n where e: "a = Fin s m" "b = Fin t n" "0 \<le> fval a" "fval a \<le> fval b" "0 < fval b"
    using assms by (cases a; cases b) (auto simp: f64_arith_defs split: if_splits)
  then have n: "n \<noteq> 0" by (cases t) auto
  have q: "(if s \<noteq> t then - (m / n) else m / n) = fval a / fval b" by (simp add: e(1,2))
  have "0 \<le> fval a / fval b" "fval a / fval b \<le> 1" using e by simp_all
  with q have "m / n \<le> 1" "s = t \<or> m / n \<le> 0" by (auto split: if_splits)
  then have "unit_f64 (mkfin (s \<noteq> t) (m / n))" by (intro mkfin_unit) auto
  moreover have "a div b = mkfin (s \<noteq> t) (m / n)" using n by (simp add: e(1,2) divide_f64_def)
  ultimately show ?thesis by simp
qed

lemma unit_zero_one [simp]: "unit_f64 0" "unit_f64 1"
  by (simp_all add: unit_f64_def f64_arith_defs)

lemma overdrawn_fractions:
  "qw_RemainingFraction (overdrawn_window n t ut u l r) = Some 0"
  "qw_UsedFraction (overdrawn_window n t ut u l r) = Some 1"
  by (simp_all add: overdrawn_window_def)

text \<open>
  C19: The fractions of a window lie between zero and one.  When a window is built from a limit and
  a remaining amount that are numbers (with a finite limit), its remaining and its used fraction
  are floats from 0 to 1 in spite of rounding, the window of an account that went over its limit
  says 0 remaining and 1 used, and no window is built for a limit that is not positive.
\<close>

theorem window_fractions_bounded:
  assumes "quotaWindowFromValues name remaining tot used unit resetAt = Some w"
    and "numericValue tot = Some limit" "numericValue remaining = Some rest"
    and "\<not> isNaN limit" "\<not> isNaN rest" "limit \<noteq> Infty False"
  shows "\<exists>x y. qw_RemainingFraction w = Some x \<and> qw_UsedFraction w = Some y
     \<and> 0 \<le> x \<and> x \<le> 1 \<and> 0 \<le> y \<and> y \<le> 1
     \<and> 0 < limit
     \<and> (rest < 0 \<or> limit < (case numericValue used of Some u \<Rightarrow> u | None \<Rightarrow> limit - rest) \<longrightarrow> x = 0 \<and> y = 1)"
proof -
  let ?used = "case numericValue used of Some u \<Rightarrow> u | None \<Rightarrow> limit - rest"
  have zero: "\<not> isNaN (0 :: f64)" by (simp add: isNaN_def zero_f64_def)
  have pos: "\<not> limit \<le> 0" using assms(1-3) by (auto simp: quotaWindowFromValues_def split: if_splits)
  then have lim: "0 < limit" using f64_not_le [OF assms(4) zero] by simp
  show ?thesis
  proof (cases "rest < 0 \<or> limit < ?used")
    case True
    then have "qw_RemainingFraction w = Some 0" "qw_UsedFraction w = Some 1"
      using assms(1-3) pos by (auto simp: quotaWindowFromValues_def Let_def overdrawn_fractions)
    with lim show ?thesis using unit_zero_one by (simp add: unit_f64_def)
  next
    case False
    define r where "r = (if limit < rest then limit else rest)"
    have w: "qw_RemainingFraction w = Some (r div limit)" "qw_UsedFraction w = Some (1 - r div limit)"
      using assms(1-3) pos False by (auto simp: quotaWindowFromValues_def Let_def r_def split: if_splits)
    have "0 \<le> rest" using False f64_not_less [OF assms(5) zero] by simp
    then have "0 \<le> r" using lim f64_less_imp_le by (simp add: r_def)
    moreover have "r \<le> limit"
      using f64_not_less [OF assms(4,5)] assms(4) by (simp add: r_def f64_le_refl)
    ultimately have u: "unit_f64 (r div limit)" using lim assms(6) by (rule unit_quotient)
    with unit_complement [OF u] show ?thesis using w lim False by (auto simp: unit_f64_def)
  qed
qed

theorem window_fractions_bounded_witness:
  "\<exists>w x y. quotaWindowFromValues ''weekly'' ''1'' ''3'' ''2'' ''USD'' None = Some w
     \<and> qw_RemainingFraction w = Some x \<and> qw_UsedFraction w = Some y
     \<and> 0 \<le> x \<and> x \<le> 1 \<and> 0 \<le> y \<and> y \<le> 1"
proof -
  have "quotaWindowFromValues ''weekly'' ''1'' ''3'' ''2'' ''USD'' None \<noteq> None" by code_simp
  then obtain w where w: "quotaWindowFromValues ''weekly'' ''1'' ''3'' ''2'' ''USD'' None = Some w" by blast
  have n: "numericValue ''3'' = Some (Fin False 3)" "numericValue ''1'' = Some (Fin False 1)" by code_simp+
  have "\<not> isNaN (Fin False 3)" "\<not> isNaN (Fin False 1)" "Fin False 3 \<noteq> Infty False" by (simp_all add: isNaN_def)
  from window_fractions_bounded [OF w n this] w show ?thesis by blast
qed

section \<open>Pages\<close>

text \<open>The pages that belong together: each is fetched with the cursor that the one before names.\<close>

definition page_items :: "jobj \<Rightarrow> jobj list" where
  "page_items data = objectArray (Some data) ''items''"

definition next_cursor :: "jobj \<Rightarrow> string" where
  "next_cursor data = TrimSpace (stringValue (Some data) [''nextToken''])"

fun page_chain :: "(string \<Rightarrow> string + jobj) \<Rightarrow> string \<Rightarrow> jobj list \<Rightarrow> bool" where
  "page_chain fetch cursor [] = True"
| "page_chain fetch cursor (d # ds) = (fetch cursor = Inr d \<and> page_chain fetch (next_cursor d) ds)"

lemma usage_pages_chain:
  "usage_pages fetch now n cursor = Inr items \<Longrightarrow>
     \<exists>pages. page_chain fetch cursor pages \<and> length pages \<le> n
       \<and> items = concat (map page_items pages)
       \<and> list_all (\<lambda>d. \<not> usage_page_last d now) (butlast pages)
       \<and> (length pages = n \<or> pages \<noteq> [] \<and> usage_page_last (last pages) now)"
proof (induction n arbitrary: cursor items)
  case (Suc n)
  then obtain d where d: "fetch cursor = Inr d" by (auto split: sum.splits)
  show ?case
  proof (cases "usage_page_last d now")
    case True
    then show ?thesis using Suc.prems d by (intro exI [of _ "[d]"]) (auto simp: page_items_def)
  next
    case False
    then obtain rest where r: "usage_pages fetch now n (next_cursor d) = Inr rest" "items = page_items d @ rest"
      using Suc.prems d by (auto simp: Let_def next_cursor_def page_items_def split: sum.splits)
    from Suc.IH [OF r(1)] obtain pages where p: "page_chain fetch (next_cursor d) pages" "length pages \<le> n"
        "rest = concat (map page_items pages)" "list_all (\<lambda>d. \<not> usage_page_last d now) (butlast pages)"
        "length pages = n \<or> pages \<noteq> [] \<and> usage_page_last (last pages) now"
      by blast
    then show ?thesis using d r(2) False by (intro exI [of _ "d # pages"]) auto
  qed
qed simp

text \<open>
  C33: The usage of a Cline Pass account is read to its end.  A successful query of the usage asks
  for at most ten pages, however the server answers; each page is fetched with the cursor of the
  one before, the items are those of all pages in their order; every page but the last said that
  more was to come, and after fewer than ten pages the last one was the end: it named no further
  page, was empty, or reached back beyond the thirty days of the statistics.
\<close>

theorem cline_usage_complete:
  assumes "queryClinePassUsageItems env candidate token userID now = Inr items"
  shows "\<exists>pages. page_chain (cline_usage_page env candidate token userID) [] pages
     \<and> length pages \<le> 10
     \<and> items = concat (map page_items pages)
     \<and> list_all (\<lambda>d. \<not> usage_page_last d now) (butlast pages)
     \<and> (length pages = 10 \<or> pages \<noteq> [] \<and> usage_page_last (last pages) now)"
  using usage_pages_chain [OF assms [unfolded queryClinePassUsageItems_def]]
  by (simp add: clinePassUsageMaximumPages_def)

definition ex_query_env :: query_env where
  "ex_query_env = \<lparr>qe_Monitors = [], qe_Prefs = newMonitorPrefs,
     qe_Aead = \<lparr>ae_seal = (\<lambda>k n p a. p), ae_open = (\<lambda>k n c a. Some c)\<rparr>, qe_Getenv = (\<lambda>_. []),
     qe_URLError = (\<lambda>_. []),
     qe_Http = (\<lambda>t r. Inr \<lparr>hr_StatusCode = 200, hr_Body = \<lparr>b_Len = 40,
       b_Json = Inr (JObj [(''data'', JObj [(''items'', JArr [JObj [(''costUsd'', JStr ''3'')]])])])\<rparr>\<rparr>),
     qe_Thresholds = \<lparr>tc_WarningPercent = 0, tc_CriticalPercent = 0, tc_CashByCurrency = None,
       tc_CashByAccount = None\<rparr>, qe_Now = 0, qe_Latency = 0\<rparr>"

theorem cline_usage_complete_witness:
  "\<exists>items pages. queryClinePassUsageItems ex_query_env zero_candidate ''t'' ''u'' 0 = Inr items
     \<and> page_chain (cline_usage_page ex_query_env zero_candidate ''t'' ''u'') [] pages
     \<and> items = concat (map page_items pages)"
proof -
  have "case queryClinePassUsageItems ex_query_env zero_candidate ''t'' ''u'' 0 of
      Inl e \<Rightarrow> False | Inr items \<Rightarrow> length items = 1"
    by code_simp
  then obtain items where "queryClinePassUsageItems ex_query_env zero_candidate ''t'' ''u'' 0 = Inr items"
    by (rule result_InrE)
  with cline_usage_complete [OF this] show ?thesis by blast
qed

end
