(* ===== verification/Spec2Isabelle.thy ===== *)
theory Spec2Isabelle
  imports Cache_Theorems Pref_Theorems Network_Theorems Session_Theorems Refresh_Theorems Background_Theorems
    Adapter_Theorems
begin

text \<open>
  Stub.
\<close>

end
